(* ===== verification/Prelude.thy ===== *)
theory Prelude
  imports Main "HOL-Library.Word" "HOL-Library.Product_Lexorder"
begin

text \<open>
  Types, error handling and table operations shared by every theory of the
  development.

  Ids are UUIDs, 128-bit words compared bytewise, which is the unsigned order
  of the word. Instants are whole microseconds since 1970 in UTC, the
  resolution Postgres keeps. Money is a whole number of centavos and a stock
  quantity a whole number of thousandths: the columns are \<open>NUMERIC(14,2)\<close> and
  \<open>NUMERIC(14,3)\<close>, and the application rounds to the same scale as soon as
  a number leaves JSON.

  A fallible function returns \<open>error + result\<close>, and \<open>bindR\<close> is the \<open>?\<close> operator.
  A table is the list of its rows; \<open>upd_where\<close> is an SQL UPDATE, \<open>find_key\<close> a
  lookup by primary key, \<open>upsert\<close> an INSERT .. ON CONFLICT (id) DO UPDATE .. WHERE
  and \<open>soft_delete\<close> the UPDATE that sets \<open>deleted_at\<close>. The two locales state what
  the feature repositories promise about the last two.
\<close>

type_synonym uuid = "128 word"
type_synonym instant = int
type_synonym duration = int
type_synonym money = int
type_synonym quantity = int

text \<open>Facts that unfold a service or repository operation, and facts that say
  which parts of the state an operation leaves alone.\<close>

named_theorems op_defs
named_theorems frame_simps

abbreviation usec_per_second :: int where
  "usec_per_second \<equiv> 1000000"

abbreviation minutes :: "int \<Rightarrow> duration" where
  "minutes n \<equiv> n * 60000000"

abbreviation hours :: "int \<Rightarrow> duration" where
  "hours n \<equiv> n * 3600000000"

abbreviation days :: "int \<Rightarrow> duration" where
  "days n \<equiv> n * 86400000000"

section \<open>Results\<close>

definition bindR :: "'e + 'a \<Rightarrow> ('a \<Rightarrow> 'e + 'b) \<Rightarrow> 'e + 'b" where
  "bindR m f = (case m of Inl e \<Rightarrow> Inl e | Inr x \<Rightarrow> f x)"

definition ensure :: "bool \<Rightarrow> 'e \<Rightarrow> 'e + unit" where
  "ensure ok e = (if ok then Inr () else Inl e)"

definition ok_or :: "'a option \<Rightarrow> 'e \<Rightarrow> 'e + 'a" where
  "ok_or x e = (case x of None \<Rightarrow> Inl e | Some y \<Rightarrow> Inr y)"

lemma bindR_Inl [simp]: "bindR (Inl e) f = Inl e"
  by (simp add: bindR_def)

lemma bindR_Inr [simp]: "bindR (Inr x) f = f x"
  by (simp add: bindR_def)

lemma bindR_eq_Inr [simp]: "bindR m f = Inr y \<longleftrightarrow> (\<exists>x. m = Inr x \<and> f x = Inr y)"
  by (cases m) auto

lemma bindR_eq_Inl: "bindR m f = Inl e \<longleftrightarrow> m = Inl e \<or> (\<exists>x. m = Inr x \<and> f x = Inl e)"
  by (cases m) auto

lemma ensure_eq_Inr [simp]: "ensure ok e = Inr u \<longleftrightarrow> ok"
  by (simp add: ensure_def)

lemma ensure_eq_Inl [simp]: "ensure ok e = Inl x \<longleftrightarrow> \<not> ok \<and> x = e"
  by (auto simp: ensure_def)

lemma ensure_True [simp]: "ensure True e = Inr ()"
  by (simp add: ensure_def)

lemma ensure_False [simp]: "ensure False e = Inl e"
  by (simp add: ensure_def)

lemma ok_or_eq_Inr [simp]: "ok_or x e = Inr y \<longleftrightarrow> x = Some y"
  by (cases x) (auto simp: ok_or_def)

lemma ok_or_eq_Inl [simp]: "ok_or x e = Inl z \<longleftrightarrow> x = None \<and> z = e"
  by (cases x) (auto simp: ok_or_def)

lemma ok_or_simps [simp]: "ok_or None e = Inl e" "ok_or (Some y) e = Inr y"
  by (simp_all add: ok_or_def)

lemma map_option_eq_iff_find: "(case x of None \<Rightarrow> a | Some y \<Rightarrow> f y) = b
    \<longleftrightarrow> (x = None \<and> a = b) \<or> (\<exists>y. x = Some y \<and> f y = b)"
  by (cases x) auto

section \<open>Strings\<close>

text \<open>
  A character stands for a code point below 256. On those, \<open>str::trim\<close> removes
  the characters with the White_Space property and \<open>to_lowercase\<close> maps A-Z and
  the accented capitals; text outside Latin-1 is not modelled.
\<close>

definition is_whitespace :: "char \<Rightarrow> bool" where
  "is_whitespace c = ((of_char c :: nat) \<in> set [9, 10, 11, 12, 13, 32, 133, 160])"

definition trim :: "string \<Rightarrow> string" where
  "trim s = rev (dropWhile is_whitespace (rev (dropWhile is_whitespace s)))"

definition lower_char :: "char \<Rightarrow> char" where
  "lower_char c =
     (let n = (of_char c :: nat)
      in if (65 \<le> n \<and> n \<le> 90) \<or> (192 \<le> n \<and> n \<le> 222 \<and> n \<noteq> 215)
         then char_of (n + 32) else c)"

text \<open>The bits of a character: adding or taking 32 sets or clears the sixth.\<close>

lemma of_char_bits:
  "\<exists>m < 32. (of_char (Char b0 b1 b2 b3 b4 b5 b6 b7) :: nat)
     = m + 32 * of_bool b5 + 64 * of_bool b6 + 128 * of_bool b7"
proof -
  let ?m = "of_bool b0 + 2 * of_bool b1 + 4 * of_bool b2 + 8 * of_bool b3 + 16 * of_bool b4 :: nat"
  have "?m < 32" by (cases b0; cases b1; cases b2; cases b3; cases b4) simp_all
  then show ?thesis by (intro exI[of _ ?m]) (simp add: of_char_def)
qed

lemma char_of_eq: "n = (of_char d :: nat) \<Longrightarrow> char_of n = d"
  by simp

lemma lower_char_Char [code]:
  "lower_char (Char b0 b1 b2 b3 b4 b5 b6 b7) =
     (let n = (of_char (Char b0 b1 b2 b3 b4 b5 b6 b7) :: nat)
      in if (65 \<le> n \<and> n \<le> 90) \<or> (192 \<le> n \<and> n \<le> 222 \<and> n \<noteq> 215)
         then Char b0 b1 b2 b3 b4 True b6 b7 else Char b0 b1 b2 b3 b4 b5 b6 b7)"
proof -
  let ?c = "Char b0 b1 b2 b3 b4 b5 b6 b7" and ?d = "Char b0 b1 b2 b3 b4 True b6 b7"
  let ?cond = "(65 \<le> (of_char ?c::nat) \<and> of_char ?c \<le> (90::nat))
      \<or> (192 \<le> (of_char ?c::nat) \<and> of_char ?c \<le> (222::nat) \<and> of_char ?c \<noteq> (215::nat))"
  have upper: "\<not> b5" if ?cond
    using that of_char_bits[of b0 b1 b2 b3 b4 b5 b6 b7] by (cases b5; cases b6; cases b7) auto
  have "char_of (of_char ?c + 32 :: nat) = ?d" if "\<not> b5"
    by (rule char_of_eq) (use that in \<open>simp add: of_char_def\<close>)
  then have eq: "?cond \<Longrightarrow> char_of (of_char ?c + 32 :: nat) = ?d" using upper by blast
  show ?thesis
  proof (cases ?cond)
    case True
    then show ?thesis unfolding lower_char_def Let_def if_P[OF True] by (rule eq)
  next
    case False
    show ?thesis unfolding lower_char_def Let_def if_not_P[OF False] by (rule refl)
  qed
qed

definition to_lowercase :: "string \<Rightarrow> string" where
  "to_lowercase s = map lower_char s"

text \<open>\<open>.map(str::trim).filter(|s| !s.is_empty())\<close>, the shape every optional text field
  goes through.\<close>

definition trim_nonempty :: "string option \<Rightarrow> string option" where
  "trim_nonempty s =
     (case s of None \<Rightarrow> None
      | Some t \<Rightarrow> if trim t = [] then None else Some (trim t))"

lemma trim_nonempty_not_Nil [simp]: "trim_nonempty s \<noteq> Some []"
  by (auto simp: trim_nonempty_def split: option.splits)

lemma dropWhile_hd_not: "xs = [] \<or> \<not> P (hd xs) \<Longrightarrow> dropWhile P xs = xs"
  by (cases xs) auto

lemma trim_trim [simp]: "trim (trim s) = trim s"
proof -
  define u where "u = dropWhile is_whitespace s"
  define v where "v = rev (dropWhile is_whitespace (rev u))"
  have split_u: "u = v @ rev (takeWhile is_whitespace (rev u))"
    using arg_cong[OF takeWhile_dropWhile_id[of is_whitespace "rev u"], of rev]
    unfolding v_def by (metis rev_append rev_rev_ident)
  have "v = [] \<or> \<not> is_whitespace (hd v)"
  proof (cases v)
    case (Cons a w)
    then have "u \<noteq> []" "hd u = a" using split_u by (metis append_Cons list.discI, metis append_Cons list.sel(1))
    then show ?thesis using Cons hd_dropWhile[of is_whitespace s] by (simp add: u_def)
  qed simp
  then have "dropWhile is_whitespace v = v" by (rule dropWhile_hd_not)
  moreover have "dropWhile is_whitespace (rev v) = rev v"
    by (simp add: v_def)
  ultimately have "trim v = v" by (simp add: trim_def)
  then show ?thesis by (simp add: trim_def v_def u_def)
qed

section \<open>Text as the code takes it apart\<close>

text \<open>\<open>Display\<close> of an integer, \<open>str::split\<close> at a character, \<open>str::split_once\<close> and
  \<open>str::strip_prefix\<close>.\<close>

fun show_nat :: "nat \<Rightarrow> string" where
  "show_nat n =
     (if n < 10 then [char_of (48 + n)] else show_nat (n div 10) @ [char_of (48 + n mod 10)])"

declare show_nat.simps [simp del]

definition show_int :: "int \<Rightarrow> string" where
  "show_int i = (if i < 0 then CHR ''-'' # show_nat (nat (- i)) else show_nat (nat i))"

fun split_on :: "char \<Rightarrow> string \<Rightarrow> string list" where
  "split_on c [] = [[]]"
| "split_on c (x # xs) =
     (if x = c then [] # split_on c xs
      else (case split_on c xs of [] \<Rightarrow> [[x]] | part # parts \<Rightarrow> (x # part) # parts))"

definition split_once :: "char \<Rightarrow> string \<Rightarrow> (string \<times> string) option" where
  "split_once c s =
     (if c \<in> set s then Some (takeWhile (\<lambda>x. x \<noteq> c) s, tl (dropWhile (\<lambda>x. x \<noteq> c) s)) else None)"

definition strip_prefix :: "string \<Rightarrow> string \<Rightarrow> string option" where
  "strip_prefix p s = (if take (length p) s = p then Some (drop (length p) s) else None)"

section \<open>Append-only lists\<close>

definition grows :: "('a \<Rightarrow> bool) \<Rightarrow> 'a list \<Rightarrow> 'a list \<Rightarrow> bool" where
  "grows P xs ys \<longleftrightarrow> (\<exists>more. ys = xs @ more \<and> (\<forall>x \<in> set more. P x))"

lemma grows_refl [simp]: "grows P xs xs"
  by (simp add: grows_def)

lemma grows_snoc [simp]: "grows P xs (xs @ [x]) \<longleftrightarrow> P x"
  by (simp add: grows_def)

lemma grows_trans [trans]: "grows P xs ys \<Longrightarrow> grows P ys zs \<Longrightarrow> grows P xs zs"
  by (auto simp: grows_def)

lemma grows_length: "grows P xs ys \<Longrightarrow> length xs \<le> length ys"
  by (auto simp: grows_def)

section \<open>Tables\<close>

definition upd_where :: "('r \<Rightarrow> bool) \<Rightarrow> ('r \<Rightarrow> 'r) \<Rightarrow> 'r list \<Rightarrow> 'r list" where
  "upd_where P f rows = map (\<lambda>r. if P r then f r else r) rows"

definition find_key :: "('r \<Rightarrow> 'k) \<Rightarrow> 'k \<Rightarrow> 'r list \<Rightarrow> 'r option" where
  "find_key key k rows = find (\<lambda>r. key r = k) rows"

definition upsert ::
  "('r \<Rightarrow> 'k) \<Rightarrow> ('r \<Rightarrow> 'r \<Rightarrow> bool) \<Rightarrow> ('r \<Rightarrow> 'r \<Rightarrow> 'r) \<Rightarrow> 'r \<Rightarrow> 'r list
    \<Rightarrow> ('r \<times> bool) option \<times> 'r list" where
  "upsert key guard merge new rows =
     (case find_key key (key new) rows of
        None \<Rightarrow> (Some (new, True), rows @ [new])
      | Some old \<Rightarrow>
          if guard old new
          then (Some (merge old new, False),
                upd_where (\<lambda>r. key r = key new) (\<lambda>r. merge r new) rows)
          else (None, rows))"

definition soft_delete ::
  "('r \<Rightarrow> 'k) \<Rightarrow> ('r \<Rightarrow> 's) \<Rightarrow> ('r \<Rightarrow> bool) \<Rightarrow> ('r \<Rightarrow> 'r) \<Rightarrow> 's \<Rightarrow> 'k \<Rightarrow> 'r list
    \<Rightarrow> 'r option \<times> 'r list" where
  "soft_delete key store live bury st k rows =
     (let hit = (\<lambda>r. store r = st \<and> key r = k \<and> live r)
      in (map_option bury (find hit rows), upd_where hit bury rows))"

lemma upd_where_Nil [simp]: "upd_where P f [] = []"
  by (simp add: upd_where_def)

lemma upd_where_Cons [simp]:
  "upd_where P f (r # rows) = (if P r then f r else r) # upd_where P f rows"
  by (simp add: upd_where_def)

lemma upd_where_append [simp]: "upd_where P f (xs @ ys) = upd_where P f xs @ upd_where P f ys"
  by (simp add: upd_where_def)

lemma length_upd_where [simp]: "length (upd_where P f rows) = length rows"
  by (simp add: upd_where_def)

lemma map_upd_where: "(\<And>r. P r \<Longrightarrow> g (f r) = g r) \<Longrightarrow> map g (upd_where P f rows) = map g rows"
  by (induction rows) auto

lemma upd_where_none: "(\<And>r. r \<in> set rows \<Longrightarrow> \<not> P r) \<Longrightarrow> upd_where P f rows = rows"
  by (induction rows) auto

lemma filter_upd_where_other:
  "(\<And>r. P r \<Longrightarrow> \<not> Q r \<and> \<not> Q (f r)) \<Longrightarrow> filter Q (upd_where P f rows) = filter Q rows"
  by (induction rows) auto

lemma find_key_None_iff: "find_key key k rows = None \<longleftrightarrow> k \<notin> set (map key rows)"
  by (auto simp: find_key_def find_None_iff)

lemma find_key_SomeD: "find_key key k rows = Some r \<Longrightarrow> key r = k \<and> r \<in> set rows"
  by (induction rows) (auto simp: find_key_def split: if_splits)

lemma find_key_Cons [simp]:
  "find_key key k (r # rows) = (if key r = k then Some r else find_key key k rows)"
  by (simp add: find_key_def)

lemma find_key_Nil [simp]: "find_key key k [] = None"
  by (simp add: find_key_def)

lemma find_key_append:
  "find_key key k (xs @ ys) = (case find_key key k xs of None \<Rightarrow> find_key key k ys | Some r \<Rightarrow> Some r)"
  by (induction xs) auto

lemma find_key_upd_where:
  "(\<And>r. P r \<Longrightarrow> key (f r) = key r) \<Longrightarrow>
   find_key key k (upd_where P f rows)
     = map_option (\<lambda>r. if P r then f r else r) (find_key key k rows)"
  by (induction rows) auto

lemma find_key_in_set:
  "distinct (map key rows) \<Longrightarrow> r \<in> set rows \<Longrightarrow> find_key key (key r) rows = Some r"
  by (induction rows) (auto simp: image_iff)

lemma set_upd_where: "set (upd_where P f rows) = {if P r then f r else r |r. r \<in> set rows}"
  by (auto simp: upd_where_def)

lemma in_upd_whereE:
  assumes "x \<in> set (upd_where P f rows)"
  obtains r where "r \<in> set rows" "x = (if P r then f r else r)"
  using assms unfolding upd_where_def by auto

lemma find_SomeD: "find P rows = Some r \<Longrightarrow> P r \<and> r \<in> set rows"
  by (induction rows) (auto split: if_splits)

lemma find_upd_where_gone: "(\<And>r. P r \<Longrightarrow> \<not> P (f r)) \<Longrightarrow> find P (upd_where P f rows) = None"
  by (induction rows) auto

lemma sum_list_upd_where_at:
  fixes g :: "'r \<Rightarrow> int"
  shows "(\<Sum>r\<leftarrow>upd_where P f rows. g r) = (\<Sum>r\<leftarrow>rows. g r) + (\<Sum>r\<leftarrow>filter P rows. g (f r) - g r)"
  by (induction rows) auto

lemma upsert_guard_cong:
  "(\<And>old. find_key key (key new) rows = Some old \<Longrightarrow> guard old new = guard' old new) \<Longrightarrow>
     upsert key guard merge new rows = upsert key guard' merge new rows"
  by (auto simp: upsert_def split: option.split)

lemma find_upd_where:
  "(\<And>r. P r \<Longrightarrow> Q (f r) = Q r) \<Longrightarrow>
     find Q (upd_where P f rows) = map_option (\<lambda>r. if P r then f r else r) (find Q rows)"
  by (induction rows) auto

lemma sum_list_snoc_if:
  fixes g :: "'r \<Rightarrow> int"
  shows "(\<Sum>r\<leftarrow>xs @ [x]. if P r then g r else 0)
     = (\<Sum>r\<leftarrow>xs. if P r then g r else 0) + (if P x then g x else 0)"
  by simp

subsection \<open>What an upsert promises\<close>

text \<open>
  \<open>guard\<close> is the WHERE of the DO UPDATE and \<open>merge old new\<close> its SET list, with \<open>new\<close> the
  EXCLUDED row. The repositories promise that an update keeps the row's id and store and
  only happens within the store that sent it.
\<close>

locale upsert_table =
  fixes key :: "'r \<Rightarrow> uuid"
    and store :: "'r \<Rightarrow> uuid"
    and guard :: "'r \<Rightarrow> 'r \<Rightarrow> bool"
    and merge :: "'r \<Rightarrow> 'r \<Rightarrow> 'r"
  assumes key_merge: "key (merge old new) = key old"
    and store_merge: "store (merge old new) = store old"
    and guard_store: "guard old new \<Longrightarrow> store old = store new"
begin

lemma distinct_upsert:
  assumes "upsert key guard merge new rows = (res, rows')" and "distinct (map key rows)"
  shows "distinct (map key rows')"
  using assms
  by (auto simp: upsert_def find_key_None_iff map_upd_where key_merge
      split: option.splits if_splits)

lemma other_stores_kept:
  assumes "upsert key guard merge new rows = (res, rows')"
    and "distinct (map key rows)" and "st \<noteq> store new"
  shows "filter (\<lambda>r. store r = st) rows' = filter (\<lambda>r. store r = st) rows"
proof (cases "find_key key (key new) rows")
  case None
  then show ?thesis using assms by (auto simp: upsert_def)
next
  case (Some old)
  show ?thesis
  proof (cases "guard old new")
    case True
    have old: "store old = store new" using True by (rule guard_store)
    have "\<not> store r = st" if "r \<in> set rows" "key r = key new" for r
      using find_key_in_set[OF assms(2) that(1)] that(2) Some old assms(3) by auto
    then have "filter (\<lambda>r. store r = st) (upd_where (\<lambda>r. key r = key new) (\<lambda>r. merge r new) rows)
        = filter (\<lambda>r. store r = st) rows"
      by (induction rows) (auto simp: store_merge)
    then show ?thesis using assms(1) Some True by (auto simp: upsert_def)
  next
    case False
    then show ?thesis using assms(1) Some by (auto simp: upsert_def)
  qed
qed

lemma refused_unchanged:
  "upsert key guard merge new rows = (None, rows') \<Longrightarrow> rows' = rows"
  by (auto simp: upsert_def split: option.splits if_splits)

lemma upserted_is_found:
  assumes "upsert key guard merge new rows = (Some (row, ins), rows')"
  shows "find_key key (key new) rows' = Some row"
  using assms find_key_SomeD[of key "key new" rows]
  by (auto simp: upsert_def find_key_append find_key_upd_where key_merge
      split: option.splits if_splits)

lemma upsert_keeps_others:
  assumes "upsert key guard merge new rows = (res, rows')" and "k \<noteq> key new"
  shows "find_key key k rows' = find_key key k rows"
proof -
  have "map_option (\<lambda>r. if key r = key new then merge r new else r) (find_key key k rows)
      = find_key key k rows"
    using assms(2) by (cases "find_key key k rows") (auto dest: find_key_SomeD)
  then show ?thesis using assms
    by (auto simp: upsert_def find_key_append find_key_upd_where key_merge
        split: option.splits if_splits)
qed

lemma keys_stay:
  "upsert key guard merge new rows = (res, rows') \<Longrightarrow> key ` set rows \<subseteq> key ` set rows'"
  using map_upd_where[where P = "\<lambda>r. key r = key new" and f = "\<lambda>r. merge r new" and g = key and rows = rows]
  by (auto simp: upsert_def key_merge simp flip: set_map split: option.splits if_splits)

lemma inserted_iff_new:
  "upsert key guard merge new rows = (Some (row, ins), rows')
    \<Longrightarrow> ins = (find_key key (key new) rows = None)"
  by (auto simp: upsert_def split: option.splits if_splits)

end

subsection \<open>What a soft delete promises\<close>

locale soft_delete_table =
  fixes key :: "'r \<Rightarrow> uuid"
    and store :: "'r \<Rightarrow> uuid"
    and live :: "'r \<Rightarrow> bool"
    and bury :: "'r \<Rightarrow> 'r"
  assumes key_bury: "key (bury r) = key r"
    and store_bury: "store (bury r) = store r"
    and dead: "\<not> live (bury r)"
begin

lemma keys_kept: "map key (snd (soft_delete key store live bury st k rows)) = map key rows"
  by (simp add: soft_delete_def Let_def map_upd_where key_bury)

lemma stores_kept: "map store (snd (soft_delete key store live bury st k rows)) = map store rows"
  by (simp add: soft_delete_def Let_def map_upd_where store_bury)

lemma other_stores_kept:
  "st' \<noteq> st \<Longrightarrow> filter (\<lambda>r. store r = st') (snd (soft_delete key store live bury st k rows))
     = filter (\<lambda>r. store r = st') rows"
  by (auto simp: soft_delete_def Let_def store_bury intro: filter_upd_where_other)

lemma second_delete_finds_nothing:
  "soft_delete key store live bury st k (snd (soft_delete key store live bury st k rows))
     = (None, snd (soft_delete key store live bury st k rows))"
proof -
  define hit where "hit = (\<lambda>r. store r = st \<and> key r = k \<and> live r)"
  have gone: "find hit (upd_where hit bury rows) = None"
    by (rule find_upd_where_gone) (simp add: hit_def dead)
  then have "upd_where hit bury (upd_where hit bury rows) = upd_where hit bury rows"
    by (intro upd_where_none) (auto simp: find_None_iff)
  then show ?thesis using gone by (simp add: soft_delete_def Let_def hit_def)
qed

lemma nothing_removed_unchanged:
  "fst (soft_delete key store live bury st k rows) = None
    \<Longrightarrow> snd (soft_delete key store live bury st k rows) = rows"
  by (auto simp: soft_delete_def Let_def find_None_iff intro: upd_where_none)

lemma removed_was_live:
  assumes "fst (soft_delete key store live bury st k rows) = Some r"
  obtains r0 where "r0 \<in> set rows" "store r0 = st" "key r0 = k" "live r0" "r = bury r0"
  using assms by (auto simp: soft_delete_def Let_def dest: find_SomeD)

end

end
