(* ===== verification/Shared.thy ===== *)
theory Shared
  imports Complex_Main Prelude
begin

text \<open>
  \<^verbatim>\<open>backend/src/shared\<close>: the error type every handler returns, money and quantities
  coming out of JSON, reporting windows, paging, and the validation step in front of the
  handlers. It also declares \<open>env\<close>, the record of everything a request reads from outside
  the program: the clock, random ids, and the documented behaviour of rust_decimal, uuid
  and Postgres that the code relies on, and \<open>calendar\<close>, the part of chrono that needs a
  calendar.
\<close>

section \<open>Errors\<close>

datatype api_error =
    BadRequest string
  | Unauthorized string
  | Forbidden string
  | NotFound string
  | Conflict string
  | TooManyRequests
  | SubscriptionRequired string
  | UpgradeRequired string
  | Internal

fun error_status :: "api_error \<Rightarrow> nat" where
  "error_status (BadRequest _) = 400"
| "error_status (Unauthorized _) = 401"
| "error_status (Forbidden _) = 403"
| "error_status (NotFound _) = 404"
| "error_status (Conflict _) = 409"
| "error_status TooManyRequests = 429"
| "error_status (SubscriptionRequired _) = 402"
| "error_status (UpgradeRequired _) = 402"
| "error_status Internal = 500"

fun error_code :: "api_error \<Rightarrow> string" where
  "error_code (BadRequest _) = ''bad_request''"
| "error_code (Unauthorized _) = ''unauthorized''"
| "error_code (Forbidden _) = ''forbidden''"
| "error_code (NotFound _) = ''not_found''"
| "error_code (Conflict _) = ''conflict''"
| "error_code TooManyRequests = ''too_many_requests''"
| "error_code (SubscriptionRequired _) = ''subscription_required''"
| "error_code (UpgradeRequired _) = ''upgrade_required''"
| "error_code Internal = ''internal_error''"

text \<open>The \<open>Display\<close> text thiserror derives. The cause of an internal error is not kept:
  no response ever shows it.\<close>

fun error_text :: "api_error \<Rightarrow> string" where
  "error_text (BadRequest m) = m"
| "error_text (Unauthorized m) = m"
| "error_text (Forbidden m) = m"
| "error_text (NotFound what) = what @ '' not found''"
| "error_text (Conflict m) = m"
| "error_text TooManyRequests = ''too many attempts, please try again later''"
| "error_text (SubscriptionRequired m) = m"
| "error_text (UpgradeRequired m) = m"
| "error_text Internal = ''internal''"

record error_response =
  er_status :: nat
  er_code :: string
  er_message :: string

definition into_response :: "api_error \<Rightarrow> error_response" where
  "into_response err =
     \<lparr>er_status = error_status err, er_code = error_code err,
      er_message = (case err of
          Internal \<Rightarrow> ''Something went wrong on our side. Please try again.''
        | other \<Rightarrow> error_text other)\<rparr>"

datatype sql_error = RowNotFound | OtherSqlError

definition error_of_sql :: "sql_error \<Rightarrow> api_error" where
  "error_of_sql e = (case e of RowNotFound \<Rightarrow> NotFound ''record'' | OtherSqlError \<Rightarrow> Internal)"

lemma error_code_inj:
  "error_code x = error_code y \<Longrightarrow> error_status x = error_status y"
  by (cases x; cases y) simp_all

section \<open>The outside world\<close>

text \<open>
  \<open>e_now\<close> is the clock: \<open>Utc::now()\<close> in the service and \<open>now()\<close> in the transaction it runs.
  \<open>e_uuid n\<close> is the n-th id \<open>Uuid::new_v4\<close> hands out. A JSON number is the rational
  the f64 denotes; \<open>e_decimal\<close> is \<open>Decimal::from_f64\<close>, \<open>e_round\<close> is the rounding of
  \<open>Decimal::round\<close> and \<open>round_dp\<close> (at scale s, \<open>round_dp\<close> rounds the value times \<open>10^s\<close>)
  and \<open>e_numeric\<close> the rounding Postgres applies when it stores a value in a NUMERIC
  column. \<open>e_uuid_text\<close> is the \<open>Display\<close> of a Uuid. \<open>e_join_pick\<close> says which of the n
  joined rows an \<open>UPDATE .. FROM\<close> uses for one target row: Postgres uses exactly one and
  does not say which. \<open>e_collate\<close> is a text's place in the database's collation, and
  \<open>e_log_up\<close> whether an INSERT into the activity log succeeds.
\<close>

record env =
  e_now :: instant
  e_uuid :: "nat \<Rightarrow> uuid"
  e_decimal :: "rat \<Rightarrow> rat option"
  e_round :: "rat \<Rightarrow> int"
  e_numeric :: "rat \<Rightarrow> int"
  e_uuid_text :: "uuid \<Rightarrow> string"
  e_join_pick :: "uuid \<Rightarrow> nat \<Rightarrow> nat"
  e_collate :: "string \<Rightarrow> rat"
  e_log_up :: bool

definition rounds_to_nearest :: "(rat \<Rightarrow> int) \<Rightarrow> bool" where
  "rounds_to_nearest r \<longleftrightarrow>
     (\<forall>x. \<bar>rat_of_int (r x) - x\<bar> \<le> 1 / 2) \<and> (\<forall>n. r (rat_of_int n) = n)
     \<and> (\<forall>x y. x \<le> y \<longrightarrow> r x \<le> r y)"

text \<open>A column \<open>NUMERIC(14,s)\<close> holds fourteen digits; a larger value is an error of the
  statement.\<close>

definition fits14 :: "int \<Rightarrow> bool" where
  "fits14 n = (\<bar>n\<bar> < 100000000000000)"

text \<open>SQL's LIKE: \<open>%\<close> matches any run of characters, \<open>_\<close> one character, and a
  backslash takes the next character literally.\<close>

fun sql_like :: "string \<Rightarrow> string \<Rightarrow> bool" where
  "sql_like [] t = (t = [])"
| "sql_like (c # p) t =
     (if c = CHR ''%'' then
        sql_like p t \<or> (case t of [] \<Rightarrow> False | _ # t' \<Rightarrow> sql_like (c # p) t')
      else if c = CHR 0x5C then
        (case p of [] \<Rightarrow> False
         | d # p' \<Rightarrow> (case t of [] \<Rightarrow> False | x # t' \<Rightarrow> x = d \<and> sql_like p' t'))
      else (case t of [] \<Rightarrow> False
            | x # t' \<Rightarrow> (c = CHR ''_'' \<or> x = c) \<and> sql_like p t'))"

definition sql_ilike :: "string \<Rightarrow> string \<Rightarrow> bool" where
  "sql_ilike text pattern = sql_like (to_lowercase pattern) (to_lowercase text)"

section \<open>Money\<close>

definition money_from_f64 :: "env \<Rightarrow> rat \<Rightarrow> money" where
  "money_from_f64 e value =
     e_round e ((case e_decimal e value of None \<Rightarrow> 0 | Some d \<Rightarrow> d) * 100)"

definition quantity_from_f64 :: "env \<Rightarrow> rat \<Rightarrow> quantity" where
  "quantity_from_f64 e value =
     e_round e ((case e_decimal e value of None \<Rightarrow> 0 | Some d \<Rightarrow> d) * 1000)"

lemma round_nonneg: "rounds_to_nearest r \<Longrightarrow> 0 \<le> x \<Longrightarrow> 0 \<le> r x"
  unfolding rounds_to_nearest_def by (metis of_int_0)

lemma money_from_f64_nonneg:
  assumes "rounds_to_nearest (e_round e)" and "\<And>d. e_decimal e v = Some d \<Longrightarrow> 0 \<le> d"
  shows "0 \<le> money_from_f64 e v"
  using assms by (auto simp: money_from_f64_def intro!: round_nonneg split: option.split)

section \<open>Reporting windows\<close>

datatype report_period = Today | Week | Month

fun period_cache_key :: "report_period \<Rightarrow> string" where
  "period_cache_key Today = ''today''"
| "period_cache_key Week = ''week''"
| "period_cache_key Month = ''month''"

record date_range =
  dr_start :: instant
  dr_end :: instant

text \<open>
  A calendar date is its day number since 1970-01-01. \<open>cal_weekday\<close> is
  \<open>weekday().num_days_from_monday()\<close>, \<open>cal_month_start d\<close> is
  \<open>NaiveDate::from_ymd_opt(d.year(), d.month(), 1)\<close> and \<open>cal_add_months\<close> is
  \<open>DateTime::checked_add_months\<close>.
\<close>

record calendar =
  cal_weekday :: "int \<Rightarrow> int"
  cal_month_start :: "int \<Rightarrow> int option"
  cal_add_months :: "instant \<Rightarrow> nat \<Rightarrow> instant option"

definition calendar_ok :: "calendar \<Rightarrow> bool" where
  "calendar_ok cal \<longleftrightarrow>
     (\<forall>d. 0 \<le> cal_weekday cal d \<and> cal_weekday cal d \<le> 6)
     \<and> (\<forall>d f. cal_month_start cal d = Some f \<longrightarrow> f \<le> d \<and> d - f \<le> 30)
     \<and> (\<forall>t n u. cal_add_months cal t n = Some u \<longrightarrow> t + days (28 * int n) \<le> u)
     \<and> (\<forall>t u n v w. t \<le> u \<longrightarrow> cal_add_months cal t n = Some v
          \<longrightarrow> cal_add_months cal u n = Some w \<longrightarrow> v \<le> w)"

definition date_naive :: "instant \<Rightarrow> int" where
  "date_naive t = t div days 1"

definition for_period :: "calendar \<Rightarrow> report_period \<Rightarrow> int \<Rightarrow> instant \<Rightarrow> date_range" where
  "for_period cal period utc_offset_minutes now =
     (let offset = minutes utc_offset_minutes;
          local_now = now + offset;
          local_today = date_naive local_now;
          local_start = (case period of
              Today \<Rightarrow> local_today
            | Week \<Rightarrow> local_today - cal_weekday cal local_today
            | Month \<Rightarrow> (case cal_month_start cal local_today of
                  None \<Rightarrow> local_today | Some d \<Rightarrow> d));
          start = days local_start - offset
      in \<lparr>dr_start = start, dr_end = now\<rparr>)"

definition previous_window :: "date_range \<Rightarrow> date_range" where
  "previous_window w =
     (let span = dr_end w - dr_start w
      in \<lparr>dr_start = dr_start w - span, dr_end = dr_start w\<rparr>)"

lemma day_bounds: "days (date_naive t) \<le> t" "t < days (date_naive t) + days 1"
proof -
  have "t div 86400000000 * 86400000000 + t mod 86400000000 = t" by (rule div_mult_mod_eq)
  moreover have "0 \<le> t mod 86400000000" "t mod 86400000000 < 86400000000" by simp_all
  ultimately show "days (date_naive t) \<le> t" "t < days (date_naive t) + days 1"
    by (simp_all add: date_naive_def)
qed

section \<open>Paging\<close>

record page_request =
  pg_limit :: "int option"
  pg_offset :: "int option"

definition default_limit :: int where
  "default_limit = 50"

definition max_limit :: int where
  "max_limit = 200"

definition clamp :: "int \<Rightarrow> int \<Rightarrow> int \<Rightarrow> int" where
  "clamp lo hi x = max lo (min hi x)"

definition page_limit :: "page_request \<Rightarrow> int" where
  "page_limit p = clamp 1 max_limit (case pg_limit p of None \<Rightarrow> default_limit | Some l \<Rightarrow> l)"

definition page_offset :: "page_request \<Rightarrow> int" where
  "page_offset p = max 0 (case pg_offset p of None \<Rightarrow> 0 | Some o' \<Rightarrow> o')"

text \<open>\<open>LIMIT page.limit() OFFSET page.offset()\<close>.\<close>

definition page_rows :: "page_request \<Rightarrow> 'a list \<Rightarrow> 'a list" where
  "page_rows p rows = take (nat (page_limit p)) (drop (nat (page_offset p)) rows)"

lemma page_limit_bounds [simp]: "1 \<le> page_limit p" "page_limit p \<le> 200"
  by (simp_all add: page_limit_def clamp_def max_limit_def)

lemma length_page_rows: "length (page_rows p rows) \<le> 200"
proof -
  have "nat (page_limit p) \<le> 200" using page_limit_bounds(2)[of p] by linarith
  then show ?thesis by (simp add: page_rows_def)
qed

lemma set_page_rows: "set (page_rows p rows) \<subseteq> set rows"
  unfolding page_rows_def by (meson order_trans set_drop_subset set_take_subset)

section \<open>Validated bodies\<close>

text \<open>
  \<open>ValidatedJson\<close>: the body is parsed (a body that does not parse is \<open>None\<close>, with the
  rejection's text), its validator rules run, and the handler only ever sees a payload
  that passed both. \<open>issues\<close> lists the failing fields with their messages.
\<close>

fun join_comma :: "string list \<Rightarrow> string" where
  "join_comma [] = []"
| "join_comma [s] = s"
| "join_comma (s # t # ss) = s @ '', '' @ join_comma (t # ss)"

definition summarise :: "(string \<times> string option) list \<Rightarrow> string" where
  "summarise issues =
     join_comma (map (\<lambda>(field, message).
        field @ '' '' @ (case message of None \<Rightarrow> ''is invalid'' | Some m \<Rightarrow> m)) issues)"

definition validated_json ::
  "string + 'a \<Rightarrow> ('a \<Rightarrow> (string \<times> string option) list) \<Rightarrow> api_error + 'a" where
  "validated_json body issues =
     (case body of
        Inl rejection \<Rightarrow> Inl (BadRequest rejection)
      | Inr payload \<Rightarrow>
          if issues payload = [] then Inr payload
          else Inl (BadRequest (summarise (issues payload))))"

end
