(* ===== verification/Plans.thy ===== *)
theory Plans
  imports Shared
begin

text \<open>
  \<^verbatim>\<open>backend/src/features/billing/plan.rs\<close>: the two plans and their prices, where an account
  stands on a given day, and what a payment extends it to.
\<close>

section \<open>Plans\<close>

datatype plan = Basic | Pro

definition year_priced_as_months :: int where
  "year_priced_as_months = 10"

fun monthly_centavos :: "plan \<Rightarrow> int" where
  "monthly_centavos Basic = 9900"
| "monthly_centavos Pro = 19900"

definition price_centavos :: "plan \<Rightarrow> nat \<Rightarrow> int" where
  "price_centavos p months =
     (let billed = (if months = 12 then year_priced_as_months else int months)
      in monthly_centavos p * billed)"

fun plan_store_limit :: "plan \<Rightarrow> int" where
  "plan_store_limit Basic = 1"
| "plan_store_limit Pro = 5"

fun plan_allows_staff :: "plan \<Rightarrow> bool" where
  "plan_allows_staff Pro = True"
| "plan_allows_staff Basic = False"

fun plan_as_str :: "plan \<Rightarrow> string" where
  "plan_as_str Basic = ''basic''"
| "plan_as_str Pro = ''pro''"

definition plan_parse :: "string \<Rightarrow> plan option" where
  "plan_parse raw =
     (if raw = ''basic'' then Some Basic else if raw = ''pro'' then Some Pro else None)"

fun plan_label :: "plan \<Rightarrow> string" where
  "plan_label Basic = ''Kitaza Basic''"
| "plan_label Pro = ''Kitaza Pro''"

definition offered_months :: "nat list" where
  "offered_months = [1, 12]"

lemma plan_parse_as_str [simp]: "plan_parse (plan_as_str p) = Some p"
  by (cases p) (simp_all add: plan_parse_def)

lemma plan_parse_Some: "plan_parse s = Some p \<Longrightarrow> s = plan_as_str p"
  by (auto simp: plan_parse_def split: if_splits)

lemma monthly_centavos_pos [simp]: "0 < monthly_centavos p"
  by (cases p) simp_all

section \<open>Standing\<close>

record subscription_record =
  sub_plan :: string
  sub_trial_ends_at :: "instant option"
  sub_paid_through :: "instant option"

datatype standing =
    Unlimited
  | Trial instant
  | Active plan instant
  | Grace plan instant
  | Paused instant

definition unix_epoch :: instant where
  "unix_epoch = 0"

definition standing_of ::
  "subscription_record option \<Rightarrow> instant \<Rightarrow> duration \<Rightarrow> bool \<Rightarrow> standing" where
  "standing_of subscription now grace enforced =
     (if \<not> enforced then Unlimited
      else case subscription of
        None \<Rightarrow> Paused unix_epoch
      | Some sub \<Rightarrow>
          let plan = (case plan_parse (sub_plan sub) of None \<Rightarrow> Basic | Some p \<Rightarrow> p)
          in if (case sub_trial_ends_at sub of Some trial \<Rightarrow> now < trial | None \<Rightarrow> False)
             then Trial (the (sub_trial_ends_at sub))
             else if (case sub_paid_through sub of Some paid \<Rightarrow> now < paid | None \<Rightarrow> False)
             then Active plan (the (sub_paid_through sub))
             else
               let lapsed = (case (sub_trial_ends_at sub, sub_paid_through sub) of
                   (_, Some paid) \<Rightarrow> Some (plan, paid)
                 | (Some trial, None) \<Rightarrow> Some (Pro, trial)
                 | (None, None) \<Rightarrow> None)
               in case lapsed of
                    None \<Rightarrow> Paused unix_epoch
                  | Some (plan', ended) \<Rightarrow>
                      let grace_ends = ended + grace
                      in if now < grace_ends then Grace plan' grace_ends
                         else Paused grace_ends)"

fun standing_plan :: "standing \<Rightarrow> plan option" where
  "standing_plan Unlimited = Some Pro"
| "standing_plan (Trial _) = Some Pro"
| "standing_plan (Active p _) = Some p"
| "standing_plan (Grace p _) = Some p"
| "standing_plan (Paused _) = None"

definition can_upload :: "standing \<Rightarrow> bool" where
  "can_upload s = (standing_plan s \<noteq> None)"

definition allows_staff :: "standing \<Rightarrow> bool" where
  "allows_staff s = (case standing_plan s of None \<Rightarrow> False | Some p \<Rightarrow> plan_allows_staff p)"

definition store_limit :: "standing \<Rightarrow> int option" where
  "store_limit s = (case s of
      Unlimited \<Rightarrow> None
    | other \<Rightarrow> Some (case standing_plan other of None \<Rightarrow> 0 | Some p \<Rightarrow> plan_store_limit p))"

fun standing_status :: "standing \<Rightarrow> string" where
  "standing_status Unlimited = ''unlimited''"
| "standing_status (Trial _) = ''trial''"
| "standing_status (Active _ _) = ''active''"
| "standing_status (Grace _ _) = ''grace''"
| "standing_status (Paused _) = ''paused''"

section \<open>Extending a subscription\<close>

text \<open>\<open>Duration::seconds(remaining.num_seconds() * old / new)\<close>: only called with a positive
  remainder, where truncating division is \<open>div\<close>.\<close>

definition convert_remaining :: "plan \<Rightarrow> plan \<Rightarrow> duration \<Rightarrow> duration" where
  "convert_remaining old new remaining =
     (if old = new then remaining
      else (remaining div usec_per_second * monthly_centavos old div monthly_centavos new)
             * usec_per_second)"

definition paid_through_start ::
  "subscription_record option \<Rightarrow> plan \<Rightarrow> instant \<Rightarrow> instant" where
  "paid_through_start current plan now =
     (case current of
        None \<Rightarrow> now
      | Some cur \<Rightarrow>
          let paid_from = (case sub_trial_ends_at cur of None \<Rightarrow> now | Some trial \<Rightarrow> max trial now)
          in case sub_paid_through cur of
               None \<Rightarrow> paid_from
             | Some paid \<Rightarrow>
                 if paid > paid_from
                 then let remaining = paid - paid_from;
                          old = (case plan_parse (sub_plan cur) of None \<Rightarrow> plan | Some p \<Rightarrow> p)
                      in paid_from + convert_remaining old plan remaining
                 else paid_from)"

definition paid_through_after ::
  "calendar \<Rightarrow> subscription_record option \<Rightarrow> plan \<Rightarrow> nat \<Rightarrow> instant \<Rightarrow> instant" where
  "paid_through_after cal current plan months now =
     (let start = paid_through_start current plan now
      in case cal_add_months cal start months of
           Some t \<Rightarrow> t
         | None \<Rightarrow> start + days (30 * int months))"

lemma convert_remaining_nonneg: "0 \<le> r \<Longrightarrow> 0 \<le> convert_remaining old new r"
  by (cases old; cases new) (simp_all add: convert_remaining_def pos_imp_zdiv_nonneg_iff)

lemma paid_through_start_ge:
  "now \<le> paid_through_start current plan now"
  "current = Some cur \<Longrightarrow> sub_trial_ends_at cur = Some trial \<Longrightarrow>
     trial \<le> paid_through_start current plan now"
proof -
  have step: "a \<le> b \<Longrightarrow> b < p \<Longrightarrow> a \<le> b + convert_remaining old new (p - b)"
    for a b p old new
    using convert_remaining_nonneg[of "p - b" old new] by simp
  show "now \<le> paid_through_start current plan now"
    by (auto simp: paid_through_start_def Let_def step split: option.split)
  show "trial \<le> paid_through_start current plan now"
    if "current = Some cur" "sub_trial_ends_at cur = Some trial"
    using that by (auto simp: paid_through_start_def Let_def step split: option.split)
qed

lemma paid_through_start_keeps_paid:
  assumes "current = Some cur" "sub_paid_through cur = Some paid"
    "plan_parse (sub_plan cur) = Some plan"
  shows "paid \<le> paid_through_start current plan now"
  using assms by (auto simp: paid_through_start_def Let_def convert_remaining_def
      split: option.split)

lemma paid_through_after_ge:
  assumes "calendar_ok cal"
  shows "paid_through_start current plan now + days (28 * int months)
     \<le> paid_through_after cal current plan months now"
  using assms by (auto simp: paid_through_after_def Let_def calendar_ok_def split: option.split)

end
