(* ===== verification/Access.thy ===== *)
theory Access
  imports Plans
begin

text \<open>
  \<^verbatim>\<open>backend/src/features/access\<close>: permissions and the actor behind a request
  (\<^verbatim>\<open>permission.rs\<close>, \<^verbatim>\<open>actor.rs\<close>), and how a session row becomes an actor
  (\<open>into_actor\<close> in \<^verbatim>\<open>session_directory.rs\<close>). The memory of the session directory is in
  \<open>Session_Directory\<close>.
\<close>

section \<open>Permissions\<close>

datatype permission = ManageProducts | RecordExpenses | ViewProfit | DeleteRecords

definition permission_all :: "permission list" where
  "permission_all = [ManageProducts, RecordExpenses, ViewProfit, DeleteRecords]"

fun refusal :: "permission \<Rightarrow> string" where
  "refusal ManageProducts = ''only the owner can change products and stock''"
| "refusal RecordExpenses = ''only the owner can record expenses''"
| "refusal ViewProfit = ''only the owner can see profit and costs''"
| "refusal DeleteRecords = ''only the owner can void or delete records''"

record permissions =
  pm_manage_products :: bool
  pm_record_expenses :: bool
  pm_view_profit :: bool
  pm_delete_records :: bool

definition permissions_all :: permissions where
  "permissions_all = \<lparr>pm_manage_products = True, pm_record_expenses = True,
     pm_view_profit = True, pm_delete_records = True\<rparr>"

definition permissions_default :: permissions where
  "permissions_default = \<lparr>pm_manage_products = False, pm_record_expenses = False,
     pm_view_profit = False, pm_delete_records = False\<rparr>"

fun allows :: "permissions \<Rightarrow> permission \<Rightarrow> bool" where
  "allows ps ManageProducts = pm_manage_products ps"
| "allows ps RecordExpenses = pm_record_expenses ps"
| "allows ps ViewProfit = pm_view_profit ps"
| "allows ps DeleteRecords = pm_delete_records ps"

definition permissions_from_list :: "permission list \<Rightarrow> permissions" where
  "permissions_from_list xs =
     \<lparr>pm_manage_products = (ManageProducts \<in> set xs),
      pm_record_expenses = (RecordExpenses \<in> set xs),
      pm_view_profit = (ViewProfit \<in> set xs),
      pm_delete_records = (DeleteRecords \<in> set xs)\<rparr>"

definition permissions_to_list :: "permissions \<Rightarrow> permission list" where
  "permissions_to_list ps = filter (allows ps) permission_all"

lemma allows_from_list [simp]: "allows (permissions_from_list xs) p \<longleftrightarrow> p \<in> set xs"
  by (cases p) (simp_all add: permissions_from_list_def)

lemma set_to_list [simp]: "set (permissions_to_list ps) = {p. allows ps p}"
proof -
  have "p \<in> set permission_all" for p by (cases p) (simp_all add: permission_all_def)
  then show ?thesis by (auto simp: permissions_to_list_def)
qed

lemma permissions_eqI: "(\<And>p. allows a p = allows b p) \<Longrightarrow> a = b"
  using allows.simps by (metis permissions.surjective permissions.equality unit.exhaust)

section \<open>Actors\<close>

record staff_grant =
  sg_staff_id :: uuid
  sg_store_id :: uuid
  sg_permissions :: permissions

record actor =
  ac_owner_id :: uuid
  ac_session_id :: uuid
  ac_name :: string
  ac_device_name :: string
  ac_staff :: "staff_grant option"
  ac_subscription :: "subscription_record option"

definition is_owner :: "actor \<Rightarrow> bool" where
  "is_owner a = (ac_staff a = None)"

definition staff_id :: "actor \<Rightarrow> uuid option" where
  "staff_id a = map_option sg_staff_id (ac_staff a)"

definition actor_permissions :: "actor \<Rightarrow> permissions" where
  "actor_permissions a =
     (case ac_staff a of None \<Rightarrow> permissions_all | Some grant \<Rightarrow> sg_permissions grant)"

definition can :: "actor \<Rightarrow> permission \<Rightarrow> bool" where
  "can a p = allows (actor_permissions a) p"

definition require :: "actor \<Rightarrow> permission \<Rightarrow> api_error + unit" where
  "require a p = (if can a p then Inr () else Inl (Forbidden (refusal p)))"

definition require_owner :: "actor \<Rightarrow> api_error + unit" where
  "require_owner a =
     (if is_owner a then Inr () else Inl (Forbidden ''only the owner can do this''))"

definition may_amend :: "actor \<Rightarrow> uuid option \<Rightarrow> bool" where
  "may_amend a recorded_by =
     (case staff_id a of None \<Rightarrow> True | Some sid \<Rightarrow> recorded_by = Some sid)"

lemma require_eq_Inr [simp]: "require a p = Inr u \<longleftrightarrow> can a p"
  by (simp add: require_def)

lemma require_owner_eq_Inr [simp]: "require_owner a = Inr u \<longleftrightarrow> is_owner a"
  by (simp add: require_owner_def)

lemma owner_can [simp]: "is_owner a \<Longrightarrow> can a p"
  by (cases p) (simp_all add: is_owner_def can_def actor_permissions_def permissions_all_def)

section \<open>Sessions as actors\<close>

text \<open>One row of the query behind \<open>SessionDirectory::resolve\<close>: the session joined with
  its owner, the staff member and the subscription.\<close>

record session_row =
  sr_owner_id :: uuid
  sr_owner_name :: string
  sr_device_name :: string
  sr_session_live :: bool
  sr_staff_id :: "uuid option"
  sr_staff_name :: "string option"
  sr_staff_store_id :: "uuid option"
  sr_staff_live :: "bool option"
  sr_can_manage_products :: "bool option"
  sr_can_record_expenses :: "bool option"
  sr_can_view_profit :: "bool option"
  sr_can_delete_records :: "bool option"
  sr_plan :: "string option"
  sr_trial_ends_at :: "instant option"
  sr_paid_through :: "instant option"

definition unwrap_false :: "bool option \<Rightarrow> bool" where
  "unwrap_false b = (b = Some True)"

definition actor_of_row :: "uuid \<Rightarrow> session_row \<Rightarrow> staff_grant option \<Rightarrow> actor" where
  "actor_of_row session_id row staff =
     \<lparr>ac_owner_id = sr_owner_id row,
      ac_session_id = session_id,
      ac_name = (case sr_staff_name row of None \<Rightarrow> sr_owner_name row | Some n \<Rightarrow> n),
      ac_device_name = sr_device_name row,
      ac_staff = staff,
      ac_subscription = map_option (\<lambda>plan.
         \<lparr>sub_plan = plan, sub_trial_ends_at = sr_trial_ends_at row,
          sub_paid_through = sr_paid_through row\<rparr>) (sr_plan row)\<rparr>"

definition into_actor :: "uuid \<Rightarrow> session_row \<Rightarrow> actor option" where
  "into_actor session_id row =
     (if \<not> sr_session_live row then None
      else case sr_staff_id row of
        None \<Rightarrow> Some (actor_of_row session_id row None)
      | Some sid \<Rightarrow>
          if sr_staff_live row \<noteq> Some True then None
          else case sr_staff_store_id row of
            None \<Rightarrow> None
          | Some store_id \<Rightarrow> Some (actor_of_row session_id row (Some
              \<lparr>sg_staff_id = sid, sg_store_id = store_id,
               sg_permissions =
                 \<lparr>pm_manage_products = unwrap_false (sr_can_manage_products row),
                  pm_record_expenses = unwrap_false (sr_can_record_expenses row),
                  pm_view_profit = unwrap_false (sr_can_view_profit row),
                  pm_delete_records = unwrap_false (sr_can_delete_records row)\<rparr>\<rparr>)))"

lemma into_actor_Some:
  "into_actor sid row = Some a \<Longrightarrow> sr_session_live row \<and> ac_owner_id a = sr_owner_id row
     \<and> ac_session_id a = sid \<and> staff_id a = sr_staff_id row
     \<and> (sr_staff_id row \<noteq> None \<longrightarrow> sr_staff_live row = Some True)"
  by (auto simp: into_actor_def actor_of_row_def staff_id_def split: if_splits option.splits)

lemma session_names_no_one: "\<not> sr_session_live row \<Longrightarrow> into_actor sid row = None"
  by (simp add: into_actor_def)

end
