(* ===== verification/Books.thy ===== *)
theory Books
  imports Access
begin

text \<open>
  The store's books as the database keeps them (the tables of
  \<^verbatim>\<open>backend/migrations\<close>), with the two trails every service leaves behind its writes:
  the activity log (\<^verbatim>\<open>features/audit\<close>) and the realtime events and cache invalidations
  (\<^verbatim>\<open>infrastructure\<close>). \<open>books\<close> is the state every bookkeeping operation passes on.
\<close>

section \<open>Rows\<close>

record product_row =
  p_id :: uuid
  p_store :: uuid
  p_name :: string
  p_barcode :: "string option"
  p_unit_label :: string
  p_cost_price :: money
  p_selling_price :: money
  p_stock :: quantity
  p_reorder_level :: quantity
  p_is_active :: bool
  p_updated_at :: instant
  p_deleted_at :: "instant option"

record movement_row =
  m_id :: uuid
  m_store :: uuid
  m_product :: uuid
  m_movement :: string
  m_quantity :: quantity
  m_unit_cost :: money
  m_note :: "string option"
  m_occurred_at :: instant
  m_updated_at :: instant
  m_deleted_at :: "instant option"

record sale_row =
  s_id :: uuid
  s_store :: uuid
  s_reference :: "string option"
  s_payment_method :: string
  s_total_amount :: money
  s_cost_amount :: money
  s_discount_amount :: money
  s_note :: "string option"
  s_occurred_at :: instant
  s_recorded_by :: "uuid option"
  s_updated_at :: instant
  s_deleted_at :: "instant option"

record item_row =
  i_id :: uuid
  i_sale :: uuid
  i_product :: "uuid option"
  i_product_name :: string
  i_quantity :: quantity
  i_unit_price :: money
  i_unit_cost :: money
  i_line_total :: money

record expense_row =
  x_id :: uuid
  x_store :: uuid
  x_category :: string
  x_description :: "string option"
  x_amount :: money
  x_occurred_at :: instant
  x_recorded_by :: "uuid option"
  x_updated_at :: instant
  x_deleted_at :: "instant option"

record withdrawal_row =
  wd_id :: uuid
  wd_store :: uuid
  wd_amount :: money
  wd_reason :: "string option"
  wd_occurred_at :: instant
  wd_updated_at :: instant
  wd_deleted_at :: "instant option"

section \<open>The activity log\<close>

datatype json =
    JNull
  | JBool bool
  | JNum rat
  | JStr string
  | JArr "json list"
  | JObj "(string \<times> json) list"

definition money_json :: "money \<Rightarrow> json" where
  "money_json m = JNum (rat_of_int m / 100)"

definition quantity_json :: "quantity \<Rightarrow> json" where
  "quantity_json q = JNum (rat_of_int q / 1000)"

definition instant_json :: "instant \<Rightarrow> json" where
  "instant_json t = JNum (rat_of_int t)"

datatype audit_action =
    SaleRecorded | SaleVoided | ExpenseRecorded | ExpenseDeleted
  | WithdrawalRecorded | WithdrawalDeleted | ProductAdded | ProductChanged | ProductRemoved
  | StockReceived | StockRemoved | StockCounted | StockSpoiled
  | StaffAdded | StaffChanged | StaffRemoved | StaffInvited | StaffJoined
  | DeviceSignedOut | StoreAdded | StoreRenamed | SubscriptionPaid

definition removals :: "audit_action list" where
  "removals = [SaleVoided, ExpenseDeleted, WithdrawalDeleted, ProductRemoved]"

fun action_as_str :: "audit_action \<Rightarrow> string" where
  "action_as_str SaleRecorded = ''sale_recorded''"
| "action_as_str SaleVoided = ''sale_voided''"
| "action_as_str ExpenseRecorded = ''expense_recorded''"
| "action_as_str ExpenseDeleted = ''expense_deleted''"
| "action_as_str WithdrawalRecorded = ''withdrawal_recorded''"
| "action_as_str WithdrawalDeleted = ''withdrawal_deleted''"
| "action_as_str ProductAdded = ''product_added''"
| "action_as_str ProductChanged = ''product_changed''"
| "action_as_str ProductRemoved = ''product_removed''"
| "action_as_str StockReceived = ''stock_received''"
| "action_as_str StockRemoved = ''stock_removed''"
| "action_as_str StockCounted = ''stock_counted''"
| "action_as_str StockSpoiled = ''stock_spoiled''"
| "action_as_str StaffAdded = ''staff_added''"
| "action_as_str StaffChanged = ''staff_changed''"
| "action_as_str StaffRemoved = ''staff_removed''"
| "action_as_str StaffInvited = ''staff_invited''"
| "action_as_str StaffJoined = ''staff_joined''"
| "action_as_str DeviceSignedOut = ''device_signed_out''"
| "action_as_str StoreAdded = ''store_added''"
| "action_as_str StoreRenamed = ''store_renamed''"
| "action_as_str SubscriptionPaid = ''subscription_paid''"

definition action_for_movement :: "string \<Rightarrow> audit_action option" where
  "action_for_movement movement =
     (if movement = ''stock_in'' then Some StockReceived
      else if movement = ''stock_out'' then Some StockRemoved
      else if movement = ''adjustment'' then Some StockCounted
      else if movement = ''spoilage'' then Some StockSpoiled
      else None)"

record audit_entry =
  ae_store_id :: "uuid option"
  ae_action :: audit_action
  ae_entity_id :: "uuid option"
  ae_occurred_at :: instant
  ae_details :: json

definition entry_new :: "env \<Rightarrow> uuid \<Rightarrow> audit_action \<Rightarrow> uuid \<Rightarrow> json \<Rightarrow> audit_entry" where
  "entry_new e store_id action entity_id details =
     \<lparr>ae_store_id = Some store_id, ae_action = action, ae_entity_id = Some entity_id,
      ae_occurred_at = e_now e, ae_details = details\<rparr>"

definition entry_account ::
  "env \<Rightarrow> uuid option \<Rightarrow> audit_action \<Rightarrow> uuid \<Rightarrow> json \<Rightarrow> audit_entry" where
  "entry_account e store_id action entity_id details =
     (entry_new e 0 action entity_id details)\<lparr>ae_store_id := store_id\<rparr>"

definition entry_at :: "instant \<Rightarrow> audit_entry \<Rightarrow> audit_entry" where
  "entry_at occurred_at entry = entry\<lparr>ae_occurred_at := occurred_at\<rparr>"

record audit_row =
  ar_seq :: int
  ar_owner_id :: uuid
  ar_store_id :: "uuid option"
  ar_staff_id :: "uuid option"
  ar_actor_name :: string
  ar_device_name :: string
  ar_action :: string
  ar_entity_id :: "uuid option"
  ar_details :: json
  ar_occurred_at :: instant
  ar_recorded_at :: instant

section \<open>Realtime events\<close>

datatype realtime_topic =
    TopicSaleRecorded | TopicSaleVoided | TopicExpenseRecorded | TopicExpenseRemoved
  | TopicWithdrawalRecorded | TopicProductChanged | TopicStockLow | TopicDashboardStale
  | TopicAccessChanged

record realtime_event =
  ev_store_id :: uuid
  ev_topic :: realtime_topic
  ev_entity_id :: "uuid option"
  ev_message :: "string option"
  ev_emitted_at :: instant

definition event_new :: "env \<Rightarrow> uuid \<Rightarrow> realtime_topic \<Rightarrow> uuid option \<Rightarrow> realtime_event" where
  "event_new e store_id topic entity_id =
     \<lparr>ev_store_id = store_id, ev_topic = topic, ev_entity_id = entity_id,
      ev_message = None, ev_emitted_at = e_now e\<rparr>"

definition with_message :: "string \<Rightarrow> realtime_event \<Rightarrow> realtime_event" where
  "with_message message ev = ev\<lparr>ev_message := Some message\<rparr>"

section \<open>The books\<close>

text \<open>
  \<open>bk_seq\<close> is the next value of the log's identity column, \<open>bk_drawn\<close> how many ids
  \<open>Uuid::new_v4\<close> has handed out, \<open>bk_events\<close> every event published, oldest first, and
  \<open>bk_invalidated\<close> the stores whose dashboard cache was dropped, oldest first.
\<close>

record books =
  bk_products :: "product_row list"
  bk_movements :: "movement_row list"
  bk_sales :: "sale_row list"
  bk_items :: "item_row list"
  bk_expenses :: "expense_row list"
  bk_withdrawals :: "withdrawal_row list"
  bk_audit :: "audit_row list"
  bk_seq :: int
  bk_events :: "realtime_event list"
  bk_invalidated :: "uuid list"
  bk_drawn :: nat

definition empty_books :: books where
  "empty_books = \<lparr>bk_products = [], bk_movements = [], bk_sales = [], bk_items = [],
     bk_expenses = [], bk_withdrawals = [], bk_audit = [], bk_seq = 1, bk_events = [],
     bk_invalidated = [], bk_drawn = 0\<rparr>"

definition unwrap_or_new :: "env \<Rightarrow> uuid option \<Rightarrow> books \<Rightarrow> uuid \<times> books" where
  "unwrap_or_new e given b =
     (case given of
        Some i \<Rightarrow> (i, b)
      | None \<Rightarrow> (e_uuid e (bk_drawn b), b\<lparr>bk_drawn := Suc (bk_drawn b)\<rparr>))"

definition audit_record :: "env \<Rightarrow> actor \<Rightarrow> audit_entry \<Rightarrow> books \<Rightarrow> books" where
  "audit_record e actor entry b =
     (if e_log_up e
      then b\<lparr>bk_audit := bk_audit b @
               [\<lparr>ar_seq = bk_seq b, ar_owner_id = ac_owner_id actor,
                 ar_store_id = ae_store_id entry, ar_staff_id = staff_id actor,
                 ar_actor_name = ac_name actor, ar_device_name = ac_device_name actor,
                 ar_action = action_as_str (ae_action entry),
                 ar_entity_id = ae_entity_id entry, ar_details = ae_details entry,
                 ar_occurred_at = ae_occurred_at entry, ar_recorded_at = e_now e\<rparr>],
             bk_seq := bk_seq b + 1\<rparr>
      else b)"

definition publish :: "realtime_event \<Rightarrow> books \<Rightarrow> books" where
  "publish ev b = b\<lparr>bk_events := bk_events b @ [ev]\<rparr>"

definition invalidate_store :: "uuid \<Rightarrow> books \<Rightarrow> books" where
  "invalidate_store store_id b = b\<lparr>bk_invalidated := bk_invalidated b @ [store_id]\<rparr>"

subsection \<open>Reading the log\<close>

datatype audit_filter = AuditAll | AuditRemovals

definition max_page :: int where
  "max_page = 100"

definition audit_page ::
  "books \<Rightarrow> uuid \<Rightarrow> uuid \<Rightarrow> audit_filter \<Rightarrow> int option \<Rightarrow> int \<Rightarrow> audit_row list" where
  "audit_page b owner_id store_id flt before limit =
     (let only = (case flt of AuditAll \<Rightarrow> None
                  | AuditRemovals \<Rightarrow> Some (map action_as_str removals));
          hit = (\<lambda>r. ar_owner_id r = owner_id
             \<and> (ar_store_id r = Some store_id \<or> ar_store_id r = None)
             \<and> (case before of None \<Rightarrow> True | Some s \<Rightarrow> ar_seq r < s)
             \<and> (case only of None \<Rightarrow> True | Some names \<Rightarrow> ar_action r \<in> set names))
      in take (nat (clamp 1 max_page limit))
           (rev (sort_key ar_seq (filter hit (bk_audit b)))))"

record activity_page =
  ap_events :: "audit_row list"
  ap_next_before :: "int option"

definition list_activity ::
  "books \<Rightarrow> actor \<Rightarrow> uuid \<Rightarrow> int option \<Rightarrow> int option \<Rightarrow> audit_filter
    \<Rightarrow> api_error + activity_page" where
  "list_activity b actor store_id before limit_opt flt =
     bindR (require_owner actor) (\<lambda>_.
       let limit = (case limit_opt of None \<Rightarrow> 50 | Some l \<Rightarrow> l);
           events = audit_page b (ac_owner_id actor) store_id flt before limit;
           next_before = (if int (length events) \<ge> clamp 1 100 limit
                          then (if events = [] then None else Some (ar_seq (last events)))
                          else None)
       in Inr \<lparr>ap_events = events, ap_next_before = next_before\<rparr>)"

section \<open>Frame facts\<close>

lemma unwrap_or_new_frame [frame_simps]:
  "unwrap_or_new e given b = (i, b') \<Longrightarrow> \<exists>n. b' = b\<lparr>bk_drawn := n\<rparr>"
  by (cases given) (auto simp: unwrap_or_new_def intro: exI[of _ "bk_drawn b"])

lemma trails_frame [frame_simps, simp]:
  "bk_products (audit_record e actor entry b) = bk_products b"
  "bk_movements (audit_record e actor entry b) = bk_movements b"
  "bk_sales (audit_record e actor entry b) = bk_sales b"
  "bk_items (audit_record e actor entry b) = bk_items b"
  "bk_expenses (audit_record e actor entry b) = bk_expenses b"
  "bk_withdrawals (audit_record e actor entry b) = bk_withdrawals b"
  "bk_events (audit_record e actor entry b) = bk_events b"
  "bk_invalidated (audit_record e actor entry b) = bk_invalidated b"
  "bk_drawn (audit_record e actor entry b) = bk_drawn b"
  "bk_products (publish ev b) = bk_products b"
  "bk_movements (publish ev b) = bk_movements b"
  "bk_sales (publish ev b) = bk_sales b"
  "bk_items (publish ev b) = bk_items b"
  "bk_expenses (publish ev b) = bk_expenses b"
  "bk_withdrawals (publish ev b) = bk_withdrawals b"
  "bk_audit (publish ev b) = bk_audit b"
  "bk_seq (publish ev b) = bk_seq b"
  "bk_invalidated (publish ev b) = bk_invalidated b"
  "bk_drawn (publish ev b) = bk_drawn b"
  "bk_events (publish ev b) = bk_events b @ [ev]"
  "bk_products (invalidate_store st b) = bk_products b"
  "bk_movements (invalidate_store st b) = bk_movements b"
  "bk_sales (invalidate_store st b) = bk_sales b"
  "bk_items (invalidate_store st b) = bk_items b"
  "bk_expenses (invalidate_store st b) = bk_expenses b"
  "bk_withdrawals (invalidate_store st b) = bk_withdrawals b"
  "bk_audit (invalidate_store st b) = bk_audit b"
  "bk_seq (invalidate_store st b) = bk_seq b"
  "bk_events (invalidate_store st b) = bk_events b"
  "bk_drawn (invalidate_store st b) = bk_drawn b"
  "bk_invalidated (invalidate_store st b) = bk_invalidated b @ [st]"
  by (simp_all add: audit_record_def publish_def invalidate_store_def)

section \<open>What every operation keeps\<close>

text \<open>Primary keys are unique in every table.\<close>

definition keys_unique :: "books \<Rightarrow> bool" where
  "keys_unique b \<longleftrightarrow> distinct (map p_id (bk_products b))
     \<and> distinct (map m_id (bk_movements b)) \<and> distinct (map s_id (bk_sales b))
     \<and> distinct (map i_id (bk_items b)) \<and> distinct (map x_id (bk_expenses b))
     \<and> distinct (map wd_id (bk_withdrawals b))"

text \<open>Every line belongs to a recorded sale (the foreign key of \<open>sale_items\<close>).\<close>

definition items_have_sales :: "books \<Rightarrow> bool" where
  "items_have_sales b \<longleftrightarrow> i_sale ` set (bk_items b) \<subseteq> s_id ` set (bk_sales b)"

definition books_ok :: "books \<Rightarrow> bool" where
  "books_ok b \<longleftrightarrow> keys_unique b \<and> items_have_sales b"

text \<open>Everything recorded for one store. Two books agree on a store when they hold the same
  rows for it.\<close>

definition sales_of :: "uuid \<Rightarrow> books \<Rightarrow> sale_row list" where
  "sales_of st b = filter (\<lambda>r. s_store r = st) (bk_sales b)"

definition items_of :: "uuid \<Rightarrow> books \<Rightarrow> item_row list" where
  "items_of st b = filter (\<lambda>r. i_sale r \<in> s_id ` set (sales_of st b)) (bk_items b)"

definition same_store :: "uuid \<Rightarrow> books \<Rightarrow> books \<Rightarrow> bool" where
  "same_store st b b' \<longleftrightarrow>
     filter (\<lambda>r. p_store r = st) (bk_products b') = filter (\<lambda>r. p_store r = st) (bk_products b)
     \<and> filter (\<lambda>r. m_store r = st) (bk_movements b') = filter (\<lambda>r. m_store r = st) (bk_movements b)
     \<and> sales_of st b' = sales_of st b \<and> items_of st b' = items_of st b
     \<and> filter (\<lambda>r. x_store r = st) (bk_expenses b') = filter (\<lambda>r. x_store r = st) (bk_expenses b)
     \<and> filter (\<lambda>r. wd_store r = st) (bk_withdrawals b')
         = filter (\<lambda>r. wd_store r = st) (bk_withdrawals b)"

text \<open>One operation in store \<open>st\<close>: the books stay well formed, no other store's rows move,
  and the log, the events and the invalidations only grow.\<close>

definition confined :: "uuid \<Rightarrow> books \<Rightarrow> books \<Rightarrow> bool" where
  "confined st b b' \<longleftrightarrow>
     (books_ok b \<longrightarrow> books_ok b' \<and> (\<forall>st'. st' \<noteq> st \<longrightarrow> same_store st' b b'))
     \<and> grows (\<lambda>_. True) (bk_audit b) (bk_audit b')
     \<and> grows (\<lambda>ev. ev_store_id ev = st) (bk_events b) (bk_events b')
     \<and> grows (\<lambda>x. x = st) (bk_invalidated b) (bk_invalidated b')"

lemma same_store_refl [simp]: "same_store st b b"
  by (simp add: same_store_def)

lemma same_store_trans: "same_store st a b \<Longrightarrow> same_store st b c \<Longrightarrow> same_store st a c"
  by (simp add: same_store_def)

lemma confined_refl [simp]: "confined st b b"
  by (simp add: confined_def)

lemma confined_trans: "confined st a b \<Longrightarrow> confined st b c \<Longrightarrow> confined st a c"
  unfolding confined_def by (blast intro: grows_trans same_store_trans)

text \<open>The trails keep an operation confined to its store.\<close>

lemma confined_audit [intro]: "confined st a b \<Longrightarrow> confined st a (audit_record e actor entry b)"
  by (erule confined_trans)
    (auto simp: confined_def books_ok_def keys_unique_def items_have_sales_def same_store_def
        sales_of_def items_of_def audit_record_def)

lemma confined_publish [intro]:
  "confined st a b \<Longrightarrow> ev_store_id ev = st \<Longrightarrow> confined st a (publish ev b)"
  by (erule confined_trans)
    (auto simp: confined_def books_ok_def keys_unique_def items_have_sales_def same_store_def
        sales_of_def items_of_def)

lemma confined_invalidate [intro]:
  "confined st a b \<Longrightarrow> confined st a (invalidate_store st b)"
  by (erule confined_trans)
    (auto simp: confined_def books_ok_def keys_unique_def items_have_sales_def same_store_def
        sales_of_def items_of_def)

lemma confined_draw: "confined st b (b\<lparr>bk_drawn := n\<rparr>)"
  by (simp add: confined_def books_ok_def keys_unique_def items_have_sales_def same_store_def
        sales_of_def items_of_def)

lemma confined_unwrap_or_new [intro]:
  "confined st a b \<Longrightarrow> unwrap_or_new e given b = (i, b') \<Longrightarrow> confined st a b'"
  using unwrap_or_new_frame confined_draw confined_trans by metis

lemma unwrap_or_new_confined: "unwrap_or_new e given b = (i, b') \<Longrightarrow> confined st b b'"
  using confined_unwrap_or_new confined_refl by blast

lemma event_new_store [simp]: "ev_store_id (event_new e st topic ent) = st"
  by (simp add: event_new_def)

lemma with_message_store [simp]: "ev_store_id (with_message m ev) = ev_store_id ev"
  by (simp add: with_message_def)

subsection \<open>Changing one table\<close>

text \<open>A change of one table is confined to a store when it keeps the table's keys unique and
  the rows of every other store.\<close>

lemmas confined_defs = confined_def books_ok_def keys_unique_def items_have_sales_def
  same_store_def sales_of_def items_of_def

lemma confined_products:
  assumes "distinct (map p_id (bk_products b)) \<Longrightarrow> distinct (map p_id rows)"
    and "\<And>st'. distinct (map p_id (bk_products b)) \<Longrightarrow> st' \<noteq> st \<Longrightarrow>
      filter (\<lambda>r. p_store r = st') rows = filter (\<lambda>r. p_store r = st') (bk_products b)"
  shows "confined st b (b\<lparr>bk_products := rows\<rparr>)"
  using assms by (simp add: confined_defs)

lemma confined_movements:
  assumes "distinct (map m_id (bk_movements b)) \<Longrightarrow> distinct (map m_id rows)"
    and "\<And>st'. distinct (map m_id (bk_movements b)) \<Longrightarrow> st' \<noteq> st \<Longrightarrow>
      filter (\<lambda>r. m_store r = st') rows = filter (\<lambda>r. m_store r = st') (bk_movements b)"
  shows "confined st b (b\<lparr>bk_movements := rows\<rparr>)"
  using assms by (simp add: confined_defs)

lemma confined_expenses:
  assumes "distinct (map x_id (bk_expenses b)) \<Longrightarrow> distinct (map x_id rows)"
    and "\<And>st'. distinct (map x_id (bk_expenses b)) \<Longrightarrow> st' \<noteq> st \<Longrightarrow>
      filter (\<lambda>r. x_store r = st') rows = filter (\<lambda>r. x_store r = st') (bk_expenses b)"
  shows "confined st b (b\<lparr>bk_expenses := rows\<rparr>)"
  using assms by (simp add: confined_defs)

lemma confined_withdrawals:
  assumes "distinct (map wd_id (bk_withdrawals b)) \<Longrightarrow> distinct (map wd_id rows)"
    and "\<And>st'. distinct (map wd_id (bk_withdrawals b)) \<Longrightarrow> st' \<noteq> st \<Longrightarrow>
      filter (\<lambda>r. wd_store r = st') rows = filter (\<lambda>r. wd_store r = st') (bk_withdrawals b)"
  shows "confined st b (b\<lparr>bk_withdrawals := rows\<rparr>)"
  using assms by (simp add: confined_defs)

lemma confined_sales:
  assumes "distinct (map s_id (bk_sales b)) \<Longrightarrow> distinct (map s_id rows)"
    and "\<And>st'. distinct (map s_id (bk_sales b)) \<Longrightarrow> st' \<noteq> st \<Longrightarrow>
      filter (\<lambda>r. s_store r = st') rows = filter (\<lambda>r. s_store r = st') (bk_sales b)"
    and "s_id ` set (bk_sales b) \<subseteq> s_id ` set rows"
  shows "confined st b (b\<lparr>bk_sales := rows\<rparr>)"
proof -
  have "i_sale ` set (bk_items b) \<subseteq> s_id ` set (bk_sales b)
      \<Longrightarrow> i_sale ` set (bk_items b) \<subseteq> s_id ` set rows"
    using assms(3) by blast
  then show ?thesis using assms(1,2) by (simp add: confined_defs)
qed

definition sale_in :: "uuid \<Rightarrow> uuid \<Rightarrow> books \<Rightarrow> bool" where
  "sale_in st sale_id b \<longleftrightarrow> (\<exists>r \<in> set (bk_sales b). s_id r = sale_id \<and> s_store r = st)"

lemma confined_items:
  assumes "sale_in st sale_id b"
    and "distinct (map i_id (bk_items b)) \<Longrightarrow> distinct (map i_id rows)"
    and same: "filter (\<lambda>i. i_sale i \<noteq> sale_id) rows = filter (\<lambda>i. i_sale i \<noteq> sale_id) (bk_items b)"
  shows "confined st b (b\<lparr>bk_items := rows\<rparr>)"
proof -
  obtain r where r: "r \<in> set (bk_sales b)" "s_id r = sale_id" "s_store r = st"
    using assms(1) by (auto simp: sale_in_def)
  have "i_sale ` set rows \<subseteq> s_id ` set (bk_sales b)"
    if "i_sale ` set (bk_items b) \<subseteq> s_id ` set (bk_sales b)"
  proof -
    have "i_sale i \<in> s_id ` set (bk_sales b)" if i: "i \<in> set rows" for i
    proof (cases "i_sale i = sale_id")
      case True
      then show ?thesis using imageI[OF r(1), of s_id] r(2) by simp
    next
      case False
      then have "i \<in> set (filter (\<lambda>i. i_sale i \<noteq> sale_id) (bk_items b))"
        using i by (simp flip: same)
      then show ?thesis using \<open>i_sale ` set (bk_items b) \<subseteq> s_id ` set (bk_sales b)\<close> by auto
    qed
    then show ?thesis by blast
  qed
  moreover have "filter (\<lambda>i. i_sale i \<in> s_id ` set (sales_of st' b)) rows
      = filter (\<lambda>i. i_sale i \<in> s_id ` set (sales_of st' b)) (bk_items b)"
    if "distinct (map s_id (bk_sales b))" "st' \<noteq> st" for st'
  proof -
    let ?P = "\<lambda>i. i_sale i \<in> s_id ` set (sales_of st' b)"
    have "r' = r" if "r' \<in> set (bk_sales b)" "s_id r' = sale_id" for r'
      using find_key_in_set[OF \<open>distinct _\<close> that(1)] find_key_in_set[OF \<open>distinct _\<close> r(1)]
        that(2) r(2) by simp
    then have "sale_id \<notin> s_id ` set (sales_of st' b)"
      using r(3) \<open>st' \<noteq> st\<close> by (auto simp: sales_of_def)
    then have "filter ?P xs = filter ?P (filter (\<lambda>i. i_sale i \<noteq> sale_id) xs)" for xs :: "item_row list"
      by (induction xs) auto
    then show ?thesis using same by metis
  qed
  ultimately show ?thesis using assms(2) by (simp add: confined_defs)
qed

end
