(* ===== verification/Products.thy ===== *)
theory Products
  imports Books
begin

text \<open>
  \<^verbatim>\<open>backend/src/features/products\<close>: the catalogue. Repository operations are the SQL of
  \<^verbatim>\<open>product_repository.rs\<close> on \<open>bk_products\<close>; \<open>product_save\<close> and \<open>product_remove\<close> are the
  service's whole handlers, with the log line and the event each leaves.
\<close>

section \<open>Payloads\<close>

record product_view =
  pv_id :: uuid
  pv_name :: string
  pv_barcode :: "string option"
  pv_unit_label :: string
  pv_cost_price :: money
  pv_selling_price :: money
  pv_stock_quantity :: quantity
  pv_reorder_level :: quantity
  pv_is_active :: bool
  pv_updated_at :: instant

definition view_product :: "product_row \<Rightarrow> product_view" where
  "view_product r =
     \<lparr>pv_id = p_id r, pv_name = p_name r, pv_barcode = p_barcode r,
      pv_unit_label = p_unit_label r, pv_cost_price = p_cost_price r,
      pv_selling_price = p_selling_price r, pv_stock_quantity = p_stock r,
      pv_reorder_level = p_reorder_level r, pv_is_active = p_is_active r,
      pv_updated_at = p_updated_at r\<rparr>"

definition without_cost :: "product_view \<Rightarrow> product_view" where
  "without_cost v = v\<lparr>pv_cost_price := 0\<rparr>"

record save_product_request =
  sp_id :: "uuid option"
  sp_name :: string
  sp_barcode :: "string option"
  sp_unit_label :: string
  sp_cost_price :: rat
  sp_selling_price :: rat
  sp_opening_stock :: rat
  sp_reorder_level :: rat

definition save_product_issues :: "save_product_request \<Rightarrow> (string \<times> string option) list" where
  "save_product_issues r =
     (if length (sp_name r) < 1 \<or> 120 < length (sp_name r)
        then [(''name'', Some ''is required'')] else [])
     @ (if sp_cost_price r < 0 then [(''cost_price'', Some ''cannot be negative'')] else [])
     @ (if sp_selling_price r < 0 then [(''selling_price'', Some ''cannot be negative'')] else [])
     @ (if sp_opening_stock r < 0 then [(''opening_stock'', Some ''cannot be negative'')] else [])
     @ (if sp_reorder_level r < 0 then [(''reorder_level'', Some ''cannot be negative'')] else [])"

record product_filter =
  pf_search :: "string option"
  pf_only_low_stock :: "bool option"
  pf_include_inactive :: "bool option"

section \<open>Repository\<close>

definition is_low :: "product_row \<Rightarrow> bool" where
  "is_low r = (p_reorder_level r > 0 \<and> p_stock r \<le> p_reorder_level r)"

definition product_list ::
  "env \<Rightarrow> books \<Rightarrow> uuid \<Rightarrow> product_filter \<Rightarrow> page_request \<Rightarrow> product_view list" where
  "product_list e b store_id flt page =
     (let search = map_option (\<lambda>term. ''%'' @ term @ ''%'') (trim_nonempty (pf_search flt));
          inactive = (pf_include_inactive flt = Some True);
          low = (pf_only_low_stock flt = Some True);
          hit = (\<lambda>r. p_store r = store_id \<and> p_deleted_at r = None
             \<and> (inactive \<or> p_is_active r)
             \<and> (case search of None \<Rightarrow> True
                | Some pat \<Rightarrow> sql_ilike (p_name r) pat
                    \<or> (case p_barcode r of None \<Rightarrow> False | Some c \<Rightarrow> sql_ilike c pat))
             \<and> (\<not> low \<or> is_low r))
      in map view_product
           (page_rows page (sort_key (\<lambda>r. e_collate e (p_name r)) (filter hit (bk_products b)))))"

definition product_row_at :: "books \<Rightarrow> uuid \<Rightarrow> uuid \<Rightarrow> product_row option" where
  "product_row_at b store_id product_id =
     find (\<lambda>r. p_store r = store_id \<and> p_id r = product_id \<and> p_deleted_at r = None)
       (bk_products b)"

definition product_find :: "books \<Rightarrow> uuid \<Rightarrow> uuid \<Rightarrow> product_view option" where
  "product_find b store_id product_id =
     map_option view_product (product_row_at b store_id product_id)"

definition foreign_id :: api_error where
  "foreign_id = Conflict ''this record belongs to another store''"

definition product_guard :: "product_row \<Rightarrow> product_row \<Rightarrow> bool" where
  "product_guard old new = (p_store old = p_store new)"

definition product_merge :: "product_row \<Rightarrow> product_row \<Rightarrow> product_row" where
  "product_merge old new =
     old\<lparr>p_name := p_name new, p_barcode := p_barcode new, p_unit_label := p_unit_label new,
         p_cost_price := p_cost_price new, p_selling_price := p_selling_price new,
         p_reorder_level := p_reorder_level new, p_is_active := True,
         p_deleted_at := None, p_updated_at := p_updated_at new\<rparr>"

text \<open>The index \<open>products_store_barcode_unique\<close>: it covers every row of the store that has a
  barcode, the deleted ones included.\<close>

definition barcode_taken :: "books \<Rightarrow> uuid \<Rightarrow> uuid \<Rightarrow> string option \<Rightarrow> bool" where
  "barcode_taken b store_id product_id barcode =
     (barcode \<noteq> None \<and>
      list_ex (\<lambda>r. p_store r = store_id \<and> p_barcode r = barcode \<and> p_id r \<noteq> product_id)
        (bk_products b))"

definition product_upsert ::
  "env \<Rightarrow> uuid \<Rightarrow> uuid \<Rightarrow> string \<Rightarrow> string option \<Rightarrow> string \<Rightarrow> money \<Rightarrow> money \<Rightarrow> quantity
    \<Rightarrow> quantity \<Rightarrow> books \<Rightarrow> api_error + (product_view \<times> books)" where
  "product_upsert e store_id product_id name barcode unit_label cost_price selling_price
       opening_stock reorder_level b =
     (let new = \<lparr>p_id = product_id, p_store = store_id, p_name = name, p_barcode = barcode,
                 p_unit_label = unit_label, p_cost_price = cost_price,
                 p_selling_price = selling_price, p_stock = opening_stock,
                 p_reorder_level = reorder_level, p_is_active = True,
                 p_updated_at = e_now e, p_deleted_at = None\<rparr>
      in if \<not> (fits14 cost_price \<and> fits14 selling_price \<and> fits14 opening_stock
                \<and> fits14 reorder_level) then Inl Internal
         else case upsert p_id product_guard product_merge new (bk_products b) of
             (None, _) \<Rightarrow> Inl foreign_id
           | (Some (row, _), rows) \<Rightarrow>
               if barcode_taken b store_id product_id barcode then Inl Internal
               else Inr (view_product row, b\<lparr>bk_products := rows\<rparr>))"

definition bury_product :: "instant \<Rightarrow> product_row \<Rightarrow> product_row" where
  "bury_product now r = r\<lparr>p_deleted_at := Some now, p_is_active := False, p_updated_at := now\<rparr>"

definition product_live :: "product_row \<Rightarrow> bool" where
  "product_live r = (p_deleted_at r = None)"

definition product_soft_delete ::
  "env \<Rightarrow> uuid \<Rightarrow> uuid \<Rightarrow> books \<Rightarrow> string option \<times> books" where
  "product_soft_delete e store_id product_id b =
     (let (removed, rows) = soft_delete p_id p_store product_live (bury_product (e_now e))
                              store_id product_id (bk_products b)
      in (map_option p_name removed, b\<lparr>bk_products := rows\<rparr>))"

definition list_low_stock :: "env \<Rightarrow> books \<Rightarrow> uuid \<Rightarrow> product_view list" where
  "list_low_stock e b store_id =
     map view_product
       (sort_key (\<lambda>r. (p_stock r - p_reorder_level r, e_collate e (p_name r)))
         (filter (\<lambda>r. p_store r = store_id \<and> p_deleted_at r = None \<and> p_is_active r \<and> is_low r)
           (bk_products b)))"

definition stock_on_hand :: "books \<Rightarrow> uuid \<Rightarrow> uuid \<Rightarrow> quantity" where
  "stock_on_hand b store_id product_id =
     (case find (\<lambda>r. p_store r = store_id \<and> p_id r = product_id) (bk_products b) of
        None \<Rightarrow> 0 | Some r \<Rightarrow> p_stock r)"

interpretation product_upserts: upsert_table p_id p_store product_guard product_merge
  by unfold_locales (simp_all add: product_merge_def product_guard_def)

interpretation product_deletes:
  soft_delete_table p_id p_store product_live "bury_product now" for now
  by unfold_locales (simp_all add: bury_product_def product_live_def)

section \<open>Service\<close>

definition product_get :: "books \<Rightarrow> uuid \<Rightarrow> uuid \<Rightarrow> api_error + product_view" where
  "product_get b store_id product_id =
     ok_or (product_find b store_id product_id) (NotFound ''product'')"

definition change_of :: "string \<Rightarrow> ('a \<Rightarrow> json) \<Rightarrow> 'a \<Rightarrow> 'a \<Rightarrow> (string \<times> json) list" where
  "change_of field show old new =
     (if old \<noteq> new then [(field, JArr [show old, show new])] else [])"

definition describe_save ::
  "env \<Rightarrow> uuid \<Rightarrow> product_view option \<Rightarrow> product_view \<Rightarrow> audit_entry option" where
  "describe_save e store_id before_opt after =
     (case before_opt of
        None \<Rightarrow> Some (entry_new e store_id ProductAdded (pv_id after)
                  (JObj [(''name'', JStr (pv_name after)),
                         (''selling_price'', money_json (pv_selling_price after))]))
      | Some before \<Rightarrow>
          let changes =
                change_of ''name'' JStr (pv_name before) (pv_name after)
                @ change_of ''selling_price'' money_json
                    (pv_selling_price before) (pv_selling_price after)
                @ change_of ''cost_price'' money_json
                    (pv_cost_price before) (pv_cost_price after)
          in if changes = [] then None
             else Some (entry_new e store_id ProductChanged (pv_id after)
                    (JObj [(''name'', JStr (pv_name after)), (''changes'', JObj changes)])))"

definition saved_cost :: "env \<Rightarrow> actor \<Rightarrow> product_view option \<Rightarrow> rat \<Rightarrow> money" where
  "saved_cost e actor before sent =
     (if can actor ViewProfit then money_from_f64 e sent
      else (case before of None \<Rightarrow> 0 | Some v \<Rightarrow> pv_cost_price v))"

definition product_save ::
  "env \<Rightarrow> uuid \<Rightarrow> actor \<Rightarrow> save_product_request \<Rightarrow> books
    \<Rightarrow> api_error + (product_view \<times> books)" where
  "product_save e store_id actor request b =
     bindR (require actor ManageProducts) (\<lambda>_.
     (let (product_id, b1) = unwrap_or_new e (sp_id request) b;
          before = product_find b1 store_id product_id;
          selling = money_from_f64 e (sp_selling_price request);
          cost = saved_cost e actor before (sp_cost_price request)
      in if selling < cost then
           Inl (BadRequest
             ''selling price is lower than cost price, this product would lose money'')
         else
           bindR (product_upsert e store_id product_id (trim (sp_name request))
                    (trim_nonempty (sp_barcode request)) (trim (sp_unit_label request))
                    cost selling (quantity_from_f64 e (sp_opening_stock request))
                    (quantity_from_f64 e (sp_reorder_level request)) b1)
             (\<lambda>(product, b2).
                let b3 = (case describe_save e store_id before product of
                            None \<Rightarrow> b2 | Some entry \<Rightarrow> audit_record e actor entry b2)
                in Inr (product,
                     publish (event_new e store_id TopicProductChanged (Some (pv_id product)))
                       b3))))"

definition product_remove ::
  "env \<Rightarrow> uuid \<Rightarrow> actor \<Rightarrow> uuid \<Rightarrow> books \<Rightarrow> api_error + (unit \<times> books)" where
  "product_remove e store_id actor product_id b =
     bindR (require actor ManageProducts) (\<lambda>_.
     (let (removed, b1) = product_soft_delete e store_id product_id b
      in bindR (ok_or removed (NotFound ''product'')) (\<lambda>name.
           Inr ((), publish (event_new e store_id TopicProductChanged (Some product_id))
             (audit_record e actor
               (entry_new e store_id ProductRemoved product_id (JObj [(''name'', JStr name)]))
               b1)))))"

text \<open>The read handlers pass every view through \<open>shown_to\<close>.\<close>

definition shown_to :: "actor \<Rightarrow> product_view list \<Rightarrow> product_view list" where
  "shown_to actor products =
     (if can actor ViewProfit then products else map without_cost products)"

section \<open>Lemmas\<close>

lemma view_product_simps [simp]:
  "pv_id (view_product r) = p_id r" "pv_name (view_product r) = p_name r"
  "pv_barcode (view_product r) = p_barcode r" "pv_cost_price (view_product r) = p_cost_price r"
  "pv_selling_price (view_product r) = p_selling_price r"
  "pv_stock_quantity (view_product r) = p_stock r"
  by (simp_all add: view_product_def)

lemma product_merge_simps [simp]:
  "p_id (product_merge old new) = p_id old" "p_store (product_merge old new) = p_store old"
  "p_stock (product_merge old new) = p_stock old" "p_name (product_merge old new) = p_name new"
  "p_cost_price (product_merge old new) = p_cost_price new"
  "p_selling_price (product_merge old new) = p_selling_price new"
  by (simp_all add: product_merge_def)

lemma product_row_atD:
  "product_row_at b st pid = Some r \<Longrightarrow>
     r \<in> set (bk_products b) \<and> p_id r = pid \<and> p_store r = st \<and> p_deleted_at r = None"
  by (auto simp: product_row_at_def dest: find_SomeD)

lemma product_upsert_confined:
  assumes "product_upsert e st pid name barcode unit cost selling opening reorder b = Inr (v, b')"
  shows "confined st b b'"
  using assms
  by (auto simp: product_upsert_def Let_def split: if_splits prod.splits option.splits
      intro!: confined_products dest: product_upserts.distinct_upsert
        product_upserts.other_stores_kept)

lemma product_soft_delete_confined:
  assumes "product_soft_delete e st pid b = (removed, b')"
  shows "confined st b b'"
proof -
  let ?res = "soft_delete p_id p_store product_live (bury_product (e_now e)) st pid (bk_products b)"
  have "b' = b\<lparr>bk_products := snd ?res\<rparr>"
    using assms by (auto simp: product_soft_delete_def split: prod.splits)
  then show ?thesis
    using product_deletes.keys_kept product_deletes.other_stores_kept
    by (auto intro!: confined_products)
qed

lemma product_saveE:
  assumes "product_save e st actor request b = Inr (v, b')"
  obtains pid b1 b2 where
    "can actor ManageProducts" "unwrap_or_new e (sp_id request) b = (pid, b1)"
    "saved_cost e actor (product_find b1 st pid) (sp_cost_price request)
       \<le> money_from_f64 e (sp_selling_price request)"
    "product_upsert e st pid (trim (sp_name request)) (trim_nonempty (sp_barcode request))
       (trim (sp_unit_label request))
       (saved_cost e actor (product_find b1 st pid) (sp_cost_price request))
       (money_from_f64 e (sp_selling_price request))
       (quantity_from_f64 e (sp_opening_stock request))
       (quantity_from_f64 e (sp_reorder_level request)) b1 = Inr (v, b2)"
    "b' = publish (event_new e st TopicProductChanged (Some (pv_id v)))
       (case describe_save e st (product_find b1 st pid) v of
          None \<Rightarrow> b2 | Some entry \<Rightarrow> audit_record e actor entry b2)"
  using assms
  by (auto simp: product_save_def Let_def not_less split: if_splits prod.splits)

lemma product_save_confined:
  assumes "product_save e st actor request b = Inr (v, b')"
  shows "confined st b b'"
  using assms
proof (cases rule: product_saveE)
  case (1 pid b1 b2)
  have "confined st b b2"
    using unwrap_or_new_confined[OF 1(2)] product_upsert_confined[OF 1(4)]
    by (rule confined_trans)
  then show ?thesis
    using 1(5) by (auto intro!: confined_publish confined_audit split: option.split)
qed

lemma product_remove_confined:
  assumes "product_remove e st actor pid b = Inr (u, b')"
  shows "confined st b b'"
  using assms
  by (auto simp: product_remove_def Let_def split: prod.splits
      intro!: confined_publish confined_audit dest: product_soft_delete_confined)

end
