(* ===== verification/Inventory.thy ===== *)
theory Inventory
  imports Products
begin

text \<open>
  \<^verbatim>\<open>backend/src/features/inventory\<close>: stock movements. \<open>record_movement\<close> is the transaction
  of \<^verbatim>\<open>stock_repository.rs\<close>, \<open>inventory_record\<close> the service's handler. The last section
  states what it means for stock to be a ledger: a product's stock is what it opened with
  plus its live movements.
\<close>

section \<open>Payloads\<close>

record record_movement_request =
  rm_id :: "uuid option"
  rm_product_id :: uuid
  rm_movement :: string
  rm_quantity :: rat
  rm_unit_cost :: rat
  rm_note :: "string option"
  rm_occurred_at :: "instant option"

definition record_movement_issues ::
  "record_movement_request \<Rightarrow> (string \<times> string option) list" where
  "record_movement_issues r =
     (if rm_movement r = [] then [(''movement'', Some ''is required'')] else [])
     @ (if rm_quantity r < 0 then [(''quantity'', Some ''cannot be negative'')] else [])
     @ (if rm_unit_cost r < 0 then [(''unit_cost'', Some ''cannot be negative'')] else [])"

record movement_view =
  mv_id :: uuid
  mv_product_id :: uuid
  mv_product_name :: string
  mv_movement :: string
  mv_quantity :: quantity
  mv_unit_cost :: money
  mv_note :: "string option"
  mv_occurred_at :: instant

record inventory_valuation =
  iv_product_count :: nat
  iv_low_stock_count :: nat
  iv_stock_value_at_cost :: money
  iv_stock_value_at_selling :: money

section \<open>Repository\<close>

datatype stock_effect = Change quantity | SetTo quantity

record ledger_entry =
  le_store_id :: uuid
  le_movement_id :: uuid
  le_product_id :: uuid
  le_movement :: string
  le_effect :: stock_effect
  le_unit_cost :: money
  le_note :: "string option"
  le_occurred_at :: instant

record applied_movement =
  am_product_name :: string
  am_change :: quantity

fun effect_delta :: "stock_effect \<Rightarrow> quantity \<Rightarrow> quantity" where
  "effect_delta (Change delta) on_hand = delta"
| "effect_delta (SetTo counted) on_hand = counted - on_hand"

definition movement_row_of :: "env \<Rightarrow> ledger_entry \<Rightarrow> quantity \<Rightarrow> movement_row" where
  "movement_row_of e entry delta =
     \<lparr>m_id = le_movement_id entry, m_store = le_store_id entry, m_product = le_product_id entry,
      m_movement = le_movement entry, m_quantity = delta, m_unit_cost = le_unit_cost entry,
      m_note = le_note entry, m_occurred_at = le_occurred_at entry, m_updated_at = e_now e,
      m_deleted_at = None\<rparr>"

definition move_stock :: "env \<Rightarrow> quantity \<Rightarrow> money \<Rightarrow> product_row \<Rightarrow> product_row" where
  "move_stock e delta unit_cost p =
     p\<lparr>p_stock := p_stock p + delta,
       p_cost_price := (if unit_cost > 0 then unit_cost else p_cost_price p),
       p_updated_at := e_now e\<rparr>"

definition record_movement ::
  "env \<Rightarrow> ledger_entry \<Rightarrow> books \<Rightarrow> api_error + (applied_movement option \<times> books)" where
  "record_movement e entry b =
     (case product_row_at b (le_store_id entry) (le_product_id entry) of
        None \<Rightarrow> Inl (NotFound ''product'')
      | Some p \<Rightarrow>
          let delta = effect_delta (le_effect entry) (p_stock p)
          in if \<not> (fits14 delta \<and> fits14 (le_unit_cost entry)) then Inl Internal
             else if find_key m_id (le_movement_id entry) (bk_movements b) \<noteq> None
             then Inr (None, b)
             else if \<not> fits14 (p_stock p + delta) then Inl Internal
             else Inr (Some \<lparr>am_product_name = p_name p, am_change = delta\<rparr>,
               b\<lparr>bk_movements := bk_movements b @ [movement_row_of e entry delta],
                 bk_products := upd_where
                   (\<lambda>r. p_id r = le_product_id entry \<and> p_store r = le_store_id entry)
                   (move_stock e delta (le_unit_cost entry)) (bk_products b)\<rparr>))"

definition list_movements ::
  "books \<Rightarrow> uuid \<Rightarrow> uuid option \<Rightarrow> page_request \<Rightarrow> movement_view list" where
  "list_movements b store_id product_id page =
     (let hit = (\<lambda>m. m_store m = store_id \<and> m_deleted_at m = None
                  \<and> (case product_id of None \<Rightarrow> True | Some p \<Rightarrow> m_product m = p));
          joined = concat (map (\<lambda>m.
             map (\<lambda>p. \<lparr>mv_id = m_id m, mv_product_id = m_product m, mv_product_name = p_name p,
                        mv_movement = m_movement m, mv_quantity = m_quantity m,
                        mv_unit_cost = m_unit_cost m, mv_note = m_note m,
                        mv_occurred_at = m_occurred_at m\<rparr>)
               (filter (\<lambda>p. p_id p = m_product m) (bk_products b)))
             (filter hit (bk_movements b)))
      in page_rows page (sort_key (\<lambda>v. - mv_occurred_at v) joined))"

definition valuation :: "env \<Rightarrow> books \<Rightarrow> uuid \<Rightarrow> api_error + inventory_valuation" where
  "valuation e b store_id =
     (let rows = filter (\<lambda>r. p_store r = store_id \<and> p_deleted_at r = None \<and> p_is_active r)
                   (bk_products b);
          at_cost = e_numeric e (rat_of_int (\<Sum>r\<leftarrow>rows. p_stock r * p_cost_price r) / 1000);
          at_selling = e_numeric e (rat_of_int (\<Sum>r\<leftarrow>rows. p_stock r * p_selling_price r) / 1000)
      in if fits14 at_cost \<and> fits14 at_selling
         then Inr \<lparr>iv_product_count = length rows,
                   iv_low_stock_count = length (filter is_low rows),
                   iv_stock_value_at_cost = at_cost, iv_stock_value_at_selling = at_selling\<rparr>
         else Inl Internal)"

section \<open>Service\<close>

definition inbound_movements :: "string list" where
  "inbound_movements = [''stock_in'']"

definition outbound_movements :: "string list" where
  "outbound_movements = [''stock_out'', ''spoilage'']"

definition movement_effect :: "string \<Rightarrow> quantity \<Rightarrow> api_error + stock_effect" where
  "movement_effect movement quantity =
     (if movement \<in> set inbound_movements then Inr (Change quantity)
      else if movement \<in> set outbound_movements then Inr (Change (- quantity))
      else if movement = ''adjustment'' then Inr (SetTo quantity)
      else Inl (BadRequest (''unsupported stock movement '' @ [CHR 0x27] @ movement
                  @ [CHR 0x27])))"

definition movement_details :: "string \<Rightarrow> quantity \<Rightarrow> applied_movement \<Rightarrow> json" where
  "movement_details movement quantity applied =
     (if movement = ''adjustment''
      then JObj [(''name'', JStr (am_product_name applied)),
                 (''counted'', quantity_json quantity),
                 (''change'', quantity_json (am_change applied))]
      else JObj [(''name'', JStr (am_product_name applied)),
                 (''quantity'', quantity_json quantity)])"

definition after_movement ::
  "env \<Rightarrow> uuid \<Rightarrow> actor \<Rightarrow> uuid \<Rightarrow> string \<Rightarrow> quantity \<Rightarrow> instant \<Rightarrow> applied_movement \<Rightarrow> books
    \<Rightarrow> books" where
  "after_movement e store_id actor product_id movement quantity occurred_at applied b =
     (let b1 = (case action_for_movement movement of
                  None \<Rightarrow> b
                | Some action \<Rightarrow> audit_record e actor
                    (entry_at occurred_at (entry_new e store_id action product_id
                       (movement_details movement quantity applied))) b)
      in publish (event_new e store_id TopicProductChanged (Some product_id))
           (invalidate_store store_id b1))"

definition inventory_record ::
  "env \<Rightarrow> uuid \<Rightarrow> actor \<Rightarrow> record_movement_request \<Rightarrow> books
    \<Rightarrow> api_error + (unit \<times> books)" where
  "inventory_record e store_id actor request b =
     bindR (require actor ManageProducts) (\<lambda>_.
     (let movement = to_lowercase (trim (rm_movement request));
          quantity = quantity_from_f64 e (rm_quantity request)
      in bindR (movement_effect movement quantity) (\<lambda>eff.
         if movement \<noteq> ''adjustment'' \<and> quantity = 0
         then Inl (BadRequest ''quantity must be greater than zero'')
         else
           let unit_cost = (if can actor ViewProfit
                            then money_from_f64 e (rm_unit_cost request) else 0);
               (movement_id, b1) = unwrap_or_new e (rm_id request) b;
               occurred_at = (case rm_occurred_at request of
                                None \<Rightarrow> e_now e | Some t \<Rightarrow> t)
           in bindR (record_movement e
                \<lparr>le_store_id = store_id, le_movement_id = movement_id,
                 le_product_id = rm_product_id request, le_movement = movement,
                 le_effect = eff, le_unit_cost = unit_cost,
                 le_note = trim_nonempty (rm_note request), le_occurred_at = occurred_at\<rparr> b1)
              (\<lambda>(applied, b2). case applied of
                 None \<Rightarrow> Inr ((), b2)
               | Some a \<Rightarrow> Inr ((), after_movement e store_id actor (rm_product_id request)
                                   movement quantity occurred_at a b2)))))"

section \<open>Stock as a ledger\<close>

definition ledger_sum :: "books \<Rightarrow> uuid \<Rightarrow> quantity" where
  "ledger_sum b pid =
     (\<Sum>m\<leftarrow>bk_movements b. if m_product m = pid \<and> m_deleted_at m = None then m_quantity m else 0)"

text \<open>\<open>opening\<close> is what each product was created with.\<close>

definition ledger_balanced :: "(uuid \<Rightarrow> quantity) \<Rightarrow> books \<Rightarrow> bool" where
  "ledger_balanced opening b \<longleftrightarrow>
     (\<forall>p \<in> set (bk_products b). p_stock p = opening (p_id p) + ledger_sum b (p_id p))"

lemma move_stock_simps [simp]:
  "p_id (move_stock e d c p) = p_id p" "p_store (move_stock e d c p) = p_store p"
  "p_stock (move_stock e d c p) = p_stock p + d"
  by (simp_all add: move_stock_def)

lemma movement_row_of_simps [simp]:
  "m_id (movement_row_of e entry d) = le_movement_id entry"
  "m_store (movement_row_of e entry d) = le_store_id entry"
  "m_product (movement_row_of e entry d) = le_product_id entry"
  "m_quantity (movement_row_of e entry d) = d"
  "m_note (movement_row_of e entry d) = le_note entry"
  "m_deleted_at (movement_row_of e entry d) = None"
  by (simp_all add: movement_row_of_def)

lemma record_movementE:
  assumes "record_movement e entry b = Inr (applied, b')"
  obtains (replayed) p where "applied = None" "b' = b"
      "product_row_at b (le_store_id entry) (le_product_id entry) = Some p"
      "find_key m_id (le_movement_id entry) (bk_movements b) \<noteq> None"
  | (moved) p delta where
      "product_row_at b (le_store_id entry) (le_product_id entry) = Some p"
      "delta = effect_delta (le_effect entry) (p_stock p)"
      "applied = Some \<lparr>am_product_name = p_name p, am_change = delta\<rparr>"
      "le_movement_id entry \<notin> m_id ` set (bk_movements b)"
      "b' = b\<lparr>bk_movements := bk_movements b @ [movement_row_of e entry delta],
              bk_products := upd_where
                (\<lambda>r. p_id r = le_product_id entry \<and> p_store r = le_store_id entry)
                (move_stock e delta (le_unit_cost entry)) (bk_products b)\<rparr>"
  using assms
  by (auto simp: record_movement_def Let_def find_key_None_iff split: option.splits if_splits)

lemma record_movement_confined:
  assumes "record_movement e entry b = Inr (applied, b')"
  shows "confined (le_store_id entry) b b'"
  using assms
proof (cases rule: record_movementE)
  case (replayed p)
  then show ?thesis by simp
next
  case (moved p delta)
  then show ?thesis
    by (auto simp: confined_def books_ok_def keys_unique_def items_have_sales_def same_store_def
        sales_of_def items_of_def map_upd_where intro!: filter_upd_where_other)
qed

lemma record_movement_balanced:
  assumes "record_movement e entry b = Inr (applied, b')" and ok: "keys_unique b"
    and bal: "ledger_balanced opening b"
  shows "ledger_balanced opening b'"
  using assms(1)
proof (cases rule: record_movementE)
  case (replayed p)
  then show ?thesis using bal by simp
next
  case (moved p delta)
  let ?pid = "le_product_id entry"
  have p: "p \<in> set (bk_products b)" "p_id p = ?pid" "p_store p = le_store_id entry"
    using moved(1) by (auto dest: product_row_atD)
  have store: "p_store r = le_store_id entry"
    if "r \<in> set (bk_products b)" "p_id r = ?pid" for r
  proof -
    have d: "distinct (map p_id (bk_products b))" using ok by (simp add: keys_unique_def)
    show ?thesis
      using find_key_in_set[OF d that(1)] find_key_in_set[OF d p(1)] that(2) p(2,3) by simp
  qed
  have sums: "ledger_sum b' q = ledger_sum b q + (if q = ?pid then delta else 0)" for q
    using moved(5) by (simp add: ledger_sum_def)
  let ?P = "\<lambda>r. p_id r = ?pid \<and> p_store r = le_store_id entry"
  have "p_stock r' = opening (p_id r') + ledger_sum b' (p_id r')" if "r' \<in> set (bk_products b')" for r'
  proof -
    have "r' \<in> set (upd_where ?P (move_stock e delta (le_unit_cost entry)) (bk_products b))"
      using that moved(5) by simp
    then obtain r where r: "r \<in> set (bk_products b)"
      "r' = (if ?P r then move_stock e delta (le_unit_cost entry) r else r)"
      by (rule in_upd_whereE)
    have "?P r = (p_id r = ?pid)" using store[OF r(1)] by blast
    moreover have "p_stock r = opening (p_id r) + ledger_sum b (p_id r)"
      using bal r(1) by (auto simp: ledger_balanced_def)
    ultimately show ?thesis using r(2) sums by (cases "p_id r = ?pid") simp_all
  qed
  then show ?thesis by (simp add: ledger_balanced_def)
qed

lemma inventory_recordE:
  assumes "inventory_record e st actor request b = Inr (u, b')"
  obtains eff mid b1 applied b2 where
    "can actor ManageProducts"
    "movement_effect (to_lowercase (trim (rm_movement request)))
       (quantity_from_f64 e (rm_quantity request)) = Inr eff"
    "unwrap_or_new e (rm_id request) b = (mid, b1)"
    "record_movement e
       \<lparr>le_store_id = st, le_movement_id = mid, le_product_id = rm_product_id request,
        le_movement = to_lowercase (trim (rm_movement request)), le_effect = eff,
        le_unit_cost = (if can actor ViewProfit
                        then money_from_f64 e (rm_unit_cost request) else 0),
        le_note = trim_nonempty (rm_note request),
        le_occurred_at = (case rm_occurred_at request of None \<Rightarrow> e_now e | Some t \<Rightarrow> t)\<rparr> b1
       = Inr (applied, b2)"
    "b' = (case applied of None \<Rightarrow> b2
           | Some a \<Rightarrow> after_movement e st actor (rm_product_id request)
               (to_lowercase (trim (rm_movement request)))
               (quantity_from_f64 e (rm_quantity request))
               (case rm_occurred_at request of None \<Rightarrow> e_now e | Some t \<Rightarrow> t) a b2)"
  using assms
  by (auto simp: inventory_record_def Let_def split: if_splits prod.splits option.splits)

lemma after_movement_frame [simp]:
  "bk_products (after_movement e st actor pid mv q t a b) = bk_products b"
  "bk_movements (after_movement e st actor pid mv q t a b) = bk_movements b"
  "bk_sales (after_movement e st actor pid mv q t a b) = bk_sales b"
  "bk_items (after_movement e st actor pid mv q t a b) = bk_items b"
  by (auto simp: after_movement_def Let_def split: option.split)

lemma ledger_cong:
  "bk_products b' = bk_products b \<Longrightarrow> bk_movements b' = bk_movements b \<Longrightarrow>
     ledger_balanced opening b' = ledger_balanced opening b"
  by (simp add: ledger_balanced_def ledger_sum_def)

lemma inventory_record_confined:
  assumes "inventory_record e st actor request b = Inr (u, b')"
  shows "confined st b b'"
  using assms
proof (cases rule: inventory_recordE)
  case (1 eff mid b1 applied b2)
  have "confined st b b2"
    using unwrap_or_new_confined[OF 1(3)] record_movement_confined[OF 1(4)]
    by (auto intro: confined_trans)
  then show ?thesis
    using 1(5) by (auto simp: after_movement_def Let_def
        intro!: confined_publish confined_audit confined_invalidate split: option.split)
qed

lemma inventory_record_balanced:
  assumes "inventory_record e st actor request b = Inr (u, b')" and "keys_unique b"
    and "ledger_balanced opening b"
  shows "ledger_balanced opening b'"
  using assms(1)
proof (cases rule: inventory_recordE)
  case (1 eff mid b1 applied b2)
  obtain n where b1: "b1 = b\<lparr>bk_drawn := n\<rparr>" using 1(3) unwrap_or_new_frame by blast
  then have "keys_unique b1" "ledger_balanced opening b1"
    using assms(2,3) ledger_cong[of b1 b] by (simp_all add: keys_unique_def)
  then have "ledger_balanced opening b2" using 1(4) record_movement_balanced by blast
  then show ?thesis using 1(5) ledger_cong[of b' b2] by (auto split: option.splits)
qed

end
