(* ===== verification/Sales.thy ===== *)
theory Sales
  imports Inventory
begin

text \<open>
  \<^verbatim>\<open>backend/src/features/sales\<close>: recording, reading and voiding sales. \<open>record_sale\<close> and
  \<open>void_sale\<close> are the two transactions of \<^verbatim>\<open>sale_repository.rs\<close>, split into the read of
  an existing sale (\<open>sale_lookup\<close>) and the writes that follow it (\<open>sale_write\<close>), which two
  pushes of one sale can interleave; \<open>sale_record\<close> and \<open>sale_void\<close> are the service.
\<close>

section \<open>Payloads\<close>

record sale_line_request =
  sl_id :: "uuid option"
  sl_product_id :: "uuid option"
  sl_product_name :: "string option"
  sl_quantity :: rat
  sl_unit_price :: "rat option"
  sl_unit_cost :: "rat option"

record record_sale_request =
  rs_id :: "uuid option"
  rs_payment_method :: "string option"
  rs_discount_amount :: rat
  rs_note :: "string option"
  rs_occurred_at :: "instant option"
  rs_items :: "sale_line_request list"

definition record_sale_issues :: "record_sale_request \<Rightarrow> (string \<times> string option) list" where
  "record_sale_issues r =
     (if rs_discount_amount r < 0 then [(''discount_amount'', Some ''cannot be negative'')] else [])
     @ (if rs_items r = [] then [(''items'', Some ''must contain at least one line'')] else [])
     @ concat (map (\<lambda>l. if sl_quantity l \<le> 0
                         then [(''quantity'', Some ''must be greater than zero'')] else [])
         (rs_items r))"

record sale_view =
  sv_id :: uuid
  sv_reference :: "string option"
  sv_payment_method :: string
  sv_total_amount :: money
  sv_cost_amount :: money
  sv_discount_amount :: money
  sv_note :: "string option"
  sv_occurred_at :: instant

definition profit_amount :: "sale_view \<Rightarrow> money" where
  "profit_amount v = sv_total_amount v - sv_cost_amount v"

record sale_detail =
  sd_sale :: sale_view
  sd_profit_amount :: money
  sd_items :: "item_row list"

definition sale_detail_new :: "sale_view \<Rightarrow> item_row list \<Rightarrow> sale_detail" where
  "sale_detail_new sale items =
     \<lparr>sd_sale = sale, sd_profit_amount = profit_amount sale, sd_items = items\<rparr>"

definition without_costs :: "sale_detail \<Rightarrow> sale_detail" where
  "without_costs d =
     \<lparr>sd_sale = (sd_sale d)\<lparr>sv_cost_amount := 0\<rparr>, sd_profit_amount = 0,
      sd_items = map (\<lambda>i. i\<lparr>i_unit_cost := 0\<rparr>) (sd_items d)\<rparr>"

record sale_filter =
  sf_from :: "instant option"
  sf_to :: "instant option"
  sf_payment_method :: "string option"

section \<open>Repository\<close>

text \<open>\<open>ps_cost_amount\<close> is exact: a price in centavos times a quantity in thousandths, so it
  counts units of 0.00001 peso until Postgres rounds it into its column.\<close>

record prepared_line =
  pl_id :: uuid
  pl_product_id :: "uuid option"
  pl_product_name :: string
  pl_quantity :: quantity
  pl_unit_price :: money
  pl_unit_cost :: money
  pl_line_total :: money

record prepared_sale =
  ps_id :: uuid
  ps_store_id :: uuid
  ps_payment_method :: string
  ps_total_amount :: money
  ps_cost_amount :: int
  ps_discount_amount :: money
  ps_note :: "string option"
  ps_occurred_at :: instant
  ps_lines :: "prepared_line list"

record recorder =
  rc_staff_id :: "uuid option"
  rc_is_owner :: bool

record recorded_sale =
  rd_sale :: sale_view
  rd_created :: bool

definition view_sale :: "sale_row \<Rightarrow> sale_view" where
  "view_sale r =
     \<lparr>sv_id = s_id r, sv_reference = s_reference r, sv_payment_method = s_payment_method r,
      sv_total_amount = s_total_amount r, sv_cost_amount = s_cost_amount r,
      sv_discount_amount = s_discount_amount r, sv_note = s_note r,
      sv_occurred_at = s_occurred_at r\<rparr>"

definition sale_note :: "env \<Rightarrow> uuid \<Rightarrow> string" where
  "sale_note e sale_id = ''sale '' @ e_uuid_text e sale_id"

text \<open>The lines of a sale that the UPDATE joins to one product, and the one it applies.\<close>

definition joined_lines :: "books \<Rightarrow> uuid \<Rightarrow> uuid \<Rightarrow> item_row list" where
  "joined_lines b sale_id product_id =
     filter (\<lambda>i. i_sale i = sale_id \<and> i_product i = Some product_id) (bk_items b)"

definition restored_quantity :: "env \<Rightarrow> books \<Rightarrow> uuid \<Rightarrow> uuid \<Rightarrow> quantity" where
  "restored_quantity e b sale_id product_id =
     (let xs = joined_lines b sale_id product_id
      in i_quantity (xs ! (e_join_pick e product_id (length xs) mod length xs)))"

definition restore_stock_for :: "env \<Rightarrow> uuid \<Rightarrow> uuid \<Rightarrow> books \<Rightarrow> api_error + books" where
  "restore_stock_for e sale_id store_id b =
     (let hit = (\<lambda>p. p_store p = store_id \<and> joined_lines b sale_id (p_id p) \<noteq> []);
          rows = upd_where hit
            (\<lambda>p. p\<lparr>p_stock := p_stock p + restored_quantity e b sale_id (p_id p),
                   p_updated_at := e_now e\<rparr>) (bk_products b)
      in if list_all (\<lambda>p. fits14 (p_stock p + restored_quantity e b sale_id (p_id p)))
              (filter hit (bk_products b))
         then Inr (b\<lparr>bk_products := rows\<rparr>) else Inl Internal)"

definition retire_movements_for :: "env \<Rightarrow> uuid \<Rightarrow> uuid \<Rightarrow> books \<Rightarrow> books" where
  "retire_movements_for e sale_id store_id b =
     b\<lparr>bk_movements := upd_where
          (\<lambda>m. m_store m = store_id \<and> m_note m = Some (sale_note e sale_id)
               \<and> m_deleted_at m = None)
          (\<lambda>m. m\<lparr>m_deleted_at := Some (e_now e), m_updated_at := e_now e\<rparr>)
          (bk_movements b)\<rparr>"

datatype sale_lookup = FirstRecording | AlreadyVoided sale_view | Replacing

definition lookup_sale :: "prepared_sale \<Rightarrow> recorder \<Rightarrow> books \<Rightarrow> api_error + sale_lookup" where
  "lookup_sale sale by b =
     (case find_key s_id (ps_id sale) (bk_sales b) of
        None \<Rightarrow> Inr FirstRecording
      | Some existing \<Rightarrow>
          if s_store existing \<noteq> ps_store_id sale then Inl foreign_id
          else if s_deleted_at existing \<noteq> None then Inr (AlreadyVoided (view_sale existing))
          else if \<not> rc_is_owner by \<and> s_recorded_by existing \<noteq> rc_staff_id by
          then Inl (Forbidden ''only the owner can change a sale someone else recorded'')
          else Inr Replacing)"

definition sale_row_of :: "env \<Rightarrow> prepared_sale \<Rightarrow> recorder \<Rightarrow> sale_row" where
  "sale_row_of e sale by =
     \<lparr>s_id = ps_id sale, s_store = ps_store_id sale, s_reference = None,
      s_payment_method = ps_payment_method sale, s_total_amount = ps_total_amount sale,
      s_cost_amount = e_numeric e (rat_of_int (ps_cost_amount sale) / 1000),
      s_discount_amount = ps_discount_amount sale, s_note = ps_note sale,
      s_occurred_at = ps_occurred_at sale, s_recorded_by = rc_staff_id by,
      s_updated_at = e_now e, s_deleted_at = None\<rparr>"

definition sale_merge :: "sale_row \<Rightarrow> sale_row \<Rightarrow> sale_row" where
  "sale_merge old new =
     old\<lparr>s_payment_method := s_payment_method new, s_total_amount := s_total_amount new,
         s_cost_amount := s_cost_amount new, s_discount_amount := s_discount_amount new,
         s_note := s_note new, s_occurred_at := s_occurred_at new,
         s_updated_at := s_updated_at new\<rparr>"

definition item_row_of :: "uuid \<Rightarrow> prepared_line \<Rightarrow> item_row" where
  "item_row_of sale_id line =
     \<lparr>i_id = pl_id line, i_sale = sale_id, i_product = pl_product_id line,
      i_product_name = pl_product_name line, i_quantity = pl_quantity line,
      i_unit_price = pl_unit_price line, i_unit_cost = pl_unit_cost line,
      i_line_total = pl_line_total line\<rparr>"

definition deduct_stock :: "env \<Rightarrow> quantity \<Rightarrow> product_row \<Rightarrow> product_row" where
  "deduct_stock e q p = p\<lparr>p_stock := p_stock p - q, p_updated_at := e_now e\<rparr>"

definition sale_movement :: "env \<Rightarrow> prepared_sale \<Rightarrow> prepared_line \<Rightarrow> uuid \<Rightarrow> uuid \<Rightarrow> movement_row" where
  "sale_movement e sale line product_id movement_id =
     \<lparr>m_id = movement_id, m_store = ps_store_id sale, m_product = product_id,
      m_movement = ''sale'', m_quantity = - pl_quantity line, m_unit_cost = pl_unit_cost line,
      m_note = Some (sale_note e (ps_id sale)), m_occurred_at = ps_occurred_at sale,
      m_updated_at = e_now e, m_deleted_at = None\<rparr>"

text \<open>One turn of the loop over the lines. A line whose id is taken, or whose product does not
  exist, breaks a constraint and takes the whole transaction back.\<close>

definition write_line ::
  "env \<Rightarrow> prepared_sale \<Rightarrow> prepared_line \<Rightarrow> books \<Rightarrow> api_error + books" where
  "write_line e sale line b =
     (if \<not> (fits14 (pl_quantity line) \<and> fits14 (pl_unit_price line)
             \<and> fits14 (pl_unit_cost line) \<and> fits14 (pl_line_total line))
         \<or> find_key i_id (pl_id line) (bk_items b) \<noteq> None
      then Inl Internal
      else
        let b1 = b\<lparr>bk_items := bk_items b @ [item_row_of (ps_id sale) line]\<rparr>
        in case pl_product_id line of
             None \<Rightarrow> Inr b1
           | Some product_id \<Rightarrow>
               let hit = (\<lambda>p. p_id p = product_id \<and> p_store p = ps_store_id sale);
                   movement_id = e_uuid e (bk_drawn b1)
               in if find_key p_id product_id (bk_products b1) = None
                     \<or> \<not> list_all (\<lambda>p. fits14 (p_stock p - pl_quantity line))
                           (filter hit (bk_products b1))
                     \<or> find_key m_id movement_id (bk_movements b1) \<noteq> None
                  then Inl Internal
                  else Inr (b1\<lparr>bk_products := upd_where hit (deduct_stock e (pl_quantity line))
                                  (bk_products b1),
                               bk_movements := bk_movements b1
                                  @ [sale_movement e sale line product_id movement_id],
                               bk_drawn := Suc (bk_drawn b1)\<rparr>))"

fun write_lines :: "env \<Rightarrow> prepared_sale \<Rightarrow> prepared_line list \<Rightarrow> books \<Rightarrow> api_error + books" where
  "write_lines e sale [] b = Inr b"
| "write_lines e sale (line # lines) b =
     bindR (write_line e sale line b) (write_lines e sale lines)"

definition sale_write ::
  "env \<Rightarrow> prepared_sale \<Rightarrow> recorder \<Rightarrow> books \<Rightarrow> api_error + (sale_view \<times> books)" where
  "sale_write e sale by b =
     (let new = sale_row_of e sale by
      in if \<not> (fits14 (s_total_amount new) \<and> fits14 (s_cost_amount new)
                \<and> fits14 (s_discount_amount new)) then Inl Internal
         else case upsert s_id (\<lambda>_ _. True) sale_merge new (bk_sales b) of
             (None, _) \<Rightarrow> Inl (error_of_sql RowNotFound)
           | (Some (stored, _), rows) \<Rightarrow>
               bindR (write_lines e sale (ps_lines sale)
                   (b\<lparr>bk_sales := rows,
                      bk_items := filter (\<lambda>i. i_sale i \<noteq> ps_id sale) (bk_items b)\<rparr>))
                 (\<lambda>b2. Inr (view_sale stored, b2)))"

definition record_sale ::
  "env \<Rightarrow> prepared_sale \<Rightarrow> recorder \<Rightarrow> books \<Rightarrow> api_error + (recorded_sale \<times> books)" where
  "record_sale e sale by b =
     bindR (lookup_sale sale by b) (\<lambda>found. case found of
        AlreadyVoided stored \<Rightarrow> Inr (\<lparr>rd_sale = stored, rd_created = False\<rparr>, b)
      | FirstRecording \<Rightarrow>
          bindR (sale_write e sale by b)
            (\<lambda>(v, b'). Inr (\<lparr>rd_sale = v, rd_created = True\<rparr>, b'))
      | Replacing \<Rightarrow>
          bindR (restore_stock_for e (ps_id sale) (ps_store_id sale) b) (\<lambda>b1.
          bindR (sale_write e sale by
                   (retire_movements_for e (ps_id sale) (ps_store_id sale) b1))
            (\<lambda>(v, b'). Inr (\<lparr>rd_sale = v, rd_created = False\<rparr>, b'))))"

definition sale_list ::
  "books \<Rightarrow> uuid \<Rightarrow> sale_filter \<Rightarrow> page_request \<Rightarrow> sale_view list" where
  "sale_list b store_id flt page =
     (let hit = (\<lambda>r. s_store r = store_id \<and> s_deleted_at r = None
             \<and> (case sf_from flt of None \<Rightarrow> True | Some t \<Rightarrow> t \<le> s_occurred_at r)
             \<and> (case sf_to flt of None \<Rightarrow> True | Some t \<Rightarrow> s_occurred_at r < t)
             \<and> (case sf_payment_method flt of None \<Rightarrow> True
                | Some m \<Rightarrow> s_payment_method r = m))
      in map view_sale
           (page_rows page (sort_key (\<lambda>r. - s_occurred_at r) (filter hit (bk_sales b)))))"

definition sale_find :: "books \<Rightarrow> uuid \<Rightarrow> uuid \<Rightarrow> sale_view option" where
  "sale_find b store_id sale_id =
     map_option view_sale
       (find (\<lambda>r. s_store r = store_id \<and> s_id r = sale_id \<and> s_deleted_at r = None)
         (bk_sales b))"

definition lines_for :: "env \<Rightarrow> books \<Rightarrow> uuid \<Rightarrow> item_row list" where
  "lines_for e b sale_id =
     sort_key (\<lambda>i. e_collate e (i_product_name i))
       (filter (\<lambda>i. i_sale i = sale_id) (bk_items b))"

definition sale_live :: "sale_row \<Rightarrow> bool" where
  "sale_live r = (s_deleted_at r = None)"

definition bury_sale :: "instant \<Rightarrow> sale_row \<Rightarrow> sale_row" where
  "bury_sale now r = r\<lparr>s_deleted_at := Some now, s_updated_at := now\<rparr>"

definition void_sale ::
  "env \<Rightarrow> uuid \<Rightarrow> uuid \<Rightarrow> books \<Rightarrow> api_error + (sale_view option \<times> books)" where
  "void_sale e store_id sale_id b =
     (case soft_delete s_id s_store sale_live (bury_sale (e_now e)) store_id sale_id (bk_sales b)
      of (None, _) \<Rightarrow> Inr (None, b)
       | (Some voided, rows) \<Rightarrow>
           bindR (restore_stock_for e sale_id store_id (b\<lparr>bk_sales := rows\<rparr>))
             (\<lambda>b1. Inr (Some (view_sale voided), retire_movements_for e sale_id store_id b1)))"

section \<open>Service\<close>

definition allowed_payment_methods :: "string list" where
  "allowed_payment_methods = [''cash'', ''gcash'', ''maya'', ''bank_transfer'', ''utang'']"

definition quick_sale_label :: string where
  "quick_sale_label = ''Quick sale''"

definition normalise_payment_method :: "string option \<Rightarrow> api_error + string" where
  "normalise_payment_method raw =
     (let m = to_lowercase (case trim_nonempty raw of None \<Rightarrow> ''cash'' | Some m \<Rightarrow> m)
      in if m \<in> set allowed_payment_methods then Inr m
         else Inl (BadRequest (''unsupported payment method '' @ [CHR 0x27] @ m
                     @ [CHR 0x27])))"

definition round_money :: "env \<Rightarrow> int \<Rightarrow> money" where
  "round_money e value = e_round e (rat_of_int value / 1000)"

definition prepare_line ::
  "env \<Rightarrow> uuid \<Rightarrow> sale_line_request \<Rightarrow> string \<Rightarrow> money \<Rightarrow> money \<Rightarrow> prepared_line" where
  "prepare_line e line_id item name unit_price unit_cost =
     (let quantity = quantity_from_f64 e (sl_quantity item)
      in \<lparr>pl_id = line_id, pl_product_id = sl_product_id item, pl_product_name = name,
          pl_quantity = quantity, pl_unit_price = unit_price, pl_unit_cost = unit_cost,
          pl_line_total = round_money e (unit_price * quantity)\<rparr>)"

definition resolve_line ::
  "env \<Rightarrow> uuid \<Rightarrow> sale_line_request \<Rightarrow> books \<Rightarrow> api_error + (prepared_line \<times> books)" where
  "resolve_line e store_id item b =
     bindR (case sl_product_id item of
         Some product_id \<Rightarrow>
           bindR (ok_or (product_find b store_id product_id) (NotFound ''product'')) (\<lambda>product.
             Inr (pv_name product,
                  (case sl_unit_price item of Some v \<Rightarrow> money_from_f64 e v
                   | None \<Rightarrow> pv_selling_price product),
                  (case sl_unit_cost item of Some v \<Rightarrow> money_from_f64 e v
                   | None \<Rightarrow> pv_cost_price product)))
       | None \<Rightarrow>
           bindR (ok_or (map_option (money_from_f64 e) (sl_unit_price item))
                    (BadRequest ''a quick sale needs an amount'')) (\<lambda>price.
             Inr ((case trim_nonempty (sl_product_name item) of
                     None \<Rightarrow> quick_sale_label | Some n \<Rightarrow> n),
                  price,
                  (case sl_unit_cost item of Some v \<Rightarrow> money_from_f64 e v | None \<Rightarrow> 0))))
     (\<lambda>(name, unit_price, unit_cost).
        let (line_id, b1) = unwrap_or_new e (sl_id item) b
        in Inr (prepare_line e line_id item name unit_price unit_cost, b1))"

fun resolve_lines ::
  "env \<Rightarrow> uuid \<Rightarrow> sale_line_request list \<Rightarrow> books \<Rightarrow> api_error + (prepared_line list \<times> books)" where
  "resolve_lines e store_id [] b = Inr ([], b)"
| "resolve_lines e store_id (item # items) b =
     bindR (resolve_line e store_id item b) (\<lambda>(line, b1).
     bindR (resolve_lines e store_id items b1) (\<lambda>(lines, b2). Inr (line # lines, b2)))"

definition sale_gross :: "prepared_line list \<Rightarrow> money" where
  "sale_gross lines = (\<Sum>l\<leftarrow>lines. pl_line_total l)"

definition sale_cost :: "prepared_line list \<Rightarrow> int" where
  "sale_cost lines = (\<Sum>l\<leftarrow>lines. pl_unit_cost l * pl_quantity l)"

definition drop_costs :: "actor \<Rightarrow> sale_line_request list \<Rightarrow> sale_line_request list" where
  "drop_costs actor items =
     (if can actor ViewProfit then items else map (\<lambda>i. i\<lparr>sl_unit_cost := None\<rparr>) items)"

definition prepare_sale ::
  "env \<Rightarrow> uuid \<Rightarrow> record_sale_request \<Rightarrow> uuid \<Rightarrow> string \<Rightarrow> prepared_line list \<Rightarrow> prepared_sale" where
  "prepare_sale e store_id request sale_id payment_method lines =
     (let gross = sale_gross lines;
          discount = min (money_from_f64 e (rs_discount_amount request)) gross
      in \<lparr>ps_id = sale_id, ps_store_id = store_id, ps_payment_method = payment_method,
          ps_total_amount = gross - discount, ps_cost_amount = sale_cost lines,
          ps_discount_amount = discount, ps_note = trim_nonempty (rs_note request),
          ps_occurred_at = (case rs_occurred_at request of None \<Rightarrow> e_now e | Some t \<Rightarrow> t),
          ps_lines = lines\<rparr>)"

definition announce_low_stock :: "env \<Rightarrow> uuid \<Rightarrow> books \<Rightarrow> books" where
  "announce_low_stock e store_id b =
     (let low = list_low_stock e b store_id
      in if low = [] then b
         else publish (with_message
                 (''Running low: '' @ join_comma (map pv_name (take 3 low)))
                 (event_new e store_id TopicStockLow None)) b)"

definition sale_recorder :: "actor \<Rightarrow> recorder" where
  "sale_recorder actor = \<lparr>rc_staff_id = staff_id actor, rc_is_owner = is_owner actor\<rparr>"

definition after_sale ::
  "env \<Rightarrow> uuid \<Rightarrow> actor \<Rightarrow> instant \<Rightarrow> recorded_sale \<Rightarrow> nat \<Rightarrow> books \<Rightarrow> books" where
  "after_sale e store_id actor occurred_at recorded item_count b =
     (let stored = rd_sale recorded;
          b1 = (if rd_created recorded
                then audit_record e actor
                  (entry_at occurred_at (entry_new e store_id SaleRecorded (sv_id stored)
                     (JObj [(''total'', money_json (sv_total_amount stored)),
                            (''items'', JNum (of_nat item_count)),
                            (''payment_method'', JStr (sv_payment_method stored))]))) b
                else b)
      in announce_low_stock e store_id
           (publish (event_new e store_id TopicSaleRecorded (Some (sv_id stored)))
             (invalidate_store store_id b1)))"

definition sale_record ::
  "env \<Rightarrow> uuid \<Rightarrow> actor \<Rightarrow> record_sale_request \<Rightarrow> books
    \<Rightarrow> api_error + (sale_detail \<times> books)" where
  "sale_record e store_id actor request b =
     bindR (normalise_payment_method (rs_payment_method request)) (\<lambda>payment_method.
     let (sale_id, b1) = unwrap_or_new e (rs_id request) b
     in bindR (resolve_lines e store_id (drop_costs actor (rs_items request)) b1)
          (\<lambda>(lines, b2).
        let prepared = prepare_sale e store_id request sale_id payment_method lines
        in bindR (record_sale e prepared (sale_recorder actor) b2) (\<lambda>(recorded, b3).
             let items = lines_for e b3 (sv_id (rd_sale recorded))
             in Inr (sale_detail_new (rd_sale recorded) items,
                  after_sale e store_id actor (ps_occurred_at prepared) recorded
                    (length items) b3))))"

definition sale_detail_of ::
  "env \<Rightarrow> books \<Rightarrow> uuid \<Rightarrow> uuid \<Rightarrow> api_error + sale_detail" where
  "sale_detail_of e b store_id sale_id =
     bindR (ok_or (sale_find b store_id sale_id) (NotFound ''sale'')) (\<lambda>sale.
       Inr (sale_detail_new sale (lines_for e b sale_id)))"

definition sale_void ::
  "env \<Rightarrow> uuid \<Rightarrow> actor \<Rightarrow> uuid \<Rightarrow> books \<Rightarrow> api_error + (unit \<times> books)" where
  "sale_void e store_id actor sale_id b =
     bindR (require actor DeleteRecords) (\<lambda>_.
     bindR (void_sale e store_id sale_id b) (\<lambda>(voided, b1).
     bindR (ok_or voided (NotFound ''sale'')) (\<lambda>v.
       Inr ((), publish (event_new e store_id TopicSaleVoided (Some sale_id))
         (invalidate_store store_id
           (audit_record e actor
              (entry_new e store_id SaleVoided sale_id
                 (JObj [(''total'', money_json (sv_total_amount v)),
                        (''sold_at'', instant_json (sv_occurred_at v))])) b1))))))"

section \<open>Handlers\<close>

definition handle_record_sale ::
  "env \<Rightarrow> uuid \<Rightarrow> actor \<Rightarrow> string + record_sale_request \<Rightarrow> books
    \<Rightarrow> api_error + (sale_detail \<times> books)" where
  "handle_record_sale e store_id actor body b =
     bindR (validated_json body record_sale_issues) (\<lambda>request.
     bindR (sale_record e store_id actor request b) (\<lambda>(sale, b').
       Inr (if can actor ViewProfit then sale else without_costs sale, b')))"

definition handle_list_sales ::
  "books \<Rightarrow> uuid \<Rightarrow> actor \<Rightarrow> sale_filter \<Rightarrow> page_request \<Rightarrow> api_error + sale_view list" where
  "handle_list_sales b store_id actor flt page =
     bindR (require actor ViewProfit) (\<lambda>_. Inr (sale_list b store_id flt page))"

definition handle_get_sale ::
  "env \<Rightarrow> books \<Rightarrow> uuid \<Rightarrow> actor \<Rightarrow> uuid \<Rightarrow> api_error + sale_detail" where
  "handle_get_sale e b store_id actor sale_id =
     bindR (require actor ViewProfit) (\<lambda>_. sale_detail_of e b store_id sale_id)"

section \<open>A sale stays in its store\<close>

interpretation sale_upserts:
  upsert_table s_id s_store "\<lambda>old new. s_store old = s_store new" sale_merge
  by unfold_locales (simp_all add: sale_merge_def)

interpretation sale_deletes: soft_delete_table s_id s_store sale_live "bury_sale now" for now
  by unfold_locales (simp_all add: bury_sale_def sale_live_def)

lemma sale_row_of_simps [simp]:
  "s_id (sale_row_of e sale by) = ps_id sale" "s_store (sale_row_of e sale by) = ps_store_id sale"
  "s_deleted_at (sale_row_of e sale by) = None"
  by (simp_all add: sale_row_of_def)

lemma sale_merge_simps [simp]:
  "s_id (sale_merge old new) = s_id old" "s_store (sale_merge old new) = s_store old"
  "s_deleted_at (sale_merge old new) = s_deleted_at old"
  "s_recorded_by (sale_merge old new) = s_recorded_by old"
  by (simp_all add: sale_merge_def)

lemma item_row_of_simps [simp]:
  "i_id (item_row_of sid line) = pl_id line" "i_sale (item_row_of sid line) = sid"
  "i_product (item_row_of sid line) = pl_product_id line"
  "i_quantity (item_row_of sid line) = pl_quantity line"
  by (simp_all add: item_row_of_def)

lemma sale_movement_simps [simp]:
  "m_id (sale_movement e sale line pid mid) = mid"
  "m_store (sale_movement e sale line pid mid) = ps_store_id sale"
  "m_product (sale_movement e sale line pid mid) = pid"
  "m_quantity (sale_movement e sale line pid mid) = - pl_quantity line"
  "m_note (sale_movement e sale line pid mid) = Some (sale_note e (ps_id sale))"
  "m_deleted_at (sale_movement e sale line pid mid) = None"
  by (simp_all add: sale_movement_def)

lemma deduct_stock_simps [simp]:
  "p_id (deduct_stock e q p) = p_id p" "p_store (deduct_stock e q p) = p_store p"
  "p_stock (deduct_stock e q p) = p_stock p - q"
  by (simp_all add: deduct_stock_def)

text \<open>The two shapes of a written line.\<close>

lemma write_lineE:
  assumes "write_line e sale line b = Inr b'"
  obtains (untracked) "pl_product_id line = None" "pl_id line \<notin> i_id ` set (bk_items b)"
      "b' = b\<lparr>bk_items := bk_items b @ [item_row_of (ps_id sale) line]\<rparr>"
  | (tracked) pid mid n where "pl_product_id line = Some pid"
      "pl_id line \<notin> i_id ` set (bk_items b)"
      "pid \<in> p_id ` set (bk_products b)" "mid \<notin> m_id ` set (bk_movements b)"
      "b' = b\<lparr>bk_items := bk_items b @ [item_row_of (ps_id sale) line],
              bk_products := upd_where (\<lambda>p. p_id p = pid \<and> p_store p = ps_store_id sale)
                 (deduct_stock e (pl_quantity line)) (bk_products b),
              bk_movements := bk_movements b @ [sale_movement e sale line pid mid],
              bk_drawn := n\<rparr>"
  using assms
  by (auto simp: write_line_def Let_def find_key_None_iff split: if_splits option.splits)

lemma write_line_frame:
  "write_line e sale line b = Inr b' \<Longrightarrow> bk_sales b' = bk_sales b"
  by (erule write_lineE) auto

lemma confined_sale_products:
  "confined st b (b\<lparr>bk_products := upd_where (\<lambda>p. P p \<and> p_store p = st) f (bk_products b)\<rparr>)"
  if "\<And>p. p_id (f p) = p_id p" "\<And>p. p_store (f p) = p_store p"
  by (rule confined_products) (auto simp: map_upd_where that intro!: filter_upd_where_other)

lemma write_line_confined:
  assumes "write_line e sale line b = Inr b'" and "sale_in (ps_store_id sale) (ps_id sale) b"
  shows "confined (ps_store_id sale) b b'"
  using assms(1)
proof (cases rule: write_lineE)
  case untracked
  then show ?thesis using confined_items[OF assms(2)] by auto
next
  case (tracked pid mid n)
  define b1 where "b1 = b\<lparr>bk_items := bk_items b @ [item_row_of (ps_id sale) line]\<rparr>"
  define b2 where "b2 = b1\<lparr>bk_products :=
    upd_where (\<lambda>p. p_id p = pid \<and> p_store p = ps_store_id sale)
      (deduct_stock e (pl_quantity line)) (bk_products b1)\<rparr>"
  define b3 where
    "b3 = b2\<lparr>bk_movements := bk_movements b2 @ [sale_movement e sale line pid mid]\<rparr>"
  have "confined (ps_store_id sale) b b1"
    unfolding b1_def using confined_items[OF assms(2)] tracked(2) by auto
  moreover have "confined (ps_store_id sale) b1 b2"
    unfolding b2_def by (rule confined_sale_products) simp_all
  moreover have "confined (ps_store_id sale) b2 b3"
    unfolding b3_def using tracked(4) by (auto intro!: confined_movements simp: b1_def b2_def)
  moreover have "confined (ps_store_id sale) b3 b'"
  proof -
    have "b' = b3\<lparr>bk_drawn := n\<rparr>" using tracked(5) by (simp add: b1_def b2_def b3_def)
    then show ?thesis using confined_draw by simp
  qed
  ultimately show ?thesis by (blast intro: confined_trans)
qed

lemma write_lines_confined:
  "write_lines e sale ls b = Inr b' \<Longrightarrow> sale_in (ps_store_id sale) (ps_id sale) b
     \<Longrightarrow> confined (ps_store_id sale) b b' \<and> bk_sales b' = bk_sales b"
proof (induction ls arbitrary: b)
  case (Cons l ls)
  then obtain b1 where b1: "write_line e sale l b = Inr b1" "write_lines e sale ls b1 = Inr b'"
    by auto
  have "sale_in (ps_store_id sale) (ps_id sale) b1"
    using Cons.prems(2) write_line_frame[OF b1(1)] by (simp add: sale_in_def)
  then show ?case
    using Cons.IH[OF b1(2)] write_line_confined[OF b1(1) Cons.prems(2)] write_line_frame[OF b1(1)]
    by (auto intro: confined_trans)
qed simp

text \<open>The row that a write leaves behind, and its books before the lines.\<close>

lemma sale_writeE:
  assumes "sale_write e sale by b = Inr (v, b')"
  obtains row ins rows where
    "upsert s_id (\<lambda>_ _. True) sale_merge (sale_row_of e sale by) (bk_sales b)
       = (Some (row, ins), rows)"
    "v = view_sale row"
    "write_lines e sale (ps_lines sale)
       (b\<lparr>bk_sales := rows, bk_items := filter (\<lambda>i. i_sale i \<noteq> ps_id sale) (bk_items b)\<rparr>)
       = Inr b'"
  using assms by (auto simp: sale_write_def Let_def split: if_splits prod.splits option.splits)

lemma sale_write_confined:
  assumes "sale_write e sale by b = Inr (v, b')"
    and same: "\<And>old. find_key s_id (ps_id sale) (bk_sales b) = Some old \<Longrightarrow> s_store old = ps_store_id sale"
  shows "confined (ps_store_id sale) b b'"
  using assms(1)
proof (cases rule: sale_writeE)
  case (1 row ins rows)
  have up: "upsert s_id (\<lambda>old new. s_store old = s_store new) sale_merge (sale_row_of e sale by)
      (bk_sales b) = (Some (row, ins), rows)"
    using 1(1) same by (subst upsert_guard_cong[where guard' = "\<lambda>_ _. True"]) auto
  have found: "find_key s_id (ps_id sale) rows = Some row"
    using sale_upserts.upserted_is_found[OF up] by simp
  have store: "s_store row = ps_store_id sale"
    using up same by (auto simp: upsert_def split: option.splits if_splits)
  have "s_id ` set (bk_sales b) \<subseteq> s_id ` set rows"
    using up by (rule sale_upserts.keys_stay)
  then have c1: "confined (ps_store_id sale) b (b\<lparr>bk_sales := rows\<rparr>)"
    using sale_upserts.distinct_upsert[OF up] sale_upserts.other_stores_kept[OF up]
    by (intro confined_sales) simp_all
  have si: "sale_in (ps_store_id sale) (ps_id sale) (b\<lparr>bk_sales := rows\<rparr>)"
    using found store by (auto simp: sale_in_def dest!: find_key_SomeD)
  have "confined (ps_store_id sale) (b\<lparr>bk_sales := rows\<rparr>)
      (b\<lparr>bk_sales := rows, bk_items := filter (\<lambda>i. i_sale i \<noteq> ps_id sale) (bk_items b)\<rparr>)"
    using confined_items[OF si, of "filter (\<lambda>i. i_sale i \<noteq> ps_id sale) (bk_items b)"]
    by (simp add: distinct_map inj_on_def)
  moreover have "confined (ps_store_id sale)
      (b\<lparr>bk_sales := rows, bk_items := filter (\<lambda>i. i_sale i \<noteq> ps_id sale) (bk_items b)\<rparr>) b'"
    using write_lines_confined[OF 1(3)] si by (simp add: sale_in_def)
  ultimately show ?thesis using c1 by (blast intro: confined_trans)
qed

lemma restore_stock_forE:
  assumes "restore_stock_for e sid st b = Inr b'"
  obtains "b' = b\<lparr>bk_products := upd_where
     (\<lambda>p. p_store p = st \<and> joined_lines b sid (p_id p) \<noteq> [])
     (\<lambda>p. p\<lparr>p_stock := p_stock p + restored_quantity e b sid (p_id p),
            p_updated_at := e_now e\<rparr>) (bk_products b)\<rparr>"
  using assms by (auto simp: restore_stock_for_def Let_def split: if_splits)

lemma restore_confined: "restore_stock_for e sid st b = Inr b' \<Longrightarrow> confined st b b'"
  by (erule restore_stock_forE)
    (auto intro!: confined_products filter_upd_where_other simp: map_upd_where)

lemma restore_frame:
  "restore_stock_for e sid st b = Inr b' \<Longrightarrow> bk_sales b' = bk_sales b \<and> bk_items b' = bk_items b
     \<and> bk_movements b' = bk_movements b"
  by (erule restore_stock_forE) simp

lemma retire_confined: "confined st b (retire_movements_for e sid st b)"
  unfolding retire_movements_for_def
  by (rule confined_movements) (auto simp: map_upd_where intro!: filter_upd_where_other)

lemma retire_frame [simp]:
  "bk_products (retire_movements_for e sid st b) = bk_products b"
  "bk_sales (retire_movements_for e sid st b) = bk_sales b"
  "bk_items (retire_movements_for e sid st b) = bk_items b"
  by (simp_all add: retire_movements_for_def)

text \<open>The three ways a recording succeeds.\<close>

lemma record_saleE:
  assumes "record_sale e sale by b = Inr (rd, b')"
  obtains (first) "find_key s_id (ps_id sale) (bk_sales b) = None"
      "sale_write e sale by b = Inr (rd_sale rd, b')" "rd_created rd"
  | (voided) old where "find_key s_id (ps_id sale) (bk_sales b) = Some old"
      "s_store old = ps_store_id sale" "s_deleted_at old \<noteq> None"
      "rd = \<lparr>rd_sale = view_sale old, rd_created = False\<rparr>" "b' = b"
  | (replaced) old b1 where "find_key s_id (ps_id sale) (bk_sales b) = Some old"
      "s_store old = ps_store_id sale" "s_deleted_at old = None"
      "rc_is_owner by \<or> s_recorded_by old = rc_staff_id by"
      "restore_stock_for e (ps_id sale) (ps_store_id sale) b = Inr b1"
      "sale_write e sale by (retire_movements_for e (ps_id sale) (ps_store_id sale) b1)
         = Inr (rd_sale rd, b')"
      "\<not> rd_created rd"
  using assms
  by (auto simp: record_sale_def lookup_sale_def
      split: option.splits if_splits sale_lookup.splits prod.splits)

lemma record_sale_confined:
  assumes "record_sale e sale by b = Inr (rd, b')"
  shows "confined (ps_store_id sale) b b'"
  using assms
proof (cases rule: record_saleE)
  case first
  show ?thesis by (rule sale_write_confined[OF first(2)]) (simp add: first(1))
next
  case (voided old)
  then show ?thesis by simp
next
  case (replaced old b1)
  let ?b2 = "retire_movements_for e (ps_id sale) (ps_store_id sale) b1"
  have "confined (ps_store_id sale) ?b2 b'"
    using replaced(1,2) restore_frame[OF replaced(5)]
    by (intro sale_write_confined[OF replaced(6)]) simp
  then show ?thesis
    using restore_confined[OF replaced(5)] retire_confined by (blast intro: confined_trans)
qed

lemma void_saleE:
  assumes "void_sale e st sid b = Inr (v, b')"
  obtains (nothing) "v = None" "b' = b"
  | (voided) r b1 where "r \<in> set (bk_sales b)" "s_store r = st" "s_id r = sid"
      "s_deleted_at r = None" "v = Some (view_sale (bury_sale (e_now e) r))"
      "restore_stock_for e sid st (b\<lparr>bk_sales :=
         snd (soft_delete s_id s_store sale_live (bury_sale (e_now e)) st sid (bk_sales b))\<rparr>)
       = Inr b1"
      "b' = retire_movements_for e sid st b1"
proof (cases "soft_delete s_id s_store sale_live (bury_sale (e_now e)) st sid (bk_sales b)")
  case (Pair res rows)
  show ?thesis
  proof (cases res)
    case None
    then have "v = None" "b' = b" using assms Pair by (simp_all add: void_sale_def)
    then show ?thesis by (rule nothing)
  next
    case (Some r')
    obtain r where r: "r \<in> set (bk_sales b)" "s_store r = st" "s_id r = sid" "sale_live r"
      "r' = bury_sale (e_now e) r"
      using sale_deletes.removed_was_live[of "e_now e" st sid "bk_sales b" r'] Pair Some by auto
    obtain b1 where b1: "restore_stock_for e sid st (b\<lparr>bk_sales := rows\<rparr>) = Inr b1"
      "v = Some (view_sale r')" "b' = retire_movements_for e sid st b1"
      using assms Pair Some by (auto simp: void_sale_def)
    have live: "s_deleted_at r = None" using r(4) by (simp add: sale_live_def)
    show ?thesis
      using voided[OF r(1-3) live, of b1] b1 r(5) Pair by simp
  qed
qed

lemma void_sale_confined:
  assumes "void_sale e st sid b = Inr (v, b')"
  shows "confined st b b'"
  using assms
proof (cases rule: void_saleE)
  case (voided r b1)
  let ?rows = "snd (soft_delete s_id s_store sale_live (bury_sale (e_now e)) st sid (bk_sales b))"
  have "s_id ` set ?rows = s_id ` set (bk_sales b)"
    using sale_deletes.keys_kept[of "e_now e" st sid "bk_sales b"] by (metis set_map)
  then have "confined st b (b\<lparr>bk_sales := ?rows\<rparr>)"
    using sale_deletes.keys_kept sale_deletes.other_stores_kept by (intro confined_sales) simp_all
  then show ?thesis
    using restore_confined[OF voided(6)] retire_confined voided(7) by (blast intro: confined_trans)
qed simp

lemma resolve_lineE:
  assumes "resolve_line e st item b = Inr (line, b')"
  obtains line_id name unit_price unit_cost where
    "unwrap_or_new e (sl_id item) b = (line_id, b')"
    "line = prepare_line e line_id item name unit_price unit_cost"
    "\<And>pid. sl_product_id item = Some pid \<Longrightarrow> \<exists>p. product_row_at b st pid = Some p"
proof -
  obtain line_id b1 where u: "unwrap_or_new e (sl_id item) b = (line_id, b1)" by fastforce
  show ?thesis
    using assms u that[of line_id]
    by (cases "sl_product_id item") (auto simp: resolve_line_def product_find_def)
qed

lemma resolve_lines_frame:
  "resolve_lines e st items b = Inr (lines, b') \<Longrightarrow>
     (\<exists>n. b' = b\<lparr>bk_drawn := n\<rparr>)
     \<and> list_all (\<lambda>l. \<forall>pid. pl_product_id l = Some pid \<longrightarrow> product_row_at b st pid \<noteq> None) lines
     \<and> map pl_product_id lines = map sl_product_id items"
proof (induction items arbitrary: b lines)
  case Nil
  then show ?case by (auto intro: exI[of _ "bk_drawn b"])
next
  case (Cons i items)
  then obtain l b1 ls where l: "resolve_line e st i b = Inr (l, b1)"
    and ls: "resolve_lines e st items b1 = Inr (ls, b')" "lines = l # ls"
    by auto
  obtain n where n: "b1 = b\<lparr>bk_drawn := n\<rparr>"
    using l by (elim resolve_lineE) (auto dest: unwrap_or_new_frame)
  have "pl_product_id l = sl_product_id i"
    using l by (elim resolve_lineE) (simp add: prepare_line_def Let_def)
  moreover have "\<forall>pid. sl_product_id i = Some pid \<longrightarrow> product_row_at b st pid \<noteq> None"
    using l by (elim resolve_lineE) blast
  moreover have "product_row_at b1 st = product_row_at b st"
    by (simp add: n product_row_at_def fun_eq_iff)
  ultimately show ?case using Cons.IH[OF ls(1)] n ls(2) by auto
qed

lemma confined_after_sale: "confined st b (after_sale e st actor t rd n b)"
  by (auto simp: after_sale_def announce_low_stock_def Let_def
      intro!: confined_publish confined_audit confined_invalidate)

lemma sale_recordE:
  assumes "sale_record e st actor request b = Inr (d, b')"
  obtains pm sid b1 lines n rd b3 where
    "normalise_payment_method (rs_payment_method request) = Inr pm"
    "unwrap_or_new e (rs_id request) b = (sid, b1)"
    "resolve_lines e st (drop_costs actor (rs_items request)) b1
       = Inr (lines, b\<lparr>bk_drawn := n\<rparr>)"
    "record_sale e (prepare_sale e st request sid pm lines) (sale_recorder actor)
       (b\<lparr>bk_drawn := n\<rparr>) = Inr (rd, b3)"
    "d = sale_detail_new (rd_sale rd) (lines_for e b3 (sv_id (rd_sale rd)))"
    "b' = after_sale e st actor (ps_occurred_at (prepare_sale e st request sid pm lines)) rd
       (length (lines_for e b3 (sv_id (rd_sale rd)))) b3"
proof -
  obtain sid b1 where u: "unwrap_or_new e (rs_id request) b = (sid, b1)" by fastforce
  obtain pm lines b2 rd b3 where *:
    "normalise_payment_method (rs_payment_method request) = Inr pm"
    "unwrap_or_new e (rs_id request) b = (sid, b1)"
    "resolve_lines e st (drop_costs actor (rs_items request)) b1 = Inr (lines, b2)"
    "record_sale e (prepare_sale e st request sid pm lines) (sale_recorder actor) b2
       = Inr (rd, b3)"
    "d = sale_detail_new (rd_sale rd) (lines_for e b3 (sv_id (rd_sale rd)))"
    "b' = after_sale e st actor (ps_occurred_at (prepare_sale e st request sid pm lines)) rd
       (length (lines_for e b3 (sv_id (rd_sale rd)))) b3"
    using assms u by (auto simp: sale_record_def Let_def split: prod.splits)
  obtain m where "b1 = b\<lparr>bk_drawn := m\<rparr>" using unwrap_or_new_frame[OF *(2)] by blast
  then obtain n where "b2 = b\<lparr>bk_drawn := n\<rparr>" using resolve_lines_frame[OF *(3)] by auto
  then show ?thesis using that * by simp
qed

lemma prepare_sale_simps [simp]:
  "ps_id (prepare_sale e st request sid pm lines) = sid"
  "ps_store_id (prepare_sale e st request sid pm lines) = st"
  "ps_lines (prepare_sale e st request sid pm lines) = lines"
  by (simp_all add: prepare_sale_def Let_def)

lemma sale_record_confined:
  assumes "sale_record e st actor request b = Inr (d, b')"
  shows "confined st b b'"
  using assms
proof (cases rule: sale_recordE)
  case (1 pm sid b1 lines n rd b3)
  have "confined st (b\<lparr>bk_drawn := n\<rparr>) b3"
    using record_sale_confined[OF 1(4)] by simp
  then show ?thesis
    using 1(6) confined_draw confined_after_sale by (blast intro: confined_trans)
qed

lemma sale_voidE:
  assumes "sale_void e st actor sid b = Inr (u, b')"
  obtains v b1 where "can actor DeleteRecords" "void_sale e st sid b = Inr (Some v, b1)"
    "b' = publish (event_new e st TopicSaleVoided (Some sid))
         (invalidate_store st
           (audit_record e actor
              (entry_new e st SaleVoided sid
                 (JObj [(''total'', money_json (sv_total_amount v)),
                        (''sold_at'', instant_json (sv_occurred_at v))])) b1))"
  using assms by (auto simp: sale_void_def split: prod.splits)

lemma sale_void_confined:
  assumes "sale_void e st actor sid b = Inr (u, b')"
  shows "confined st b b'"
  using assms
proof (cases rule: sale_voidE)
  case (1 v b1)
  then show ?thesis
    using void_sale_confined[OF 1(2)]
    by (auto intro!: confined_publish confined_audit confined_invalidate)
qed

end
