(* ===== verification/Stock_Ledger.thy ===== *)
theory Stock_Ledger
  imports Sales
begin

text \<open>
  What sales do to stock. \<open>stock_shift\<close> says by how much an operation moved each product;
  recording, replacing and voiding a sale each have their exact shift. \<open>stock_books\<close> is the
  invariant behind them: every product's stock is what it opened with plus its live
  movements, and the live movements a sale left behind mirror its lines.
\<close>

section \<open>Shifts\<close>

definition stock_shift :: "(uuid \<Rightarrow> uuid \<Rightarrow> quantity) \<Rightarrow> books \<Rightarrow> books \<Rightarrow> bool" where
  "stock_shift d b b' \<longleftrightarrow>
     map (\<lambda>p. (p_id p, p_store p, p_stock p)) (bk_products b')
       = map (\<lambda>p. (p_id p, p_store p, p_stock p + d (p_store p) (p_id p))) (bk_products b)"

lemma stock_shift_same: "bk_products b' = bk_products b \<Longrightarrow> stock_shift (\<lambda>_ _. 0) b b'"
  by (simp add: stock_shift_def)

lemma stock_shift_trans:
  assumes "stock_shift d1 a b" and "stock_shift d2 b c"
  shows "stock_shift (\<lambda>s i. d1 s i + d2 s i) a c"
proof -
  let ?add = "\<lambda>(i, s, q). (i, s, q + d2 s i)"
  have "map (\<lambda>p. (p_id p, p_store p, p_stock p)) (bk_products c)
      = map ?add (map (\<lambda>p. (p_id p, p_store p, p_stock p)) (bk_products b))"
    using assms(2) by (simp add: stock_shift_def comp_def)
  also have "\<dots> = map ?add (map (\<lambda>p. (p_id p, p_store p, p_stock p + d1 (p_store p) (p_id p)))
      (bk_products a))"
    using assms(1) by (simp only: stock_shift_def)
  finally show ?thesis by (simp add: stock_shift_def comp_def add.assoc)
qed

lemma stock_shift_cong:
  "stock_shift d b b' \<Longrightarrow> (\<And>p. p \<in> set (bk_products b) \<Longrightarrow>
     d (p_store p) (p_id p) = d' (p_store p) (p_id p)) \<Longrightarrow> stock_shift d' b b'"
  by (simp add: stock_shift_def)

lemma stock_shift_upd_where:
  assumes "\<And>p. p_id (f p) = p_id p" "\<And>p. p_store (f p) = p_store p"
    and "\<And>p. hit p \<Longrightarrow> p_stock (f p) = p_stock p + d (p_store p) (p_id p)"
    and "\<And>p. \<not> hit p \<Longrightarrow> d (p_store p) (p_id p) = 0"
    and "bk_products b' = upd_where hit f (bk_products b)"
  shows "stock_shift d b b'"
  using assms(1-4) unfolding stock_shift_def assms(5) by (auto simp: upd_where_def)

lemma stock_shift_member:
  assumes "stock_shift d b b'" and "p' \<in> set (bk_products b')"
  obtains p where "p \<in> set (bk_products b)" "p_id p' = p_id p" "p_store p' = p_store p"
    "p_stock p' = p_stock p + d (p_store p) (p_id p)"
proof -
  have "(p_id p', p_store p', p_stock p')
      \<in> set (map (\<lambda>p. (p_id p, p_store p, p_stock p + d (p_store p) (p_id p))) (bk_products b))"
    unfolding assms(1)[unfolded stock_shift_def, symmetric] using assms(2)
    by (metis (mono_tags, lifting) imageI list.set_map)
  then show ?thesis using that by auto
qed

lemma stock_shift_ids:
  assumes "stock_shift d b b'"
  shows "map p_id (bk_products b') = map p_id (bk_products b)"
    "map (\<lambda>p. (p_id p, p_store p)) (bk_products b') = map (\<lambda>p. (p_id p, p_store p)) (bk_products b)"
proof -
  show "map (\<lambda>p. (p_id p, p_store p)) (bk_products b')
      = map (\<lambda>p. (p_id p, p_store p)) (bk_products b)"
    using arg_cong[OF assms[unfolded stock_shift_def], of "map (\<lambda>(i, s, q). (i, s))"]
    by (simp add: comp_def)
  from arg_cong[OF this, of "map fst"] show "map p_id (bk_products b') = map p_id (bk_products b)"
    by (simp add: comp_def)
qed

text \<open>The stock of one product.\<close>

definition product_in :: "uuid \<Rightarrow> uuid \<Rightarrow> books \<Rightarrow> bool" where
  "product_in st pid b \<longleftrightarrow> (\<exists>p \<in> set (bk_products b). p_id p = pid \<and> p_store p = st)"

lemma stock_on_hand_alt:
  "stock_on_hand b st pid =
     (case find (\<lambda>(i, s, q). s = st \<and> i = pid)
        (map (\<lambda>p. (p_id p, p_store p, p_stock p)) (bk_products b)) of
        None \<Rightarrow> 0 | Some (i, s, q) \<Rightarrow> q)"
proof -
  have "(case find (\<lambda>p. p_store p = st \<and> p_id p = pid) ps of None \<Rightarrow> 0 | Some r \<Rightarrow> p_stock r)
     = (case find (\<lambda>(i, s, q). s = st \<and> i = pid) (map (\<lambda>p. (p_id p, p_store p, p_stock p)) ps) of
        None \<Rightarrow> 0 | Some (i, s, q) \<Rightarrow> q)" for ps
    by (induction ps) auto
  then show ?thesis by (simp add: stock_on_hand_def)
qed

lemma stock_on_hand_shift:
  assumes "stock_shift d b b'" and "product_in st pid b"
  shows "stock_on_hand b' st pid = stock_on_hand b st pid + d st pid"
proof -
  have "(case find (\<lambda>(i, s, q). s = st \<and> i = pid)
           (map (\<lambda>p. (p_id p, p_store p, p_stock p + d (p_store p) (p_id p))) ps) of
           None \<Rightarrow> 0 | Some (i, s, q) \<Rightarrow> q)
      = (case find (\<lambda>p. p_store p = st \<and> p_id p = pid) ps of
           None \<Rightarrow> 0 | Some r \<Rightarrow> p_stock r) + d st pid"
    if "\<exists>p \<in> set ps. p_id p = pid \<and> p_store p = st" for ps
    using that by (induction ps) auto
  then show ?thesis
    using assms(2) unfolding stock_on_hand_alt[of b'] assms(1)[unfolded stock_shift_def]
    by (simp add: product_in_def stock_on_hand_def)
qed

lemma product_in_pairs:
  "product_in st pid b \<longleftrightarrow> (pid, st) \<in> set (map (\<lambda>p. (p_id p, p_store p)) (bk_products b))"
  by (auto simp: product_in_def)

lemma product_in_shift: "stock_shift d b b' \<Longrightarrow> product_in st pid b' = product_in st pid b"
  unfolding product_in_pairs by (simp only: stock_shift_ids(2))

section \<open>Lines and their movements\<close>

definition item_total :: "books \<Rightarrow> uuid \<Rightarrow> uuid \<Rightarrow> quantity" where
  "item_total b sid pid = (\<Sum>i\<leftarrow>joined_lines b sid pid. i_quantity i)"

definition sold :: "prepared_line list \<Rightarrow> uuid \<Rightarrow> quantity" where
  "sold lines pid = (\<Sum>l\<leftarrow>lines. if pl_product_id l = Some pid then pl_quantity l else 0)"

text \<open>The live movements of store \<open>st\<close> that carry a sale's note.\<close>

definition sale_moves :: "(uuid \<Rightarrow> string) \<Rightarrow> books \<Rightarrow> uuid \<Rightarrow> uuid \<Rightarrow> uuid \<Rightarrow> quantity" where
  "sale_moves txt b st sid pid =
     (\<Sum>m\<leftarrow>bk_movements b. if m_store m = st \<and> m_note m = Some (''sale '' @ txt sid)
          \<and> m_product m = pid \<and> m_deleted_at m = None then m_quantity m else 0)"

definition one_line_each :: "prepared_line list \<Rightarrow> bool" where
  "one_line_each lines = distinct (filter (\<lambda>p. p \<noteq> None) (map pl_product_id lines))"

lemma sold_Nil [simp]: "sold [] pid = 0"
  by (simp add: sold_def)

lemma sold_Cons [simp]:
  "sold (l # ls) pid = (if pl_product_id l = Some pid then pl_quantity l else 0) + sold ls pid"
  by (simp add: sold_def)

lemma sold_untracked: "(\<And>l. l \<in> set ls \<Longrightarrow> pl_product_id l \<noteq> Some pid) \<Longrightarrow> sold ls pid = 0"
  by (induction ls) auto

lemma one_line_each_count:
  "one_line_each ls \<Longrightarrow> length (filter (\<lambda>l. pl_product_id l = Some pid) ls) \<le> 1"
proof (induction ls)
  case (Cons l ls)
  show ?case
  proof (cases "pl_product_id l = Some pid")
    case True
    then have "Some pid \<notin> pl_product_id ` set ls"
      using Cons.prems by (auto simp: one_line_each_def)
    then have "filter (\<lambda>l. pl_product_id l = Some pid) ls = []"
      by (metis (mono_tags, lifting) filter_False image_eqI)
    then show ?thesis by simp
  next
    case False
    then show ?thesis using Cons by (simp add: one_line_each_def split: if_splits)
  qed
qed simp

text \<open>What a line, and a whole loop over lines, does to stock, ledger and items.\<close>

lemma write_line_effect:
  assumes "write_line e sale line b = Inr b'" and inj: "inj (e_uuid_text e)"
  shows "stock_shift (\<lambda>s i. if s = ps_store_id sale then - sold [line] i else 0) b b'"
    and "bk_items b' = bk_items b @ [item_row_of (ps_id sale) line]"
    and "ledger_sum b' pid = ledger_sum b pid - sold [line] pid"
    and "sale_moves (e_uuid_text e) b' st sid pid = sale_moves (e_uuid_text e) b st sid pid
          - (if st = ps_store_id sale \<and> sid = ps_id sale then sold [line] pid else 0)"
    and "m_product ` set (bk_movements b') \<subseteq> m_product ` set (bk_movements b)
          \<union> p_id ` set (bk_products b)"
proof -
  have text_eq: "e_uuid_text e x = e_uuid_text e y \<longleftrightarrow> x = y" for x y
    using inj by (simp add: inj_eq)
  from assms(1) have "stock_shift (\<lambda>s i. if s = ps_store_id sale then - sold [line] i else 0) b b'
    \<and> bk_items b' = bk_items b @ [item_row_of (ps_id sale) line]
    \<and> ledger_sum b' pid = ledger_sum b pid - sold [line] pid
    \<and> sale_moves (e_uuid_text e) b' st sid pid = sale_moves (e_uuid_text e) b st sid pid
          - (if st = ps_store_id sale \<and> sid = ps_id sale then sold [line] pid else 0)
    \<and> m_product ` set (bk_movements b') \<subseteq> m_product ` set (bk_movements b)
          \<union> p_id ` set (bk_products b)"
  proof (cases rule: write_lineE)
    case untracked
    then have "stock_shift (\<lambda>s i. if s = ps_store_id sale then - sold [line] i else 0) b b'"
      by (intro stock_shift_cong[OF stock_shift_same]) simp_all
    then show ?thesis using untracked by (auto simp: ledger_sum_def sale_moves_def)
  next
    case (tracked q mid n)
    have "stock_shift (\<lambda>s i. if s = ps_store_id sale then - sold [line] i else 0) b b'"
      using tracked(1)
      by (intro stock_shift_upd_where[where hit = "\<lambda>p. p_id p = q \<and> p_store p = ps_store_id sale"
            and f = "deduct_stock e (pl_quantity line)"]) (auto simp: tracked(5))
    then show ?thesis using tracked
      by (auto simp: ledger_sum_def sale_moves_def sale_note_def text_eq)
  qed
  then show "stock_shift (\<lambda>s i. if s = ps_store_id sale then - sold [line] i else 0) b b'"
    and "bk_items b' = bk_items b @ [item_row_of (ps_id sale) line]"
    and "ledger_sum b' pid = ledger_sum b pid - sold [line] pid"
    and "sale_moves (e_uuid_text e) b' st sid pid = sale_moves (e_uuid_text e) b st sid pid
          - (if st = ps_store_id sale \<and> sid = ps_id sale then sold [line] pid else 0)"
    and "m_product ` set (bk_movements b') \<subseteq> m_product ` set (bk_movements b)
          \<union> p_id ` set (bk_products b)" by blast+
qed

lemma write_lines_effect:
  assumes "write_lines e sale ls b = Inr b'" and "inj (e_uuid_text e)"
  shows "stock_shift (\<lambda>s i. if s = ps_store_id sale then - sold ls i else 0) b b'
    \<and> bk_items b' = bk_items b @ map (item_row_of (ps_id sale)) ls
    \<and> bk_sales b' = bk_sales b
    \<and> ledger_sum b' pid = ledger_sum b pid - sold ls pid
    \<and> sale_moves (e_uuid_text e) b' st sid pid = sale_moves (e_uuid_text e) b st sid pid
          - (if st = ps_store_id sale \<and> sid = ps_id sale then sold ls pid else 0)
    \<and> m_product ` set (bk_movements b') \<subseteq> m_product ` set (bk_movements b)
          \<union> p_id ` set (bk_products b)"
  using assms(1)
proof (induction ls arbitrary: b)
  case Nil
  then show ?case by (auto intro: stock_shift_cong[OF stock_shift_same])
next
  case (Cons l ls)
  then obtain b1 where b1: "write_line e sale l b = Inr b1" "write_lines e sale ls b1 = Inr b'"
    by auto
  note one = write_line_effect[OF b1(1) assms(2)] and rest = Cons.IH[OF b1(2)]
  have "stock_shift (\<lambda>s i. if s = ps_store_id sale then - sold (l # ls) i else 0) b b'"
    using rest by (intro stock_shift_cong[OF stock_shift_trans[OF one(1)]]) auto
  moreover have ids: "p_id ` set (bk_products b1) = p_id ` set (bk_products b)"
    using arg_cong[OF stock_shift_ids(1)[OF one(1)], of set] by simp
  have "m_product ` set (bk_movements b') \<subseteq> m_product ` set (bk_movements b1)
      \<union> p_id ` set (bk_products b)"
    using rest ids by simp
  then have "m_product ` set (bk_movements b') \<subseteq> m_product ` set (bk_movements b)
      \<union> p_id ` set (bk_products b)"
    using one(5) by blast
  moreover have "bk_items b' = bk_items b @ map (item_row_of (ps_id sale)) (l # ls)"
    "bk_sales b' = bk_sales b"
    using one(2) rest write_line_frame[OF b1(1)] by simp_all
  moreover have "ledger_sum b' pid = ledger_sum b pid - sold (l # ls) pid"
    using one(3) rest by simp
  moreover have "sale_moves (e_uuid_text e) b' st sid pid = sale_moves (e_uuid_text e) b st sid pid
      - (if st = ps_store_id sale \<and> sid = ps_id sale then sold (l # ls) pid else 0)"
    using one(4)[of st sid pid] rest by simp
  ultimately show ?case by blast
qed

text \<open>A sale's lines after it is written are exactly the lines of the request.\<close>

lemma sale_write_effect:
  assumes "sale_write e sale by b = Inr (v, b')" and "inj (e_uuid_text e)"
  shows "stock_shift (\<lambda>s i. if s = ps_store_id sale then - sold (ps_lines sale) i else 0) b b'"
    and "bk_items b' = filter (\<lambda>i. i_sale i \<noteq> ps_id sale) (bk_items b)
           @ map (item_row_of (ps_id sale)) (ps_lines sale)"
    and "ledger_sum b' pid = ledger_sum b pid - sold (ps_lines sale) pid"
    and "sale_moves (e_uuid_text e) b' st sid pid = sale_moves (e_uuid_text e) b st sid pid
          - (if st = ps_store_id sale \<and> sid = ps_id sale then sold (ps_lines sale) pid else 0)"
    and "m_product ` set (bk_movements b') \<subseteq> m_product ` set (bk_movements b)
          \<union> p_id ` set (bk_products b)"
proof -
  obtain row ins rows where w: "write_lines e sale (ps_lines sale)
     (b\<lparr>bk_sales := rows, bk_items := filter (\<lambda>i. i_sale i \<noteq> ps_id sale) (bk_items b)\<rparr>) = Inr b'"
    using assms(1) by (rule sale_writeE)
  note effect = write_lines_effect[OF w assms(2)]
  have frame: "ledger_sum (b\<lparr>bk_sales := rows, bk_items := its\<rparr>) = ledger_sum b"
    "sale_moves nm (b\<lparr>bk_sales := rows, bk_items := its\<rparr>) = sale_moves nm b" for its nm
    by (simp_all add: ledger_sum_def sale_moves_def fun_eq_iff)
  show "stock_shift (\<lambda>s i. if s = ps_store_id sale then - sold (ps_lines sale) i else 0) b b'"
    using effect by (simp add: stock_shift_def)
  show "bk_items b' = filter (\<lambda>i. i_sale i \<noteq> ps_id sale) (bk_items b)
           @ map (item_row_of (ps_id sale)) (ps_lines sale)"
    "ledger_sum b' pid = ledger_sum b pid - sold (ps_lines sale) pid"
    "sale_moves (e_uuid_text e) b' st sid pid = sale_moves (e_uuid_text e) b st sid pid
          - (if st = ps_store_id sale \<and> sid = ps_id sale then sold (ps_lines sale) pid else 0)"
    "m_product ` set (bk_movements b') \<subseteq> m_product ` set (bk_movements b)
          \<union> p_id ` set (bk_products b)"
    using effect by (simp_all add: frame)
qed

lemma joined_lines_after_write:
  assumes "bk_items b' = filter (\<lambda>i. i_sale i \<noteq> sid) (bk_items b) @ map (item_row_of sid) ls"
  shows "joined_lines b' sid' pid = (if sid' = sid
      then map (item_row_of sid) (filter (\<lambda>l. pl_product_id l = Some pid) ls)
      else joined_lines b sid' pid)"
proof -
  have "filter (\<lambda>i. i_sale i = sid' \<and> i_product i = Some pid) (map (item_row_of sid) ls)
      = (if sid' = sid then map (item_row_of sid) (filter (\<lambda>l. pl_product_id l = Some pid) ls) else [])"
    by (induction ls) auto
  moreover have "filter (\<lambda>i. i_sale i = sid' \<and> i_product i = Some pid)
      (filter (\<lambda>i. i_sale i \<noteq> sid) (bk_items b)) =
      (if sid' = sid then [] else joined_lines b sid' pid)"
    unfolding joined_lines_def by (induction "bk_items b") (auto intro!: filter_cong)
  ultimately show ?thesis by (simp add: joined_lines_def assms del: filter_filter)
qed

lemma item_total_after_write:
  assumes "bk_items b' = filter (\<lambda>i. i_sale i \<noteq> sid) (bk_items b) @ map (item_row_of sid) ls"
  shows "item_total b' sid' pid = (if sid' = sid then sold ls pid else item_total b sid' pid)"
proof -
  have "(\<Sum>i\<leftarrow>map (item_row_of sid) (filter (\<lambda>l. pl_product_id l = Some pid) ls). i_quantity i)
      = sold ls pid"
    by (induction ls) auto
  then show ?thesis
    using joined_lines_after_write[OF assms] by (simp add: item_total_def)
qed

text \<open>Giving stock back, when each product has at most one line.\<close>

lemma restored_quantity_one:
  assumes "length (joined_lines b sid pid) \<le> 1" and "joined_lines b sid pid \<noteq> []"
  shows "restored_quantity e b sid pid = item_total b sid pid"
proof -
  obtain i where "joined_lines b sid pid = [i]"
    using assms by (cases "joined_lines b sid pid") auto
  then show ?thesis by (simp add: restored_quantity_def item_total_def)
qed

lemma restore_shift:
  assumes "restore_stock_for e sid st b = Inr b'"
    and "\<And>pid. length (joined_lines b sid pid) \<le> 1"
  shows "stock_shift (\<lambda>s i. if s = st then item_total b sid i else 0) b b'"
  using assms(1)
proof (rule restore_stock_forE)
  assume b': "b' = b\<lparr>bk_products := upd_where
     (\<lambda>p. p_store p = st \<and> joined_lines b sid (p_id p) \<noteq> [])
     (\<lambda>p. p\<lparr>p_stock := p_stock p + restored_quantity e b sid (p_id p),
            p_updated_at := e_now e\<rparr>) (bk_products b)\<rparr>"
  have none: "joined_lines b sid i = [] \<Longrightarrow> item_total b sid i = 0" for i
    by (simp add: item_total_def)
  show ?thesis
    using restored_quantity_one[OF assms(2)] none
    by (intro stock_shift_upd_where[where hit = "\<lambda>p. p_store p = st \<and> joined_lines b sid (p_id p) \<noteq> []"
          and f = "\<lambda>p. p\<lparr>p_stock := p_stock p + restored_quantity e b sid (p_id p),
            p_updated_at := e_now e\<rparr>"]) (auto simp: b')
qed

lemma retire_effect:
  assumes "inj (e_uuid_text e)"
  shows "ledger_sum (retire_movements_for e sid st b) pid
      = ledger_sum b pid - sale_moves (e_uuid_text e) b st sid pid"
    and "sale_moves (e_uuid_text e) (retire_movements_for e sid st b) st' sid' pid
      = (if st' = st \<and> sid' = sid then 0 else sale_moves (e_uuid_text e) b st' sid' pid)"
    and "m_product ` set (bk_movements (retire_movements_for e sid st b))
      = m_product ` set (bk_movements b)"
proof -
  let ?hit = "\<lambda>m. m_store m = st \<and> m_note m = Some (''sale '' @ e_uuid_text e sid)
               \<and> m_deleted_at m = None"
  let ?f = "\<lambda>m. m\<lparr>m_deleted_at := Some (e_now e), m_updated_at := e_now e\<rparr>"
  have text_eq: "e_uuid_text e x = e_uuid_text e y \<longleftrightarrow> x = y" for x y
    using assms by (simp add: inj_eq)
  have "(\<Sum>m\<leftarrow>upd_where ?hit ?f ms. if m_product m = pid \<and> m_deleted_at m = None then m_quantity m else 0)
      = (\<Sum>m\<leftarrow>ms. if m_product m = pid \<and> m_deleted_at m = None then m_quantity m else 0)
      - (\<Sum>m\<leftarrow>ms. if m_store m = st \<and> m_note m = Some (''sale '' @ e_uuid_text e sid)
          \<and> m_product m = pid \<and> m_deleted_at m = None then m_quantity m else 0)" for ms
    by (induction ms) auto
  from this[of "bk_movements b"] show "ledger_sum (retire_movements_for e sid st b) pid
      = ledger_sum b pid - sale_moves (e_uuid_text e) b st sid pid"
    unfolding ledger_sum_def sale_moves_def retire_movements_for_def sale_note_def
    by simp
  have "(\<Sum>m\<leftarrow>upd_where ?hit ?f ms. if m_store m = st' \<and> m_note m = Some (''sale '' @ e_uuid_text e sid')
          \<and> m_product m = pid \<and> m_deleted_at m = None then m_quantity m else 0)
      = (if st' = st \<and> sid' = sid then 0 else
         (\<Sum>m\<leftarrow>ms. if m_store m = st' \<and> m_note m = Some (''sale '' @ e_uuid_text e sid')
          \<and> m_product m = pid \<and> m_deleted_at m = None then m_quantity m else 0))" for ms
    by (induction ms) (auto simp: text_eq)
  from this[of "bk_movements b"] show "sale_moves (e_uuid_text e) (retire_movements_for e sid st b) st' sid' pid
      = (if st' = st \<and> sid' = sid then 0 else sale_moves (e_uuid_text e) b st' sid' pid)"
    unfolding sale_moves_def retire_movements_for_def sale_note_def by simp
  have "map m_product (upd_where ?hit ?f ms) = map m_product ms" for ms
    by (rule map_upd_where) simp
  from arg_cong[OF this, of set]
  show "m_product ` set (bk_movements (retire_movements_for e sid st b))
      = m_product ` set (bk_movements b)"
    by (simp add: retire_movements_for_def sale_note_def)
qed

section \<open>The invariant\<close>

definition live_sale :: "books \<Rightarrow> uuid \<Rightarrow> uuid \<Rightarrow> bool" where
  "live_sale b st sid =
     (case find_key s_id sid (bk_sales b) of
        None \<Rightarrow> False | Some r \<Rightarrow> s_store r = st \<and> s_deleted_at r = None)"

text \<open>\<open>retired\<close> is empty between requests; inside a transaction it holds the sale whose movements
  were just retired.\<close>

definition stock_core :: "(uuid \<Rightarrow> string) \<Rightarrow> (uuid \<Rightarrow> quantity) \<Rightarrow> uuid set \<Rightarrow> books \<Rightarrow> bool" where
  "stock_core txt opening retired b \<longleftrightarrow>
     ledger_balanced opening b
     \<and> m_product ` set (bk_movements b) \<subseteq> p_id ` set (bk_products b)
     \<and> (\<forall>st sid pid. sale_moves txt b st sid pid
          = (if live_sale b st sid \<and> sid \<notin> retired then - item_total b sid pid else 0))
     \<and> (\<forall>sid pid. length (joined_lines b sid pid) \<le> 1)
     \<and> (\<forall>i \<in> set (bk_items b). \<forall>pid r. i_product i = Some pid
          \<longrightarrow> find_key s_id (i_sale i) (bk_sales b) = Some r \<longrightarrow> product_in (s_store r) pid b)"

definition stock_books :: "(uuid \<Rightarrow> string) \<Rightarrow> (uuid \<Rightarrow> quantity) \<Rightarrow> books \<Rightarrow> bool" where
  "stock_books txt opening b \<longleftrightarrow> books_ok b \<and> stock_core txt opening {} b"

lemma stock_coreI:
  assumes "ledger_balanced opening b"
    and "m_product ` set (bk_movements b) \<subseteq> p_id ` set (bk_products b)"
    and "\<And>st sid pid. sale_moves txt b st sid pid
          = (if live_sale b st sid \<and> sid \<notin> retired then - item_total b sid pid else 0)"
    and "\<And>sid pid. length (joined_lines b sid pid) \<le> 1"
    and "\<And>i pid r. i \<in> set (bk_items b) \<Longrightarrow> i_product i = Some pid
          \<Longrightarrow> find_key s_id (i_sale i) (bk_sales b) = Some r \<Longrightarrow> product_in (s_store r) pid b"
  shows "stock_core txt opening retired b"
  unfolding stock_core_def by (intro conjI allI ballI impI) (rule assms; assumption)+

lemma stock_coreD:
  assumes "stock_core txt opening retired b"
  shows "ledger_balanced opening b"
    and "m_product ` set (bk_movements b) \<subseteq> p_id ` set (bk_products b)"
    and "sale_moves txt b st sid pid
          = (if live_sale b st sid \<and> sid \<notin> retired then - item_total b sid pid else 0)"
    and "length (joined_lines b sid pid) \<le> 1"
    and "i \<in> set (bk_items b) \<Longrightarrow> i_product i = Some pid
          \<Longrightarrow> find_key s_id (i_sale i) (bk_sales b) = Some r \<Longrightarrow> product_in (s_store r) pid b"
proof -
  note core = assms[unfolded stock_core_def]
  show "ledger_balanced opening b" by (rule core[THEN conjunct1])
  show "m_product ` set (bk_movements b) \<subseteq> p_id ` set (bk_products b)"
    by (rule core[THEN conjunct2, THEN conjunct1])
  show "sale_moves txt b st sid pid
          = (if live_sale b st sid \<and> sid \<notin> retired then - item_total b sid pid else 0)"
    by (rule core[THEN conjunct2, THEN conjunct2, THEN conjunct1, rule_format])
  show "length (joined_lines b sid pid) \<le> 1"
    by (rule core[THEN conjunct2, THEN conjunct2, THEN conjunct2, THEN conjunct1, rule_format])
  show "i \<in> set (bk_items b) \<Longrightarrow> i_product i = Some pid
          \<Longrightarrow> find_key s_id (i_sale i) (bk_sales b) = Some r \<Longrightarrow> product_in (s_store r) pid b"
    by (rule core[THEN conjunct2, THEN conjunct2, THEN conjunct2, THEN conjunct2, rule_format])
qed

lemma balanced_shift:
  assumes "ledger_balanced opening b" and "stock_shift d b b'"
    and "\<And>pid. ledger_sum b' pid = ledger_sum b pid + l pid"
    and "\<And>p. p \<in> set (bk_products b) \<Longrightarrow> d (p_store p) (p_id p) = l (p_id p)"
  shows "ledger_balanced opening b'"
  unfolding ledger_balanced_def
proof
  fix p' assume "p' \<in> set (bk_products b')"
  then obtain p where p: "p \<in> set (bk_products b)" "p_id p' = p_id p" "p_store p' = p_store p"
    "p_stock p' = p_stock p + d (p_store p) (p_id p)"
    using stock_shift_member[OF assms(2)] by metis
  have "p_stock p = opening (p_id p) + ledger_sum b (p_id p)"
    using assms(1) p(1) by (simp add: ledger_balanced_def)
  then show "p_stock p' = opening (p_id p') + ledger_sum b' (p_id p')"
    using p assms(3,4) by simp
qed

lemma one_store_per_product:
  assumes "books_ok b" and "product_in st pid b" and "p \<in> set (bk_products b)" and "p_id p = pid"
  shows "p_store p = st"
proof -
  have d: "distinct (map p_id (bk_products b))"
    using assms(1) by (simp add: books_ok_def keys_unique_def)
  obtain q where "q \<in> set (bk_products b)" "p_id q = pid" "p_store q = st"
    using assms(2) by (auto simp: product_in_def)
  then show ?thesis
    using find_key_in_set[OF d assms(3)] find_key_in_set[OF d, of q] assms(4) by simp
qed

lemma item_total_foreign:
  assumes core: "stock_core txt opening retired b" and "books_ok b"
    and "live_sale b st sid" and "p \<in> set (bk_products b)" and "p_store p \<noteq> st"
  shows "item_total b sid (p_id p) = 0"
proof -
  obtain r where r: "find_key s_id sid (bk_sales b) = Some r" "s_store r = st"
    using assms(3) by (auto simp: live_sale_def split: option.splits)
  have "joined_lines b sid (p_id p) = []"
  proof (rule ccontr)
    assume "joined_lines b sid (p_id p) \<noteq> []"
    then obtain i where "i \<in> set (bk_items b)" "i_sale i = sid" "i_product i = Some (p_id p)"
      by (auto simp: joined_lines_def filter_empty_conv)
    then have "product_in st (p_id p) b" using core r by (auto simp: stock_core_def)
    then show False using one_store_per_product[OF assms(2)] assms(4,5) by blast
  qed
  then show ?thesis by (simp add: item_total_def)
qed

lemma sold_foreign:
  assumes "books_ok b" and "\<And>l pid. l \<in> set ls \<Longrightarrow> pl_product_id l = Some pid \<Longrightarrow> product_in st pid b"
    and "p \<in> set (bk_products b)" and "p_store p \<noteq> st"
  shows "sold ls (p_id p) = 0"
  using one_store_per_product[OF assms(1) _ assms(3)] assms(2,4) by (intro sold_untracked) blast

text \<open>Restoring and retiring take a live sale out of stock and ledger alike.\<close>

lemma restore_retire_core:
  assumes core: "stock_core (e_uuid_text e) opening {} b" and ok: "books_ok b"
    and live: "live_sale b st sid" and inj: "inj (e_uuid_text e)"
    and rest: "restore_stock_for e sid st (b\<lparr>bk_sales := rows\<rparr>) = Inr b1"
    and b2: "b2 = retire_movements_for e sid st b1"
  shows "ledger_balanced opening b2"
    and "m_product ` set (bk_movements b2) \<subseteq> p_id ` set (bk_products b2)"
    and "sale_moves (e_uuid_text e) b2 st' sid' pid
       = (if st' = st \<and> sid' = sid then 0 else sale_moves (e_uuid_text e) b st' sid' pid)"
    and "bk_items b2 = bk_items b" and "bk_sales b2 = rows"
    and "product_in st' pid b2 = product_in st' pid b"
    and "stock_shift (\<lambda>s i. if s = st then item_total b sid i else 0) b b2"
proof -
  let ?b0 = "b\<lparr>bk_sales := rows\<rparr>"
  have one: "length (joined_lines ?b0 sid pid) \<le> 1" for pid
    using core by (simp add: stock_core_def joined_lines_def)
  have frame: "bk_items b1 = bk_items b" "bk_movements b1 = bk_movements b" "bk_sales b1 = rows"
    using restore_frame[OF rest] by simp_all
  have moves: "sale_moves nm b1 = sale_moves nm b" "ledger_sum b1 = ledger_sum b" for nm
    by (simp_all add: sale_moves_def ledger_sum_def frame fun_eq_iff)
  have same: "item_total ?b0 sid i = item_total b sid i" for i
    by (simp add: item_total_def joined_lines_def)
  have "stock_shift (\<lambda>s i. if s = st then item_total b sid i else 0) ?b0 b1"
    using restore_shift[OF rest one] unfolding same .
  then show shift: "stock_shift (\<lambda>s i. if s = st then item_total b sid i else 0) b b2"
    by (simp add: stock_shift_def b2)
  have taken: "sale_moves (e_uuid_text e) b st sid pid = - item_total b sid pid" for pid
    using core live by (simp add: stock_core_def)
  show "ledger_balanced opening b2"
  proof (rule balanced_shift[OF _ shift])
    show "ledger_balanced opening b" using core by (simp add: stock_core_def)
    show "ledger_sum b2 pid = ledger_sum b pid + item_total b sid pid" for pid
      using retire_effect(1)[OF inj, of sid st b1 pid] by (simp add: b2 moves taken)
    show "(if p_store p = st then item_total b sid (p_id p) else 0) = item_total b sid (p_id p)"
      if "p \<in> set (bk_products b)" for p
      using item_total_foreign[OF core ok live that] by simp
  qed
  show "m_product ` set (bk_movements b2) \<subseteq> p_id ` set (bk_products b2)"
  proof -
    have "p_id ` set (bk_products b2) = p_id ` set (bk_products b)"
      using arg_cong[OF stock_shift_ids(1)[OF shift], of set] by simp
    moreover have "m_product ` set (bk_movements b2) = m_product ` set (bk_movements b)"
      using retire_effect(3)[OF inj] by (simp add: b2 frame)
    ultimately show ?thesis using core by (simp add: stock_core_def)
  qed
  show "sale_moves (e_uuid_text e) b2 st' sid' pid
       = (if st' = st \<and> sid' = sid then 0 else sale_moves (e_uuid_text e) b st' sid' pid)"
    using retire_effect(2)[OF inj] by (simp add: b2 moves)
  show "bk_items b2 = bk_items b" "bk_sales b2 = rows" by (simp_all add: b2 frame)
  show "product_in st' pid b2 = product_in st' pid b" by (rule product_in_shift[OF shift])
qed

lemma sale_write_rows:
  assumes "sale_write e sale by b = Inr (v, b')"
    and old: "\<And>r. find_key s_id (ps_id sale) (bk_sales b) = Some r
      \<Longrightarrow> s_store r = ps_store_id sale \<and> s_deleted_at r = None"
    and inj: "inj (e_uuid_text e)"
  shows "\<exists>row. find_key s_id (ps_id sale) (bk_sales b') = Some row \<and> s_store row = ps_store_id sale
      \<and> s_deleted_at row = None \<and> v = view_sale row"
    and "k \<noteq> ps_id sale \<Longrightarrow> find_key s_id k (bk_sales b') = find_key s_id k (bk_sales b)"
proof -
  obtain row ins rows where 1:
    "upsert s_id (\<lambda>_ _. True) sale_merge (sale_row_of e sale by) (bk_sales b) = (Some (row, ins), rows)"
    "v = view_sale row"
    "write_lines e sale (ps_lines sale)
       (b\<lparr>bk_sales := rows, bk_items := filter (\<lambda>i. i_sale i \<noteq> ps_id sale) (bk_items b)\<rparr>) = Inr b'"
    using assms(1) by (rule sale_writeE)
  have up: "upsert s_id (\<lambda>old new. s_store old = s_store new) sale_merge (sale_row_of e sale by)
      (bk_sales b) = (Some (row, ins), rows)"
    using 1(1) old by (subst upsert_guard_cong[where guard' = "\<lambda>_ _. True"]) auto
  have rows: "bk_sales b' = rows" using write_lines_effect[OF 1(3) inj] by simp
  show "\<exists>row. find_key s_id (ps_id sale) (bk_sales b') = Some row \<and> s_store row = ps_store_id sale
      \<and> s_deleted_at row = None \<and> v = view_sale row"
    using sale_upserts.upserted_is_found[OF up] up old 1(2)
    by (auto simp: rows upsert_def split: option.splits if_splits)
  show "k \<noteq> ps_id sale \<Longrightarrow> find_key s_id k (bk_sales b') = find_key s_id k (bk_sales b)"
    using sale_upserts.upsert_keeps_others[OF up] by (simp add: rows)
qed

lemma sale_write_core:
  assumes w: "sale_write e sale by b = Inr (v, b')" and inj: "inj (e_uuid_text e)"
    and ok: "books_ok b" and core: "stock_core (e_uuid_text e) opening {ps_id sale} b"
    and old: "\<And>r. find_key s_id (ps_id sale) (bk_sales b) = Some r
      \<Longrightarrow> s_store r = ps_store_id sale \<and> s_deleted_at r = None"
    and single: "one_line_each (ps_lines sale)"
    and known: "\<And>l pid. l \<in> set (ps_lines sale) \<Longrightarrow> pl_product_id l = Some pid
      \<Longrightarrow> product_in (ps_store_id sale) pid b"
  shows "stock_core (e_uuid_text e) opening {} b'"
proof -
  note effect = sale_write_effect[OF w inj] and rows = sale_write_rows[OF w old inj]
  obtain row where row: "find_key s_id (ps_id sale) (bk_sales b') = Some row"
    "s_store row = ps_store_id sale" "s_deleted_at row = None"
    using rows(1) by blast
  have pin: "product_in st pid b' = product_in st pid b" for st pid
    by (rule product_in_shift[OF effect(1)])
  have "ledger_balanced opening b'"
  proof (rule balanced_shift[OF _ effect(1)])
    show "ledger_balanced opening b" using core by (simp add: stock_core_def)
    show "ledger_sum b' pid = ledger_sum b pid + - sold (ps_lines sale) pid" for pid
      using effect(3) by simp
    show "(if p_store p = ps_store_id sale then - sold (ps_lines sale) (p_id p) else 0)
        = - sold (ps_lines sale) (p_id p)" if "p \<in> set (bk_products b)" for p
      using sold_foreign[OF ok known that] by auto
  qed
  moreover have "m_product ` set (bk_movements b') \<subseteq> p_id ` set (bk_products b')"
  proof -
    have "p_id ` set (bk_products b') = p_id ` set (bk_products b)"
      using arg_cong[OF stock_shift_ids(1)[OF effect(1)], of set] by simp
    moreover have "m_product ` set (bk_movements b) \<subseteq> p_id ` set (bk_products b)"
      using core by (simp add: stock_core_def)
    ultimately show ?thesis using order_trans[OF effect(5) Un_least[OF _ order_refl]] by simp
  qed
  moreover have "sale_moves (e_uuid_text e) b' st sid pid
      = (if live_sale b' st sid \<and> sid \<notin> {} then - item_total b' sid pid else 0)" for st sid pid
  proof -
    have before: "sale_moves (e_uuid_text e) b st sid pid
      = (if live_sale b st sid \<and> sid \<noteq> ps_id sale then - item_total b sid pid else 0)"
      using core by (simp add: stock_core_def)
    show ?thesis
    proof (cases "sid = ps_id sale")
      case True
      then show ?thesis
        using before effect(4)[of st sid pid] row item_total_after_write[OF effect(2), of sid pid]
        by (auto simp: live_sale_def)
    next
      case False
      then show ?thesis
        using before effect(4)[of st sid pid] rows(2) item_total_after_write[OF effect(2), of sid pid]
        by (simp add: live_sale_def)
    qed
  qed
  moreover have "length (joined_lines b' sid pid) \<le> 1" for sid pid
    using joined_lines_after_write[OF effect(2), of sid pid] one_line_each_count[OF single]
      core by (simp add: stock_core_def)
  moreover have "product_in (s_store r) pid b'"
    if i: "i \<in> set (bk_items b')" "i_product i = Some pid"
      and r: "find_key s_id (i_sale i) (bk_sales b') = Some r" for i pid r
  proof (cases "i_sale i = ps_id sale")
    case True
    then have "i \<in> item_row_of (ps_id sale) ` set (ps_lines sale)"
      using i(1) effect(2) by auto
    then show ?thesis using known i(2) True r row by (auto simp: pin)
  next
    case False
    then have "i \<in> set (bk_items b)" using i(1) effect(2) by auto
    moreover have "find_key s_id (i_sale i) (bk_sales b) = Some r" using r rows(2)[of "i_sale i"] False by simp
    ultimately show ?thesis using stock_coreD(5)[OF core] i(2) by (simp add: pin)
  qed
  ultimately show ?thesis by (rule stock_coreI)
qed

lemma stock_core_retired_new:
  assumes "stock_core txt opening {} b" and "find_key s_id sid (bk_sales b) = None"
  shows "stock_core txt opening {sid} b"
proof -
  have "(live_sale b st s \<and> s \<notin> {sid}) = (live_sale b st s \<and> s \<notin> {})" for st s
    using assms(2) by (auto simp: live_sale_def)
  then show ?thesis
    using stock_coreD(3)[OF assms(1)]
    by (intro stock_coreI stock_coreD[OF assms(1)]) simp_all
qed

theorem record_sale_stock_books:
  assumes rec: "record_sale e sale by b = Inr (rd, b')" and inj: "inj (e_uuid_text e)"
    and inv: "stock_books (e_uuid_text e) opening b"
    and single: "one_line_each (ps_lines sale)"
    and known: "\<And>l pid. l \<in> set (ps_lines sale) \<Longrightarrow> pl_product_id l = Some pid
      \<Longrightarrow> product_in (ps_store_id sale) pid b"
  shows "stock_books (e_uuid_text e) opening b'"
proof -
  have ok: "books_ok b" and core: "stock_core (e_uuid_text e) opening {} b"
    using inv by (simp_all add: stock_books_def)
  have ok': "books_ok b'" using record_sale_confined[OF rec] ok by (simp add: confined_def)
  have "stock_core (e_uuid_text e) opening {} b'"
    using rec
  proof (cases rule: record_saleE)
    case first
    show ?thesis
      by (rule sale_write_core[OF first(2) inj ok stock_core_retired_new[OF core first(1)] _ single known])
        (simp_all add: first(1))
  next
    case (voided old)
    then show ?thesis using core by simp
  next
    case (replaced old b1)
    let ?b2 = "retire_movements_for e (ps_id sale) (ps_store_id sale) b1"
    have live: "live_sale b (ps_store_id sale) (ps_id sale)"
      using replaced(1-3) by (simp add: live_sale_def)
    have r: "restore_stock_for e (ps_id sale) (ps_store_id sale) (b\<lparr>bk_sales := bk_sales b\<rparr>) = Inr b1"
      using replaced(5) by simp
    note undone = restore_retire_core[OF core ok live inj r refl]
    have ok2: "books_ok ?b2"
      using confined_trans[OF restore_confined[OF replaced(5)] retire_confined] ok
      by (simp add: confined_def)
    have items: "item_total ?b2 s i = item_total b s i" "joined_lines ?b2 s i = joined_lines b s i"
      "live_sale ?b2 s i = live_sale b s i" for s i
      by (simp_all add: item_total_def joined_lines_def live_sale_def restore_frame[OF replaced(5)])
    have only: "live_sale b s (ps_id sale) \<Longrightarrow> s = ps_store_id sale" for s
      using replaced(1,2) by (simp add: live_sale_def)
    have "stock_core (e_uuid_text e) opening {ps_id sale} ?b2"
    proof (rule stock_coreI)
      show "sale_moves (e_uuid_text e) ?b2 s i pid
        = (if live_sale ?b2 s i \<and> i \<notin> {ps_id sale} then - item_total ?b2 i pid else 0)" for s i pid
        unfolding undone(3) items using stock_coreD(3)[OF core, of s i pid] only by auto
      show "length (joined_lines ?b2 i pid) \<le> 1" for i pid
        unfolding items using stock_coreD(4)[OF core] .
      show "product_in (s_store r) pid ?b2"
        if "i \<in> set (bk_items ?b2)" "i_product i = Some pid"
          "find_key s_id (i_sale i) (bk_sales ?b2) = Some r" for i pid r
        using that unfolding undone(4,5,6) by (rule stock_coreD(5)[OF core])
    qed (rule undone(1), rule undone(2))
    then show ?thesis
      by (rule sale_write_core[OF replaced(6) inj ok2 _ _ single])
        (use replaced(1,2,3) known in \<open>simp_all add: undone(6) restore_frame[OF replaced(5)]\<close>)
  qed
  then show ?thesis using ok' by (simp add: stock_books_def)
qed

theorem void_sale_stock_books:
  assumes void: "void_sale e st sid b = Inr (v, b')" and inj: "inj (e_uuid_text e)"
    and inv: "stock_books (e_uuid_text e) opening b"
  shows "stock_books (e_uuid_text e) opening b'"
  using void
proof (cases rule: void_saleE)
  case nothing
  then show ?thesis using inv by simp
next
  case (voided r b1)
  have ok: "books_ok b" and core: "stock_core (e_uuid_text e) opening {} b"
    using inv by (simp_all add: stock_books_def)
  have ok': "books_ok b'" using void_sale_confined[OF void] ok by (simp add: confined_def)
  let ?hit = "\<lambda>r. s_store r = st \<and> s_id r = sid \<and> sale_live r"
  let ?rows = "upd_where ?hit (bury_sale (e_now e)) (bk_sales b)"
  have d: "distinct (map s_id (bk_sales b))" using ok by (simp add: books_ok_def keys_unique_def)
  have r: "find_key s_id sid (bk_sales b) = Some r" using find_key_in_set[OF d voided(1)] voided(3) by simp
  then have live: "live_sale b st sid" using voided(2,4) by (simp add: live_sale_def)
  have rest: "restore_stock_for e sid st (b\<lparr>bk_sales := ?rows\<rparr>) = Inr b1"
    using voided(6) by (simp add: soft_delete_def Let_def)
  note undone = restore_retire_core[OF core ok live inj rest voided(7)]
  have find: "find_key s_id k ?rows
      = map_option (\<lambda>r. if ?hit r then bury_sale (e_now e) r else r) (find_key s_id k (bk_sales b))" for k
    by (rule find_key_upd_where) (simp add: bury_sale_def)
  have bury: "s_store (bury_sale now r) = s_store r" "s_deleted_at (bury_sale now r) = Some now" for now r
    by (simp_all add: bury_sale_def)
  have lives: "live_sale b' s i = (live_sale b s i \<and> \<not> (s = st \<and> i = sid))" for s i
    unfolding live_sale_def undone(5) find
    by (cases "find_key s_id i (bk_sales b)") (auto simp: sale_live_def bury dest: find_key_SomeD)
  have items: "item_total b' s i = item_total b s i" "joined_lines b' s i = joined_lines b s i" for s i
    by (simp_all add: item_total_def joined_lines_def undone(4))
  have store: "\<exists>r0. find_key s_id k (bk_sales b) = Some r0 \<and> s_store r = s_store r0"
    if "find_key s_id k (bk_sales b') = Some r" for k r
    using that unfolding undone(5) find
    by (cases "find_key s_id k (bk_sales b)") (auto simp: bury)
  have "stock_core (e_uuid_text e) opening {} b'"
  proof (rule stock_coreI)
    show "sale_moves (e_uuid_text e) b' s i pid
        = (if live_sale b' s i \<and> i \<notin> {} then - item_total b' i pid else 0)" for s i pid
      unfolding undone(3) items lives using stock_coreD(3)[OF core, of s i pid] by auto
    show "length (joined_lines b' i pid) \<le> 1" for i pid
      unfolding items using stock_coreD(4)[OF core] .
    show "product_in (s_store r) pid b'"
      if "i \<in> set (bk_items b')" "i_product i = Some pid"
        "find_key s_id (i_sale i) (bk_sales b') = Some r" for i pid r
      using store[OF that(3)] stock_coreD(5)[OF core, of i pid] that(1,2) unfolding undone(4,6)
      by auto
  qed (rule undone(1), rule undone(2))
  then show ?thesis using ok' by (simp add: stock_books_def)
qed

section \<open>The other operations keep it\<close>

lemma stock_core_cong:
  assumes "stock_core txt opening retired b"
    and "bk_products b' = bk_products b" and "bk_movements b' = bk_movements b"
    and "bk_sales b' = bk_sales b" and "bk_items b' = bk_items b"
  shows "stock_core txt opening retired b'"
  using assms(1)
  unfolding stock_core_def ledger_balanced_def ledger_sum_def sale_moves_def live_sale_def
    item_total_def joined_lines_def product_in_def assms(2-5) .

lemma stock_core_products:
  assumes core: "stock_core txt opening retired b"
    and others: "bk_movements b' = bk_movements b" "bk_sales b' = bk_sales b" "bk_items b' = bk_items b"
    and bal: "ledger_balanced opening' b'"
    and grow: "p_id ` set (bk_products b) \<subseteq> p_id ` set (bk_products b')"
      "\<And>st pid. product_in st pid b \<Longrightarrow> product_in st pid b'"
  shows "stock_core txt opening' retired b'"
proof (rule stock_coreI)
  show "m_product ` set (bk_movements b') \<subseteq> p_id ` set (bk_products b')"
    using order_trans[OF stock_coreD(2)[OF core] grow(1)] by (simp add: others)
  show "sale_moves txt b' st sid pid
      = (if live_sale b' st sid \<and> sid \<notin> retired then - item_total b' sid pid else 0)" for st sid pid
    using stock_coreD(3)[OF core, of st sid pid]
    unfolding sale_moves_def live_sale_def item_total_def joined_lines_def others .
  show "length (joined_lines b' sid pid) \<le> 1" for sid pid
    using stock_coreD(4)[OF core, of sid pid] unfolding joined_lines_def others .
  show "product_in (s_store r) pid b'" if "i \<in> set (bk_items b')" "i_product i = Some pid"
    "find_key s_id (i_sale i) (bk_sales b') = Some r" for i pid r
    using that unfolding others by (intro grow(2) stock_coreD(5)[OF core])
qed (rule bal)

lemma ledger_sum_unknown: "pid \<notin> m_product ` set (bk_movements b) \<Longrightarrow> ledger_sum b pid = 0"
proof -
  have "pid \<notin> m_product ` set ms \<Longrightarrow>
      (\<Sum>m\<leftarrow>ms. if m_product m = pid \<and> m_deleted_at m = None then m_quantity m else 0) = 0" for ms
    by (induction ms) auto
  then show "pid \<notin> m_product ` set (bk_movements b) \<Longrightarrow> ledger_sum b pid = 0"
    by (simp add: ledger_sum_def)
qed

lemma product_upsertE:
  assumes "product_upsert e st pid name barcode unit cost selling opening reorder b = Inr (v, b')"
  obtains (inserted) row where "find_key p_id pid (bk_products b) = None" "p_id row = pid"
      "p_store row = st" "p_stock row = opening" "v = view_product row"
      "p_cost_price row = cost" "p_selling_price row = selling"
      "b' = b\<lparr>bk_products := bk_products b @ [row]\<rparr>"
  | (updated) old new where "find_key p_id pid (bk_products b) = Some old" "p_store old = st"
      "p_id new = pid" "p_store new = st" "p_cost_price new = cost" "p_selling_price new = selling"
      "v = view_product (product_merge old new)"
      "b' = b\<lparr>bk_products := upd_where (\<lambda>r. p_id r = pid) (\<lambda>r. product_merge r new)
                                (bk_products b)\<rparr>"
proof -
  let ?new = "\<lparr>p_id = pid, p_store = st, p_name = name, p_barcode = barcode,
                 p_unit_label = unit, p_cost_price = cost,
                 p_selling_price = selling, p_stock = opening,
                 p_reorder_level = reorder, p_is_active = True,
                 p_updated_at = e_now e, p_deleted_at = None\<rparr>"
  show ?thesis
  proof (cases "find_key p_id pid (bk_products b)")
    case None
    then show ?thesis
      using assms inserted[of ?new]
      by (simp add: product_upsert_def Let_def upsert_def split: if_splits)
  next
    case (Some old)
    then show ?thesis
      using assms updated[of old ?new]
      by (auto simp: product_upsert_def Let_def upsert_def product_guard_def split: if_splits)
  qed
qed

lemma product_upsert_core:
  assumes up: "product_upsert e st pid name barcode unit cost selling stock reorder b = Inr (v, b')"
    and core: "stock_core txt opening {} b"
  shows "\<exists>opening'. (\<forall>i \<in> p_id ` set (bk_products b). opening' i = opening i)
    \<and> stock_core txt opening' {} b'"
  using up
proof (cases rule: product_upsertE)
  case (inserted row)
  have new: "pid \<notin> p_id ` set (bk_products b)" using inserted(1) by (simp add: find_key_None_iff)
  have sums: "ledger_sum b' = ledger_sum b" using inserted(8) by (simp add: ledger_sum_def fun_eq_iff)
  have "ledger_sum b pid = 0"
    using stock_coreD(2)[OF core] new by (intro ledger_sum_unknown) blast
  then have "ledger_balanced (opening(pid := stock)) b'"
    using stock_coreD(1)[OF core] new inserted sums by (auto simp: ledger_balanced_def image_iff)
  then have "stock_core txt (opening(pid := stock)) {} b'"
    using inserted(8) by (intro stock_core_products[OF core]) (auto simp: product_in_def)
  then show ?thesis using new by (intro exI[of _ "opening(pid := stock)"]) auto
next
  case (updated old new)
  have shift: "stock_shift (\<lambda>_ _. 0) b b'"
    using updated(8)
    by (intro stock_shift_upd_where[where hit = "\<lambda>r. p_id r = pid" and f = "\<lambda>r. product_merge r new"]) simp_all
  have "ledger_balanced opening b'"
    using updated(8) by (intro balanced_shift[OF stock_coreD(1)[OF core] shift, of "\<lambda>_. 0"])
      (simp_all add: ledger_sum_def)
  then have "stock_core txt opening {} b'"
    using updated(8) arg_cong[OF stock_shift_ids(1)[OF shift], of set] product_in_shift[OF shift]
    by (intro stock_core_products[OF core]) simp_all
  then show ?thesis by blast
qed

text \<open>One request and the ledger: known products keep what they opened with.\<close>

definition keeps_ledger :: "(uuid \<Rightarrow> string) \<Rightarrow> books \<Rightarrow> books \<Rightarrow> bool" where
  "keeps_ledger txt b b' \<longleftrightarrow>
     (\<forall>opening. stock_books txt opening b \<longrightarrow>
        (\<exists>opening'. (\<forall>i \<in> p_id ` set (bk_products b). opening' i = opening i)
           \<and> stock_books txt opening' b'))
     \<and> p_id ` set (bk_products b) \<subseteq> p_id ` set (bk_products b')"

lemma keeps_ledger_refl [simp]: "keeps_ledger txt b b"
  by (auto simp: keeps_ledger_def)

lemma keeps_ledger_trans:
  assumes "keeps_ledger txt a b" and "keeps_ledger txt b c"
  shows "keeps_ledger txt a c"
  unfolding keeps_ledger_def
proof (intro conjI allI impI)
  fix opn assume "stock_books txt opn a"
  then obtain o1 where o1: "\<forall>i \<in> p_id ` set (bk_products a). o1 i = opn i" "stock_books txt o1 b"
    using assms(1) unfolding keeps_ledger_def by blast
  then obtain o2 where o2: "\<forall>i \<in> p_id ` set (bk_products b). o2 i = o1 i" "stock_books txt o2 c"
    using assms(2) unfolding keeps_ledger_def by blast
  have sub: "p_id ` set (bk_products a) \<subseteq> p_id ` set (bk_products b)"
    using assms(1) by (simp add: keeps_ledger_def)
  have "o2 i = opn i" if "i \<in> p_id ` set (bk_products a)" for i
    using o1(1)[rule_format, OF that] o2(1)[rule_format, OF subsetD[OF sub that]] by simp
  then show "\<exists>opening'. (\<forall>i \<in> p_id ` set (bk_products a). opening' i = opn i)
      \<and> stock_books txt opening' c"
    using o2(2) by blast
next
  show "p_id ` set (bk_products a) \<subseteq> p_id ` set (bk_products c)"
    by (rule order_trans[OF assms(1)[unfolded keeps_ledger_def, THEN conjunct2]
          assms(2)[unfolded keeps_ledger_def, THEN conjunct2]])
qed

lemma keeps_ledgerI:
  assumes "\<And>opening. stock_books txt opening b \<Longrightarrow> stock_books txt opening b'"
    and "p_id ` set (bk_products b) \<subseteq> p_id ` set (bk_products b')"
  shows "keeps_ledger txt b b'"
  unfolding keeps_ledger_def
proof (intro conjI allI impI)
  fix opn assume "stock_books txt opn b"
  from assms(1)[OF this] show "\<exists>opening'. (\<forall>i \<in> p_id ` set (bk_products b). opening' i = opn i)
      \<and> stock_books txt opening' b'" by (intro exI[of _ opn]) simp
qed (rule assms(2))

lemma keeps_ledger_frame:
  assumes "confined st b b'"
    and "bk_products b' = bk_products b" "bk_movements b' = bk_movements b"
      "bk_sales b' = bk_sales b" "bk_items b' = bk_items b"
  shows "keeps_ledger txt b b'"
  using assms(1) stock_core_cong[OF _ assms(2-5)]
  by (intro keeps_ledgerI) (auto simp: stock_books_def confined_def assms(2))

lemma keeps_ledger_draw: "keeps_ledger txt b (b\<lparr>bk_drawn := n\<rparr>)"
  by (rule keeps_ledger_frame[OF confined_draw]) simp_all

lemma keeps_ledger_unwrap: "unwrap_or_new e given b = (i, b') \<Longrightarrow> keeps_ledger txt b b'"
  using unwrap_or_new_frame keeps_ledger_draw by metis

lemma product_upsert_ledger:
  assumes "product_upsert e st pid name barcode unit cost selling stock reorder b = Inr (v, b')"
  shows "keeps_ledger txt b b'"
  unfolding keeps_ledger_def
proof (intro conjI allI impI)
  fix opn assume "stock_books txt opn b"
  then show "\<exists>opening'. (\<forall>i \<in> p_id ` set (bk_products b). opening' i = opn i)
      \<and> stock_books txt opening' b'"
    using product_upsert_core[OF assms] product_upsert_confined[OF assms]
    by (simp add: stock_books_def confined_def)
next
  from assms show "p_id ` set (bk_products b) \<subseteq> p_id ` set (bk_products b')"
  proof (cases rule: product_upsertE)
    case (updated old new)
    have "map p_id (bk_products b') = map p_id (bk_products b)"
      using updated(8) by (simp add: map_upd_where)
    from arg_cong[OF this, of set] show ?thesis by simp
  qed auto
qed

lemma product_save_ledger:
  assumes "product_save e st actor request b = Inr (v, b')"
  shows "keeps_ledger txt b b'"
  using assms
proof (cases rule: product_saveE)
  case (1 pid b1 b2)
  have "keeps_ledger txt b2 b'"
    by (rule keeps_ledger_frame[of st]) (auto simp: 1(5) intro!: confined_publish confined_audit
        split: option.split)
  then show ?thesis
    using keeps_ledger_unwrap[OF 1(2)] product_upsert_ledger[OF 1(4)]
    by (blast intro: keeps_ledger_trans)
qed

lemma product_remove_ledger:
  assumes "product_remove e st actor pid b = Inr (u, b')"
  shows "keeps_ledger txt b b'"
proof -
  let ?hit = "\<lambda>r. p_store r = st \<and> p_id r = pid \<and> product_live r"
  have prods: "bk_products b' = upd_where ?hit (bury_product (e_now e)) (bk_products b)"
    and others: "bk_movements b' = bk_movements b" "bk_sales b' = bk_sales b" "bk_items b' = bk_items b"
    using assms by (auto simp: product_remove_def product_soft_delete_def soft_delete_def Let_def)
  have shift: "stock_shift (\<lambda>_ _. 0) b b'"
    using prods by (intro stock_shift_upd_where[where hit = ?hit and f = "bury_product (e_now e)"])
      (simp_all add: bury_product_def)
  have ids: "p_id ` set (bk_products b') = p_id ` set (bk_products b)"
    using arg_cong[OF stock_shift_ids(1)[OF shift], of set] by simp
  show ?thesis
  proof (rule keeps_ledgerI)
    fix opn assume inv: "stock_books txt opn b"
    then have core: "stock_core txt opn {} b" by (simp add: stock_books_def)
    have "ledger_balanced opn b'"
      by (rule balanced_shift[OF stock_coreD(1)[OF core] shift, of "\<lambda>_. 0"])
        (simp_all add: ledger_sum_def others)
    then have "stock_core txt opn {} b'"
      using others ids product_in_shift[OF shift] by (intro stock_core_products[OF core]) simp_all
    then show "stock_books txt opn b'"
      using inv product_remove_confined[OF assms] by (simp add: stock_books_def confined_def)
  qed (simp add: ids)
qed

text \<open>A movement a user records by hand must not carry the note of a sale: \<open>retire_movements_for\<close>
  tells a sale's movements by their note alone.\<close>

definition not_a_sale_note :: "(uuid \<Rightarrow> string) \<Rightarrow> string option \<Rightarrow> bool" where
  "not_a_sale_note txt note \<longleftrightarrow> (\<forall>sid. note \<noteq> Some (''sale '' @ txt sid))"

lemma record_movement_ledger:
  assumes rec: "record_movement e entry b = Inr (applied, b')"
    and unnoted: "not_a_sale_note txt (le_note entry)"
  shows "keeps_ledger txt b b'"
  using rec
proof (cases rule: record_movementE)
  case (replayed p)
  then show ?thesis by simp
next
  case (moved p delta)
  let ?hit = "\<lambda>r. p_id r = le_product_id entry \<and> p_store r = le_store_id entry"
  have p: "p \<in> set (bk_products b)" "p_id p = le_product_id entry" "p_store p = le_store_id entry"
    using moved(1) by (auto dest: product_row_atD)
  have "map p_id (bk_products b') = map p_id (bk_products b)"
    using moved(5) by (simp add: map_upd_where)
  from arg_cong[OF this, of set] have ids: "p_id ` set (bk_products b') = p_id ` set (bk_products b)"
    by simp
  have "map (\<lambda>p. (p_id p, p_store p)) (bk_products b') = map (\<lambda>p. (p_id p, p_store p)) (bk_products b)"
    using moved(5) by (simp add: map_upd_where)
  then have pin: "product_in s i b' = product_in s i b" for s i
    by (simp only: product_in_pairs)
  show ?thesis
  proof (rule keeps_ledgerI)
    fix opn assume inv: "stock_books txt opn b"
    then have core: "stock_core txt opn {} b" by (simp add: stock_books_def)
    have "keys_unique b" using inv by (simp add: stock_books_def books_ok_def)
    then have bal: "ledger_balanced opn b'"
      using record_movement_balanced[OF rec] stock_coreD(1)[OF core] by blast
    have "stock_core txt opn {} b'"
    proof (rule stock_coreI)
      show "m_product ` set (bk_movements b') \<subseteq> p_id ` set (bk_products b')"
      proof -
        have "le_product_id entry \<in> p_id ` set (bk_products b)" using imageI[OF p(1), of p_id] p(2) by simp
        moreover have "m_product ` set (bk_movements b')
            = insert (le_product_id entry) (m_product ` set (bk_movements b))"
          using moved(5) by simp
        ultimately show ?thesis using stock_coreD(2)[OF core] by (simp add: ids)
      qed
      show "sale_moves txt b' s i pid
        = (if live_sale b' s i \<and> i \<notin> {} then - item_total b' i pid else 0)" for s i pid
        using stock_coreD(3)[OF core, of s i pid] unnoted moved(5)
        by (simp add: sale_moves_def live_sale_def item_total_def joined_lines_def not_a_sale_note_def)
      show "length (joined_lines b' i pid) \<le> 1" for i pid
        using stock_coreD(4)[OF core, of i pid] moved(5) by (simp add: joined_lines_def)
      show "product_in (s_store r) pid b'" if "i \<in> set (bk_items b')" "i_product i = Some pid"
        "find_key s_id (i_sale i) (bk_sales b') = Some r" for i pid r
        using that moved(5) unfolding pin by (intro stock_coreD(5)[OF core]) simp_all
    qed (rule bal)
    then show "stock_books txt opn b'"
      using inv record_movement_confined[OF rec] by (simp add: stock_books_def confined_def)
  qed (simp add: ids)
qed

lemma inventory_record_ledger:
  assumes "inventory_record e st actor request b = Inr (u, b')"
    and "not_a_sale_note txt (trim_nonempty (rm_note request))"
  shows "keeps_ledger txt b b'"
  using assms(1)
proof (cases rule: inventory_recordE)
  case (1 eff mid b1 applied b2)
  have "keeps_ledger txt b1 b2" using record_movement_ledger[OF 1(4)] assms(2) by simp
  moreover have "keeps_ledger txt b2 b'"
    by (rule keeps_ledger_frame[of st]) (auto simp: 1(5) after_movement_def Let_def
        intro!: confined_publish confined_audit confined_invalidate split: option.split)
  ultimately show ?thesis
    using keeps_ledger_unwrap[OF 1(3)] by (blast intro: keeps_ledger_trans)
qed

subsection \<open>Sales\<close>

definition one_line_per_product :: "record_sale_request \<Rightarrow> bool" where
  "one_line_per_product request =
     distinct (filter (\<lambda>p. p \<noteq> None) (map sl_product_id (rs_items request)))"

lemma sale_write_ids:
  assumes "sale_write e sale by b = Inr (v, b')" and "inj (e_uuid_text e)"
  shows "p_id ` set (bk_products b') = p_id ` set (bk_products b)"
  using arg_cong[OF stock_shift_ids(1)[OF sale_write_effect(1)[OF assms]], of set] by simp

lemma restore_ids:
  assumes "restore_stock_for e sid st b = Inr b'"
  shows "p_id ` set (bk_products b') = p_id ` set (bk_products b)"
  using assms
proof (rule restore_stock_forE)
  assume "b' = b\<lparr>bk_products := upd_where
     (\<lambda>p. p_store p = st \<and> joined_lines b sid (p_id p) \<noteq> [])
     (\<lambda>p. p\<lparr>p_stock := p_stock p + restored_quantity e b sid (p_id p),
            p_updated_at := e_now e\<rparr>) (bk_products b)\<rparr>"
  then have "map p_id (bk_products b') = map p_id (bk_products b)" by (simp add: map_upd_where)
  from arg_cong[OF this, of set] show ?thesis by simp
qed

lemma record_sale_ids:
  assumes "record_sale e sale by b = Inr (rd, b')" and inj: "inj (e_uuid_text e)"
  shows "p_id ` set (bk_products b') = p_id ` set (bk_products b)"
  using assms(1)
proof (cases rule: record_saleE)
  case first
  then show ?thesis using sale_write_ids inj by metis
next
  case (voided old)
  then show ?thesis by simp
next
  case (replaced old b1)
  then show ?thesis using sale_write_ids[OF replaced(6) inj] restore_ids[OF replaced(5)] by simp
qed

lemma record_sale_ledger:
  assumes rec: "record_sale e sale by b = Inr (rd, b')" and inj: "inj (e_uuid_text e)"
    and "one_line_each (ps_lines sale)"
    and "\<And>l pid. l \<in> set (ps_lines sale) \<Longrightarrow> pl_product_id l = Some pid
      \<Longrightarrow> product_in (ps_store_id sale) pid b"
  shows "keeps_ledger (e_uuid_text e) b b'"
proof (rule keeps_ledgerI)
  show "stock_books (e_uuid_text e) opn b'" if "stock_books (e_uuid_text e) opn b" for opn
    using record_sale_stock_books[OF rec inj that assms(3,4)] .
qed (simp add: record_sale_ids[OF rec inj])

lemma resolved_lines_known:
  assumes "resolve_lines e st items b = Inr (lines, b')" and "l \<in> set lines"
    and "pl_product_id l = Some pid"
  shows "product_in st pid b"
proof -
  have "product_row_at b st pid \<noteq> None"
    using resolve_lines_frame[OF assms(1)] assms(2,3) by (auto simp: list_all_iff)
  then show ?thesis by (auto simp: product_in_def dest: product_row_atD)
qed

lemma drop_costs_products [simp]:
  "map sl_product_id (drop_costs actor items) = map sl_product_id items"
  by (simp add: drop_costs_def)

lemma sale_record_ledger:
  assumes rec: "sale_record e st actor request b = Inr (d, b')" and inj: "inj (e_uuid_text e)"
    and single: "one_line_per_product request"
  shows "keeps_ledger (e_uuid_text e) b b'"
  using rec
proof (cases rule: sale_recordE)
  case (1 pm sid b1 lines n rd b3)
  obtain m where b1: "b1 = b\<lparr>bk_drawn := m\<rparr>" using unwrap_or_new_frame[OF 1(2)] by blast
  have "map pl_product_id lines = map sl_product_id (rs_items request)"
    using resolve_lines_frame[OF 1(3)] by simp
  then have "one_line_each lines"
    using single by (simp add: one_line_each_def one_line_per_product_def)
  moreover have "product_in st pid (b\<lparr>bk_drawn := n\<rparr>)"
    if "l \<in> set lines" "pl_product_id l = Some pid" for l pid
    using resolved_lines_known[OF 1(3) that] by (simp add: product_in_def b1)
  ultimately have "keeps_ledger (e_uuid_text e) (b\<lparr>bk_drawn := n\<rparr>) b3"
    by (intro record_sale_ledger[OF 1(4) inj]) simp_all
  moreover have "keeps_ledger (e_uuid_text e) b3 b'"
    unfolding 1(6) by (rule keeps_ledger_frame[OF confined_after_sale])
      (simp_all add: after_sale_def announce_low_stock_def Let_def)
  ultimately show ?thesis using keeps_ledger_draw by (blast intro: keeps_ledger_trans)
qed

lemma sale_void_ledger:
  assumes rec: "sale_void e st actor sid b = Inr (u, b')" and inj: "inj (e_uuid_text e)"
  shows "keeps_ledger (e_uuid_text e) b b'"
  using rec
proof (cases rule: sale_voidE)
  case (1 v b1)
  have "p_id ` set (bk_products b1) = p_id ` set (bk_products b)"
    using 1(2)
  proof (cases rule: void_saleE)
    case (voided r b2)
    then show ?thesis using restore_ids[OF voided(6)] by simp
  qed simp
  then have "keeps_ledger (e_uuid_text e) b b1"
    using void_sale_stock_books[OF 1(2) inj] by (intro keeps_ledgerI) simp_all
  moreover have "keeps_ledger (e_uuid_text e) b1 b'"
    by (rule keeps_ledger_frame[of st])
      (auto simp: 1(3) intro!: confined_publish confined_audit confined_invalidate)
  ultimately show ?thesis by (rule keeps_ledger_trans)
qed

section \<open>What one sale does to one product\<close>

lemma record_sale_first_stock:
  assumes "sale_write e sale by b = Inr (v, b')" and "inj (e_uuid_text e)"
    and "product_in (ps_store_id sale) pid b"
  shows "stock_on_hand b' (ps_store_id sale) pid
    = stock_on_hand b (ps_store_id sale) pid - sold (ps_lines sale) pid"
  using stock_on_hand_shift[OF sale_write_effect(1)[OF assms(1,2)] assms(3)] by simp

lemma record_sale_replaced_stock:
  assumes "record_sale e sale by b = Inr (rd, b')" and inj: "inj (e_uuid_text e)"
    and old: "find_key s_id (ps_id sale) (bk_sales b) = Some old" "s_deleted_at old = None"
    and single: "\<And>i. length (joined_lines b (ps_id sale) i) \<le> 1"
    and pin: "product_in (ps_store_id sale) pid b"
  shows "stock_on_hand b' (ps_store_id sale) pid = stock_on_hand b (ps_store_id sale) pid
      + item_total b (ps_id sale) pid - sold (ps_lines sale) pid"
  using assms(1)
proof (cases rule: record_saleE)
  case (replaced old' b1)
  let ?b2 = "retire_movements_for e (ps_id sale) (ps_store_id sale) b1"
  have "stock_shift (\<lambda>s i. if s = ps_store_id sale then item_total b (ps_id sale) i else 0) b b1"
    by (rule restore_shift[OF replaced(5) single])
  then have shift: "stock_shift (\<lambda>s i. if s = ps_store_id sale then item_total b (ps_id sale) i else 0) b ?b2"
    by (simp add: stock_shift_def)
  have "stock_on_hand ?b2 (ps_store_id sale) pid
      = stock_on_hand b (ps_store_id sale) pid + item_total b (ps_id sale) pid"
    using stock_on_hand_shift[OF shift pin] by simp
  then show ?thesis
    using record_sale_first_stock[OF replaced(6) inj] product_in_shift[OF shift] pin by simp
qed (use old in auto)

end
