(* ===== verification/Expenses.thy ===== *)
theory Expenses
  imports Books Products
begin

text \<open>
  \<^verbatim>\<open>backend/src/features/expenses\<close>: the closed list of categories, the upsert with its
  ownership guard, and the service. An existing expense is overwritten only by the owner or by
  whoever recorded it.
\<close>

section \<open>Categories\<close>

datatype expense_category =
    CatInventory | CatUtilities | CatSalary | CatTransportation | CatRent | CatSupplies
  | CatRepairs | CatTaxesPermits | CatOther

fun category_as_str :: "expense_category \<Rightarrow> string" where
  "category_as_str CatInventory = ''inventory''"
| "category_as_str CatUtilities = ''utilities''"
| "category_as_str CatSalary = ''salary''"
| "category_as_str CatTransportation = ''transportation''"
| "category_as_str CatRent = ''rent''"
| "category_as_str CatSupplies = ''supplies''"
| "category_as_str CatRepairs = ''repairs''"
| "category_as_str CatTaxesPermits = ''taxes_permits''"
| "category_as_str CatOther = ''other''"

definition category_all :: "expense_category list" where
  "category_all = [CatInventory, CatUtilities, CatSalary, CatTransportation, CatRent,
     CatSupplies, CatRepairs, CatTaxesPermits, CatOther]"

definition category_parse :: "string \<Rightarrow> api_error + expense_category" where
  "category_parse raw =
     (let s = to_lowercase (trim raw)
      in if s = ''inventory'' then Inr CatInventory
         else if s = ''utilities'' then Inr CatUtilities
         else if s = ''salary'' then Inr CatSalary
         else if s = ''transportation'' then Inr CatTransportation
         else if s = ''rent'' then Inr CatRent
         else if s = ''supplies'' then Inr CatSupplies
         else if s = ''repairs'' then Inr CatRepairs
         else if s = ''taxes_permits'' then Inr CatTaxesPermits
         else if s = ''other'' then Inr CatOther
         else Inl (BadRequest (''unknown expense category '' @ [CHR 0x27] @ s @ [CHR 0x27])))"

section \<open>Payloads\<close>

record record_expense_request =
  rx_id :: "uuid option"
  rx_category :: string
  rx_description :: "string option"
  rx_amount :: rat
  rx_occurred_at :: "instant option"

definition record_expense_issues ::
  "record_expense_request \<Rightarrow> (string \<times> string option) list" where
  "record_expense_issues r =
     (if rx_category r = [] then [(''category'', Some ''is required'')] else [])
     @ (if rx_amount r \<le> 0 then [(''amount'', Some ''must be greater than zero'')] else [])"

record expense_view =
  xv_id :: uuid
  xv_category :: string
  xv_description :: "string option"
  xv_amount :: money
  xv_occurred_at :: instant

definition view_expense :: "expense_row \<Rightarrow> expense_view" where
  "view_expense r =
     \<lparr>xv_id = x_id r, xv_category = x_category r, xv_description = x_description r,
      xv_amount = x_amount r, xv_occurred_at = x_occurred_at r\<rparr>"

record expense_filter =
  xf_from :: "instant option"
  xf_to :: "instant option"
  xf_category :: "string option"

section \<open>Repository\<close>

text \<open>In the guard a NULL recorder equals nothing, so a row the owner recorded is the owner's
  alone.\<close>

definition expense_guard :: "bool \<Rightarrow> expense_row \<Rightarrow> expense_row \<Rightarrow> bool" where
  "expense_guard by_owner old new \<longleftrightarrow> x_store old = x_store new
     \<and> (by_owner \<or> (x_recorded_by old \<noteq> None \<and> x_recorded_by old = x_recorded_by new))"

definition expense_merge :: "expense_row \<Rightarrow> expense_row \<Rightarrow> expense_row" where
  "expense_merge old new =
     old\<lparr>x_category := x_category new, x_description := x_description new,
         x_amount := x_amount new, x_occurred_at := x_occurred_at new,
         x_deleted_at := None, x_updated_at := x_updated_at new\<rparr>"

definition expense_upsert ::
  "env \<Rightarrow> uuid \<Rightarrow> uuid \<Rightarrow> string \<Rightarrow> string option \<Rightarrow> money \<Rightarrow> instant \<Rightarrow> uuid option \<Rightarrow> bool
    \<Rightarrow> books \<Rightarrow> api_error + ((expense_view \<times> bool) option \<times> books)" where
  "expense_upsert e store_id expense_id category description amount occurred_at recorded_by
       by_owner b =
     (let new = \<lparr>x_id = expense_id, x_store = store_id, x_category = category,
                 x_description = description, x_amount = amount, x_occurred_at = occurred_at,
                 x_recorded_by = recorded_by, x_updated_at = e_now e, x_deleted_at = None\<rparr>
      in if \<not> fits14 amount then Inl Internal
         else let (saved, rows) =
                    upsert x_id (expense_guard by_owner) expense_merge new (bk_expenses b)
              in Inr (map_option (\<lambda>(row, inserted). (view_expense row, inserted)) saved,
                      b\<lparr>bk_expenses := rows\<rparr>))"

definition expense_list ::
  "books \<Rightarrow> uuid \<Rightarrow> expense_filter \<Rightarrow> page_request \<Rightarrow> expense_view list" where
  "expense_list b store_id flt page =
     (let hit = (\<lambda>r. x_store r = store_id \<and> x_deleted_at r = None
             \<and> (case xf_from flt of None \<Rightarrow> True | Some t \<Rightarrow> t \<le> x_occurred_at r)
             \<and> (case xf_to flt of None \<Rightarrow> True | Some t \<Rightarrow> x_occurred_at r < t)
             \<and> (case xf_category flt of None \<Rightarrow> True | Some c \<Rightarrow> x_category r = c))
      in map view_expense
           (page_rows page (sort_key (\<lambda>r. - x_occurred_at r) (filter hit (bk_expenses b)))))"

definition expense_live :: "expense_row \<Rightarrow> bool" where
  "expense_live r = (x_deleted_at r = None)"

definition bury_expense :: "instant \<Rightarrow> expense_row \<Rightarrow> expense_row" where
  "bury_expense now r = r\<lparr>x_deleted_at := Some now, x_updated_at := now\<rparr>"

definition expense_soft_delete ::
  "env \<Rightarrow> uuid \<Rightarrow> uuid \<Rightarrow> books \<Rightarrow> expense_view option \<times> books" where
  "expense_soft_delete e store_id expense_id b =
     (let (removed, rows) = soft_delete x_id x_store expense_live (bury_expense (e_now e))
                              store_id expense_id (bk_expenses b)
      in (map_option view_expense removed, b\<lparr>bk_expenses := rows\<rparr>))"

interpretation expense_upserts:
  upsert_table x_id x_store "expense_guard by_owner" expense_merge for by_owner
  by unfold_locales (simp_all add: expense_merge_def expense_guard_def)

interpretation expense_deletes:
  soft_delete_table x_id x_store expense_live "bury_expense now" for now
  by unfold_locales (simp_all add: bury_expense_def expense_live_def)

section \<open>Service\<close>

definition expense_record ::
  "env \<Rightarrow> uuid \<Rightarrow> actor \<Rightarrow> record_expense_request \<Rightarrow> books
    \<Rightarrow> api_error + (expense_view \<times> books)" where
  "expense_record e store_id actor request b =
     bindR (require actor RecordExpenses) (\<lambda>_.
     bindR (category_parse (rx_category request)) (\<lambda>category.
     let (expense_id, b1) = unwrap_or_new e (rx_id request) b
     in bindR (expense_upsert e store_id expense_id (category_as_str category)
                 (trim_nonempty (rx_description request))
                 (money_from_f64 e (rx_amount request))
                 (case rx_occurred_at request of None \<Rightarrow> e_now e | Some t \<Rightarrow> t)
                 (staff_id actor) (is_owner actor) b1) (\<lambda>(saved, b2).
        bindR (ok_or saved
                 (Forbidden ''only the owner can change an expense someone else recorded''))
          (\<lambda>(expense, inserted).
             let b3 = (if inserted
                       then audit_record e actor
                         (entry_at (xv_occurred_at expense)
                           (entry_new e store_id ExpenseRecorded (xv_id expense)
                             (JObj [(''amount'', money_json (xv_amount expense)),
                                    (''category'', JStr (xv_category expense))]))) b2
                       else b2)
             in Inr (expense,
                  publish (event_new e store_id TopicExpenseRecorded (Some (xv_id expense)))
                    (invalidate_store store_id b3))))))"

definition expense_remove ::
  "env \<Rightarrow> uuid \<Rightarrow> actor \<Rightarrow> uuid \<Rightarrow> books \<Rightarrow> api_error + (unit \<times> books)" where
  "expense_remove e store_id actor expense_id b =
     bindR (require actor DeleteRecords) (\<lambda>_.
     (let (removed, b1) = expense_soft_delete e store_id expense_id b
      in bindR (ok_or removed (NotFound ''expense'')) (\<lambda>v.
           Inr ((), publish (event_new e store_id TopicExpenseRemoved (Some expense_id))
             (invalidate_store store_id
               (audit_record e actor
                  (entry_new e store_id ExpenseDeleted expense_id
                     (JObj [(''amount'', money_json (xv_amount v)),
                            (''category'', JStr (xv_category v))])) b1))))))"

definition expense_categories :: "string list" where
  "expense_categories = map category_as_str category_all"

definition handle_list_expenses ::
  "books \<Rightarrow> uuid \<Rightarrow> actor \<Rightarrow> expense_filter \<Rightarrow> page_request \<Rightarrow> api_error + expense_view list" where
  "handle_list_expenses b store_id actor flt page =
     bindR (require actor ViewProfit) (\<lambda>_. Inr (expense_list b store_id flt page))"

section \<open>Lemmas\<close>

lemma expense_upsertE:
  assumes "expense_upsert e st xid category description amount t by owner b = Inr (saved, b')"
  obtains new res rows where
    "upsert x_id (expense_guard owner) expense_merge new (bk_expenses b) = (res, rows)"
    "x_id new = xid" "x_store new = st" "x_recorded_by new = by"
    "saved = map_option (\<lambda>(row, inserted). (view_expense row, inserted)) res"
    "b' = b\<lparr>bk_expenses := rows\<rparr>"
proof -
  let ?new = "\<lparr>x_id = xid, x_store = st, x_category = category,
                 x_description = description, x_amount = amount, x_occurred_at = t,
                 x_recorded_by = by, x_updated_at = e_now e, x_deleted_at = None\<rparr>"
  obtain res rows where u:
    "upsert x_id (expense_guard owner) expense_merge ?new (bk_expenses b) = (res, rows)"
    by fastforce
  show ?thesis
    using assms that[OF u] u by (simp add: expense_upsert_def Let_def split: if_splits)
qed

lemma expense_upsert_confined:
  assumes "expense_upsert e st xid category description amount t by owner b = Inr (saved, b')"
  shows "confined st b b'"
  using assms
proof (rule expense_upsertE)
  fix new res rows
  assume u: "upsert x_id (expense_guard owner) expense_merge new (bk_expenses b) = (res, rows)"
    and new: "x_store new = st" and b': "b' = b\<lparr>bk_expenses := rows\<rparr>"
  show ?thesis
    unfolding b' using expense_upserts.distinct_upsert[OF u] expense_upserts.other_stores_kept[OF u]
    by (intro confined_expenses) (simp_all add: new)
qed

lemma expense_recordE:
  assumes "expense_record e st actor request b = Inr (v, b')"
  obtains category xid b1 inserted b2 where
    "can actor RecordExpenses" "category_parse (rx_category request) = Inr category"
    "unwrap_or_new e (rx_id request) b = (xid, b1)"
    "expense_upsert e st xid (category_as_str category) (trim_nonempty (rx_description request))
       (money_from_f64 e (rx_amount request))
       (case rx_occurred_at request of None \<Rightarrow> e_now e | Some t \<Rightarrow> t)
       (staff_id actor) (is_owner actor) b1 = Inr (Some (v, inserted), b2)"
    "b' = publish (event_new e st TopicExpenseRecorded (Some (xv_id v)))
       (invalidate_store st (if inserted
          then audit_record e actor
            (entry_at (xv_occurred_at v)
              (entry_new e st ExpenseRecorded (xv_id v)
                (JObj [(''amount'', money_json (xv_amount v)),
                       (''category'', JStr (xv_category v))]))) b2
          else b2))"
proof -
  obtain xid b1 where u: "unwrap_or_new e (rx_id request) b = (xid, b1)" by fastforce
  show ?thesis
    using assms u that[of _ xid b1] by (auto simp: expense_record_def Let_def split: prod.splits)
qed

lemma expense_record_confined:
  assumes "expense_record e st actor request b = Inr (v, b')"
  shows "confined st b b'"
  using assms
proof (cases rule: expense_recordE)
  case (1 category xid b1 inserted b2)
  have "confined st b b2"
    using unwrap_or_new_confined[OF 1(3)] expense_upsert_confined[OF 1(4)]
    by (rule confined_trans)
  then show ?thesis
    using 1(5) by (auto intro!: confined_publish confined_audit confined_invalidate)
qed

lemma expense_remove_confined:
  assumes "expense_remove e st actor xid b = Inr (u, b')"
  shows "confined st b b'"
proof -
  let ?rows = "snd (soft_delete x_id x_store expense_live (bury_expense (e_now e)) st xid (bk_expenses b))"
  have "confined st b (b\<lparr>bk_expenses := ?rows\<rparr>)"
    using expense_deletes.keys_kept expense_deletes.other_stores_kept
    by (intro confined_expenses) simp_all
  then show ?thesis
    using assms
    by (auto simp: expense_remove_def expense_soft_delete_def Let_def split: prod.splits
        intro!: confined_publish confined_audit confined_invalidate)
qed

end
