(* ===== verification/Withdrawals.thy ===== *)
theory Withdrawals
  imports Books Products
begin

text \<open>
  \<^verbatim>\<open>backend/src/features/withdrawals\<close>: money the owner takes out of the store. Only the
  owner records or removes it.
\<close>

section \<open>Payloads\<close>

record record_withdrawal_request =
  rw_id :: "uuid option"
  rw_amount :: rat
  rw_reason :: "string option"
  rw_occurred_at :: "instant option"

definition record_withdrawal_issues ::
  "record_withdrawal_request \<Rightarrow> (string \<times> string option) list" where
  "record_withdrawal_issues r =
     (if rw_amount r \<le> 0 then [(''amount'', Some ''must be greater than zero'')] else [])"

record withdrawal_view =
  wv_id :: uuid
  wv_amount :: money
  wv_reason :: "string option"
  wv_occurred_at :: instant

definition view_withdrawal :: "withdrawal_row \<Rightarrow> withdrawal_view" where
  "view_withdrawal r =
     \<lparr>wv_id = wd_id r, wv_amount = wd_amount r, wv_reason = wd_reason r,
      wv_occurred_at = wd_occurred_at r\<rparr>"

section \<open>Repository\<close>

definition withdrawal_guard :: "withdrawal_row \<Rightarrow> withdrawal_row \<Rightarrow> bool" where
  "withdrawal_guard old new = (wd_store old = wd_store new)"

definition withdrawal_merge :: "withdrawal_row \<Rightarrow> withdrawal_row \<Rightarrow> withdrawal_row" where
  "withdrawal_merge old new =
     old\<lparr>wd_amount := wd_amount new, wd_reason := wd_reason new,
         wd_occurred_at := wd_occurred_at new, wd_deleted_at := None,
         wd_updated_at := wd_updated_at new\<rparr>"

definition withdrawal_upsert ::
  "env \<Rightarrow> uuid \<Rightarrow> uuid \<Rightarrow> money \<Rightarrow> string option \<Rightarrow> instant \<Rightarrow> books
    \<Rightarrow> api_error + ((withdrawal_view \<times> bool) option \<times> books)" where
  "withdrawal_upsert e store_id withdrawal_id amount reason occurred_at b =
     (let new = \<lparr>wd_id = withdrawal_id, wd_store = store_id, wd_amount = amount,
                 wd_reason = reason, wd_occurred_at = occurred_at, wd_updated_at = e_now e,
                 wd_deleted_at = None\<rparr>
      in if \<not> fits14 amount then Inl Internal
         else let (saved, rows) =
                    upsert wd_id withdrawal_guard withdrawal_merge new (bk_withdrawals b)
              in Inr (map_option (\<lambda>(row, inserted). (view_withdrawal row, inserted)) saved,
                      b\<lparr>bk_withdrawals := rows\<rparr>))"

definition withdrawal_list :: "books \<Rightarrow> uuid \<Rightarrow> page_request \<Rightarrow> withdrawal_view list" where
  "withdrawal_list b store_id page =
     map view_withdrawal
       (page_rows page (sort_key (\<lambda>r. - wd_occurred_at r)
         (filter (\<lambda>r. wd_store r = store_id \<and> wd_deleted_at r = None) (bk_withdrawals b))))"

definition withdrawal_live :: "withdrawal_row \<Rightarrow> bool" where
  "withdrawal_live r = (wd_deleted_at r = None)"

definition bury_withdrawal :: "instant \<Rightarrow> withdrawal_row \<Rightarrow> withdrawal_row" where
  "bury_withdrawal now r = r\<lparr>wd_deleted_at := Some now, wd_updated_at := now\<rparr>"

definition withdrawal_soft_delete ::
  "env \<Rightarrow> uuid \<Rightarrow> uuid \<Rightarrow> books \<Rightarrow> withdrawal_view option \<times> books" where
  "withdrawal_soft_delete e store_id withdrawal_id b =
     (let (removed, rows) = soft_delete wd_id wd_store withdrawal_live
                              (bury_withdrawal (e_now e)) store_id withdrawal_id
                              (bk_withdrawals b)
      in (map_option view_withdrawal removed, b\<lparr>bk_withdrawals := rows\<rparr>))"

interpretation withdrawal_upserts:
  upsert_table wd_id wd_store withdrawal_guard withdrawal_merge
  by unfold_locales (simp_all add: withdrawal_merge_def withdrawal_guard_def)

interpretation withdrawal_deletes:
  soft_delete_table wd_id wd_store withdrawal_live "bury_withdrawal now" for now
  by unfold_locales (simp_all add: bury_withdrawal_def withdrawal_live_def)

section \<open>Service\<close>

definition withdrawal_record ::
  "env \<Rightarrow> uuid \<Rightarrow> actor \<Rightarrow> record_withdrawal_request \<Rightarrow> books
    \<Rightarrow> api_error + (withdrawal_view \<times> books)" where
  "withdrawal_record e store_id actor request b =
     bindR (require_owner actor) (\<lambda>_.
     let (withdrawal_id, b1) = unwrap_or_new e (rw_id request) b
     in bindR (withdrawal_upsert e store_id withdrawal_id
                 (money_from_f64 e (rw_amount request)) (trim_nonempty (rw_reason request))
                 (case rw_occurred_at request of None \<Rightarrow> e_now e | Some t \<Rightarrow> t) b1)
          (\<lambda>(saved, b2).
        bindR (ok_or saved foreign_id) (\<lambda>(withdrawal, inserted).
             let b3 = (if inserted
                       then audit_record e actor
                         (entry_at (wv_occurred_at withdrawal)
                           (entry_new e store_id WithdrawalRecorded (wv_id withdrawal)
                             (JObj [(''amount'', money_json (wv_amount withdrawal))]))) b2
                       else b2)
             in Inr (withdrawal,
                  publish (event_new e store_id TopicWithdrawalRecorded
                             (Some (wv_id withdrawal)))
                    (invalidate_store store_id b3)))))"

definition withdrawal_remove ::
  "env \<Rightarrow> uuid \<Rightarrow> actor \<Rightarrow> uuid \<Rightarrow> books \<Rightarrow> api_error + (unit \<times> books)" where
  "withdrawal_remove e store_id actor withdrawal_id b =
     bindR (require_owner actor) (\<lambda>_.
     (let (removed, b1) = withdrawal_soft_delete e store_id withdrawal_id b
      in bindR (ok_or removed (NotFound ''withdrawal'')) (\<lambda>v.
           Inr ((), invalidate_store store_id
               (audit_record e actor
                  (entry_new e store_id WithdrawalDeleted withdrawal_id
                     (JObj [(''amount'', money_json (wv_amount v))])) b1)))))"

definition handle_list_withdrawals ::
  "books \<Rightarrow> uuid \<Rightarrow> actor \<Rightarrow> page_request \<Rightarrow> api_error + withdrawal_view list" where
  "handle_list_withdrawals b store_id actor page =
     bindR (require actor ViewProfit) (\<lambda>_. Inr (withdrawal_list b store_id page))"

section \<open>Lemmas\<close>

lemma withdrawal_upsertE:
  assumes "withdrawal_upsert e st wid amount reason t b = Inr (saved, b')"
  obtains new res rows where
    "upsert wd_id withdrawal_guard withdrawal_merge new (bk_withdrawals b) = (res, rows)"
    "wd_id new = wid" "wd_store new = st"
    "saved = map_option (\<lambda>(row, inserted). (view_withdrawal row, inserted)) res"
    "b' = b\<lparr>bk_withdrawals := rows\<rparr>"
proof -
  let ?new = "\<lparr>wd_id = wid, wd_store = st, wd_amount = amount,
                 wd_reason = reason, wd_occurred_at = t, wd_updated_at = e_now e,
                 wd_deleted_at = None\<rparr>"
  obtain res rows where u:
    "upsert wd_id withdrawal_guard withdrawal_merge ?new (bk_withdrawals b) = (res, rows)"
    by fastforce
  show ?thesis
    using assms that[OF u] u by (simp add: withdrawal_upsert_def Let_def split: if_splits)
qed

lemma withdrawal_upsert_confined:
  assumes "withdrawal_upsert e st wid amount reason t b = Inr (saved, b')"
  shows "confined st b b'"
  using assms
proof (rule withdrawal_upsertE)
  fix new res rows
  assume u: "upsert wd_id withdrawal_guard withdrawal_merge new (bk_withdrawals b) = (res, rows)"
    and new: "wd_store new = st" and b': "b' = b\<lparr>bk_withdrawals := rows\<rparr>"
  show ?thesis
    unfolding b' using withdrawal_upserts.distinct_upsert[OF u]
      withdrawal_upserts.other_stores_kept[OF u]
    by (intro confined_withdrawals) (simp_all add: new)
qed

lemma withdrawal_recordE:
  assumes "withdrawal_record e st actor request b = Inr (v, b')"
  obtains wid b1 inserted b2 where
    "is_owner actor" "unwrap_or_new e (rw_id request) b = (wid, b1)"
    "withdrawal_upsert e st wid (money_from_f64 e (rw_amount request))
       (trim_nonempty (rw_reason request))
       (case rw_occurred_at request of None \<Rightarrow> e_now e | Some t \<Rightarrow> t) b1
       = Inr (Some (v, inserted), b2)"
    "b' = publish (event_new e st TopicWithdrawalRecorded (Some (wv_id v)))
       (invalidate_store st (if inserted
          then audit_record e actor
            (entry_at (wv_occurred_at v)
              (entry_new e st WithdrawalRecorded (wv_id v)
                (JObj [(''amount'', money_json (wv_amount v))]))) b2
          else b2))"
proof -
  obtain wid b1 where u: "unwrap_or_new e (rw_id request) b = (wid, b1)" by fastforce
  show ?thesis
    using assms u that[of wid b1] by (auto simp: withdrawal_record_def Let_def split: prod.splits)
qed

lemma withdrawal_record_confined:
  assumes "withdrawal_record e st actor request b = Inr (v, b')"
  shows "confined st b b'"
  using assms
proof (cases rule: withdrawal_recordE)
  case (1 wid b1 inserted b2)
  have "confined st b b2"
    using unwrap_or_new_confined[OF 1(2)] withdrawal_upsert_confined[OF 1(3)]
    by (rule confined_trans)
  then show ?thesis
    using 1(4) by (auto intro!: confined_publish confined_audit confined_invalidate)
qed

lemma withdrawal_remove_confined:
  assumes "withdrawal_remove e st actor wid b = Inr (u, b')"
  shows "confined st b b'"
proof -
  let ?rows = "snd (soft_delete wd_id wd_store withdrawal_live (bury_withdrawal (e_now e)) st wid
    (bk_withdrawals b))"
  have "confined st b (b\<lparr>bk_withdrawals := ?rows\<rparr>)"
    using withdrawal_deletes.keys_kept withdrawal_deletes.other_stores_kept
    by (intro confined_withdrawals) simp_all
  then show ?thesis
    using assms
    by (auto simp: withdrawal_remove_def withdrawal_soft_delete_def Let_def split: prod.splits
        intro!: confined_audit confined_invalidate)
qed

end
