(* ===== verification/Keyset.thy ===== *)
theory Keyset
  imports Prelude
begin

text \<open>
  Keyset paging on \<open>(updated_at, id)\<close>, the shape of every query in
  \<^verbatim>\<open>features/sync/sync_repository.rs\<close>: a page holds the rows after a mark, in order, and the
  next mark is where the page ended. \<open>drain\<close> is the device's loop: it pulls again for as long
  as a page comes back full. The locale states what a table owes the query, that the second
  half of a row's position is its primary key, and concludes that draining reads every row
  after the mark exactly once.
\<close>

type_synonym mark = "instant \<times> uuid"

definition page_after :: "('r \<Rightarrow> mark) \<Rightarrow> mark \<Rightarrow> nat \<Rightarrow> 'r list \<Rightarrow> 'r list" where
  "page_after pos after limit rows = take limit (sort_key pos (filter (\<lambda>r. after < pos r) rows))"

definition page_last :: "('r \<Rightarrow> mark) \<Rightarrow> 'r list \<Rightarrow> mark option" where
  "page_last pos page = (if page = [] then None else Some (pos (last page)))"

fun drain :: "nat \<Rightarrow> ('r \<Rightarrow> mark) \<Rightarrow> mark \<Rightarrow> nat \<Rightarrow> 'r list \<Rightarrow> 'r list" where
  "drain 0 pos after limit rows = []"
| "drain (Suc fuel) pos after limit rows =
     (let page = page_after pos after limit rows
      in page @ (if length page < limit then []
                 else drain fuel pos (case page_last pos page of None \<Rightarrow> after | Some m \<Rightarrow> m)
                        limit rows))"

lemma sorted_after_last:
  assumes "sorted_wrt (\<lambda>a b. pos a < pos b) s" and "0 < n" and "n \<le> length s"
  shows "filter (\<lambda>r. pos (last (take n s)) < (pos r :: 'k :: linorder)) s = drop n s"
proof -
  let ?l = "pos (last (take n s))"
  have s: "s = take n s @ drop n s" by simp
  have ne: "take n s \<noteq> []" using assms(2,3) by auto
  have sep: "\<forall>x \<in> set (take n s). \<forall>y \<in> set (drop n s). pos x < pos y"
    using assms(1) by (subst (asm) s) (auto simp only: sorted_wrt_append)
  have "pos x \<le> ?l" if x: "x \<in> set (take n s)" for x
  proof (cases "x = last (take n s)")
    case False
    have split: "butlast (take n s) @ [last (take n s)] = take n s"
      using ne by (rule append_butlast_last_id)
    then have "x \<in> set (butlast (take n s))" using x False by (metis UnE empty_iff set_ConsD set_append set_empty2)
    moreover have "sorted_wrt (\<lambda>a b. pos a < pos b) (butlast (take n s) @ [last (take n s)])"
      unfolding split using assms(1) by (rule sorted_wrt_take)
    ultimately show ?thesis by (auto simp only: sorted_wrt_append list.set intro: less_imp_le)
  qed simp
  then have "filter (\<lambda>r. ?l < pos r) (take n s) = []"
    by (auto simp: filter_empty_conv not_less)
  moreover have "filter (\<lambda>r. ?l < pos r) (drop n s) = drop n s"
    using sep ne by (auto simp: filter_id_conv)
  ultimately show ?thesis by (subst s) (simp only: filter_append append_Nil)
qed

locale keyset_table =
  fixes key :: "'r \<Rightarrow> uuid"
    and pos :: "'r \<Rightarrow> mark"
  assumes pos_key: "snd (pos r) = key r"
begin

lemma strictly_sorted:
  assumes "distinct (map key rows)"
  shows "sorted_wrt (\<lambda>a b. pos a < pos b) (sort_key pos rows)"
proof -
  have "distinct (map pos rows)"
    using assms pos_key by (metis (mono_tags, lifting) distinct_map inj_on_def)
  then have "distinct (map pos (sort_key pos rows))" by (simp add: distinct_map)
  moreover have "sorted (map pos (sort_key pos rows))" by simp
  ultimately have "sorted_wrt (<) (map pos (sort_key pos rows))"
    by (simp only: strict_sorted_iff)
  then show ?thesis by (simp add: sorted_wrt_map)
qed

text \<open>Where the next page starts, whether this one was full, short or empty.\<close>

lemma rest_after_page:
  assumes "distinct (map key rows)" and "0 < limit"
  shows "sort_key pos (filter (\<lambda>r.
        (case page_last pos (page_after pos after limit rows) of None \<Rightarrow> after | Some m \<Rightarrow> m) < pos r) rows)
    = drop limit (sort_key pos (filter (\<lambda>r. after < pos r) rows))"
proof -
  let ?rest = "filter (\<lambda>r. after < pos r) rows"
  let ?s = "sort_key pos ?rest"
  let ?n = "min limit (length ?s)"
  have page: "page_after pos after limit rows = take ?n ?s" by (simp add: page_after_def min_def)
  show ?thesis
  proof (cases "?s = []")
    case True
    then show ?thesis by (simp add: page page_last_def)
  next
    case False
    let ?l = "pos (last (take ?n ?s))"
    have n: "0 < ?n" "?n \<le> length ?s"
      using length_greater_0_conv[THEN iffD2, OF False] assms(2)
      by (simp_all only: min_less_iff_conj min.cobounded2)
    have "distinct (map key ?rest)" using assms(1) by (rule distinct_map_filter)
    then have strict: "sorted_wrt (\<lambda>a b. pos a < pos b) ?s" by (rule strictly_sorted)
    have "0 < length (take ?n ?s)" using n unfolding length_take by linarith
    then have ne: "take ?n ?s \<noteq> []" by (rule length_greater_0_conv[THEN iffD1])
    then have "last (take ?n ?s) \<in> set (take ?n ?s)" by (rule last_in_set)
    then have "last (take ?n ?s) \<in> set ?s" by (rule in_set_takeD)
    then have "after < ?l" by simp
    then have "filter (\<lambda>r. ?l < pos r) rows = filter (\<lambda>r. ?l < pos r) ?rest"
      by (auto simp: filter_filter intro!: filter_cong)
    then have "sort_key pos (filter (\<lambda>r. ?l < pos r) rows) = filter (\<lambda>r. ?l < pos r) ?s"
      by (simp only: filter_sort)
    also have "\<dots> = drop ?n ?s" by (rule sorted_after_last[OF strict n])
    also have "\<dots> = drop limit ?s" unfolding min_def by (auto simp del: length_sort)
    finally show ?thesis unfolding page using ne by (simp only: page_last_def if_False option.case)
  qed
qed

lemma drain_reads_all:
  assumes "distinct (map key rows)" and "0 < limit"
    and "length (filter (\<lambda>r. after < pos r) rows) < fuel"
  shows "drain fuel pos after limit rows = sort_key pos (filter (\<lambda>r. after < pos r) rows)"
  using assms(3)
proof (induction fuel arbitrary: after)
  case (Suc fuel)
  let ?s = "sort_key pos (filter (\<lambda>r. after < pos r) rows)"
  let ?page = "page_after pos after limit rows"
  let ?next = "case page_last pos ?page of None \<Rightarrow> after | Some m \<Rightarrow> m"
  have page: "?page = take limit ?s" by (simp add: page_after_def)
  show ?case
  proof (cases "length ?page < limit")
    case True
    then have "?page = ?s" by (simp add: page)
    then show ?thesis using True by (simp add: Let_def)
  next
    case False
    have rest: "sort_key pos (filter (\<lambda>r. ?next < pos r) rows) = drop limit ?s"
      by (rule rest_after_page[OF assms(1,2)])
    have "length (filter (\<lambda>r. ?next < pos r) rows) = length (drop limit ?s)"
      using arg_cong[OF rest, of length] by simp
    also have "\<dots> < fuel" using Suc.prems assms(2) False by (simp add: page)
    finally have "drain fuel pos ?next limit rows = drop limit ?s"
      using Suc.IH rest by simp
    then show ?thesis using False by (simp only: drain.simps Let_def if_False) (simp add: page)
  qed
qed simp

lemma page_is_settled: "set (page_after pos after limit rows) \<subseteq> {r \<in> set rows. after < pos r}"
  unfolding page_after_def using set_take_subset by fastforce

text \<open>Nothing between the old mark and the new one is left out of a page.\<close>

lemma page_covers:
  assumes "distinct (map key rows)" and "0 < limit" and "r \<in> set rows" and "after < pos r"
    and "page_last pos (page_after pos after limit rows) = Some m" and "pos r \<le> m"
  shows "r \<in> set (page_after pos after limit rows)"
proof (rule ccontr)
  let ?s = "sort_key pos (filter (\<lambda>r. after < pos r) rows)"
  let ?page = "page_after pos after limit rows"
  assume "r \<notin> set ?page"
  have page: "?page = take limit ?s" by (simp add: page_after_def)
  have "r \<in> set ?s" using assms(3,4) by simp
  then have "r \<in> set (take limit ?s) \<union> set (drop limit ?s)"
    by (metis append_take_drop_id set_append)
  then have drop: "r \<in> set (drop limit ?s)" using \<open>r \<notin> set ?page\<close> by (simp add: page)
  have strict: "sorted_wrt (\<lambda>a b. pos a < pos b) (take limit ?s @ drop limit ?s)"
    using strictly_sorted[OF distinct_map_filter[OF assms(1)]] by simp
  have "?page \<noteq> []" "m = pos (last ?page)"
    using assms(5) by (auto simp: page_last_def split: if_splits)
  moreover have "last (take limit ?s) \<in> set (take limit ?s)"
    using \<open>?page \<noteq> []\<close> unfolding page by (rule last_in_set)
  ultimately have "m < pos r"
    using drop strict unfolding sorted_wrt_append page by blast
  then show False using assms(6) by simp
qed

end

end
