(* ===== verification/Sync.thy ===== *)
theory Sync
  imports Stock_Ledger Expenses Withdrawals Keyset
begin

text \<open>
  \<^verbatim>\<open>backend/src/features/sync\<close>: the timeline a push is replayed in, the push itself, the
  cursor and the pull. \<open>push_with\<close> takes the services it fans out to as arguments, the way
  \<open>SyncService\<close> holds them, and \<open>push\<close> applies it to the real ones. The locale
  \<open>push_services\<close> is what a push may assume of them: some relation between the books
  before and after that every service keeps, row by row.
\<close>

section \<open>The timeline\<close>

datatype stock_event = SaleEvent record_sale_request | MovementEvent record_movement_request

fun event_occurred_at :: "instant \<Rightarrow> stock_event \<Rightarrow> instant" where
  "event_occurred_at fallback (SaleEvent sale) =
     (case rs_occurred_at sale of None \<Rightarrow> fallback | Some t \<Rightarrow> t)"
| "event_occurred_at fallback (MovementEvent movement) =
     (case rm_occurred_at movement of None \<Rightarrow> fallback | Some t \<Rightarrow> t)"

definition into_timeline ::
  "instant \<Rightarrow> record_sale_request list \<Rightarrow> record_movement_request list \<Rightarrow> stock_event list" where
  "into_timeline now sales movements =
     sort_key (event_occurred_at now) (map SaleEvent sales @ map MovementEvent movements)"

section \<open>Push payloads\<close>

record deletion_request =
  dl_entity :: string
  dl_id :: uuid

record push_request =
  pr_products :: "save_product_request list"
  pr_stock_movements :: "record_movement_request list"
  pr_sales :: "record_sale_request list"
  pr_expenses :: "record_expense_request list"
  pr_withdrawals :: "record_withdrawal_request list"
  pr_deletions :: "deletion_request list"

definition deletion_issues :: "deletion_request \<Rightarrow> (string \<times> string option) list" where
  "deletion_issues d = (if dl_entity d = [] then [(''entity'', Some ''is required'')] else [])"

definition push_issues :: "push_request \<Rightarrow> (string \<times> string option) list" where
  "push_issues r =
     concat (map save_product_issues (pr_products r))
     @ concat (map record_movement_issues (pr_stock_movements r))
     @ concat (map record_sale_issues (pr_sales r))
     @ concat (map record_expense_issues (pr_expenses r))
     @ concat (map record_withdrawal_issues (pr_withdrawals r))
     @ concat (map deletion_issues (pr_deletions r))"

datatype pushed_entity =
    PushedProduct | PushedStockMovement | PushedSale | PushedExpense | PushedWithdrawal
  | PushedDeletion

record outcome =
  oc_applied :: "(pushed_entity \<times> uuid) list"
  oc_rejected :: "(pushed_entity \<times> uuid option \<times> string) list"

record push_outcome =
  po_applied :: "(pushed_entity \<times> uuid) list"
  po_rejected :: "(pushed_entity \<times> uuid option \<times> string) list"
  po_server_time :: instant

definition outcome_default :: outcome where
  "outcome_default = \<lparr>oc_applied = [], oc_rejected = []\<rparr>"

definition outcome_applied :: "pushed_entity \<Rightarrow> uuid \<Rightarrow> outcome \<Rightarrow> outcome" where
  "outcome_applied entity i oc = oc\<lparr>oc_applied := oc_applied oc @ [(entity, i)]\<rparr>"

definition outcome_applied_if_known :: "pushed_entity \<Rightarrow> uuid option \<Rightarrow> outcome \<Rightarrow> outcome" where
  "outcome_applied_if_known entity i oc =
     (case i of None \<Rightarrow> oc | Some x \<Rightarrow> outcome_applied entity x oc)"

definition rejection_reason :: "api_error \<Rightarrow> string" where
  "rejection_reason err =
     (case err of Internal \<Rightarrow> ''could not be saved right now; it will be retried''
      | other \<Rightarrow> error_text other)"

definition outcome_rejected ::
  "pushed_entity \<Rightarrow> uuid option \<Rightarrow> api_error \<Rightarrow> outcome \<Rightarrow> outcome" where
  "outcome_rejected entity i err oc =
     oc\<lparr>oc_rejected := oc_rejected oc @ [(entity, i, rejection_reason err)]\<rparr>"

section \<open>Push\<close>

text \<open>One row of a batch: \<open>known\<close> is the id an applied row is reported under. A refused row leaves
  the books as they were and the loop goes on.\<close>

definition push_row ::
  "pushed_entity \<Rightarrow> uuid option \<Rightarrow> ('v \<Rightarrow> uuid option) \<Rightarrow> (books \<Rightarrow> api_error + ('v \<times> books))
    \<Rightarrow> outcome \<times> books \<Rightarrow> outcome \<times> books" where
  "push_row entity sent known run ob =
     (case run (snd ob) of
        Inr (v, b') \<Rightarrow> (outcome_applied_if_known entity (known v) (fst ob), b')
      | Inl err \<Rightarrow> (outcome_rejected entity sent err (fst ob), snd ob))"

definition push_delete ::
  "env \<Rightarrow> uuid \<Rightarrow> actor \<Rightarrow> deletion_request \<Rightarrow> books \<Rightarrow> api_error + (unit \<times> books)" where
  "push_delete e store_id actor deletion b =
     (let result =
        (if dl_entity deletion = ''sale'' then sale_void e store_id actor (dl_id deletion) b
         else if dl_entity deletion = ''expense''
           then expense_remove e store_id actor (dl_id deletion) b
         else if dl_entity deletion = ''withdrawal''
           then withdrawal_remove e store_id actor (dl_id deletion) b
         else if dl_entity deletion = ''product''
           then product_remove e store_id actor (dl_id deletion) b
         else Inl (BadRequest (''cannot delete unknown entity '' @ [CHR 0x27]
                     @ dl_entity deletion @ [CHR 0x27])))
      in case result of Inl (NotFound _) \<Rightarrow> Inr ((), b) | other \<Rightarrow> other)"

type_synonym ('r, 'v) service = "'r \<Rightarrow> books \<Rightarrow> api_error + ('v \<times> books)"

definition push_event ::
  "(record_sale_request, sale_detail) service \<Rightarrow> (record_movement_request, unit) service
    \<Rightarrow> stock_event \<Rightarrow> outcome \<times> books \<Rightarrow> outcome \<times> books" where
  "push_event sell move ev =
     (case ev of
        SaleEvent sale \<Rightarrow>
          push_row PushedSale (rs_id sale) (\<lambda>saved. Some (sv_id (sd_sale saved))) (sell sale)
      | MovementEvent movement \<Rightarrow>
          push_row PushedStockMovement (rm_id movement) (\<lambda>_. rm_id movement) (move movement))"

definition push_with ::
  "(save_product_request, product_view) service \<Rightarrow> (record_sale_request, sale_detail) service
    \<Rightarrow> (record_movement_request, unit) service \<Rightarrow> (record_expense_request, expense_view) service
    \<Rightarrow> (record_withdrawal_request, withdrawal_view) service \<Rightarrow> (deletion_request, unit) service
    \<Rightarrow> instant \<Rightarrow> push_request \<Rightarrow> books \<Rightarrow> push_outcome \<times> books" where
  "push_with save sell move spend take_out remove now request b =
     (let s1 = fold (\<lambda>p. push_row PushedProduct (sp_id p) (\<lambda>v. Some (pv_id v)) (save p))
                 (pr_products request) (outcome_default, b);
          s2 = fold (push_event sell move)
                 (into_timeline now (pr_sales request) (pr_stock_movements request)) s1;
          s3 = fold (\<lambda>x. push_row PushedExpense (rx_id x) (\<lambda>v. Some (xv_id v)) (spend x))
                 (pr_expenses request) s2;
          s4 = fold (\<lambda>w. push_row PushedWithdrawal (rw_id w) (\<lambda>v. Some (wv_id v)) (take_out w))
                 (pr_withdrawals request) s3;
          (oc, b') = fold (\<lambda>d. push_row PushedDeletion (Some (dl_id d))
                              (\<lambda>_. Some (dl_id d)) (remove d))
                       (pr_deletions request) s4
      in (\<lparr>po_applied = oc_applied oc, po_rejected = oc_rejected oc, po_server_time = now\<rparr>, b'))"

definition push ::
  "env \<Rightarrow> uuid \<Rightarrow> actor \<Rightarrow> push_request \<Rightarrow> books \<Rightarrow> push_outcome \<times> books" where
  "push e store_id actor request b =
     push_with (product_save e store_id actor) (sale_record e store_id actor)
       (inventory_record e store_id actor) (expense_record e store_id actor)
       (withdrawal_record e store_id actor) (push_delete e store_id actor)
       (e_now e) request b"

definition handle_push ::
  "env \<Rightarrow> uuid \<Rightarrow> actor \<Rightarrow> string + push_request \<Rightarrow> books
    \<Rightarrow> api_error + (push_outcome \<times> books)" where
  "handle_push e store_id actor body b =
     bindR (validated_json body push_issues) (\<lambda>request. Inr (push e store_id actor request b))"

section \<open>The cursor\<close>

datatype sync_table =
    SyncProducts | SyncSales | SyncExpenses | SyncWithdrawals | SyncStockMovements

type_synonym cursor = "sync_table \<Rightarrow> mark option"

definition mark_origin :: mark where
  "mark_origin = (0, 0)"

definition cursor_mark :: "cursor \<Rightarrow> sync_table \<Rightarrow> mark" where
  "cursor_mark c table = (case c table of None \<Rightarrow> mark_origin | Some m \<Rightarrow> m)"

definition cursor_advance :: "sync_table \<Rightarrow> mark \<Rightarrow> cursor \<Rightarrow> cursor" where
  "cursor_advance table m c = c(table \<mapsto> m)"

text \<open>\<open>cc_encode\<close> is the hex of the cursor's JSON, \<open>cc_decode\<close> reads it back.\<close>

record cursor_codec =
  cc_encode :: "cursor \<Rightarrow> string"
  cc_decode :: "string \<Rightarrow> cursor option"

definition codec_ok :: "cursor_codec \<Rightarrow> bool" where
  "codec_ok codec \<longleftrightarrow> (\<forall>c. cc_decode codec (cc_encode codec c) = Some c)"

definition cursor_decode :: "cursor_codec \<Rightarrow> string option \<Rightarrow> cursor" where
  "cursor_decode codec raw =
     (case raw of None \<Rightarrow> Map.empty
      | Some v \<Rightarrow> (case cc_decode codec v of None \<Rightarrow> Map.empty | Some c \<Rightarrow> c))"

section \<open>Pull\<close>

text \<open>\<open>settled\<close> are the rows of one store the query may return: a row becomes visible to pulls once
  its \<open>updated_at\<close> is older than the settle window.\<close>

definition settled ::
  "env \<Rightarrow> duration \<Rightarrow> uuid \<Rightarrow> ('r \<Rightarrow> uuid) \<Rightarrow> ('r \<Rightarrow> mark) \<Rightarrow> 'r list \<Rightarrow> 'r list" where
  "settled e settle_window store_id store pos rows =
     filter (\<lambda>r. store r = store_id \<and> fst (pos r) < e_now e - settle_window) rows"

definition changed_since ::
  "env \<Rightarrow> duration \<Rightarrow> uuid \<Rightarrow> ('r \<Rightarrow> uuid) \<Rightarrow> ('r \<Rightarrow> mark) \<Rightarrow> mark \<Rightarrow> nat \<Rightarrow> 'r list
    \<Rightarrow> 'r list \<times> mark option" where
  "changed_since e settle_window store_id store pos after limit rows =
     (let page = page_after pos after limit (settled e settle_window store_id store pos rows)
      in (page, page_last pos page))"

definition lines_for_sales :: "uuid list \<Rightarrow> books \<Rightarrow> item_row list" where
  "lines_for_sales sale_ids b =
     (if sale_ids = [] then []
      else sort_key i_sale (filter (\<lambda>i. i_sale i \<in> set sale_ids) (bk_items b)))"

record pull_response =
  pl_products :: "product_row list"
  pl_sales :: "sale_row list"
  pl_sale_items :: "item_row list"
  pl_expenses :: "expense_row list"
  pl_withdrawals :: "withdrawal_row list"
  pl_stock_movements :: "movement_row list"
  pl_cursor :: string
  pl_has_more :: bool

text \<open>One turn of the loop over the tables.\<close>

definition pull_table ::
  "env \<Rightarrow> duration \<Rightarrow> nat \<Rightarrow> uuid \<Rightarrow> bool \<Rightarrow> sync_table \<Rightarrow> ('r \<Rightarrow> uuid) \<Rightarrow> ('r \<Rightarrow> mark) \<Rightarrow> 'r list
    \<Rightarrow> cursor \<times> bool \<Rightarrow> 'r list \<times> cursor \<times> bool" where
  "pull_table e settle_window page_size store_id sees_costs table store pos rows cm =
     (if \<not> sees_costs \<and> (table = SyncExpenses \<or> table = SyncWithdrawals)
      then ([], fst cm, snd cm)
      else let (page, last) = changed_since e settle_window store_id store pos
                                (cursor_mark (fst cm) table) page_size rows
           in (page,
               (case last of None \<Rightarrow> fst cm | Some m \<Rightarrow> cursor_advance table m (fst cm)),
               snd cm \<or> length page \<ge> page_size))"

definition product_at :: "product_row \<Rightarrow> mark" where "product_at r = (p_updated_at r, p_id r)"
definition sale_at :: "sale_row \<Rightarrow> mark" where "sale_at r = (s_updated_at r, s_id r)"
definition expense_at :: "expense_row \<Rightarrow> mark" where "expense_at r = (x_updated_at r, x_id r)"
definition withdrawal_at :: "withdrawal_row \<Rightarrow> mark" where
  "withdrawal_at r = (wd_updated_at r, wd_id r)"
definition movement_at :: "movement_row \<Rightarrow> mark" where "movement_at r = (m_updated_at r, m_id r)"

definition zero_cost :: "bool \<Rightarrow> ('r \<Rightarrow> 'r) \<Rightarrow> 'r list \<Rightarrow> 'r list" where
  "zero_cost sees_costs zero rows = (if sees_costs then rows else map zero rows)"

definition pull ::
  "env \<Rightarrow> cursor_codec \<Rightarrow> duration \<Rightarrow> nat \<Rightarrow> uuid \<Rightarrow> actor \<Rightarrow> string option \<Rightarrow> books
    \<Rightarrow> pull_response" where
  "pull e codec settle_window page_size store_id actor raw b =
     (let sees_costs = can actor ViewProfit;
          c0 = (cursor_decode codec raw, False);
          (products, c1) = pull_table e settle_window page_size store_id sees_costs
                             SyncProducts p_store product_at (bk_products b) c0;
          (sales, c2) = pull_table e settle_window page_size store_id sees_costs
                             SyncSales s_store sale_at (bk_sales b) c1;
          (expenses, c3) = pull_table e settle_window page_size store_id sees_costs
                             SyncExpenses x_store expense_at (bk_expenses b) c2;
          (withdrawals, c4) = pull_table e settle_window page_size store_id sees_costs
                             SyncWithdrawals wd_store withdrawal_at (bk_withdrawals b) c3;
          (movements, c5) = pull_table e settle_window page_size store_id sees_costs
                             SyncStockMovements m_store movement_at (bk_movements b) c4;
          items = lines_for_sales (map s_id sales) b
      in \<lparr>pl_products = zero_cost sees_costs (\<lambda>r. r\<lparr>p_cost_price := 0\<rparr>) products,
          pl_sales = zero_cost sees_costs (\<lambda>r. r\<lparr>s_cost_amount := 0\<rparr>) sales,
          pl_sale_items = zero_cost sees_costs (\<lambda>r. r\<lparr>i_unit_cost := 0\<rparr>) items,
          pl_expenses = expenses, pl_withdrawals = withdrawals,
          pl_stock_movements = zero_cost sees_costs (\<lambda>r. r\<lparr>m_unit_cost := 0\<rparr>) movements,
          pl_cursor = cc_encode codec (fst c5), pl_has_more = snd c5\<rparr>)"

text \<open>The device's loop, against books that do not change meanwhile.\<close>

fun pull_all ::
  "nat \<Rightarrow> env \<Rightarrow> cursor_codec \<Rightarrow> duration \<Rightarrow> nat \<Rightarrow> uuid \<Rightarrow> actor \<Rightarrow> string option \<Rightarrow> books
    \<Rightarrow> pull_response list" where
  "pull_all 0 e codec settle_window page_size store_id actor raw b = []"
| "pull_all (Suc fuel) e codec settle_window page_size store_id actor raw b =
     (let r = pull e codec settle_window page_size store_id actor raw b
      in r # (if pl_has_more r
              then pull_all fuel e codec settle_window page_size store_id actor
                     (Some (pl_cursor r)) b
              else []))"

interpretation product_pages: keyset_table p_id product_at
  by unfold_locales (simp add: product_at_def)
interpretation sale_pages: keyset_table s_id sale_at
  by unfold_locales (simp add: sale_at_def)
interpretation expense_pages: keyset_table x_id expense_at
  by unfold_locales (simp add: expense_at_def)
interpretation withdrawal_pages: keyset_table wd_id withdrawal_at
  by unfold_locales (simp add: withdrawal_at_def)
interpretation movement_pages: keyset_table m_id movement_at
  by unfold_locales (simp add: movement_at_def)

section \<open>What a push may assume of its services\<close>

locale push_services =
  fixes rel :: "books \<Rightarrow> books \<Rightarrow> bool"
    and fine_sale :: "record_sale_request \<Rightarrow> bool"
    and fine_movement :: "record_movement_request \<Rightarrow> bool"
    and save :: "(save_product_request, product_view) service"
    and sell :: "(record_sale_request, sale_detail) service"
    and move :: "(record_movement_request, unit) service"
    and spend :: "(record_expense_request, expense_view) service"
    and take_out :: "(record_withdrawal_request, withdrawal_view) service"
    and remove :: "(deletion_request, unit) service"
  assumes rel_refl: "rel b b"
    and rel_trans: "rel a b \<Longrightarrow> rel b c \<Longrightarrow> rel a c"
    and save_rel: "save p b = Inr (v, b') \<Longrightarrow> rel b b'"
    and sell_rel: "fine_sale s \<Longrightarrow> sell s b = Inr (d, b') \<Longrightarrow> rel b b'"
    and move_rel: "fine_movement m \<Longrightarrow> move m b = Inr (u, b') \<Longrightarrow> rel b b'"
    and spend_rel: "spend x b = Inr (xv, b') \<Longrightarrow> rel b b'"
    and take_out_rel: "take_out w b = Inr (wv, b') \<Longrightarrow> rel b b'"
    and remove_rel: "remove r b = Inr (u, b') \<Longrightarrow> rel b b'"
begin

lemma push_row_rel:
  assumes "\<And>v b'. run (snd ob) = Inr (v, b') \<Longrightarrow> rel (snd ob) b'"
  shows "rel (snd ob) (snd (push_row entity sent known run ob))"
  using assms by (auto simp: push_row_def rel_refl split: sum.split)

lemma fold_rel:
  assumes "\<And>x ob. x \<in> set xs \<Longrightarrow> rel (snd ob) (snd (f x ob))"
  shows "rel (snd ob) (snd (fold f xs ob))"
  using assms
proof (induction xs arbitrary: ob)
  case Nil
  then show ?case by (simp add: rel_refl)
next
  case (Cons x xs)
  have "rel (snd ob) (snd (f x ob))" using Cons.prems by simp
  moreover have "rel (snd (f x ob)) (snd (fold f xs (f x ob)))" using Cons by simp
  ultimately show ?case by (simp add: rel_trans)
qed

lemma push_with_rel:
  assumes "push_with save sell move spend take_out remove now request b = (oc, b')"
    and sales: "\<And>s. s \<in> set (pr_sales request) \<Longrightarrow> fine_sale s"
    and movements: "\<And>m. m \<in> set (pr_stock_movements request) \<Longrightarrow> fine_movement m"
  shows "rel b b'"
proof -
  define s1 where "s1 = fold (\<lambda>p. push_row PushedProduct (sp_id p) (\<lambda>v. Some (pv_id v)) (save p))
                 (pr_products request) (outcome_default, b)"
  define s2 where "s2 = fold (push_event sell move)
                 (into_timeline now (pr_sales request) (pr_stock_movements request)) s1"
  define s3 where "s3 = fold (\<lambda>x. push_row PushedExpense (rx_id x) (\<lambda>v. Some (xv_id v)) (spend x))
                 (pr_expenses request) s2"
  define s4 where "s4 = fold (\<lambda>w. push_row PushedWithdrawal (rw_id w) (\<lambda>v. Some (wv_id v)) (take_out w))
                 (pr_withdrawals request) s3"
  define s5 where "s5 = fold (\<lambda>d. push_row PushedDeletion (Some (dl_id d)) (\<lambda>_. Some (dl_id d)) (remove d))
                       (pr_deletions request) s4"
  have "b' = snd s5"
    using assms(1) by (simp add: push_with_def Let_def s1_def s2_def s3_def s4_def s5_def
        split: prod.splits)
  moreover have "rel (snd (outcome_default, b)) (snd s1)"
    unfolding s1_def by (intro fold_rel push_row_rel) (blast intro: save_rel)
  moreover have "rel (snd s1) (snd s2)"
    unfolding s2_def
  proof (rule fold_rel)
    fix ev and ob :: "outcome \<times> books"
    assume ev: "ev \<in> set (into_timeline now (pr_sales request) (pr_stock_movements request))"
    show "rel (snd ob) (snd (push_event sell move ev ob))"
    proof (cases ev)
      case (SaleEvent s)
      then have "fine_sale s" using ev sales by (auto simp: into_timeline_def)
      then show ?thesis
        unfolding push_event_def SaleEvent stock_event.case by (intro push_row_rel) (rule sell_rel)
    next
      case (MovementEvent m)
      then have "fine_movement m" using ev movements by (auto simp: into_timeline_def)
      then show ?thesis
        unfolding push_event_def MovementEvent stock_event.case
        by (intro push_row_rel) (rule move_rel)
    qed
  qed
  moreover have "rel (snd s2) (snd s3)"
    unfolding s3_def by (intro fold_rel push_row_rel) (blast intro: spend_rel)
  moreover have "rel (snd s3) (snd s4)"
    unfolding s4_def by (intro fold_rel push_row_rel) (blast intro: take_out_rel)
  moreover have "rel (snd s4) (snd s5)"
    unfolding s5_def by (intro fold_rel push_row_rel) (blast intro: remove_rel)
  ultimately show ?thesis by (metis rel_trans snd_conv)
qed

end

lemma missing_is_success:
  "(case r of Inl (NotFound w) \<Rightarrow> Inr ((), b) | other \<Rightarrow> other) = Inr (u, b')
     \<Longrightarrow> b' = b \<or> r = Inr (u, b')"
  by (cases r) (auto split: api_error.splits)

lemma push_deleteE:
  assumes "push_delete e st actor d b = Inr (u, b')"
  obtains (gone) "b' = b"
  | (sale) "sale_void e st actor (dl_id d) b = Inr (u, b')"
  | (expense) "expense_remove e st actor (dl_id d) b = Inr (u, b')"
  | (withdrawal) "withdrawal_remove e st actor (dl_id d) b = Inr (u, b')"
  | (product) "product_remove e st actor (dl_id d) b = Inr (u, b')"
  using missing_is_success[OF assms[unfolded push_delete_def Let_def]] that
  by (simp split: if_splits; blast)

interpretation push_confined: push_services "confined st" "\<lambda>_. True" "\<lambda>_. True"
  "product_save e st actor" "sale_record e st actor" "inventory_record e st actor"
  "expense_record e st actor" "withdrawal_record e st actor" "push_delete e st actor"
  for e st actor
proof unfold_locales
  show "confined st b b'" if "push_delete e st actor r b = Inr (u, b')" for r b u b'
    using that by (cases rule: push_deleteE)
      (auto dest: sale_void_confined expense_remove_confined withdrawal_remove_confined
        product_remove_confined)
qed (auto intro: confined_trans product_save_confined sale_record_confined
    inventory_record_confined expense_record_confined withdrawal_record_confined)

lemma expense_record_ledger:
  assumes "expense_record e st actor request b = Inr (v, b')"
  shows "keeps_ledger txt b b'"
  using assms
proof (cases rule: expense_recordE)
  case (1 category xid b1 inserted b2)
  obtain n where b1: "b1 = b\<lparr>bk_drawn := n\<rparr>" using unwrap_or_new_frame[OF 1(3)] by blast
  obtain rows where "b2 = b1\<lparr>bk_expenses := rows\<rparr>" using 1(4) by (rule expense_upsertE) blast
  then show ?thesis
    by (intro keeps_ledger_frame[OF expense_record_confined[OF assms]]) (auto simp: 1(5) b1)
qed

lemma withdrawal_record_ledger:
  assumes "withdrawal_record e st actor request b = Inr (v, b')"
  shows "keeps_ledger txt b b'"
  using assms
proof (cases rule: withdrawal_recordE)
  case (1 wid b1 inserted b2)
  obtain n where b1: "b1 = b\<lparr>bk_drawn := n\<rparr>" using unwrap_or_new_frame[OF 1(2)] by blast
  obtain rows where "b2 = b1\<lparr>bk_withdrawals := rows\<rparr>" using 1(3) by (rule withdrawal_upsertE) blast
  then show ?thesis
    by (intro keeps_ledger_frame[OF withdrawal_record_confined[OF assms]]) (auto simp: 1(4) b1)
qed

lemma expense_remove_ledger:
  "expense_remove e st actor xid b = Inr (u, b') \<Longrightarrow> keeps_ledger txt b b'"
  by (rule keeps_ledger_frame[OF expense_remove_confined], assumption)
    (auto simp: expense_remove_def expense_soft_delete_def Let_def split: prod.splits)

lemma withdrawal_remove_ledger:
  "withdrawal_remove e st actor wid b = Inr (u, b') \<Longrightarrow> keeps_ledger txt b b'"
  by (rule keeps_ledger_frame[OF withdrawal_remove_confined], assumption)
    (auto simp: withdrawal_remove_def withdrawal_soft_delete_def Let_def split: prod.splits)

lemma push_delete_ledger:
  assumes "inj (e_uuid_text e)" and "push_delete e st actor r b = Inr (u, b')"
  shows "keeps_ledger (e_uuid_text e) b b'"
  using assms(2)
proof (cases rule: push_deleteE)
  case sale
  then show ?thesis using sale_void_ledger assms(1) by blast
qed (auto intro: expense_remove_ledger withdrawal_remove_ledger product_remove_ledger)

text \<open>A store's stock is a ledger across whole batches, for batches whose sales list a product once
  and whose movements do not carry a sale's note. \<open>e_uuid_text\<close> is injective: different ids
  print differently.\<close>

interpretation push_ledger: push_services
  "\<lambda>b b'. inj (e_uuid_text e) \<longrightarrow> keeps_ledger (e_uuid_text e) b b'" one_line_per_product
  "\<lambda>m. not_a_sale_note (e_uuid_text e) (trim_nonempty (rm_note m))"
  "product_save e st actor" "sale_record e st actor" "inventory_record e st actor"
  "expense_record e st actor" "withdrawal_record e st actor" "push_delete e st actor"
  for e st actor
  by unfold_locales
    (auto intro: keeps_ledger_trans product_save_ledger sale_record_ledger
      inventory_record_ledger expense_record_ledger withdrawal_record_ledger push_delete_ledger)

section \<open>Pulling until done\<close>

text \<open>What is left of a table for a device.\<close>

definition left_of ::
  "env \<Rightarrow> duration \<Rightarrow> uuid \<Rightarrow> sync_table \<Rightarrow> ('r \<Rightarrow> uuid) \<Rightarrow> ('r \<Rightarrow> mark) \<Rightarrow> 'r list \<Rightarrow> cursor
    \<Rightarrow> 'r list" where
  "left_of e settle_window st table store pos rows c =
     sort_key pos (filter (\<lambda>r. cursor_mark c table < pos r) (settled e settle_window st store pos rows))"

definition next_cursor ::
  "env \<Rightarrow> duration \<Rightarrow> nat \<Rightarrow> uuid \<Rightarrow> sync_table \<Rightarrow> ('r \<Rightarrow> uuid) \<Rightarrow> ('r \<Rightarrow> mark) \<Rightarrow> 'r list
    \<Rightarrow> cursor \<Rightarrow> cursor" where
  "next_cursor e settle_window n st table store pos rows c =
     (case page_last pos (take n (left_of e settle_window st table store pos rows c)) of
        None \<Rightarrow> c | Some m \<Rightarrow> cursor_advance table m c)"

lemma pull_table_page:
  "pull_table e settle_window n st True table store pos rows (c, full) =
     (take n (left_of e settle_window st table store pos rows c),
      next_cursor e settle_window n st table store pos rows c,
      full \<or> n \<le> length (take n (left_of e settle_window st table store pos rows c)))"
  by (simp add: pull_table_def changed_since_def page_after_def left_of_def next_cursor_def Let_def
      split: option.split)

lemma next_cursor_other [simp]:
  "t \<noteq> table \<Longrightarrow> cursor_mark (next_cursor e w n st table store pos rows c) t = cursor_mark c t"
  by (auto simp: next_cursor_def cursor_mark_def cursor_advance_def split: option.split)

lemma left_of_cong:
  "cursor_mark c' table = cursor_mark c table \<Longrightarrow>
     left_of e w st table store pos rows c' = left_of e w st table store pos rows c"
  by (simp add: left_of_def)

context keyset_table
begin

lemma left_of_next:
  assumes "distinct (map key rows)" and "0 < n"
  shows "left_of e w st table store pos rows (next_cursor e w n st table store pos rows c)
    = drop n (left_of e w st table store pos rows c)"
proof -
  let ?s = "settled e w st store pos rows"
  have d: "distinct (map key ?s)"
    unfolding settled_def using assms(1) by (rule distinct_map_filter)
  have "cursor_mark (next_cursor e w n st table store pos rows c) table
    = (case page_last pos (page_after pos (cursor_mark c table) n ?s) of
         None \<Rightarrow> cursor_mark c table | Some m \<Rightarrow> m)"
    by (simp add: next_cursor_def left_of_def page_after_def cursor_mark_def cursor_advance_def
        split: option.split)
  then show ?thesis
    using rest_after_page[OF d assms(2), of "cursor_mark c table"] by (simp only: left_of_def)
qed

end

text \<open>Everything one pull still owes a device that sees costs, table by table.\<close>

definition pending ::
  "env \<Rightarrow> duration \<Rightarrow> uuid \<Rightarrow> books \<Rightarrow> cursor
    \<Rightarrow> product_row list \<times> sale_row list \<times> expense_row list \<times> withdrawal_row list
        \<times> movement_row list" where
  "pending e w st b c =
     (left_of e w st SyncProducts p_store product_at (bk_products b) c,
      left_of e w st SyncSales s_store sale_at (bk_sales b) c,
      left_of e w st SyncExpenses x_store expense_at (bk_expenses b) c,
      left_of e w st SyncWithdrawals wd_store withdrawal_at (bk_withdrawals b) c,
      left_of e w st SyncStockMovements m_store movement_at (bk_movements b) c)"

definition next_cursors :: "env \<Rightarrow> duration \<Rightarrow> nat \<Rightarrow> uuid \<Rightarrow> books \<Rightarrow> cursor \<Rightarrow> cursor" where
  "next_cursors e w n st b c =
     next_cursor e w n st SyncStockMovements m_store movement_at (bk_movements b)
       (next_cursor e w n st SyncWithdrawals wd_store withdrawal_at (bk_withdrawals b)
       (next_cursor e w n st SyncExpenses x_store expense_at (bk_expenses b)
       (next_cursor e w n st SyncSales s_store sale_at (bk_sales b)
       (next_cursor e w n st SyncProducts p_store product_at (bk_products b) c))))"

lemma pending_next:
  assumes "keys_unique b" and "0 < n" and "pending e w st b c = (ps, ss, xs, ws, ms)"
  shows "pending e w st b (next_cursors e w n st b c)
    = (drop n ps, drop n ss, drop n xs, drop n ws, drop n ms)"
proof -
  have d: "distinct (map p_id (bk_products b))" "distinct (map s_id (bk_sales b))"
    "distinct (map x_id (bk_expenses b))" "distinct (map wd_id (bk_withdrawals b))"
    "distinct (map m_id (bk_movements b))"
    using assms(1) by (simp_all add: keys_unique_def)
  let ?c1 = "next_cursor e w n st SyncProducts p_store product_at (bk_products b) c"
  let ?c2 = "next_cursor e w n st SyncSales s_store sale_at (bk_sales b) ?c1"
  let ?c3 = "next_cursor e w n st SyncExpenses x_store expense_at (bk_expenses b) ?c2"
  let ?c4 = "next_cursor e w n st SyncWithdrawals wd_store withdrawal_at (bk_withdrawals b) ?c3"
  let ?c5 = "next_cursors e w n st b c"
  have marks: "cursor_mark ?c5 SyncProducts = cursor_mark ?c1 SyncProducts"
    "cursor_mark ?c5 SyncSales = cursor_mark ?c2 SyncSales"
    "cursor_mark ?c5 SyncExpenses = cursor_mark ?c3 SyncExpenses"
    "cursor_mark ?c5 SyncWithdrawals = cursor_mark ?c4 SyncWithdrawals"
    "cursor_mark ?c1 SyncSales = cursor_mark c SyncSales"
    "cursor_mark ?c2 SyncExpenses = cursor_mark c SyncExpenses"
    "cursor_mark ?c3 SyncWithdrawals = cursor_mark c SyncWithdrawals"
    "cursor_mark ?c4 SyncStockMovements = cursor_mark c SyncStockMovements"
    by (simp_all add: next_cursors_def)
  have "left_of e w st SyncProducts p_store product_at (bk_products b) ?c5
      = drop n (left_of e w st SyncProducts p_store product_at (bk_products b) c)"
    using left_of_cong[OF marks(1)] product_pages.left_of_next[OF d(1) assms(2)] by metis
  moreover have "left_of e w st SyncSales s_store sale_at (bk_sales b) ?c5
      = drop n (left_of e w st SyncSales s_store sale_at (bk_sales b) c)"
    using left_of_cong[OF marks(2)] left_of_cong[OF marks(5)]
      sale_pages.left_of_next[OF d(2) assms(2)] by metis
  moreover have "left_of e w st SyncExpenses x_store expense_at (bk_expenses b) ?c5
      = drop n (left_of e w st SyncExpenses x_store expense_at (bk_expenses b) c)"
    using left_of_cong[OF marks(3)] left_of_cong[OF marks(6)]
      expense_pages.left_of_next[OF d(3) assms(2)] by metis
  moreover have "left_of e w st SyncWithdrawals wd_store withdrawal_at (bk_withdrawals b) ?c5
      = drop n (left_of e w st SyncWithdrawals wd_store withdrawal_at (bk_withdrawals b) c)"
    using left_of_cong[OF marks(4)] left_of_cong[OF marks(7)]
      withdrawal_pages.left_of_next[OF d(4) assms(2)] by metis
  moreover have "left_of e w st SyncStockMovements m_store movement_at (bk_movements b) ?c5
      = drop n (left_of e w st SyncStockMovements m_store movement_at (bk_movements b) c)"
    using left_of_cong[OF marks(8)] movement_pages.left_of_next[OF d(5) assms(2)]
    unfolding next_cursors_def by metis
  ultimately show ?thesis using assms(3) by (simp add: pending_def)
qed

lemma pull_pending:
  fixes n :: nat
  assumes "can actor ViewProfit" and "cursor_decode codec raw = c"
    and "pending e w st b c = (ps, ss, xs, ws, ms)"
  defines "r \<equiv> pull e codec w n st actor raw b"
  shows "pl_products r = take n ps" and "pl_sales r = take n ss" and "pl_expenses r = take n xs"
    and "pl_withdrawals r = take n ws" and "pl_stock_movements r = take n ms"
    and "pl_cursor r = cc_encode codec (next_cursors e w n st b c)"
    and "pl_has_more r = (n \<le> length ps \<or> n \<le> length ss \<or> n \<le> length xs \<or> n \<le> length ws
           \<or> n \<le> length ms)"
proof -
  let ?c1 = "next_cursor e w n st SyncProducts p_store product_at (bk_products b) c"
  let ?c2 = "next_cursor e w n st SyncSales s_store sale_at (bk_sales b) ?c1"
  let ?c3 = "next_cursor e w n st SyncExpenses x_store expense_at (bk_expenses b) ?c2"
  let ?c4 = "next_cursor e w n st SyncWithdrawals wd_store withdrawal_at (bk_withdrawals b) ?c3"
  have marks: "cursor_mark ?c1 SyncSales = cursor_mark c SyncSales"
    "cursor_mark ?c2 SyncExpenses = cursor_mark c SyncExpenses"
    "cursor_mark ?c3 SyncWithdrawals = cursor_mark c SyncWithdrawals"
    "cursor_mark ?c4 SyncStockMovements = cursor_mark c SyncStockMovements"
    by simp_all
  have left: "left_of e w st SyncProducts p_store product_at (bk_products b) c = ps"
    "left_of e w st SyncSales s_store sale_at (bk_sales b) ?c1 = ss"
    "left_of e w st SyncExpenses x_store expense_at (bk_expenses b) ?c2 = xs"
    "left_of e w st SyncWithdrawals wd_store withdrawal_at (bk_withdrawals b) ?c3 = ws"
    "left_of e w st SyncStockMovements m_store movement_at (bk_movements b) ?c4 = ms"
  proof -
    note now = assms(3)[unfolded pending_def prod.inject]
    show "left_of e w st SyncProducts p_store product_at (bk_products b) c = ps"
      using now by (elim conjE)
    show "left_of e w st SyncSales s_store sale_at (bk_sales b) ?c1 = ss"
      unfolding left_of_cong[OF marks(1)] using now by (elim conjE)
    show "left_of e w st SyncExpenses x_store expense_at (bk_expenses b) ?c2 = xs"
      unfolding left_of_cong[OF marks(2)] using now by (elim conjE)
    show "left_of e w st SyncWithdrawals wd_store withdrawal_at (bk_withdrawals b) ?c3 = ws"
      unfolding left_of_cong[OF marks(3)] using now by (elim conjE)
    show "left_of e w st SyncStockMovements m_store movement_at (bk_movements b) ?c4 = ms"
      unfolding left_of_cong[OF marks(4)] using now by (elim conjE)
  qed
  have "r = \<lparr>pl_products = take n ps, pl_sales = take n ss,
      pl_sale_items = lines_for_sales (map s_id (take n ss)) b, pl_expenses = take n xs,
      pl_withdrawals = take n ws, pl_stock_movements = take n ms,
      pl_cursor = cc_encode codec (next_cursors e w n st b c),
      pl_has_more = (n \<le> length ps \<or> n \<le> length ss \<or> n \<le> length xs \<or> n \<le> length ws
           \<or> n \<le> length ms)\<rparr>"
    by (simp add: r_def pull_def assms(1,2) pull_table_page left zero_cost_def next_cursors_def
        Let_def)
  then show "pl_products r = take n ps" "pl_sales r = take n ss" "pl_expenses r = take n xs"
    "pl_withdrawals r = take n ws" "pl_stock_movements r = take n ms"
    "pl_cursor r = cc_encode codec (next_cursors e w n st b c)"
    "pl_has_more r = (n \<le> length ps \<or> n \<le> length ss \<or> n \<le> length xs \<or> n \<le> length ws
           \<or> n \<le> length ms)"
    by simp_all
qed

lemma pull_all_pending:
  assumes "keys_unique b" and "0 < n" and "codec_ok codec" and "can actor ViewProfit"
    and "cursor_decode codec raw = c" and "pending e w st b c = (ps, ss, xs, ws, ms)"
    and "length ps + length ss + length xs + length ws + length ms < fuel"
  defines "rs \<equiv> pull_all fuel e codec w n st actor raw b"
  shows "concat (map pl_products rs) = ps \<and> concat (map pl_sales rs) = ss
    \<and> concat (map pl_expenses rs) = xs \<and> concat (map pl_withdrawals rs) = ws
    \<and> concat (map pl_stock_movements rs) = ms"
  using assms(5-7) unfolding rs_def
proof (induction fuel arbitrary: raw c ps ss xs ws ms)
  case (Suc fuel)
  let ?r = "pull e codec w n st actor raw b"
  note page = pull_pending[OF assms(4) Suc.prems(1,2), of n]
  show ?case
  proof (cases "pl_has_more ?r")
    case False
    then have "length ps < n" "length ss < n" "length xs < n" "length ws < n" "length ms < n"
      by (auto simp: page(7) not_le)
    then show ?thesis using False by (simp add: Let_def page(1-5))
  next
    case True
    let ?rs = "pull_all fuel e codec w n st actor (Some (pl_cursor ?r)) b"
    have full: "n \<le> length ps \<or> n \<le> length ss \<or> n \<le> length xs \<or> n \<le> length ws \<or> n \<le> length ms"
      using True by (simp only: page(7))
    have dec: "cursor_decode codec (Some (pl_cursor ?r)) = next_cursors e w n st b c"
      using assms(3) by (simp add: cursor_decode_def codec_ok_def page(6))
    have "length (drop n ps) + length (drop n ss) + length (drop n xs) + length (drop n ws)
        + length (drop n ms) < fuel"
      using Suc.prems(3) full assms(2) unfolding length_drop by linarith
    from Suc.IH[OF dec pending_next[OF assms(1,2) Suc.prems(2)] this]
    show ?thesis
      using True by (simp only: pull_all.simps Let_def if_True list.map concat.simps page(1-5))
        (simp only: append_take_drop_id simp_thms)
  qed
qed simp

text \<open>How many pulls it takes: one for every full page of the longest table, and one more.\<close>

lemma diff_max: "max (a :: nat) b - n = max (a - n) (b - n)"
  by (simp add: max_def)

lemma pull_all_rounds:
  assumes "keys_unique b" and "0 < n" and "codec_ok codec" and "can actor ViewProfit"
    and "cursor_decode codec raw = c" and "pending e w st b c = (ps, ss, xs, ws, ms)"
    and "(max (length ps) (max (length ss) (max (length xs) (max (length ws) (length ms))))) div n < fuel"
  defines "rs \<equiv> pull_all fuel e codec w n st actor raw b"
  shows "length rs = (max (length ps) (max (length ss) (max (length xs) (max (length ws) (length ms))))) div n + 1
    \<and> \<not> pl_has_more (last rs)"
  using assms(5-7) unfolding rs_def
proof (induction fuel arbitrary: raw c ps ss xs ws ms)
  case (Suc fuel)
  let ?r = "pull e codec w n st actor raw b"
  let ?m = "max (length ps) (max (length ss) (max (length xs) (max (length ws) (length ms))))"
  note page = pull_pending[OF assms(4) Suc.prems(1,2), of n]
  have more: "pl_has_more ?r \<longleftrightarrow> n \<le> ?m" unfolding page(7) le_max_iff_disj by blast
  show ?case
  proof (cases "pl_has_more ?r")
    case False
    then show ?thesis using more by (simp add: Let_def not_le)
  next
    case True
    then have m: "?m div n = Suc ((?m - n) div n)"
      using more assms(2) by (simp add: le_div_geq)
    have rest: "max (length (drop n ps)) (max (length (drop n ss)) (max (length (drop n xs))
        (max (length (drop n ws)) (length (drop n ms))))) = ?m - n"
      by (simp only: length_drop diff_max)
    have dec: "cursor_decode codec (Some (pl_cursor ?r)) = next_cursors e w n st b c"
      using assms(3) by (simp add: cursor_decode_def codec_ok_def page(6))
    have "(?m - n) div n < fuel" using Suc.prems(3) m by linarith
    note IH = Suc.IH[OF dec pending_next[OF assms(1,2) Suc.prems(2)], unfolded rest, OF this]
    show ?thesis
      unfolding pull_all.simps Let_def if_P[OF True] list.size(4) m last_ConsR
      using IH by auto
  qed
qed simp

text \<open>A page of no rows is always full.\<close>

lemma pull_all_endless: "length (pull_all fuel e codec w 0 st actor raw b) = fuel"
proof (induction fuel arbitrary: raw)
  case (Suc fuel)
  have "pl_has_more (pull e codec w 0 st actor raw b)"
    by (simp add: pull_def pull_table_def Let_def case_prod_unfold)
  then show ?case using Suc by (simp add: Let_def)
qed simp

end
