(* ===== verification/Sync_Settle.thy ===== *)
theory Sync_Settle
  imports Sync
begin

text \<open>
  Why a pull only reads rows older than the settle window (\<^verbatim>\<open>settle_window\<close> in
  \<^verbatim>\<open>features/sync/sync_repository.rs\<close>). A row's \<open>updated_at\<close> is the start of the transaction
  that wrote it, and the row becomes visible only when that transaction commits, so rows
  become visible out of order. The step relation interleaves writers, the clock and one
  device's pulls of one table of one store; \<open>open\<close> are the transactions under way. The clock
  may only move while every open transaction is younger than the window: that is what the
  window is configured for, and it is the assumption of everything below.
\<close>

section \<open>The interleaving\<close>

record feed_row =
  fr_id :: uuid
  fr_updated_at :: instant
  fr_version :: nat

definition feed_at :: "feed_row \<Rightarrow> mark" where
  "feed_at r = (fr_updated_at r, fr_id r)"

record feed =
  fd_clock :: instant
  fd_open :: "feed_row list"
  fd_rows :: "feed_row list"
  fd_mark :: mark
  fd_seen :: "uuid \<Rightarrow> nat option"

definition feed_commit :: "feed_row \<Rightarrow> feed_row list \<Rightarrow> feed_row list" where
  "feed_commit r rows = filter (\<lambda>x. fr_id x \<noteq> fr_id r) rows @ [r]"

definition feed_page :: "env \<Rightarrow> duration \<Rightarrow> uuid \<Rightarrow> nat \<Rightarrow> feed \<Rightarrow> feed_row list \<times> mark option" where
  "feed_page e w st n s =
     changed_since (e\<lparr>e_now := fd_clock s\<rparr>) w st (\<lambda>_. st) feed_at (fd_mark s) n (fd_rows s)"

definition feed_apply :: "feed_row list \<Rightarrow> (uuid \<Rightarrow> nat option) \<Rightarrow> uuid \<Rightarrow> nat option" where
  "feed_apply page seen = seen ++ map_of (map (\<lambda>r. (fr_id r, fr_version r)) page)"

definition feed_pull :: "env \<Rightarrow> duration \<Rightarrow> uuid \<Rightarrow> nat \<Rightarrow> feed \<Rightarrow> feed" where
  "feed_pull e w st n s =
     (let (page, last) = feed_page e w st n s
      in s\<lparr>fd_seen := feed_apply page (fd_seen s),
           fd_mark := (case last of None \<Rightarrow> fd_mark s | Some m \<Rightarrow> m)\<rparr>)"

inductive feed_step :: "env \<Rightarrow> duration \<Rightarrow> uuid \<Rightarrow> nat \<Rightarrow> feed \<Rightarrow> feed \<Rightarrow> bool"
  for e :: env and w :: duration and st :: uuid and n :: nat where
  tick: "0 \<le> d \<Longrightarrow> (\<forall>r \<in> set (fd_open s). fd_clock s + d \<le> fr_updated_at r + w)
    \<Longrightarrow> feed_step e w st n s (s\<lparr>fd_clock := fd_clock s + d\<rparr>)"
| begin_write: "fr_updated_at r = fd_clock s
    \<Longrightarrow> feed_step e w st n s (s\<lparr>fd_open := r # fd_open s\<rparr>)"
| commit: "r \<in> set (fd_open s)
    \<Longrightarrow> feed_step e w st n s (s\<lparr>fd_open := remove1 r (fd_open s),
                                 fd_rows := feed_commit r (fd_rows s)\<rparr>)"
| rollback: "r \<in> set (fd_open s)
    \<Longrightarrow> feed_step e w st n s (s\<lparr>fd_open := remove1 r (fd_open s)\<rparr>)"
| pull: "feed_step e w st n s (feed_pull e w st n s)"

definition feed_start :: "instant \<Rightarrow> feed" where
  "feed_start now = \<lparr>fd_clock = now, fd_open = [], fd_rows = [], fd_mark = mark_origin,
     fd_seen = Map.empty\<rparr>"

inductive feed_reachable :: "env \<Rightarrow> duration \<Rightarrow> uuid \<Rightarrow> nat \<Rightarrow> feed \<Rightarrow> bool"
  for e :: env and w :: duration and st :: uuid and n :: nat where
  start: "w < now \<Longrightarrow> feed_reachable e w st n (feed_start now)"
| step: "feed_reachable e w st n s \<Longrightarrow> feed_step e w st n s s' \<Longrightarrow> feed_reachable e w st n s'"

interpretation feed_pages: keyset_table fr_id feed_at
  by unfold_locales (simp add: feed_at_def)

section \<open>The invariant\<close>

definition feed_inv :: "duration \<Rightarrow> feed \<Rightarrow> bool" where
  "feed_inv w s \<longleftrightarrow>
     distinct (map fr_id (fd_rows s))
     \<and> fst (fd_mark s) < fd_clock s - w
     \<and> (\<forall>r \<in> set (fd_open s). fd_clock s - w \<le> fr_updated_at r)
     \<and> (\<forall>r \<in> set (fd_rows s). feed_at r \<le> fd_mark s \<longrightarrow> fd_seen s (fr_id r) = Some (fr_version r))"

lemma feed_applied:
  assumes "distinct (map fr_id page)" and "r \<in> set page"
  shows "feed_apply page seen (fr_id r) = Some (fr_version r)"
proof -
  have "map_of (map (\<lambda>r. (fr_id r, fr_version r)) page) (fr_id r) = Some (fr_version r)"
    using assms by (intro map_of_is_SomeI) (auto simp: comp_def)
  then show ?thesis by (simp add: feed_apply_def)
qed

lemma feed_apply_other:
  "fr_id r \<notin> fr_id ` set page \<Longrightarrow> feed_apply page seen (fr_id r) = seen (fr_id r)"
  by (auto simp: feed_apply_def map_add_def map_of_eq_None_iff split: option.split
      dest!: map_of_SomeD)

definition feed_settled :: "duration \<Rightarrow> feed \<Rightarrow> feed_row list" where
  "feed_settled w s = filter (\<lambda>r. fr_updated_at r < fd_clock s - w) (fd_rows s)"

lemma feed_page_eq:
  "feed_page e w st n s =
     (let page = page_after feed_at (fd_mark s) n (feed_settled w s) in (page, page_last feed_at page))"
  by (simp add: feed_page_def changed_since_def settled_def feed_settled_def feed_at_def)

lemma feed_pull_inv:
  assumes inv: "feed_inv w s" and n: "0 < n"
  shows "feed_inv w (feed_pull e w st n s)"
proof -
  let ?page = "page_after feed_at (fd_mark s) n (feed_settled w s)"
  let ?s' = "feed_pull e w st n s"
  have d: "distinct (map fr_id (fd_rows s))" using inv by (simp add: feed_inv_def)
  have ds: "distinct (map fr_id (feed_settled w s))"
    unfolding feed_settled_def using d by (rule distinct_map_filter)
  have sub: "set ?page \<subseteq> {r \<in> set (feed_settled w s). fd_mark s < feed_at r}"
    by (rule feed_pages.page_is_settled)
  have "distinct (map fr_id (sort_key feed_at (filter (\<lambda>r. fd_mark s < feed_at r) (feed_settled w s))))"
    using distinct_map_filter[OF ds, of "\<lambda>r. fd_mark s < feed_at r"] by (simp add: distinct_map)
  then have dp: "distinct (map fr_id ?page)"
    unfolding page_after_def take_map[symmetric] by (rule distinct_take)
  have seen: "fd_seen ?s' = feed_apply ?page (fd_seen s)" "fd_rows ?s' = fd_rows s"
    "fd_open ?s' = fd_open s" "fd_clock ?s' = fd_clock s"
    "fd_mark ?s' = (case page_last feed_at ?page of None \<Rightarrow> fd_mark s | Some m \<Rightarrow> m)"
    by (simp_all add: feed_pull_def feed_page_eq Let_def)
  have mark: "fst (fd_mark ?s') < fd_clock s - w"
  proof (cases "?page = []")
    case True
    then show ?thesis using inv by (simp add: seen page_last_def feed_inv_def)
  next
    case False
    then have "last ?page \<in> set (feed_settled w s)" using sub last_in_set by blast
    then show ?thesis using False by (simp add: seen page_last_def feed_at_def feed_settled_def)
  qed
  have "fd_seen ?s' (fr_id r) = Some (fr_version r)"
    if r: "r \<in> set (fd_rows s)" "feed_at r \<le> fd_mark ?s'" for r
  proof (cases "r \<in> set ?page")
    case True
    then show ?thesis using feed_applied[OF dp] by (simp add: seen)
  next
    case False
    have old: "feed_at r \<le> fd_mark s"
    proof (rule ccontr)
      assume "\<not> feed_at r \<le> fd_mark s"
      then have new: "fd_mark s < feed_at r" by simp
      then obtain m where m: "page_last feed_at ?page = Some m" "feed_at r \<le> m"
        using r(2) by (auto simp: seen split: option.splits)
      have "fst (feed_at r) \<le> fst (fd_mark ?s')"
        using r(2) by (auto simp: less_eq_prod_def)
      then have "r \<in> set (feed_settled w s)"
        using mark r(1) by (auto simp: feed_settled_def feed_at_def)
      then show False using feed_pages.page_covers[OF ds n _ new m] False by blast
    qed
    have "fr_id r \<notin> fr_id ` set ?page"
    proof
      assume "fr_id r \<in> fr_id ` set ?page"
      then obtain r' where r': "r' \<in> set ?page" "fr_id r' = fr_id r" by auto
      then have "r' \<in> set (fd_rows s)" using sub by (auto simp: feed_settled_def)
      then have "r' = r"
        using find_key_in_set[OF d] r(1) r'(2) by (metis option.inject)
      then show False using False r'(1) by simp
    qed
    then show ?thesis using inv old r(1) by (simp add: seen feed_apply_other feed_inv_def)
  qed
  then show ?thesis using inv mark by (auto simp: feed_inv_def seen)
qed

lemma feed_step_inv:
  assumes "feed_inv w s" and "0 < n" and "0 \<le> w" and "feed_step e w st n s s'"
  shows "feed_inv w s'"
  using assms(4)
proof (cases rule: feed_step.cases)
  case (tick d)
  then show ?thesis using assms(1) by (fastforce simp: feed_inv_def)
next
  case (begin_write r)
  then show ?thesis using assms(1,3) by (auto simp: feed_inv_def)
next
  case (commit r)
  have late: "fd_mark s < feed_at r"
    using assms(1) commit(2) by (fastforce simp: feed_inv_def feed_at_def less_prod_def)
  have "distinct (map fr_id (feed_commit r (fd_rows s)))"
    using assms(1) by (auto simp: feed_commit_def feed_inv_def distinct_map_filter)
  moreover have "\<forall>x \<in> set (fd_open s'). fd_clock s - w \<le> fr_updated_at x"
    using assms(1) commit(1) by (auto simp: feed_inv_def dest: notin_set_remove1)
  moreover have "\<forall>x \<in> set (feed_commit r (fd_rows s)). feed_at x \<le> fd_mark s
      \<longrightarrow> fd_seen s (fr_id x) = Some (fr_version x)"
    using assms(1) late by (auto simp: feed_commit_def feed_inv_def)
  ultimately show ?thesis using assms(1) commit(1) by (simp add: feed_inv_def)
next
  case (rollback r)
  then show ?thesis using assms(1) by (auto simp: feed_inv_def dest: notin_set_remove1)
next
  case pull
  then show ?thesis using feed_pull_inv[OF assms(1,2)] by simp
qed

lemma feed_reachable_inv:
  assumes "feed_reachable e w st n s" and "0 < n" and "0 \<le> w"
  shows "feed_inv w s"
  using assms(1)
proof (induction rule: feed_reachable.induct)
  case (start now)
  then show ?case by (simp add: feed_inv_def feed_start_def mark_origin_def)
next
  case (step s s')
  then show ?case using feed_step_inv assms(2,3) by blast
qed

end
