(* ===== verification/Samples.thy ===== *)
theory Samples
  imports Books
begin

text \<open>
  A concrete environment, store and people, at which the properties are instantiated. The
  rounding is to the nearest whole, an id prints as that many strokes, and text collates by
  nothing at all.
\<close>

definition sample_env :: "instant \<Rightarrow> env" where
  "sample_env now = \<lparr>e_now = now, e_uuid = (\<lambda>n. of_nat (n + 100)), e_decimal = Some,
     e_round = (\<lambda>x. \<lfloor>x + 1 / 2\<rfloor>), e_numeric = (\<lambda>x. \<lfloor>x + 1 / 2\<rfloor>),
     e_uuid_text = (\<lambda>u. replicate (unat u) (CHR ''i'')), e_join_pick = (\<lambda>_ _. 0),
     e_collate = (\<lambda>_. 0), e_log_up = True\<rparr>"

definition sample_owner :: actor where
  "sample_owner = \<lparr>ac_owner_id = 1, ac_session_id = 2, ac_name = ''Ana'',
     ac_device_name = ''phone'', ac_staff = None, ac_subscription = None\<rparr>"

definition sample_staff :: "permissions \<Rightarrow> actor" where
  "sample_staff ps = \<lparr>ac_owner_id = 1, ac_session_id = 3, ac_name = ''Ben'',
     ac_device_name = ''tablet'',
     ac_staff = Some \<lparr>sg_staff_id = 5, sg_store_id = 10, sg_permissions = ps\<rparr>,
     ac_subscription = None\<rparr>"

definition sample_product :: product_row where
  "sample_product = \<lparr>p_id = 20, p_store = 10, p_name = ''soap'', p_barcode = None,
     p_unit_label = ''pc'', p_cost_price = 800, p_selling_price = 1000, p_stock = 5000,
     p_reorder_level = 0, p_is_active = True, p_updated_at = 1, p_deleted_at = None\<rparr>"

definition sample_books :: books where
  "sample_books = empty_books\<lparr>bk_products := [sample_product]\<rparr>"

lemma sample_env_sel [simp]:
  "e_now (sample_env t) = t" "e_uuid (sample_env t) n = of_nat (n + 100)"
  "e_decimal (sample_env t) = Some" "e_round (sample_env t) x = \<lfloor>x + 1 / 2\<rfloor>"
  "e_numeric (sample_env t) x = \<lfloor>x + 1 / 2\<rfloor>" "e_log_up (sample_env t)"
  by (simp_all add: sample_env_def)

lemma sample_text_inj [simp]: "inj (e_uuid_text (sample_env t))"
proof (rule injI)
  fix x y assume "e_uuid_text (sample_env t) x = e_uuid_text (sample_env t) y"
  from arg_cong[OF this, of length] show "x = y" 
    by (simp add: sample_env_def word_unat_eq_iff)
qed

lemma sample_owner_can [simp]: "can sample_owner p" "is_owner sample_owner"
  by (simp_all add: sample_owner_def is_owner_def)

lemma sample_env_rounds: "rounds_to_nearest (e_round (sample_env t))"
  unfolding rounds_to_nearest_def
proof (intro conjI allI impI)
  fix x :: rat
  have "of_int \<lfloor>x + 1 / 2\<rfloor> \<le> x + 1 / 2" "x + 1 / 2 < of_int \<lfloor>x + 1 / 2\<rfloor> + 1"
    by linarith+
  then have "\<bar>rat_of_int \<lfloor>x + 1 / 2\<rfloor> - x\<bar> \<le> 1 / 2" unfolding abs_le_iff by linarith
  then show "\<bar>rat_of_int (e_round (sample_env t) x) - x\<bar> \<le> 1 / 2" by simp
next
  fix n show "e_round (sample_env t) (rat_of_int n) = n" by (simp add: floor_unique)
next
  fix x y :: rat assume "x \<le> y"
  then show "e_round (sample_env t) x \<le> e_round (sample_env t) y" by (simp add: floor_mono)
qed

lemma sample_books_ok: "books_ok sample_books"
  by (simp add: books_ok_def keys_unique_def items_have_sales_def sample_books_def empty_books_def)

text \<open>A run that does not fail, and its result.\<close>

lemma ran: "\<not> isl r \<Longrightarrow> r = Inr (fst (projr r), snd (projr r))"
  by (cases r) auto

end
