(* ===== verification/Bookkeeping_Properties.thy ===== *)
theory Bookkeeping_Properties
  imports Sync Samples
begin

text \<open>
  The properties of sales, products, stock movements and expenses, each with the concrete
  instance that shows its hypotheses can hold.
\<close>

section \<open>Samples\<close>

definition sample_line :: prepared_line where
  "sample_line = \<lparr>pl_id = 40, pl_product_id = Some 20, pl_product_name = ''soap'',
     pl_quantity = 2000, pl_unit_price = 1000, pl_unit_cost = 800, pl_line_total = 2000\<rparr>"

definition sample_sale :: prepared_sale where
  "sample_sale = \<lparr>ps_id = 30, ps_store_id = 10, ps_payment_method = ''cash'',
     ps_total_amount = 2000, ps_cost_amount = 1600000, ps_discount_amount = 0, ps_note = None,
     ps_occurred_at = 50, ps_lines = [sample_line]\<rparr>"

definition sample_recorder :: recorder where
  "sample_recorder = \<lparr>rc_staff_id = None, rc_is_owner = True\<rparr>"

definition sample_sold :: "recorded_sale \<times> books" where
  "sample_sold = projr (record_sale (sample_env 60) sample_sale sample_recorder sample_books)"

lemmas sample_sale_defs = sample_line_def sample_sale_def sample_recorder_def
  sample_books_def sample_product_def empty_books_def


definition sample_voided :: "sale_view option \<times> books" where
  "sample_voided = projr (void_sale (sample_env 80) 10 30 (snd sample_sold))"

lemma sample_recorded:
  "record_sale (sample_env 60) sample_sale sample_recorder sample_books
     = Inr (fst sample_sold, snd sample_sold)"
  unfolding sample_sold_def by (rule ran) code_simp



lemma sample_facts [simp]:
  "one_line_each [sample_line]" "product_in 10 20 sample_books"
  "find_key s_id 30 (bk_sales sample_books) = None" "ps_store_id sample_sale = 10"
  "ps_id sample_sale = 30" "ps_lines sample_sale = [sample_line]"
  by (simp_all add: sample_sale_defs one_line_each_def product_in_def)

section \<open>Sales\<close>




lemma record_sale_fresh_stock:
  assumes "record_sale e sale by b = Inr (rd, b')"
    and "find_key s_id (ps_id sale) (bk_sales b) = None"
    and "inj (e_uuid_text e)" and "product_in (ps_store_id sale) pid b"
  shows "stock_on_hand b' (ps_store_id sale) pid
    = stock_on_hand b (ps_store_id sale) pid - sold (ps_lines sale) pid \<and> rd_created rd"
  using assms(1)
proof (cases rule: record_saleE)
  case first
  then show ?thesis using record_sale_first_stock[OF first(2) assms(3,4)] by simp
qed (use assms(2) in auto)

text \<open>C7: Recording a sale the server has not seen takes exactly the quantities on its lines out of
  the stock of the store's products.\<close>

theorem first_recording_deducts_stock:
  assumes "record_sale e sale by b = Inr (rd, b')"
    and "find_key s_id (ps_id sale) (bk_sales b) = None"
    and "inj (e_uuid_text e)" and "product_in (ps_store_id sale) pid b"
  shows "stock_on_hand b' (ps_store_id sale) pid
           = stock_on_hand b (ps_store_id sale) pid - sold (ps_lines sale) pid \<and> rd_created rd"
  using assms by (rule record_sale_fresh_stock)

theorem first_recording_deducts_stock_witness:
  "stock_on_hand (snd sample_sold) 10 20 = stock_on_hand sample_books 10 20 - 2000"
  using first_recording_deducts_stock[OF sample_recorded, of 20] by (simp add: sample_line_def)





text \<open>C30: A voided sale is final: whoever pushes it again, and whatever lines the push carries, gets
  the stored sale back and changes nothing, neither stock nor ledger nor the sale itself.\<close>

theorem voided_sale_is_final:
  assumes "find_key s_id (ps_id sale) (bk_sales b) = Some old"
    and "s_store old = ps_store_id sale" and "s_deleted_at old \<noteq> None"
  shows "record_sale e sale by b = Inr (\<lparr>rd_sale = view_sale old, rd_created = False\<rparr>, b)"
  using assms by (simp add: record_sale_def lookup_sale_def)

theorem voided_sale_is_final_witness:
  "\<exists>old. record_sale (sample_env 90) sample_sale sample_recorder (snd sample_voided)
     = Inr (\<lparr>rd_sale = view_sale old, rd_created = False\<rparr>, snd sample_voided)"
proof -
  define old where "old = the (find_key s_id 30 (bk_sales (snd sample_voided)))"
  have "find_key s_id 30 (bk_sales (snd sample_voided)) \<noteq> None" by code_simp
  then have "find_key s_id 30 (bk_sales (snd sample_voided)) = Some old" by (auto simp: old_def)
  moreover have "s_store old = 10 \<and> s_deleted_at old \<noteq> None" unfolding old_def by code_simp
  ultimately show ?thesis using voided_sale_is_final[of sample_sale "snd sample_voided" old] by auto
qed



text \<open>What a sale is charged: the discount never exceeds the gross, total and discount add up to
  it, and the total is never negative.\<close>

theorem sale_total_is_gross_less_discount:
  "let p = prepare_sale e st request sid pm lines;
       asked = money_from_f64 e (rs_discount_amount request)
   in 0 \<le> ps_total_amount p \<and> ps_discount_amount p = min asked (sale_gross lines)
      \<and> ps_total_amount p + ps_discount_amount p = sale_gross lines"
  by (auto simp: prepare_sale_def Let_def)

section \<open>Products\<close>

text \<open>Saving a product never stores it priced below its cost, and never moves the stock of a
  product the store already has.\<close>

theorem saving_never_loses_money_or_stock:
  assumes "product_save e st actor request b = Inr (v, b')"
  shows "pv_cost_price v \<le> pv_selling_price v
    \<and> (product_in st (pv_id v) b \<longrightarrow> stock_on_hand b' st (pv_id v) = stock_on_hand b st (pv_id v))"
  using assms
proof (cases rule: product_saveE)
  case (1 pid b1 b2)
  obtain n where b1: "b1 = b\<lparr>bk_drawn := n\<rparr>" using unwrap_or_new_frame[OF 1(2)] by blast
  have stock: "stock_on_hand b' st pid = stock_on_hand b2 st pid"
    by (auto simp: 1(5) stock_on_hand_def split: option.split)
  from 1(4) show ?thesis
  proof (cases rule: product_upsertE)
    case (inserted row)
    then have "\<not> product_in st pid b"
      unfolding product_in_def b1 find_key_None_iff set_map by simp (metis imageI)
    moreover have "pv_id v = pid" using inserted by simp
    moreover have "pv_cost_price v \<le> pv_selling_price v"
      using 1(3) inserted(5-7) by simp
    ultimately show ?thesis by simp
  next
    case (updated old new)
    have shift: "stock_shift (\<lambda>_ _. 0) b1 b2"
      using updated(8)
      by (intro stock_shift_upd_where[where hit = "\<lambda>r. p_id r = pid" and f = "\<lambda>r. product_merge r new"]) simp_all
    have "pv_id v = pid" using updated(1,7) by (auto dest: find_key_SomeD)
    moreover have "stock_on_hand b2 st pid = stock_on_hand b1 st pid" if "product_in st pid b1"
      using stock_on_hand_shift[OF shift that] by simp
    ultimately show ?thesis
      using 1(3) updated(5-7) stock by (simp add: b1 product_in_def stock_on_hand_def)
  qed
qed

definition sample_save :: save_product_request where
  "sample_save = \<lparr>sp_id = Some 20, sp_name = '' soap bar '', sp_barcode = None,
     sp_unit_label = ''pc'', sp_cost_price = 3, sp_selling_price = 12, sp_opening_stock = 9,
     sp_reorder_level = 1\<rparr>"

theorem saving_never_loses_money_or_stock_witness:
  "stock_on_hand (snd (projr (product_save (sample_env 60) 10 sample_owner sample_save sample_books))) 10 20
     = stock_on_hand sample_books 10 20"
proof -
  let ?r = "product_save (sample_env 60) 10 sample_owner sample_save sample_books"
  have "\<not> isl ?r" by code_simp
  moreover have "pv_id (fst (projr ?r)) = 20" by code_simp
  ultimately show ?thesis
    using saving_never_loses_money_or_stock[OF ran, of "sample_env 60" 10 sample_owner sample_save sample_books]
    by simp
qed

text \<open>A staff member who may not see costs cannot change them: whatever cost the phone sends, a
  product the store already has keeps the one on record.\<close>

theorem hidden_cost_is_kept:
  assumes "product_save e st actor request b = Inr (v, b')"
    and "\<not> can actor ViewProfit" and "sp_id request = Some pid"
    and "product_row_at b st pid = Some row"
  shows "pv_cost_price v = p_cost_price row"
  using assms(1)
proof (cases rule: product_saveE)
  case (1 pid' b1 b2)
  have same: "pid' = pid" "b1 = b" using 1(2) assms(3) by (auto simp: unwrap_or_new_def)
  have "saved_cost e actor (product_find b1 st pid') (sp_cost_price request) = p_cost_price row"
    using assms(2,4) by (simp add: saved_cost_def product_find_def same)
  moreover have "pv_cost_price v = saved_cost e actor (product_find b1 st pid') (sp_cost_price request)"
    using 1(4) by (cases rule: product_upsertE) simp_all
  ultimately show ?thesis by simp
qed

theorem hidden_cost_is_kept_witness:
  "let actor = sample_staff (permissions_default\<lparr>pm_manage_products := True\<rparr>)
   in pv_cost_price (fst (projr (product_save (sample_env 60) 10 actor sample_save sample_books))) = 800"
proof -
  let ?actor = "sample_staff (permissions_default\<lparr>pm_manage_products := True\<rparr>)"
  have "\<not> isl (product_save (sample_env 60) 10 ?actor sample_save sample_books)" by code_simp
  moreover have "\<not> can ?actor ViewProfit" by code_simp
  moreover have "product_row_at sample_books 10 20 = Some sample_product" by code_simp
  ultimately show ?thesis
    using hidden_cost_is_kept[OF ran, of "sample_env 60" 10 ?actor sample_save sample_books 20 sample_product]
    by (simp add: sample_save_def sample_product_def)
qed

section \<open>Stock movements\<close>

text \<open>A new stock movement does to the stock what its kind says: a delivery adds its quantity, a
  removal or spoilage takes it away, and a count leaves exactly the counted quantity, whatever
  was on hand.\<close>

theorem movement_moves_stock:
  assumes "inventory_record e st actor request b = Inr (u, b')"
    and "rm_id request = Some mid" and "mid \<notin> m_id ` set (bk_movements b)"
    and "keys_unique b"
  shows "stock_on_hand b' st (rm_product_id request)
    = (let kind = to_lowercase (trim (rm_movement request));
           q = quantity_from_f64 e (rm_quantity request);
           before = stock_on_hand b st (rm_product_id request)
       in if kind = ''adjustment'' then q else if kind = ''stock_in'' then before + q
          else before - q)"
  using assms(1)
proof (cases rule: inventory_recordE)
  case (1 eff mid' b1 applied b2)
  let ?pid = "rm_product_id request"
  let ?kind = "to_lowercase (trim (rm_movement request))"
  let ?q = "quantity_from_f64 e (rm_quantity request)"
  have same: "mid' = mid" "b1 = b" using 1(3) assms(2) by (auto simp: unwrap_or_new_def)
  have stock: "stock_on_hand b' st ?pid = stock_on_hand b2 st ?pid"
    by (auto simp: 1(5) stock_on_hand_def split: option.split)
  from 1(4) show ?thesis
  proof (cases rule: record_movementE)
    case (replayed p)
    then show ?thesis using assms(3) by (auto simp: same dest: find_key_SomeD)
  next
    case (moved p delta)
    have p: "p \<in> set (bk_products b)" "p_id p = ?pid" "p_store p = st"
      using moved(1) by (auto simp: same dest: product_row_atD)
    let ?hit = "\<lambda>r. p_id r = ?pid \<and> p_store r = st"
    have found: "find (\<lambda>r. p_store r = st \<and> p_id r = ?pid) (bk_products b) = Some p"
    proof -
      have d: "distinct (map p_id (bk_products b))" using assms(4) by (simp add: keys_unique_def)
      obtain r where r: "find (\<lambda>r. p_store r = st \<and> p_id r = ?pid) (bk_products b) = Some r"
        using p by (cases "find (\<lambda>r. p_store r = st \<and> p_id r = ?pid) (bk_products b)")
          (auto simp: find_None_iff)
      then have "r \<in> set (bk_products b)" "p_id r = ?pid" by (auto dest: find_SomeD)
      then have "r = p" using find_key_in_set[OF d, of r] find_key_in_set[OF d p(1)] p(2) by simp
      then show ?thesis using r by simp
    qed
    have "find (\<lambda>r. p_store r = st \<and> p_id r = ?pid) (bk_products b2)
        = map_option (\<lambda>r. if ?hit r then move_stock e delta (if can actor ViewProfit
             then money_from_f64 e (rm_unit_cost request) else 0) r else r) (Some p)"
      unfolding found[symmetric] using moved(5) by (simp add: same find_upd_where)
    then have "stock_on_hand b2 st ?pid = p_stock p + delta"
      using p by (simp add: stock_on_hand_def)
    moreover have "stock_on_hand b st ?pid = p_stock p" by (simp add: stock_on_hand_def found)
    moreover have "delta = effect_delta eff (p_stock p)" using moved(2) by simp
    ultimately show ?thesis
      using 1(2) stock by (auto simp: movement_effect_def inbound_movements_def
          outbound_movements_def Let_def split: if_splits)
  qed
qed

definition sample_count :: record_movement_request where
  "sample_count = \<lparr>rm_id = Some 60, rm_product_id = 20, rm_movement = ''Adjustment '',
     rm_quantity = 7, rm_unit_cost = 0, rm_note = None, rm_occurred_at = None\<rparr>"

theorem movement_moves_stock_witness:
  "stock_on_hand (snd (projr (inventory_record (sample_env 60) 10 sample_owner sample_count
     sample_books))) 10 20 = 7000"
proof -
  let ?r = "inventory_record (sample_env 60) 10 sample_owner sample_count sample_books"
  have r: "\<not> isl ?r" by code_simp
  have "stock_on_hand (snd (projr ?r)) 10 20
    = (let kind = to_lowercase (trim (rm_movement sample_count));
           q = quantity_from_f64 (sample_env 60) (rm_quantity sample_count);
           before = stock_on_hand sample_books 10 20
       in if kind = ''adjustment'' then q else if kind = ''stock_in'' then before + q
          else before - q)"
    using movement_moves_stock[OF ran[OF r], of 60] sample_books_ok
    by (simp add: sample_count_def books_ok_def sample_books_def empty_books_def)
  also have "\<dots> = 7000" by code_simp
  finally show ?thesis .
qed

text \<open>A movement the server already has is accepted and changes nothing: no stock, no ledger
  row, no log line and no event. A phone may retry a push as often as it likes.\<close>

theorem replayed_movement_changes_nothing:
  assumes "inventory_record e st actor request b = Inr (u, b')"
    and "rm_id request = Some mid" and "mid \<in> m_id ` set (bk_movements b)"
  shows "b' = b"
  using assms(1)
proof (cases rule: inventory_recordE)
  case (1 eff mid' b1 applied b2)
  have same: "mid' = mid" "b1 = b" using 1(3) assms(2) by (auto simp: unwrap_or_new_def)
  from 1(4) show ?thesis
  proof (cases rule: record_movementE)
    case (replayed p)
    then show ?thesis using 1(5) by (simp add: same)
  next
    case (moved p delta)
    then show ?thesis using assms(3) by (simp add: same)
  qed
qed

theorem replayed_movement_changes_nothing_witness:
  "let b = snd (projr (inventory_record (sample_env 60) 10 sample_owner sample_count sample_books))
   in snd (projr (inventory_record (sample_env 61) 10 sample_owner sample_count b)) = b"
proof -
  let ?b = "snd (projr (inventory_record (sample_env 60) 10 sample_owner sample_count sample_books))"
  have r: "\<not> isl (inventory_record (sample_env 61) 10 sample_owner sample_count ?b)" by code_simp
  have "60 \<in> set (map m_id (bk_movements ?b))" by code_simp
  then show ?thesis
    using replayed_movement_changes_nothing[OF ran[OF r], of 60] by (simp add: sample_count_def)
qed

section \<open>Expenses\<close>

text \<open>Staff never overwrite an expense someone else recorded, and nobody overwrites one of
  another store: the save fails with Forbidden.\<close>

theorem expenses_of_others_are_refused:
  assumes "can actor RecordExpenses" and "category_parse (rx_category request) = Inr category"
    and "rx_id request = Some xid" and "find_key x_id xid (bk_expenses b) = Some old"
    and "fits14 (money_from_f64 e (rx_amount request))"
    and "x_store old \<noteq> st \<or> \<not> may_amend actor (x_recorded_by old)"
  shows "expense_record e st actor request b
    = Inl (Forbidden ''only the owner can change an expense someone else recorded'')"
proof -
  have "\<not> (x_store old = st \<and> (is_owner actor
      \<or> (x_recorded_by old \<noteq> None \<and> x_recorded_by old = staff_id actor)))"
    using assms(6) by (cases "ac_staff actor") (auto simp: may_amend_def staff_id_def is_owner_def)
  then show ?thesis
    using assms(1-5)
    by (auto simp: expense_record_def unwrap_or_new_def expense_upsert_def upsert_def
        expense_guard_def require_def ok_or_def Let_def)
qed

definition sample_expense_row :: expense_row where
  "sample_expense_row = \<lparr>x_id = 70, x_store = 10, x_category = ''rent'', x_description = None,
     x_amount = 500, x_occurred_at = 1, x_recorded_by = None, x_updated_at = 1,
     x_deleted_at = None\<rparr>"

definition sample_expense :: record_expense_request where
  "sample_expense = \<lparr>rx_id = Some 70, rx_category = ''Rent'', rx_description = None,
     rx_amount = 6, rx_occurred_at = None\<rparr>"

theorem expenses_of_others_are_refused_witness:
  "expense_record (sample_env 60) 10 (sample_staff permissions_all) sample_expense
     (empty_books\<lparr>bk_expenses := [sample_expense_row]\<rparr>)
   = Inl (Forbidden ''only the owner can change an expense someone else recorded'')"
proof (rule expenses_of_others_are_refused)
  show "can (sample_staff permissions_all) RecordExpenses" by code_simp
  show "category_parse (rx_category sample_expense) = Inr CatRent" by code_simp
  show "rx_id sample_expense = Some 70" by code_simp
  show "find_key x_id 70 (bk_expenses (empty_books\<lparr>bk_expenses := [sample_expense_row]\<rparr>))
      = Some sample_expense_row"
    by code_simp
  show "fits14 (money_from_f64 (sample_env 60) (rx_amount sample_expense))" by code_simp
  show "x_store sample_expense_row \<noteq> 10
      \<or> \<not> may_amend (sample_staff permissions_all) (x_recorded_by sample_expense_row)"
    by code_simp
qed

text \<open>A category is recognised exactly when its trimmed, lower-cased text is the name of one of
  the nine categories, so what is stored reads back as the category that was sent.\<close>

theorem category_parse_iff:
  "category_parse raw = Inr c \<longleftrightarrow> to_lowercase (trim raw) = category_as_str c"
  by (cases c) (auto simp: category_parse_def Let_def)

section \<open>What a voided two-line sale gives back\<close>

text \<open>A sale that lists one product on two lines takes both quantities out of stock; voiding it
  joins the product with both lines but updates it once, so only one comes back. \<open>e_join_pick\<close>
  decides which, and no choice is right.\<close>

definition two_line_sale :: prepared_sale where
  "two_line_sale = sample_sale\<lparr>ps_lines := [sample_line, sample_line\<lparr>pl_id := 41, pl_quantity := 1000\<rparr>]\<rparr>"

theorem two_lines_of_one_product_drift:
  "let b1 = snd (projr (record_sale (sample_env 60) two_line_sale sample_recorder sample_books));
       b2 = snd (projr (void_sale (sample_env 80) 10 30 b1))
   in stock_on_hand sample_books 10 20 = 5000 \<and> stock_on_hand b1 10 20 = 2000
      \<and> stock_on_hand b2 10 20 = 4000"
  by code_simp

text \<open>Two pushes of one new sale that both looked it up before either wrote it.\<close>

theorem concurrent_first_recordings_deduct_twice:
  "let b1 = snd (projr (sale_write (sample_env 60) sample_sale sample_recorder sample_books));
       b2 = snd (projr (sale_write (sample_env 61) (sample_sale) sample_recorder b1))
   in lookup_sale sample_sale sample_recorder sample_books = Inr FirstRecording
      \<and> stock_on_hand b1 10 20 = 3000 \<and> stock_on_hand b2 10 20 = 1000
      \<and> length (bk_sales b2) = 1"
  by code_simp

text \<open>The barcode index covers deleted products: once a product was removed, no new product of
  the store can carry its barcode.\<close>

theorem removed_barcode_stays_taken:
  "let soap = sample_save\<lparr>sp_barcode := Some ''480''\<rparr>;
       b1 = snd (projr (product_save (sample_env 60) 10 sample_owner soap empty_books));
       b2 = snd (projr (product_remove (sample_env 61) 10 sample_owner 20 b1))
   in product_list (sample_env 62) b2 10 \<lparr>pf_search = None, pf_only_low_stock = None,
        pf_include_inactive = Some True\<rparr> \<lparr>pg_limit = None, pg_offset = None\<rparr> = []
      \<and> product_save (sample_env 62) 10 sample_owner (soap\<lparr>sp_id := Some 21\<rparr>) b2 = Inl Internal"
  by code_simp

end
