(* ===== verification/Sync_Properties.thy ===== *)
theory Sync_Properties
  imports Sync_Settle Samples "HOL-Library.Multiset" "HOL-Library.Countable"
begin

text \<open>
  The properties of pushing and pulling: what a batch may touch, what it reports, that stock
  stays a ledger across it, and that a device which pulls until it is told to stop has every
  settled row, and nothing it may not see.
\<close>

section \<open>Push\<close>

text \<open>C4: A push, whatever it holds and whoever sends it, touches one store: the books stay well
  formed (primary keys unique, every sale line with its sale), every other store's rows are
  exactly what they were, the activity log only grows, and every event and cache invalidation
  is for that store.\<close>

theorem push_stays_in_its_store:
  assumes "push e st actor request b = (oc, b')" and "books_ok b"
  shows "books_ok b' \<and> (\<forall>other. other \<noteq> st \<longrightarrow> same_store other b b')
    \<and> grows (\<lambda>_. True) (bk_audit b) (bk_audit b')
    \<and> grows (\<lambda>ev. ev_store_id ev = st) (bk_events b) (bk_events b')
    \<and> grows (\<lambda>x. x = st) (bk_invalidated b) (bk_invalidated b')"
  using push_confined.push_with_rel[OF assms(1)[unfolded push_def]] assms(2)
  by (simp add: confined_def)

definition sample_push :: push_request where
  "sample_push = \<lparr>pr_products = [\<lparr>sp_id = Some 21, sp_name = ''rice'', sp_barcode = None,
       sp_unit_label = ''kg'', sp_cost_price = 40, sp_selling_price = 50, sp_opening_stock = 10,
       sp_reorder_level = 2\<rparr>],
     pr_stock_movements = [\<lparr>rm_id = Some 61, rm_product_id = 20, rm_movement = ''stock_in'',
       rm_quantity = 5, rm_unit_cost = 9, rm_note = None, rm_occurred_at = Some 40\<rparr>],
     pr_sales = [\<lparr>rs_id = Some 31, rs_payment_method = None, rs_discount_amount = 0,
       rs_note = None, rs_occurred_at = Some 30,
       rs_items = [\<lparr>sl_id = Some 42, sl_product_id = Some 21, sl_product_name = None,
         sl_quantity = 2, sl_unit_price = None, sl_unit_cost = None\<rparr>]\<rparr>],
     pr_expenses = [\<lparr>rx_id = Some 71, rx_category = ''rent'', rx_description = None,
       rx_amount = 5, rx_occurred_at = None\<rparr>],
     pr_withdrawals = [\<lparr>rw_id = Some 81, rw_amount = 3, rw_reason = None, rw_occurred_at = None\<rparr>],
     pr_deletions = [\<lparr>dl_entity = ''expense'', dl_id = 71\<rparr>, \<lparr>dl_entity = ''shop'', dl_id = 1\<rparr>]\<rparr>"

definition sample_pushed :: "push_outcome \<times> books" where
  "sample_pushed = push (sample_env 100) 10 sample_owner sample_push sample_books"

lemma sample_pushed_eq:
  "push (sample_env 100) 10 sample_owner sample_push sample_books
     = (fst sample_pushed, snd sample_pushed)"
  by (simp add: sample_pushed_def)

theorem push_stays_in_its_store_witness:
  "books_ok (snd sample_pushed) \<and> same_store 11 sample_books (snd sample_pushed)"
  using push_stays_in_its_store[OF sample_pushed_eq sample_books_ok] by simp








text \<open>Sales and movements are replayed in the order they happened: the timeline is the same
  events, ordered by when they occurred, and events that share an instant keep the order they
  were queued in, sales before movements.\<close>

theorem timeline_replays_in_order:
  "mset (into_timeline now sales movements)
     = mset (map SaleEvent sales @ map MovementEvent movements)
   \<and> sorted (map (event_occurred_at now) (into_timeline now sales movements))
   \<and> filter (\<lambda>ev. event_occurred_at now ev = t) (into_timeline now sales movements)
     = filter (\<lambda>ev. event_occurred_at now ev = t)
         (map SaleEvent sales @ map MovementEvent movements)"
  by (simp add: into_timeline_def sort_key_stable del: filter_append)

section \<open>Pull\<close>






text \<open>A codec that satisfies the contract: cursors are countable, and the encoding is a row of as
  many strokes as the cursor's number.\<close>

instance sync_table :: finite
proof
  have "(UNIV :: sync_table set)
      = {SyncProducts, SyncSales, SyncExpenses, SyncWithdrawals, SyncStockMovements}"
    by (auto intro: sync_table.exhaust)
  then show "finite (UNIV :: sync_table set)" by (metis finite.emptyI finite_insert)
qed

definition sample_codec :: cursor_codec where
  "sample_codec = \<lparr>cc_encode = (\<lambda>c. replicate (to_nat c) (CHR ''c'')),
     cc_decode = (\<lambda>s. Some (from_nat (length s)))\<rparr>"

lemma sample_codec_ok: "codec_ok sample_codec"
  by (simp add: codec_ok_def sample_codec_def)





lemma pull_without_costs:
  assumes "\<not> can actor ViewProfit" and "codec_ok codec"
  shows "let r = pull e codec w n st actor raw b in
      pl_expenses r = [] \<and> pl_withdrawals r = []
      \<and> (\<forall>p \<in> set (pl_products r). p_cost_price p = 0)
      \<and> (\<forall>s \<in> set (pl_sales r). s_cost_amount s = 0)
      \<and> (\<forall>i \<in> set (pl_sale_items r). i_unit_cost i = 0)
      \<and> (\<forall>m \<in> set (pl_stock_movements r). m_unit_cost m = 0)
      \<and> cursor_mark (cursor_decode codec (Some (pl_cursor r))) SyncExpenses
          = cursor_mark (cursor_decode codec raw) SyncExpenses
      \<and> cursor_mark (cursor_decode codec (Some (pl_cursor r))) SyncWithdrawals
          = cursor_mark (cursor_decode codec raw) SyncWithdrawals"
proof -
  have decode: "cursor_decode codec (Some (cc_encode codec c)) = c" for c
    using assms(2) by (simp add: cursor_decode_def codec_ok_def)
  have held: "cursor_mark (fst (snd (pull_table e w n st False t store pos rows cm))) t'
      = cursor_mark (fst cm) t'" if "t \<noteq> t'" for t t' store cm
      and pos :: "'r \<Rightarrow> mark" and rows :: "'r list"
    using that by (auto simp: pull_table_def changed_since_def cursor_mark_def cursor_advance_def
        Let_def split: option.split)
  have skipped: "pull_table e w n st False SyncExpenses store pos rows cm = ([], cm)"
    "pull_table e w n st False SyncWithdrawals store2 pos2 rows2 cm = ([], cm)"
    for store pos rows store2 pos2 rows2 cm
    by (simp_all add: pull_table_def)
  show ?thesis
    using assms(1)
    by (auto simp: pull_def Let_def split_beta skipped zero_cost_def decode held)
qed

text \<open>Staff who may not see profit get no expenses, no withdrawals and no cost figure of any
  kind, and their cursor does not move past the two tables that were held back: if the owner
  grants access later, those download from the beginning.\<close>

theorem pull_withholds_costs:
  assumes "\<not> can actor ViewProfit" and "codec_ok codec"
  shows "let r = pull e codec w n st actor raw b in
      pl_expenses r = [] \<and> pl_withdrawals r = []
      \<and> (\<forall>p \<in> set (pl_products r). p_cost_price p = 0)
      \<and> (\<forall>s \<in> set (pl_sales r). s_cost_amount s = 0)
      \<and> (\<forall>i \<in> set (pl_sale_items r). i_unit_cost i = 0)
      \<and> (\<forall>m \<in> set (pl_stock_movements r). m_unit_cost m = 0)
      \<and> cursor_mark (cursor_decode codec (Some (pl_cursor r))) SyncExpenses
          = cursor_mark (cursor_decode codec raw) SyncExpenses
      \<and> cursor_mark (cursor_decode codec (Some (pl_cursor r))) SyncWithdrawals
          = cursor_mark (cursor_decode codec raw) SyncWithdrawals"
  by (rule pull_without_costs[OF assms])

theorem pull_withholds_costs_witness:
  "let r = pull (sample_env 100) sample_codec 2 50 10 (sample_staff permissions_default) None
     sample_books
   in pl_expenses r = [] \<and> (\<forall>p \<in> set (pl_products r). p_cost_price p = 0)"
proof -
  have "\<not> can (sample_staff permissions_default) ViewProfit" by code_simp
  from pull_withholds_costs[OF this sample_codec_ok, of "sample_env 100" 2 50 10 None sample_books]
  show ?thesis by (simp add: Let_def)
qed

section \<open>The settle window\<close>





end
