(* ===== verification/Cloud.thy ===== *)
theory Cloud
  imports Books
begin

text \<open>
  The tables of an account as the database keeps them (\<^verbatim>\<open>backend/migrations\<close> 1 and 5 to 9),
  around the books of \<open>Books\<close>, and \<open>server\<close>, one running instance: the database and what that
  process remembers (the session directory, the store directory and the sign-in attempts).
  \<open>cloud\<close> is what the account features read and write; what every feature needs of it, drawing a
  new id, inserting a row under its constraints and leaving a trail in the books, is here.
\<close>

section \<open>Rows\<close>

record owner_row =
  ow_id :: uuid
  ow_email :: string
  ow_password_hash :: string
  ow_full_name :: string
  ow_created_at :: instant
  ow_deletion_requested_at :: "instant option"
  ow_delete_after :: "instant option"

record store_row =
  st_id :: uuid
  st_owner :: uuid
  st_name :: string
  st_business_type :: string
  st_currency_code :: string
  st_share_benchmarks :: bool
  st_created_at :: instant
  st_updated_at :: instant

record subscription_row =
  sb_owner :: uuid
  sb_plan :: string
  sb_trial_ends_at :: "instant option"
  sb_paid_through :: "instant option"
  sb_updated_at :: instant

record payment_row =
  py_id :: uuid
  py_owner :: uuid
  py_plan :: string
  py_months :: int
  py_amount :: money
  py_currency :: string
  py_provider :: string
  py_reference :: "string option"
  py_status :: string
  py_method :: "string option"
  py_paid_through :: "instant option"
  py_created_at :: instant
  py_paid_at :: "instant option"

record staff_row =
  sm_id :: uuid
  sm_store :: uuid
  sm_display_name :: string
  sm_permissions :: permissions
  sm_created_at :: instant
  sm_updated_at :: instant
  sm_removed_at :: "instant option"

record invite_row =
  iv_id :: uuid
  iv_staff :: uuid
  iv_code_hash :: string
  iv_expires_at :: instant
  iv_redeemed_at :: "instant option"

record device_row =
  ds_id :: uuid
  ds_owner :: uuid
  ds_staff :: "uuid option"
  ds_device_name :: string
  ds_created_at :: instant
  ds_last_seen_at :: instant
  ds_revoked_at :: "instant option"

record token_row =
  rt_id :: uuid
  rt_owner :: uuid
  rt_session :: uuid
  rt_hash :: string
  rt_expires_at :: instant
  rt_revoked_at :: "instant option"
  rt_rotated_at :: "instant option"

record consent_row =
  cn_id :: uuid
  cn_owner :: uuid
  cn_document :: string
  cn_version :: string
  cn_agreed_at :: instant

record accounting_row =
  ac_id :: uuid
  ac_plan :: string
  ac_months :: int
  ac_amount :: money
  ac_currency :: string
  ac_provider :: string
  ac_reference :: "string option"
  ac_paid_at :: "instant option"
  ac_retained_at :: instant

text \<open>A crash report: one row per owner, fingerprint and build.\<close>

record report_row =
  er_id :: uuid
  er_owner :: uuid
  er_fingerprint :: string
  er_error_type :: string
  er_message_text :: string
  er_stack :: "string option"
  er_occurrences :: int
  er_first_seen :: instant
  er_last_seen :: instant
  er_app_version :: string
  er_platform :: string
  er_received_at :: instant

section \<open>The database and one instance\<close>

record cloud =
  cl_owners :: "owner_row list"
  cl_stores :: "store_row list"
  cl_subscriptions :: "subscription_row list"
  cl_payments :: "payment_row list"
  cl_staff :: "staff_row list"
  cl_invites :: "invite_row list"
  cl_sessions :: "device_row list"
  cl_tokens :: "token_row list"
  cl_consents :: "consent_row list"
  cl_accounting :: "accounting_row list"
  cl_reports :: "report_row list"
  cl_books :: books

definition empty_cloud :: cloud where
  "empty_cloud = \<lparr>cl_owners = [], cl_stores = [], cl_subscriptions = [], cl_payments = [],
     cl_staff = [], cl_invites = [], cl_sessions = [], cl_tokens = [], cl_consents = [],
     cl_accounting = [], cl_reports = [], cl_books = empty_books\<rparr>"

text \<open>\<open>sv_remembered\<close> is the session directory's HashMap, newest insertion first,
  \<open>sv_confirmed\<close> the store directory's HashSet and \<open>sv_attempts\<close> the counters the rate limiter
  keeps in Redis: a key with its count and the moment it expires, if any.\<close>

record server =
  sv_db :: cloud
  sv_remembered :: "(uuid \<times> instant \<times> actor option) list"
  sv_confirmed :: "(uuid \<times> uuid) set"
  sv_attempts :: "(string \<times> int \<times> instant option) list"

definition with_books :: "(books \<Rightarrow> books) \<Rightarrow> cloud \<Rightarrow> cloud" where
  "with_books f db = db\<lparr>cl_books := f (cl_books db)\<rparr>"

definition with_db :: "(cloud \<Rightarrow> cloud) \<Rightarrow> server \<Rightarrow> server" where
  "with_db f s = s\<lparr>sv_db := f (sv_db s)\<rparr>"

section \<open>Actions\<close>

text \<open>
  A service runs several statements, and what one of them wrote stays written when a later one
  fails: an action returns the instance with its result or its error. \<open>bindS\<close> is \<open>?\<close> followed by
  the rest, \<open>transact\<close> one transaction, which changes nothing when it fails.
\<close>

type_synonym 'a action = "server \<Rightarrow> (api_error + 'a) \<times> server"

definition bindS :: "'a action \<Rightarrow> ('a \<Rightarrow> 'b action) \<Rightarrow> 'b action" where
  "bindS m f s = (case m s of (Inl err, s') \<Rightarrow> (Inl err, s') | (Inr x, s') \<Rightarrow> f x s')"

definition liftS :: "api_error + 'a \<Rightarrow> 'a action" where
  "liftS r s = (r, s)"

definition getS :: "(server \<Rightarrow> 'a) \<Rightarrow> 'a action" where
  "getS f s = (Inr (f s), s)"

definition modifyS :: "(server \<Rightarrow> server) \<Rightarrow> unit action" where
  "modifyS f s = (Inr (), f s)"

definition readS :: "(cloud \<Rightarrow> api_error + 'a) \<Rightarrow> 'a action" where
  "readS f s = (f (sv_db s), s)"

definition transact :: "(cloud \<Rightarrow> api_error + ('a \<times> cloud)) \<Rightarrow> 'a action" where
  "transact t s = (case t (sv_db s) of
     Inl err \<Rightarrow> (Inl err, s) | Inr (x, db) \<Rightarrow> (Inr x, s\<lparr>sv_db := db\<rparr>))"

definition execS :: "(cloud \<Rightarrow> api_error + cloud) \<Rightarrow> unit action" where
  "execS t = transact (\<lambda>db. bindR (t db) (\<lambda>db'. Inr ((), db')))"

definition noteS :: "(books \<Rightarrow> books) \<Rightarrow> unit action" where
  "noteS f = modifyS (with_db (with_books f))"

lemma bindS_eq_Inr [simp]:
  "bindS m f s = (Inr y, s') \<longleftrightarrow> (\<exists>x s1. m s = (Inr x, s1) \<and> f x s1 = (Inr y, s'))"
  by (auto simp: bindS_def split: prod.split sum.split)

lemma bindS_Inr: "m s = (Inr x, s1) \<Longrightarrow> bindS m f s = f x s1"
  by (simp add: bindS_def)

lemma bindS_Inl: "m s = (Inl err, s1) \<Longrightarrow> bindS m f s = (Inl err, s1)"
  by (simp add: bindS_def)

lemma liftS_eq [simp]: "liftS r s = (x, s') \<longleftrightarrow> r = x \<and> s' = s"
  by (auto simp: liftS_def)

lemma getS_eq [simp]: "getS f s = (x, s') \<longleftrightarrow> x = Inr (f s) \<and> s' = s"
  by (auto simp: getS_def)

lemma modifyS_eq [simp]: "modifyS f s = (x, s') \<longleftrightarrow> x = Inr () \<and> s' = f s"
  by (auto simp: modifyS_def)

lemma readS_eq [simp]: "readS f s = (x, s') \<longleftrightarrow> f (sv_db s) = x \<and> s' = s"
  by (auto simp: readS_def)

lemma transact_eq_Inr [simp]:
  "transact t s = (Inr x, s') \<longleftrightarrow> (\<exists>db. t (sv_db s) = Inr (x, db) \<and> s' = s\<lparr>sv_db := db\<rparr>)"
  by (auto simp: transact_def split: sum.split)

lemma execS_eq_Inr [simp]:
  "execS t s = (Inr u, s') \<longleftrightarrow> (\<exists>db. t (sv_db s) = Inr db \<and> s' = s\<lparr>sv_db := db\<rparr>)"
  by (auto simp: execS_def)

lemma noteS_eq [simp]: "noteS f s = (x, s') \<longleftrightarrow> x = Inr () \<and> s' = with_db (with_books f) s"
  by (auto simp: noteS_def)

text \<open>What holds of the instance before an action and after it, whatever it returns.\<close>

definition preserves :: "(server \<Rightarrow> bool) \<Rightarrow> 'a action \<Rightarrow> bool" where
  "preserves I m \<longleftrightarrow> (\<forall>s. I s \<longrightarrow> I (snd (m s)))"

lemma preserves_bindS:
  assumes "preserves I m" and "\<And>x. preserves I (f x)"
  shows "preserves I (bindS m f)"
  unfolding preserves_def
proof (intro allI impI)
  fix s assume "I s"
  then show "I (snd (bindS m f s))"
    using assms by (cases "m s") (auto simp: bindS_def preserves_def split: sum.split
        dest: spec[of _ s] spec[of _ "snd (m s)"])
qed

lemma preserves_liftS [simp, intro]: "preserves I (liftS r)"
  by (simp add: preserves_def liftS_def)

lemma preserves_getS [simp, intro]: "preserves I (getS f)"
  by (simp add: preserves_def getS_def)

lemma preserves_readS [simp, intro]: "preserves I (readS f)"
  by (simp add: preserves_def readS_def)

lemma preserves_modifyS: "(\<And>s. I s \<Longrightarrow> I (f s)) \<Longrightarrow> preserves I (modifyS f)"
  by (simp add: preserves_def modifyS_def)

lemma preserves_transact:
  "(\<And>s x db. I s \<Longrightarrow> t (sv_db s) = Inr (x, db) \<Longrightarrow> I (s\<lparr>sv_db := db\<rparr>)) \<Longrightarrow> preserves I (transact t)"
  by (auto simp: preserves_def transact_def split: sum.split)

lemma preserves_execS:
  "(\<And>s db. I s \<Longrightarrow> t (sv_db s) = Inr db \<Longrightarrow> I (s\<lparr>sv_db := db\<rparr>)) \<Longrightarrow> preserves I (execS t)"
  unfolding execS_def by (rule preserves_transact) auto

lemma preserves_noteS:
  "(\<And>s. I s \<Longrightarrow> I (with_db (with_books f) s)) \<Longrightarrow> preserves I (noteS f)"
  by (simp add: noteS_def preserves_modifyS)

section \<open>Ids and inserts\<close>

text \<open>\<open>gen_random_uuid()\<close>, the default of every id column.\<close>

definition new_id :: "env \<Rightarrow> cloud \<Rightarrow> uuid" where
  "new_id e db = e_uuid e (bk_drawn (cl_books db))"

definition drawn :: "cloud \<Rightarrow> cloud" where
  "drawn db = with_books (\<lambda>b. b\<lparr>bk_drawn := Suc (bk_drawn b)\<rparr>) db"

text \<open>An INSERT: a taken key breaks a constraint and the statement fails.\<close>

definition insert_row :: "('r \<Rightarrow> 'k) \<Rightarrow> 'r \<Rightarrow> 'r list \<Rightarrow> api_error + 'r list" where
  "insert_row key r rows =
     (if find_key key (key r) rows = None then Inr (rows @ [r]) else Inl Internal)"

lemma insert_row_eq_Inr [simp]:
  "insert_row key r rows = Inr rows' \<longleftrightarrow> key r \<notin> key ` set rows \<and> rows' = rows @ [r]"
  by (force simp: insert_row_def find_key_def find_None_iff image_iff split: if_splits)

lemma with_books_simps [simp]:
  "cl_owners (with_books f db) = cl_owners db" "cl_stores (with_books f db) = cl_stores db"
  "cl_subscriptions (with_books f db) = cl_subscriptions db"
  "cl_payments (with_books f db) = cl_payments db" "cl_staff (with_books f db) = cl_staff db"
  "cl_invites (with_books f db) = cl_invites db" "cl_sessions (with_books f db) = cl_sessions db"
  "cl_tokens (with_books f db) = cl_tokens db" "cl_consents (with_books f db) = cl_consents db"
  "cl_accounting (with_books f db) = cl_accounting db"
  "cl_reports (with_books f db) = cl_reports db" "cl_books (with_books f db) = f (cl_books db)"
  by (simp_all add: with_books_def)

lemma drawn_simps [simp]:
  "cl_owners (drawn db) = cl_owners db" "cl_stores (drawn db) = cl_stores db"
  "cl_subscriptions (drawn db) = cl_subscriptions db"
  "cl_payments (drawn db) = cl_payments db" "cl_staff (drawn db) = cl_staff db"
  "cl_invites (drawn db) = cl_invites db" "cl_sessions (drawn db) = cl_sessions db"
  "cl_tokens (drawn db) = cl_tokens db" "cl_consents (drawn db) = cl_consents db"
  by (simp_all add: drawn_def)

lemma with_db_simps [simp]:
  "sv_db (with_db f s) = f (sv_db s)" "sv_remembered (with_db f s) = sv_remembered s"
  "sv_confirmed (with_db f s) = sv_confirmed s" "sv_attempts (with_db f s) = sv_attempts s"
  by (simp_all add: with_db_def)

end
