(* ===== verification/Gateway.thy ===== *)
theory Gateway
  imports Cloud
begin

text \<open>
  The billing settings (\<^verbatim>\<open>config/billing_settings.rs\<close>) and the payment gateway
  (\<^verbatim>\<open>billing/payment_gateway.rs\<close>): the checkout it opens and the webhook it verifies. The HTTP
  client, HMAC-SHA256, hex and the JSON parser are the fields of \<open>gateway_env\<close>.
\<close>

datatype billing_mode =
    BillingOff
  | BillingTest
  | BillingPayMongo string string

record billing_settings =
  bs_mode :: billing_mode
  bs_public_url :: string
  bs_trial :: duration
  bs_grace :: duration

definition enforced :: "billing_settings \<Rightarrow> bool" where
  "enforced settings = (bs_mode settings \<noteq> BillingOff)"

text \<open>\<open>ge_send secret body\<close> posts a checkout and reads the reply: its status and its JSON, or
  nothing when the request or the parse fails. \<open>ge_hmac secret text\<close> is the digest's bytes,
  \<open>ge_unhex\<close> is \<open>hex::decode\<close> and \<open>ge_json\<close> is \<open>serde_json::from_slice\<close>.\<close>

record gateway_env =
  ge_send :: "string \<Rightarrow> json \<Rightarrow> (nat \<times> json) option"
  ge_hmac :: "string \<Rightarrow> string \<Rightarrow> nat list"
  ge_unhex :: "string \<Rightarrow> nat list option"
  ge_json :: "string \<Rightarrow> json option"

text \<open>Indexing a JSON value by a field name gives null when there is no such field.\<close>

fun json_at :: "json \<Rightarrow> string \<Rightarrow> json" where
  "json_at (JObj members) name = (case map_of members name of None \<Rightarrow> JNull | Some v \<Rightarrow> v)"
| "json_at _ name = JNull"

fun json_as_str :: "json \<Rightarrow> string option" where
  "json_as_str (JStr s) = Some s"
| "json_as_str _ = None"

section \<open>Checkouts\<close>

definition payment_methods :: "string list" where
  "payment_methods = [''gcash'', ''paymaya'', ''card'']"

record checkout_request =
  cr_payment_id :: uuid
  cr_plan :: plan
  cr_months :: nat
  cr_amount_centavos :: int

record checkout =
  ck_reference :: string
  ck_url :: string

record paid_checkout =
  pc_reference :: string
  pc_method :: "string option"

record paymongo =
  pg_secret_key :: string
  pg_webhook_secret :: string
  pg_public_url :: string

datatype payment_gateway =
    GatewayTest string
  | GatewayPayMongo paymongo

definition gateway_from_settings :: "billing_settings \<Rightarrow> payment_gateway option" where
  "gateway_from_settings settings =
     (case bs_mode settings of
        BillingOff \<Rightarrow> None
      | BillingTest \<Rightarrow> Some (GatewayTest (bs_public_url settings))
      | BillingPayMongo secret_key webhook_secret \<Rightarrow>
          Some (GatewayPayMongo \<lparr>pg_secret_key = secret_key, pg_webhook_secret = webhook_secret,
                  pg_public_url = bs_public_url settings\<rparr>))"

definition checkout_body :: "env \<Rightarrow> checkout_request \<Rightarrow> string \<Rightarrow> json" where
  "checkout_body e request public_url =
     (let period = (if cr_months request = 12 then ''1 year'' else ''1 month'');
          title = plan_label (cr_plan request) @ '', '' @ period;
          reference = e_uuid_text e (cr_payment_id request)
      in JObj [(''data'', JObj [(''attributes'', JObj
           [(''line_items'', JArr [JObj [(''name'', JStr title),
               (''amount'', JNum (of_int (cr_amount_centavos request))),
               (''currency'', JStr ''PHP''), (''quantity'', JNum 1)]]),
            (''payment_method_types'', JArr (map JStr payment_methods)),
            (''description'', JStr title),
            (''reference_number'', JStr reference),
            (''success_url'', JStr (public_url @ ''/billing/return?paid=1'')),
            (''cancel_url'', JStr (public_url @ ''/billing/return'')),
            (''metadata'', JObj [(''payment_id'', JStr reference)])])])])"

definition paymongo_checkout ::
  "env \<Rightarrow> gateway_env \<Rightarrow> paymongo \<Rightarrow> checkout_request \<Rightarrow> api_error + checkout" where
  "paymongo_checkout e ge gateway request =
     bindR (ok_or (ge_send ge (pg_secret_key gateway)
                     (checkout_body e request (pg_public_url gateway))) Internal) (\<lambda>(status, body).
     if \<not> (200 \<le> status \<and> status < 300) then Inl Internal
     else case (json_as_str (json_at (json_at body ''data'') ''id''),
                json_as_str (json_at (json_at (json_at body ''data'') ''attributes'')
                               ''checkout_url'')) of
         (Some reference, Some url) \<Rightarrow> Inr \<lparr>ck_reference = reference, ck_url = url\<rparr>
       | _ \<Rightarrow> Inl Internal)"

fun create_checkout ::
  "env \<Rightarrow> gateway_env \<Rightarrow> payment_gateway \<Rightarrow> checkout_request \<Rightarrow> api_error + checkout" where
  "create_checkout e ge (GatewayTest public_url) request =
     Inr \<lparr>ck_reference = ''test_'' @ e_uuid_text e (cr_payment_id request),
          ck_url = public_url @ ''/billing/test-checkout/''
                     @ e_uuid_text e (cr_payment_id request)\<rparr>"
| "create_checkout e ge (GatewayPayMongo gateway) request = paymongo_checkout e ge gateway request"

section \<open>Webhooks\<close>

definition signature_field :: "string \<Rightarrow> string \<Rightarrow> string option" where
  "signature_field header name =
     (case find (\<lambda>(key, _). key = name)
             (List.map_filter (\<lambda>part. split_once (CHR ''='') (trim part))
                (split_on (CHR '','') header)) of
        None \<Rightarrow> None
      | Some (_, v) \<Rightarrow> if v = [] then None else Some v)"

definition signature_refused :: api_error where
  "signature_refused = Unauthorized ''webhook signature does not match''"

definition verify_signature ::
  "gateway_env \<Rightarrow> string \<Rightarrow> string \<Rightarrow> string \<Rightarrow> api_error + unit" where
  "verify_signature ge secret header raw_body =
     bindR (ok_or (signature_field header ''t'') signature_refused) (\<lambda>timestamp.
     bindR (ok_or (case signature_field header ''li'' of
                     Some v \<Rightarrow> Some v | None \<Rightarrow> signature_field header ''te'')
              signature_refused) (\<lambda>hex.
     bindR (ok_or (ge_unhex ge hex) signature_refused) (\<lambda>expected.
     ensure (ge_hmac ge secret (timestamp @ ''.'' @ raw_body) = expected) signature_refused)))"

definition verify_webhook ::
  "gateway_env \<Rightarrow> paymongo \<Rightarrow> string \<Rightarrow> string \<Rightarrow> api_error + paid_checkout option" where
  "verify_webhook ge gateway signature_header raw_body =
     bindR (verify_signature ge (pg_webhook_secret gateway) signature_header raw_body) (\<lambda>_.
     bindR (ok_or (ge_json ge raw_body) (BadRequest ''webhook body is not JSON'')) (\<lambda>event.
     let attributes = json_at (json_at event ''data'') ''attributes''
     in if json_at attributes ''type'' \<noteq> JStr ''checkout_session.payment.paid'' then Inr None
        else
          let checkout = json_at attributes ''data''
          in bindR (ok_or (json_as_str (json_at checkout ''id''))
                      (BadRequest ''paid event names no checkout'')) (\<lambda>reference.
             Inr (Some \<lparr>pc_reference = reference,
               pc_method = json_as_str
                 (json_at (json_at checkout ''attributes'') ''payment_method_used'')\<rparr>))))"

lemma verify_signature_signed:
  assumes "verify_signature ge secret header raw_body = Inr u"
  shows "\<exists>timestamp hex. signature_field header ''t'' = Some timestamp
    \<and> ge_unhex ge hex = Some (ge_hmac ge secret (timestamp @ ''.'' @ raw_body))"
  using assms unfolding verify_signature_def by (auto split: option.splits)

lemma verify_webhook_signed:
  assumes "verify_webhook ge gateway header raw_body = Inr found"
  shows "verify_signature ge (pg_webhook_secret gateway) header raw_body = Inr ()"
  using assms by (auto simp: verify_webhook_def)

end
