(* ===== verification/Session_Directory.thy ===== *)
theory Session_Directory
  imports Cloud
begin

text \<open>
  Who is asking: access tokens (\<^verbatim>\<open>authentication/token_issuer.rs\<close>), the session directory that
  turns a token's session into an actor and remembers the answer for twenty seconds
  (\<^verbatim>\<open>access/session_directory.rs\<close>), and the extractors in front of every handler
  (\<^verbatim>\<open>access/current_actor.rs\<close>). The last section runs the directory against a database that
  changes under it, a lookup and its insertion being two separate steps.
\<close>

section \<open>Access tokens\<close>

text \<open>
  \<open>sc_encode\<close> and \<open>sc_decode\<close> are jsonwebtoken's \<open>encode\<close> and \<open>decode\<close> under the server's
  secret, the second with the clock it checks \<open>exp\<close> against; \<open>sc_parse_uuid\<close> is
  \<open>Uuid::parse_str\<close> and \<open>sc_lifetime\<close> the configured lifetime of an access token.
\<close>

record access_claims =
  cm_sub :: string
  cm_sid :: string
  cm_iat :: int
  cm_exp :: int

record security =
  sc_lifetime :: duration
  sc_encode :: "access_claims \<Rightarrow> string option"
  sc_decode :: "instant \<Rightarrow> string \<Rightarrow> access_claims option"
  sc_parse_uuid :: "string \<Rightarrow> uuid option"

definition timestamp :: "instant \<Rightarrow> int" where
  "timestamp t = t div usec_per_second"

definition claims_owner_id :: "security \<Rightarrow> access_claims \<Rightarrow> uuid" where
  "claims_owner_id sc c = (case sc_parse_uuid sc (cm_sub c) of None \<Rightarrow> 0 | Some i \<Rightarrow> i)"

definition claims_session_id :: "security \<Rightarrow> access_claims \<Rightarrow> uuid" where
  "claims_session_id sc c = (case sc_parse_uuid sc (cm_sid c) of None \<Rightarrow> 0 | Some i \<Rightarrow> i)"

definition access_lifetime_seconds :: "security \<Rightarrow> int" where
  "access_lifetime_seconds sc = timestamp (sc_lifetime sc)"

definition claims_for :: "env \<Rightarrow> security \<Rightarrow> uuid \<Rightarrow> uuid \<Rightarrow> access_claims" where
  "claims_for e sc owner_id session_id =
     \<lparr>cm_sub = e_uuid_text e owner_id, cm_sid = e_uuid_text e session_id,
      cm_iat = timestamp (e_now e), cm_exp = timestamp (e_now e + sc_lifetime sc)\<rparr>"

definition issue_access_token :: "env \<Rightarrow> security \<Rightarrow> uuid \<Rightarrow> uuid \<Rightarrow> api_error + string" where
  "issue_access_token e sc owner_id session_id =
     ok_or (sc_encode sc (claims_for e sc owner_id session_id)) Internal"

definition verify_access_token :: "env \<Rightarrow> security \<Rightarrow> string \<Rightarrow> api_error + access_claims" where
  "verify_access_token e sc token =
     ok_or (sc_decode sc (e_now e) token)
       (Unauthorized ''your session has expired, please sign in'')"

section \<open>The directory\<close>

definition trust_window :: duration where
  "trust_window = 20 * usec_per_second"

definition max_remembered :: nat where
  "max_remembered = 10000"

text \<open>The query: the session with its owner (an inner join), its staff member and its owner's
  subscription (left joins, so \<open>staff_live\<close> is true when there is no staff member).\<close>

definition session_query :: "cloud \<Rightarrow> uuid \<Rightarrow> session_row option" where
  "session_query db session_id =
     (case find_key ds_id session_id (cl_sessions db) of
        None \<Rightarrow> None
      | Some s \<Rightarrow> (case find_key ow_id (ds_owner s) (cl_owners db) of
          None \<Rightarrow> None
        | Some o' \<Rightarrow>
            let st = Option.bind (ds_staff s) (\<lambda>i. find_key sm_id i (cl_staff db));
                sub = find_key sb_owner (ds_owner s) (cl_subscriptions db)
            in Some \<lparr>sr_owner_id = ds_owner s, sr_owner_name = ow_full_name o',
                 sr_device_name = ds_device_name s, sr_session_live = (ds_revoked_at s = None),
                 sr_staff_id = map_option sm_id st, sr_staff_name = map_option sm_display_name st,
                 sr_staff_store_id = map_option sm_store st,
                 sr_staff_live = Some (case st of None \<Rightarrow> True | Some m \<Rightarrow> sm_removed_at m = None),
                 sr_can_manage_products =
                   map_option (\<lambda>m. pm_manage_products (sm_permissions m)) st,
                 sr_can_record_expenses =
                   map_option (\<lambda>m. pm_record_expenses (sm_permissions m)) st,
                 sr_can_view_profit = map_option (\<lambda>m. pm_view_profit (sm_permissions m)) st,
                 sr_can_delete_records =
                   map_option (\<lambda>m. pm_delete_records (sm_permissions m)) st,
                 sr_plan = map_option sb_plan sub,
                 sr_trial_ends_at = Option.bind sub sb_trial_ends_at,
                 sr_paid_through = Option.bind sub sb_paid_through\<rparr>))"

definition who_is :: "cloud \<Rightarrow> uuid \<Rightarrow> actor option" where
  "who_is db session_id = Option.bind (session_query db session_id) (into_actor session_id)"

definition remembered ::
  "instant \<Rightarrow> uuid \<Rightarrow> (uuid \<times> instant \<times> actor option) list \<Rightarrow> actor option option" where
  "remembered now session_id resolved =
     (case find_key fst session_id resolved of
        None \<Rightarrow> None
      | Some (_, pos, actor) \<Rightarrow> if now - pos < trust_window then Some actor else None)"

definition remember ::
  "instant \<Rightarrow> uuid \<Rightarrow> actor option \<Rightarrow> (uuid \<times> instant \<times> actor option) list
    \<Rightarrow> (uuid \<times> instant \<times> actor option) list" where
  "remember now session_id actor resolved =
     (session_id, now, actor)
       # filter (\<lambda>x. fst x \<noteq> session_id)
           (if length resolved \<ge> max_remembered then [] else resolved)"

definition resolve :: "env \<Rightarrow> uuid \<Rightarrow> actor option action" where
  "resolve e session_id s =
     (case remembered (e_now e) session_id (sv_remembered s) of
        Some actor \<Rightarrow> (Inr actor, s)
      | None \<Rightarrow>
          let actor = who_is (sv_db s) session_id
          in (Inr actor,
              s\<lparr>sv_remembered := remember (e_now e) session_id actor (sv_remembered s)\<rparr>))"

definition forget_all :: "server \<Rightarrow> server" where
  "forget_all s = s\<lparr>sv_remembered := []\<rparr>"

section \<open>The extractors\<close>

definition actor_for_token :: "env \<Rightarrow> security \<Rightarrow> string \<Rightarrow> actor action" where
  "actor_for_token e sc token =
     bindS (liftS (verify_access_token e sc token)) (\<lambda>claims.
     bindS (resolve e (claims_session_id sc claims)) (\<lambda>found.
     liftS (ok_or found (Unauthorized ''this device was signed out''))))"

definition current_actor :: "env \<Rightarrow> security \<Rightarrow> string option \<Rightarrow> actor action" where
  "current_actor e sc header =
     bindS (liftS (ok_or header (Unauthorized ''missing authorization header''))) (\<lambda>value.
     bindS (liftS (ok_or (strip_prefix ''Bearer '' value)
                     (Unauthorized ''expected a bearer token''))) (\<lambda>token.
     actor_for_token e sc (trim token)))"

definition current_owner :: "env \<Rightarrow> security \<Rightarrow> string option \<Rightarrow> actor action" where
  "current_owner e sc header =
     bindS (current_actor e sc header) (\<lambda>actor.
     bindS (liftS (require_owner actor)) (\<lambda>_. liftS (Inr actor)))"

section \<open>What a lookup says\<close>

lemma who_is_Some:
  assumes "who_is db session_id = Some a"
  shows "\<exists>d. find_key ds_id session_id (cl_sessions db) = Some d \<and> ds_revoked_at d = None
    \<and> ac_owner_id a = ds_owner d \<and> ac_session_id a = session_id
    \<and> (\<forall>sid. staff_id a = Some sid \<longrightarrow> ds_staff d = Some sid
         \<and> (\<exists>m. find_key sm_id sid (cl_staff db) = Some m \<and> sm_removed_at m = None))"
  using assms
  by (auto simp: who_is_def session_query_def into_actor_def actor_of_row_def staff_id_def Let_def
      bind_eq_Some_conv split: option.splits if_splits)
    (metis find_key_SomeD)+

lemma resolve_db [simp]: "sv_db (snd (resolve e i s)) = sv_db s"
  by (simp add: resolve_def Let_def split: option.split)

lemma resolve_confirmed [simp]: "sv_confirmed (snd (resolve e i s)) = sv_confirmed s"
  by (simp add: resolve_def Let_def split: option.split)

lemma resolve_attempts [simp]: "sv_attempts (snd (resolve e i s)) = sv_attempts s"
  by (simp add: resolve_def Let_def split: option.split)

lemma forget_all_simps [simp]:
  "sv_db (forget_all s) = sv_db s" "sv_confirmed (forget_all s) = sv_confirmed s"
  "sv_remembered (forget_all s) = []" "sv_attempts (forget_all s) = sv_attempts s"
  by (simp_all add: forget_all_def)

lemma resolve_after_forget: "fst (resolve e i (forget_all s)) = Inr (who_is (sv_db s) i)"
  by (simp add: resolve_def remembered_def find_key_def Let_def)

lemma length_remember: "length (remember now i a m) \<le> max_remembered"
proof (cases "length m \<ge> max_remembered")
  case False
  then show ?thesis
    by (simp add: remember_def) (meson le_trans length_filter_le not_less_eq_eq)
qed (simp add: remember_def max_remembered_def)

lemma remembered_remember:
  "remembered now i (remember pos k a m) =
     (if i = k then (if now - pos < trust_window then Some a else None)
      else if length m \<ge> max_remembered then None else remembered now i m)"
proof -
  have "find (\<lambda>x. fst x = i) (filter (\<lambda>x. fst x \<noteq> k) m) = find (\<lambda>x. fst x = i) m" if "i \<noteq> k"
    using that by (induction m) auto
  then show ?thesis by (auto simp: remembered_def remember_def find_key_def)
qed

section \<open>A directory whose database changes\<close>

text \<open>
  \<open>wt_db\<close> is the database, which any instance may change at any time; \<open>wt_past\<close> is what a
  lookup of the one session would have answered, moment by moment; \<open>wt_asked\<close> are the lookups in
  flight, with the moment each read the database. A lookup takes at most \<open>lag\<close>: that is the
  one assumption, made by \<open>tick\<close>.
\<close>

record watch =
  wt_now :: instant
  wt_db :: cloud
  wt_memory :: "(uuid \<times> instant \<times> actor option) list"
  wt_asked :: "(instant \<times> actor option) list"
  wt_past :: "(instant \<times> actor option) set"

definition watch_start :: "instant \<Rightarrow> uuid \<Rightarrow> cloud \<Rightarrow> watch" where
  "watch_start now i db =
     \<lparr>wt_now = now, wt_db = db, wt_memory = [], wt_asked = [], wt_past = {(now, who_is db i)}\<rparr>"

inductive watch_step :: "uuid \<Rightarrow> duration \<Rightarrow> watch \<Rightarrow> watch \<Rightarrow> bool"
  for i :: uuid and lag :: duration where
  tick: "0 \<le> d \<Longrightarrow> (\<forall>x \<in> set (wt_asked w). wt_now w + d \<le> fst x + lag)
    \<Longrightarrow> watch_step i lag w (w\<lparr>wt_now := wt_now w + d,
          wt_past := insert (wt_now w + d, who_is (wt_db w) i) (wt_past w)\<rparr>)"
| change: "watch_step i lag w (w\<lparr>wt_db := db,
          wt_past := insert (wt_now w, who_is db i) (wt_past w)\<rparr>)"
| ask: "remembered (wt_now w) i (wt_memory w) = None
    \<Longrightarrow> watch_step i lag w (w\<lparr>wt_asked := (wt_now w, who_is (wt_db w) i) # wt_asked w\<rparr>)"
| answer: "x \<in> set (wt_asked w)
    \<Longrightarrow> watch_step i lag w (w\<lparr>wt_asked := remove1 x (wt_asked w),
          wt_memory := remember (wt_now w) i (snd x) (wt_memory w)\<rparr>)"
| other: "j \<noteq> i
    \<Longrightarrow> watch_step i lag w (w\<lparr>wt_memory := remember (wt_now w) j a (wt_memory w)\<rparr>)"
| forget: "watch_step i lag w (w\<lparr>wt_memory := []\<rparr>)"

inductive watch_reachable :: "uuid \<Rightarrow> duration \<Rightarrow> watch \<Rightarrow> watch \<Rightarrow> bool"
  for i :: uuid and lag :: duration and w0 :: watch where
  start: "watch_reachable i lag w0 w0"
| step: "watch_reachable i lag w0 w \<Longrightarrow> watch_step i lag w w' \<Longrightarrow> watch_reachable i lag w0 w'"

text \<open>What is remembered was true when it was read, at most \<open>lag\<close> before it was stored.\<close>

definition watch_inv :: "uuid \<Rightarrow> duration \<Rightarrow> watch \<Rightarrow> bool" where
  "watch_inv i lag w \<longleftrightarrow>
     (\<forall>pos a. find_key fst i (wt_memory w) = Some (i, pos, a)
        \<longrightarrow> pos \<le> wt_now w \<and> (\<exists>t. (t, a) \<in> wt_past w \<and> t \<le> pos \<and> pos \<le> t + lag))
     \<and> (\<forall>x \<in> set (wt_asked w). x \<in> wt_past w \<and> fst x \<le> wt_now w \<and> wt_now w \<le> fst x + lag)
     \<and> (wt_now w, who_is (wt_db w) i) \<in> wt_past w"

lemma find_remember:
  "find_key fst i (remember now k a m) =
     (if i = k then Some (k, now, a)
      else if length m \<ge> max_remembered then None else find_key fst i m)"
proof -
  have "find (\<lambda>x. fst x = i) (filter (\<lambda>x. fst x \<noteq> k) m) = find (\<lambda>x. fst x = i) m" if "i \<noteq> k"
    using that by (induction m) auto
  then show ?thesis by (auto simp: remember_def find_key_def)
qed

lemma watch_inv_start: "watch_inv i lag (watch_start now i db)"
  by (simp add: watch_inv_def watch_start_def find_key_def)

lemma watch_inv_step:
  assumes "0 \<le> lag" and "watch_inv i lag w" and "watch_step i lag w w'"
  shows "watch_inv i lag w'"
  using assms(3)
proof cases
  case (tick d)
  then show ?thesis using assms(2) unfolding watch_inv_def by fastforce
next
  case (change db)
  then show ?thesis using assms(2) unfolding watch_inv_def by fastforce
next
  case ask
  then show ?thesis using assms(1,2) unfolding watch_inv_def by auto
next
  case (answer x)
  have "\<exists>t. (t, snd x) \<in> wt_past w \<and> t \<le> wt_now w \<and> wt_now w \<le> t + lag"
    using answer(2) assms(2) unfolding watch_inv_def by (metis prod.collapse)
  then show ?thesis using assms(2) set_remove1_subset[of x "wt_asked w"] unfolding answer(1) watch_inv_def
    by (simp add: find_remember) blast
next
  case (other j a)
  then show ?thesis using assms(2) unfolding watch_inv_def
    by (auto simp: find_remember split: if_splits)
next
  case forget
  then show ?thesis using assms(2) unfolding watch_inv_def by (simp add: find_key_def)
qed

lemma watch_inv_reachable:
  assumes "watch_reachable i lag (watch_start now i db) w" and "0 \<le> lag"
  shows "watch_inv i lag w"
  using assms(1) by induction (auto intro: watch_inv_start watch_inv_step assms(2))

lemma remembered_is_past:
  assumes "watch_inv i lag w" and "remembered (wt_now w) i (wt_memory w) = Some a"
  shows "\<exists>t. (t, a) \<in> wt_past w \<and> wt_now w - t < trust_window + lag"
  using assms unfolding watch_inv_def remembered_def
  by (fastforce dest: find_key_SomeD split: option.splits if_splits)

end
