(* ===== verification/Billing.thy ===== *)
theory Billing
  imports Gateway Session_Directory
begin

text \<open>
  Payments and what an account may do (\<^verbatim>\<open>billing_payloads.rs\<close>, \<^verbatim>\<open>billing_repository.rs\<close>,
  \<^verbatim>\<open>billing_service.rs\<close>, \<^verbatim>\<open>billing_handlers.rs\<close>). A payment is opened as pending, gets the
  gateway's reference, and is confirmed by that reference at most once; confirming extends
  the owner's subscription in the same transaction.
\<close>

section \<open>Payloads\<close>

record subscription_summary =
  ss_status :: string
  ss_plan :: "plan option"
  ss_period_ends_at :: "instant option"
  ss_pauses_at :: "instant option"
  ss_store_limit :: "int option"
  ss_allows_staff :: bool

definition summary_of :: "standing \<Rightarrow> duration \<Rightarrow> subscription_summary" where
  "summary_of s grace =
     (let (period_ends_at, pauses_at) = (case s of
          Unlimited \<Rightarrow> (None, None)
        | Trial ends_at \<Rightarrow> (Some ends_at, Some (ends_at + grace))
        | Active _ until \<Rightarrow> (Some until, Some (until + grace))
        | Grace _ until \<Rightarrow> (None, Some until)
        | Paused since \<Rightarrow> (None, Some since))
      in \<lparr>ss_status = standing_status s, ss_plan = standing_plan s,
          ss_period_ends_at = period_ends_at, ss_pauses_at = pauses_at,
          ss_store_limit = store_limit s, ss_allows_staff = allows_staff s\<rparr>)"

record plan_offer =
  po_plan :: plan
  po_monthly_price :: rat
  po_yearly_price :: rat
  po_store_limit :: int
  po_allows_staff :: bool

definition offer_of :: "plan \<Rightarrow> plan_offer" where
  "offer_of p =
     \<lparr>po_plan = p, po_monthly_price = of_int (price_centavos p 1) / 100,
      po_yearly_price = of_int (price_centavos p 12) / 100,
      po_store_limit = plan_store_limit p, po_allows_staff = plan_allows_staff p\<rparr>"

record billing_overview =
  bo_enabled :: bool
  bo_subscription :: subscription_summary
  bo_plans :: "plan_offer list"
  bo_payments :: "payment_row list"

record checkout_request_body =
  cb_plan :: plan
  cb_months :: nat

definition checkout_issues :: "checkout_request_body \<Rightarrow> (string \<times> string option) list" where
  "checkout_issues r =
     (if 1 \<le> cb_months r \<and> cb_months r \<le> 12 then []
      else [(''months'', Some ''must be 1 or 12'')])"

record checkout_view =
  cv_payment_id :: uuid
  cv_checkout_url :: string
  cv_amount :: rat

section \<open>Repository\<close>

definition subscription :: "cloud \<Rightarrow> uuid \<Rightarrow> subscription_record option" where
  "subscription db owner_id =
     map_option (\<lambda>r. \<lparr>sub_plan = sb_plan r, sub_trial_ends_at = sb_trial_ends_at r,
                       sub_paid_through = sb_paid_through r\<rparr>)
       (find_key sb_owner owner_id (cl_subscriptions db))"

definition open_payment ::
  "env \<Rightarrow> uuid \<Rightarrow> uuid \<Rightarrow> plan \<Rightarrow> nat \<Rightarrow> int \<Rightarrow> string \<Rightarrow> cloud \<Rightarrow> api_error + cloud" where
  "open_payment e payment_id owner_id plan months amount_centavos provider db =
     bindR (ensure (find_key ow_id owner_id (cl_owners db) \<noteq> None
                    \<and> months \<in> set offered_months) Internal) (\<lambda>_.
     bindR (insert_row py_id
        \<lparr>py_id = payment_id, py_owner = owner_id, py_plan = plan_as_str plan,
         py_months = int months, py_amount = amount_centavos, py_currency = ''PHP'',
         py_provider = provider, py_reference = None, py_status = ''pending'',
         py_method = None, py_paid_through = None, py_created_at = e_now e,
         py_paid_at = None\<rparr> (cl_payments db)) (\<lambda>rows.
     Inr (db\<lparr>cl_payments := rows\<rparr>)))"

definition set_reference :: "uuid \<Rightarrow> string \<Rightarrow> cloud \<Rightarrow> api_error + cloud" where
  "set_reference payment_id reference db =
     (if list_ex (\<lambda>p. py_reference p = Some reference \<and> py_id p \<noteq> payment_id) (cl_payments db)
         \<and> find_key py_id payment_id (cl_payments db) \<noteq> None
      then Inl Internal
      else Inr (db\<lparr>cl_payments := upd_where (\<lambda>p. py_id p = payment_id)
                     (\<lambda>p. p\<lparr>py_reference := Some reference\<rparr>) (cl_payments db)\<rparr>))"

record confirmed_payment =
  cf_owner_id :: uuid
  cf_owner_name :: string
  cf_plan :: plan
  cf_months :: nat
  cf_amount :: money
  cf_method :: "string option"
  cf_paid_through :: instant

text \<open>The rows \<open>UPDATE payments p .. FROM owners o\<close> confirms: pending, quoted by the gateway, of an
  owner who still exists. References are unique, so there is at most one.\<close>

definition confirmable :: "cloud \<Rightarrow> string \<Rightarrow> payment_row \<Rightarrow> bool" where
  "confirmable db reference p \<longleftrightarrow>
     py_reference p = Some reference \<and> py_status p = ''pending''
     \<and> find_key ow_id (py_owner p) (cl_owners db) \<noteq> None"

definition extend_subscription ::
  "env \<Rightarrow> uuid \<Rightarrow> plan \<Rightarrow> instant \<Rightarrow> subscription_row list \<Rightarrow> subscription_row list" where
  "extend_subscription e owner_id plan paid_through rows =
     snd (upsert sb_owner (\<lambda>_ _. True)
       (\<lambda>old new. old\<lparr>sb_plan := sb_plan new, sb_paid_through := sb_paid_through new,
                      sb_updated_at := sb_updated_at new\<rparr>)
       \<lparr>sb_owner = owner_id, sb_plan = plan_as_str plan, sb_trial_ends_at = None,
        sb_paid_through = Some paid_through, sb_updated_at = e_now e\<rparr> rows)"

definition confirm_payment ::
  "env \<Rightarrow> calendar \<Rightarrow> string \<Rightarrow> string option \<Rightarrow> cloud \<Rightarrow> confirmed_payment option \<times> cloud" where
  "confirm_payment e cal reference method db =
     (case find (confirmable db reference) (cl_payments db) of
        None \<Rightarrow> (None, db)
      | Some pending \<Rightarrow>
          let plan = (case plan_parse (py_plan pending) of None \<Rightarrow> Basic | Some p \<Rightarrow> p);
              months = nat (max (py_months pending) 1);
              paid_through = paid_through_after cal (subscription db (py_owner pending))
                               plan months (e_now e);
              paid = upd_where (confirmable db reference)
                (\<lambda>p. p\<lparr>py_status := ''paid'', py_paid_at := Some (e_now e), py_method := method\<rparr>)
                (cl_payments db)
          in (Some \<lparr>cf_owner_id = py_owner pending,
                cf_owner_name = ow_full_name
                  (the (find_key ow_id (py_owner pending) (cl_owners db))),
                cf_plan = plan, cf_months = months, cf_amount = py_amount pending,
                cf_method = method, cf_paid_through = paid_through\<rparr>,
              db\<lparr>cl_subscriptions := extend_subscription e (py_owner pending) plan paid_through
                                        (cl_subscriptions db),
                 cl_payments := upd_where (\<lambda>p. py_reference p = Some reference)
                   (\<lambda>p. p\<lparr>py_paid_through := Some paid_through\<rparr>) paid\<rparr>))"

definition payments_of :: "cloud \<Rightarrow> uuid \<Rightarrow> payment_row list" where
  "payments_of db owner_id =
     take 50 (sort_key (\<lambda>p. - py_created_at p)
       (filter (\<lambda>p. py_owner p = owner_id \<and> py_status p = ''paid'') (cl_payments db)))"

definition pending_reference :: "cloud \<Rightarrow> uuid \<Rightarrow> (string \<times> money) option" where
  "pending_reference db payment_id =
     (case find (\<lambda>p. py_id p = payment_id \<and> py_status p = ''pending'' \<and> py_reference p \<noteq> None)
             (cl_payments db) of
        None \<Rightarrow> None
      | Some p \<Rightarrow> Some (the (py_reference p), py_amount p))"

definition store_count :: "cloud \<Rightarrow> uuid \<Rightarrow> int" where
  "store_count db owner_id = int (length (filter (\<lambda>s. st_owner s = owner_id) (cl_stores db)))"

definition is_within_first :: "cloud \<Rightarrow> uuid \<Rightarrow> uuid \<Rightarrow> int \<Rightarrow> bool" where
  "is_within_first db owner_id store_id limit \<longleftrightarrow>
     store_id \<in> set (take (nat limit) (map st_id (sort_key (\<lambda>s. (st_created_at s, st_id s))
       (filter (\<lambda>s. st_owner s = owner_id) (cl_stores db)))))"

definition store_ids :: "cloud \<Rightarrow> uuid \<Rightarrow> uuid list" where
  "store_ids db owner_id = map st_id (filter (\<lambda>s. st_owner s = owner_id) (cl_stores db))"

section \<open>Service\<close>

definition billing_standing ::
  "env \<Rightarrow> billing_settings \<Rightarrow> subscription_record option \<Rightarrow> standing" where
  "billing_standing e settings sub =
     standing_of sub (e_now e) (bs_grace settings) (enforced settings)"

definition billing_summary ::
  "env \<Rightarrow> billing_settings \<Rightarrow> subscription_record option \<Rightarrow> subscription_summary" where
  "billing_summary e settings sub = summary_of (billing_standing e settings sub) (bs_grace settings)"

definition overview :: "env \<Rightarrow> billing_settings \<Rightarrow> cloud \<Rightarrow> uuid \<Rightarrow> billing_overview" where
  "overview e settings db owner_id =
     \<lparr>bo_enabled = enforced settings,
      bo_subscription = billing_summary e settings (subscription db owner_id),
      bo_plans = [offer_of Basic, offer_of Pro], bo_payments = payments_of db owner_id\<rparr>"

text \<open>The three writes of a checkout are three statements of their own: when the gateway refuses,
  the pending payment stays behind, without a reference.\<close>

definition billing_checkout ::
  "env \<Rightarrow> gateway_env \<Rightarrow> billing_settings \<Rightarrow> actor \<Rightarrow> plan \<Rightarrow> nat \<Rightarrow> checkout_view action" where
  "billing_checkout e ge settings owner plan months =
     bindS (liftS (ok_or (gateway_from_settings settings)
                     (BadRequest ''this server does not take payments''))) (\<lambda>gateway.
     bindS (liftS (ensure (months \<in> set offered_months)
                     (BadRequest ''months must be 1 or 12''))) (\<lambda>_.
     bindS (getS (\<lambda>s. new_id e (sv_db s))) (\<lambda>payment_id.
     bindS (modifyS (with_db drawn)) (\<lambda>_.
     let request = \<lparr>cr_payment_id = payment_id, cr_plan = plan, cr_months = months,
                    cr_amount_centavos = price_centavos plan months\<rparr>;
         provider = (case gateway of GatewayTest _ \<Rightarrow> ''test'' | GatewayPayMongo _ \<Rightarrow> ''paymongo'')
     in bindS (execS (open_payment e payment_id (ac_owner_id owner) plan months
                        (cr_amount_centavos request) provider)) (\<lambda>_.
        bindS (liftS (create_checkout e ge gateway request)) (\<lambda>checkout.
        bindS (execS (set_reference payment_id (ck_reference checkout))) (\<lambda>_.
        liftS (Inr \<lparr>cv_payment_id = payment_id, cv_checkout_url = ck_url checkout,
                     cv_amount = of_int (cr_amount_centavos request) / 100\<rparr>))))))))"

definition payer_of :: "confirmed_payment \<Rightarrow> actor" where
  "payer_of confirmed =
     \<lparr>ac_owner_id = cf_owner_id confirmed, ac_session_id = 0, ac_name = cf_owner_name confirmed,
      ac_device_name = (case cf_method confirmed of None \<Rightarrow> ''payment'' | Some m \<Rightarrow> m),
      ac_staff = None, ac_subscription = None\<rparr>"

definition log_payment :: "env \<Rightarrow> confirmed_payment \<Rightarrow> books \<Rightarrow> books" where
  "log_payment e confirmed =
     audit_record e (payer_of confirmed)
       (entry_account e None SubscriptionPaid (cf_owner_id confirmed)
          (JObj [(''plan'', JStr (plan_as_str (cf_plan confirmed))),
                 (''months'', JNum (of_nat (cf_months confirmed))),
                 (''amount'', money_json (cf_amount confirmed)),
                 (''paid_through'', instant_json (cf_paid_through confirmed))]))"

definition announce_access :: "env \<Rightarrow> uuid list \<Rightarrow> books \<Rightarrow> books" where
  "announce_access e ids = fold (\<lambda>i. publish (event_new e i TopicAccessChanged None)) ids"

definition billing_confirm :: "env \<Rightarrow> calendar \<Rightarrow> paid_checkout \<Rightarrow> unit action" where
  "billing_confirm e cal paid =
     bindS (transact (\<lambda>db. Inr (confirm_payment e cal (pc_reference paid) (pc_method paid) db)))
       (\<lambda>found. case found of
          None \<Rightarrow> liftS (Inr ())
        | Some confirmed \<Rightarrow>
            bindS (modifyS forget_all) (\<lambda>_.
            bindS (noteS (log_payment e confirmed)) (\<lambda>_.
            bindS (getS (\<lambda>s. store_ids (sv_db s) (cf_owner_id confirmed))) (\<lambda>ids.
            noteS (announce_access e ids)))))"

definition paymongo_webhook ::
  "env \<Rightarrow> calendar \<Rightarrow> gateway_env \<Rightarrow> billing_settings \<Rightarrow> string \<Rightarrow> string \<Rightarrow> unit action" where
  "paymongo_webhook e cal ge settings signature raw_body =
     (case gateway_from_settings settings of
        Some (GatewayPayMongo gateway) \<Rightarrow>
          bindS (liftS (verify_webhook ge gateway signature raw_body)) (\<lambda>found. case found of
             Some paid \<Rightarrow> billing_confirm e cal paid
           | None \<Rightarrow> liftS (Inr ()))
      | _ \<Rightarrow> liftS (Inl (NotFound ''webhook'')))"

definition is_test_gateway :: "billing_settings \<Rightarrow> bool" where
  "is_test_gateway settings =
     (case gateway_from_settings settings of Some (GatewayTest _) \<Rightarrow> True | _ \<Rightarrow> False)"

definition pay_test_checkout ::
  "env \<Rightarrow> calendar \<Rightarrow> billing_settings \<Rightarrow> uuid \<Rightarrow> unit action" where
  "pay_test_checkout e cal settings payment_id =
     bindS (liftS (ensure (is_test_gateway settings) (NotFound ''checkout''))) (\<lambda>_.
     bindS (readS (\<lambda>db. ok_or (pending_reference db payment_id) (NotFound ''checkout'')))
       (\<lambda>(reference, _).
          billing_confirm e cal \<lparr>pc_reference = reference, pc_method = Some ''test''\<rparr>))"

text \<open>The page shows the amount after a peso sign.\<close>

definition test_checkout_amount :: "billing_settings \<Rightarrow> cloud \<Rightarrow> uuid \<Rightarrow> money option" where
  "test_checkout_amount settings db payment_id =
     (if \<not> is_test_gateway settings then None
      else map_option snd (pending_reference db payment_id))"

section \<open>What an account may do\<close>

definition paused :: api_error where
  "paused = SubscriptionRequired
     ''this account is paused until it is paid; nothing on the phones is lost''"

definition stores_text :: "int \<Rightarrow> string" where
  "stores_text limit = show_int limit @ '' store'' @ (if limit = 1 then [] else ''s'')"

definition check_new_store ::
  "env \<Rightarrow> billing_settings \<Rightarrow> cloud \<Rightarrow> actor \<Rightarrow> api_error + unit" where
  "check_new_store e settings db owner =
     (let s = billing_standing e settings (ac_subscription owner)
      in if \<not> can_upload s then Inl paused
         else case store_limit s of
             Some limit \<Rightarrow>
               ensure (store_count db (ac_owner_id owner) < limit)
                 (UpgradeRequired (''your plan includes '' @ stores_text limit))
           | None \<Rightarrow> Inr ())"

definition check_staff ::
  "env \<Rightarrow> billing_settings \<Rightarrow> subscription_record option \<Rightarrow> api_error + unit" where
  "check_staff e settings sub =
     (let s = billing_standing e settings sub
      in if allows_staff s then Inr ()
         else if can_upload s then Inl (UpgradeRequired ''staff accounts come with Kitaza Pro'')
         else Inl paused)"

definition check_store_request ::
  "env \<Rightarrow> billing_settings \<Rightarrow> cloud \<Rightarrow> actor \<Rightarrow> uuid \<Rightarrow> bool \<Rightarrow> api_error + unit" where
  "check_store_request e settings db actor store_id is_write =
     (let s = billing_standing e settings (ac_subscription actor)
      in if \<not> is_owner actor \<and> \<not> allows_staff s
         then Inl (if can_upload s
                   then UpgradeRequired ''the store's plan no longer includes staff''
                   else paused)
         else if \<not> is_write then Inr ()
         else if \<not> can_upload s then Inl paused
         else case store_limit s of
             Some limit \<Rightarrow>
               ensure (is_within_first db (ac_owner_id actor) store_id limit)
                 (UpgradeRequired (''your plan takes new entries in '' @ stores_text limit))
           | None \<Rightarrow> Inr ())"

section \<open>Handlers\<close>

definition handle_checkout ::
  "env \<Rightarrow> gateway_env \<Rightarrow> billing_settings \<Rightarrow> actor \<Rightarrow> string + checkout_request_body
    \<Rightarrow> checkout_view action" where
  "handle_checkout e ge settings owner body =
     bindS (liftS (validated_json body checkout_issues)) (\<lambda>request.
       billing_checkout e ge settings owner (cb_plan request) (cb_months request))"

definition handle_webhook ::
  "env \<Rightarrow> calendar \<Rightarrow> gateway_env \<Rightarrow> billing_settings \<Rightarrow> string option \<Rightarrow> string
    \<Rightarrow> unit action" where
  "handle_webhook e cal ge settings header raw_body =
     bindS (liftS (ok_or header (Unauthorized ''missing webhook signature''))) (\<lambda>signature.
       paymongo_webhook e cal ge settings signature raw_body)"

definition handle_test_checkout_page ::
  "billing_settings \<Rightarrow> cloud \<Rightarrow> uuid \<Rightarrow> api_error + money" where
  "handle_test_checkout_page settings db payment_id =
     ok_or (test_checkout_amount settings db payment_id) (NotFound ''checkout'')"

end
