(* ===== verification/Stores.thy ===== *)
theory Stores
  imports Billing
begin

text \<open>
  \<^verbatim>\<open>backend/src/features/stores\<close>: whose store it is (\<^verbatim>\<open>store_directory.rs\<close>, with its memo),
  the check in front of every store-scoped request (\<^verbatim>\<open>store_scope.rs\<close>), and adding and
  changing stores (\<^verbatim>\<open>store_handlers.rs\<close>).
\<close>

section \<open>Text helpers\<close>

text \<open>\<open>str::contains\<close> and \<open>str::ends_with\<close>.\<close>

fun str_contains :: "string \<Rightarrow> string \<Rightarrow> bool" where
  "str_contains p [] = (p = [])"
| "str_contains p (c # s) = (take (length p) (c # s) = p \<or> str_contains p s)"

definition str_ends_with :: "string \<Rightarrow> string \<Rightarrow> bool" where
  "str_ends_with p s = (length p \<le> length s \<and> drop (length s - length p) s = p)"

section \<open>Whose store it is\<close>

definition owns_store :: "cloud \<Rightarrow> uuid \<Rightarrow> uuid \<Rightarrow> bool" where
  "owns_store db owner_id store_id =
     list_ex (\<lambda>r. st_id r = store_id \<and> st_owner r = owner_id) (cl_stores db)"

definition is_memoised :: "server \<Rightarrow> uuid \<Rightarrow> uuid \<Rightarrow> bool" where
  "is_memoised s owner_id store_id = ((owner_id, store_id) \<in> sv_confirmed s)"

definition assert_owner_of :: "uuid \<Rightarrow> uuid \<Rightarrow> unit action" where
  "assert_owner_of owner_id store_id s =
     (if is_memoised s owner_id store_id then (Inr (), s)
      else if \<not> owns_store (sv_db s) owner_id store_id
      then (Inl (Forbidden ''this store does not belong to you''), s)
      else (Inr (), s\<lparr>sv_confirmed := insert (owner_id, store_id) (sv_confirmed s)\<rparr>))"

definition shares_benchmarks :: "cloud \<Rightarrow> uuid \<Rightarrow> api_error + bool" where
  "shares_benchmarks db store_id =
     (case find_key st_id store_id (cl_stores db) of
        None \<Rightarrow> Inl (error_of_sql RowNotFound)
      | Some r \<Rightarrow> Inr (st_share_benchmarks r))"

section \<open>The scope of a request\<close>

definition authorise :: "actor \<Rightarrow> uuid \<Rightarrow> unit action" where
  "authorise actor store_id =
     (case ac_staff actor of
        Some grant \<Rightarrow>
          liftS (ensure (sg_store_id grant = store_id)
            (Forbidden ''this store does not belong to you''))
      | None \<Rightarrow> assert_owner_of (ac_owner_id actor) store_id)"

definition is_account_management :: "string \<Rightarrow> bool" where
  "is_account_management route \<longleftrightarrow>
     str_contains ''/staff'' route \<or> str_ends_with ''/stores/{store_id}'' route"

record request_parts =
  rq_authorization :: "string option"
  rq_method :: string
  rq_route :: string
  rq_store_id :: "string option"

definition takes_entries :: "request_parts \<Rightarrow> bool" where
  "takes_entries parts \<longleftrightarrow>
     rq_method parts \<noteq> ''GET'' \<and> rq_method parts \<noteq> ''HEAD''
     \<and> \<not> is_account_management (rq_route parts)"

definition scope_store_id :: "security \<Rightarrow> request_parts \<Rightarrow> api_error + uuid" where
  "scope_store_id sc parts =
     ok_or (Option.bind (rq_store_id parts) (sc_parse_uuid sc))
       (BadRequest ''a valid store id is required'')"

definition store_scope ::
  "env \<Rightarrow> security \<Rightarrow> billing_settings \<Rightarrow> request_parts \<Rightarrow> (uuid \<times> actor) action" where
  "store_scope e sc settings parts =
     bindS (current_actor e sc (rq_authorization parts)) (\<lambda>actor.
     bindS (liftS (scope_store_id sc parts)) (\<lambda>store_id.
     bindS (authorise actor store_id) (\<lambda>_.
     bindS (readS (\<lambda>db. check_store_request e settings db actor store_id (takes_entries parts)))
       (\<lambda>_. liftS (Inr (store_id, actor))))))"

section \<open>Adding and changing stores\<close>

definition default_business_type :: string where
  "default_business_type = ''sari_sari''"

record create_store_request =
  cs_name :: string
  cs_business_type :: "string option"

record update_store_request =
  us_name :: "string option"
  us_share_benchmarks :: "bool option"

definition name_issue :: "string \<Rightarrow> (string \<times> string option) list" where
  "name_issue name =
     (if 2 \<le> length name \<and> length name \<le> 80 then []
      else [(''name'', Some ''must be between 2 and 80 characters'')])"

definition create_store_issues :: "create_store_request \<Rightarrow> (string \<times> string option) list" where
  "create_store_issues r = name_issue (cs_name r)"

definition update_store_issues :: "update_store_request \<Rightarrow> (string \<times> string option) list" where
  "update_store_issues r = (case us_name r of None \<Rightarrow> [] | Some n \<Rightarrow> name_issue n)"

record store_summary =
  sy_id :: uuid
  sy_name :: string
  sy_business_type :: string
  sy_currency_code :: string
  sy_share_benchmarks :: bool

definition to_summary :: "store_row \<Rightarrow> store_summary" where
  "to_summary r =
     \<lparr>sy_id = st_id r, sy_name = st_name r, sy_business_type = st_business_type r,
      sy_currency_code = st_currency_code r, sy_share_benchmarks = st_share_benchmarks r\<rparr>"

text \<open>An INSERT into stores, with the column defaults.\<close>

definition new_store :: "env \<Rightarrow> uuid \<Rightarrow> uuid \<Rightarrow> string \<Rightarrow> string \<Rightarrow> store_row" where
  "new_store e i owner_id name business_type =
     \<lparr>st_id = i, st_owner = owner_id, st_name = name, st_business_type = business_type,
      st_currency_code = ''PHP'', st_share_benchmarks = True, st_created_at = e_now e,
      st_updated_at = e_now e\<rparr>"

definition insert_store :: "store_row \<Rightarrow> cloud \<Rightarrow> api_error + cloud" where
  "insert_store r db =
     bindR (ensure (find_key ow_id (st_owner r) (cl_owners db) \<noteq> None) Internal) (\<lambda>_.
     bindR (insert_row st_id r (cl_stores db)) (\<lambda>rows. Inr (db\<lparr>cl_stores := rows\<rparr>)))"

definition create_store ::
  "env \<Rightarrow> billing_settings \<Rightarrow> actor \<Rightarrow> string + create_store_request \<Rightarrow> store_summary action" where
  "create_store e settings owner body =
     bindS (liftS (validated_json body create_store_issues)) (\<lambda>request.
     bindS (readS (\<lambda>db. check_new_store e settings db owner)) (\<lambda>_.
     bindS (transact (\<lambda>db.
        let store = new_store e (new_id e db) (ac_owner_id owner) (trim (cs_name request))
              (case cs_business_type request of None \<Rightarrow> default_business_type | Some t \<Rightarrow> t)
        in bindR (insert_store store (drawn db)) (\<lambda>db1. Inr (store, db1)))) (\<lambda>store.
     bindS (noteS (audit_record e owner (entry_new e (st_id store) StoreAdded (st_id store)
                     (JObj [(''name'', JStr (st_name store))])))) (\<lambda>_.
     liftS (Inr (to_summary store))))))"

definition change_store :: "env \<Rightarrow> update_store_request \<Rightarrow> store_row \<Rightarrow> store_row" where
  "change_store e request r =
     r\<lparr>st_name := (case us_name request of None \<Rightarrow> st_name r | Some n \<Rightarrow> trim n),
       st_share_benchmarks := (case us_share_benchmarks request of
          None \<Rightarrow> st_share_benchmarks r | Some v \<Rightarrow> v),
       st_updated_at := e_now e\<rparr>"

definition update_store ::
  "env \<Rightarrow> actor \<Rightarrow> uuid \<Rightarrow> string + update_store_request \<Rightarrow> store_summary action" where
  "update_store e actor store_id body =
     bindS (liftS (validated_json body update_store_issues)) (\<lambda>request.
     bindS (liftS (require_owner actor)) (\<lambda>_.
     bindS (readS (\<lambda>db. ok_or (find_key st_id store_id (cl_stores db)) (NotFound ''store'')))
       (\<lambda>before.
     let store = change_store e request before
     in bindS (modifyS (with_db (\<lambda>db. db\<lparr>cl_stores :=
          upd_where (\<lambda>r. st_id r = store_id) (change_store e request) (cl_stores db)\<rparr>))) (\<lambda>_.
        bindS (if st_name before = st_name store then liftS (Inr ())
               else noteS (audit_record e actor
                 (entry_new e (st_id store) StoreRenamed (st_id store)
                    (JObj [(''name'', JStr (st_name store)),
                           (''old_name'', JStr (st_name before))])))) (\<lambda>_.
        liftS (Inr (to_summary store)))))))"

section \<open>The memo only holds what is true\<close>

definition memo_sound :: "server \<Rightarrow> bool" where
  "memo_sound s \<longleftrightarrow> (\<forall>(owner_id, store_id) \<in> sv_confirmed s. owns_store (sv_db s) owner_id store_id)"

lemma memo_sound_assert:
  assumes "assert_owner_of owner_id store_id s = (r, s')" and "memo_sound s"
  shows "memo_sound s' \<and> sv_db s' = sv_db s
    \<and> (r = Inr () \<longrightarrow> owns_store (sv_db s) owner_id store_id)"
  using assms by (auto simp: assert_owner_of_def memo_sound_def is_memoised_def split: if_splits)

lemma memo_sound_authorise:
  assumes "authorise actor store_id s = (r, s')" and "memo_sound s"
  shows "memo_sound s' \<and> sv_db s' = sv_db s
    \<and> (r = Inr () \<longrightarrow> (case ac_staff actor of Some grant \<Rightarrow> sg_store_id grant = store_id
       | None \<Rightarrow> owns_store (sv_db s) (ac_owner_id actor) store_id))"
  using assms memo_sound_assert[of "ac_owner_id actor" store_id s r s']
  by (auto simp: authorise_def split: option.splits if_splits)

lemma owns_store_grows:
  assumes "set (map (\<lambda>r. (st_id r, st_owner r)) (cl_stores db))
    \<subseteq> set (map (\<lambda>r. (st_id r, st_owner r)) (cl_stores db'))"
  shows "owns_store db o' i \<Longrightarrow> owns_store db' o' i"
  using assms by (auto simp: owns_store_def list_ex_iff subset_iff image_iff Bex_def) metis

end
