(* ===== verification/Staff.thy ===== *)
theory Staff
  imports Stores
begin

text \<open>
  \<^verbatim>\<open>backend/src/features/staff\<close> and \<^verbatim>\<open>features/devices\<close>: staff members with their join
  codes, and the devices signed in to an account. \<open>crypto\<close> is the hashing, randomness and
  password verification the account features use.
\<close>

section \<open>Randomness and digests\<close>

text \<open>\<open>cy_sha256\<close> is the hex of a SHA-256 digest, \<open>cy_index n i\<close> the i-th index below 31 drawn for
  the n-th code, \<open>cy_token n\<close> the hex of the n-th 32 random bytes; \<open>cy_hash\<close> and \<open>cy_verify\<close> are
  Argon2 (\<open>password_hasher.rs\<close>), the first may fail.\<close>

record crypto =
  cy_sha256 :: "string \<Rightarrow> string"
  cy_index :: "nat \<Rightarrow> nat \<Rightarrow> nat"
  cy_token :: "nat \<Rightarrow> string"
  cy_hash :: "string \<Rightarrow> string option"
  cy_verify :: "string \<Rightarrow> string \<Rightarrow> bool"

section \<open>Join codes\<close>

definition code_alphabet :: string where
  "code_alphabet = ''ABCDEFGHJKMNPQRSTUVWXYZ23456789''"

definition code_length :: nat where
  "code_length = 10"

definition generate_code :: "crypto \<Rightarrow> nat \<Rightarrow> string" where
  "generate_code cy n =
     (let raw = map (\<lambda>i. code_alphabet ! (cy_index cy n i mod length code_alphabet))
                  [0..<code_length]
      in take (code_length div 2) raw @ ''-'' @ drop (code_length div 2) raw)"

definition is_ascii_alphanumeric :: "char \<Rightarrow> bool" where
  "is_ascii_alphanumeric c =
     (let n = (of_char c :: nat)
      in (48 \<le> n \<and> n \<le> 57) \<or> (65 \<le> n \<and> n \<le> 90) \<or> (97 \<le> n \<and> n \<le> 122))"

definition to_ascii_uppercase :: "char \<Rightarrow> char" where
  "to_ascii_uppercase c =
     (let n = (of_char c :: nat) in if 97 \<le> n \<and> n \<le> 122 then char_of (n - 32) else c)"

lemma to_ascii_uppercase_Char [code]:
  "to_ascii_uppercase (Char b0 b1 b2 b3 b4 b5 b6 b7) =
     (let n = (of_char (Char b0 b1 b2 b3 b4 b5 b6 b7) :: nat)
      in if 97 \<le> n \<and> n \<le> 122 then Char b0 b1 b2 b3 b4 False b6 b7
         else Char b0 b1 b2 b3 b4 b5 b6 b7)"
proof -
  let ?c = "Char b0 b1 b2 b3 b4 b5 b6 b7" and ?d = "Char b0 b1 b2 b3 b4 False b6 b7"
  let ?cond = "97 \<le> (of_char ?c::nat) \<and> of_char ?c \<le> (122::nat)"
  have lower: "b5" if ?cond
    using that of_char_bits[of b0 b1 b2 b3 b4 b5 b6 b7] by (cases b5; cases b6; cases b7) auto
  have "char_of (of_char ?c - 32 :: nat) = ?d" if b5
    by (rule char_of_eq) (use that in \<open>simp add: of_char_def\<close>)
  then have eq: "?cond \<Longrightarrow> char_of (of_char ?c - 32 :: nat) = ?d" using lower by blast
  show ?thesis
  proof (cases ?cond)
    case True
    then show ?thesis unfolding to_ascii_uppercase_def Let_def if_P[OF True] by (rule eq)
  next
    case False
    show ?thesis unfolding to_ascii_uppercase_def Let_def if_not_P[OF False] by (rule refl)
  qed
qed
definition normalise_code :: "string \<Rightarrow> string" where
  "normalise_code typed = map to_ascii_uppercase (filter is_ascii_alphanumeric typed)"

definition code_fingerprint :: "crypto \<Rightarrow> string \<Rightarrow> string" where
  "code_fingerprint cy typed = cy_sha256 cy (normalise_code typed)"

section \<open>Payloads\<close>

record save_staff_request =
  fr_display_name :: string
  fr_permissions :: "permission list"

definition save_staff_issues :: "save_staff_request \<Rightarrow> (string \<times> string option) list" where
  "save_staff_issues r =
     (if 1 \<le> length (fr_display_name r) \<and> length (fr_display_name r) \<le> 40 then []
      else [(''display_name'', Some ''must be between 1 and 40 characters'')])"

record staff_view =
  fv_id :: uuid
  fv_display_name :: string
  fv_permissions :: "permission list"
  fv_signed_in_devices :: int
  fv_invite_expires_at :: "instant option"
  fv_created_at :: instant

definition view_staff :: "staff_row \<Rightarrow> staff_view" where
  "view_staff r =
     \<lparr>fv_id = sm_id r, fv_display_name = sm_display_name r,
      fv_permissions = permissions_to_list (sm_permissions r), fv_signed_in_devices = 0,
      fv_invite_expires_at = None, fv_created_at = sm_created_at r\<rparr>"

record invite_view =
  nv_code :: string
  nv_expires_at :: instant

section \<open>Staff repository\<close>

definition staff_create ::
  "env \<Rightarrow> uuid \<Rightarrow> string \<Rightarrow> permissions \<Rightarrow> cloud \<Rightarrow> api_error + (staff_row \<times> cloud)" where
  "staff_create e store_id display_name ps db =
     (let row = \<lparr>sm_id = new_id e db, sm_store = store_id, sm_display_name = display_name,
                 sm_permissions = ps, sm_created_at = e_now e, sm_updated_at = e_now e,
                 sm_removed_at = None\<rparr>
      in bindR (ensure (find_key st_id store_id (cl_stores db) \<noteq> None) Internal) (\<lambda>_.
         bindR (insert_row sm_id row (cl_staff db)) (\<lambda>rows.
         Inr (row, (drawn db)\<lparr>cl_staff := rows\<rparr>))))"

definition open_invite :: "instant \<Rightarrow> invite_row \<Rightarrow> bool" where
  "open_invite now i = (iv_redeemed_at i = None \<and> now < iv_expires_at i)"

definition list_staff :: "env \<Rightarrow> cloud \<Rightarrow> uuid \<Rightarrow> staff_view list" where
  "list_staff e db store_id =
     map (\<lambda>r. (view_staff r)\<lparr>
         fv_signed_in_devices := int (length (filter
           (\<lambda>d. ds_staff d = Some (sm_id r) \<and> ds_revoked_at d = None) (cl_sessions db))),
         fv_invite_expires_at :=
           (let ends = map iv_expires_at (filter
              (\<lambda>i. iv_staff i = sm_id r \<and> open_invite (e_now e) i) (cl_invites db))
            in if ends = [] then None else Some (Max (set ends)))\<rparr>)
       (sort_key sm_created_at
         (filter (\<lambda>r. sm_store r = store_id \<and> sm_removed_at r = None) (cl_staff db)))"

definition works_here :: "uuid \<Rightarrow> uuid \<Rightarrow> staff_row \<Rightarrow> bool" where
  "works_here store_id member_id r \<longleftrightarrow>
     sm_store r = store_id \<and> sm_id r = member_id \<and> sm_removed_at r = None"

definition find_staff :: "cloud \<Rightarrow> uuid \<Rightarrow> uuid \<Rightarrow> staff_row option" where
  "find_staff db store_id member_id = find (works_here store_id member_id) (cl_staff db)"

definition staff_update ::
  "env \<Rightarrow> uuid \<Rightarrow> uuid \<Rightarrow> string \<Rightarrow> permissions \<Rightarrow> cloud \<Rightarrow> staff_row option \<times> cloud" where
  "staff_update e store_id member_id display_name ps db =
     (let change = (\<lambda>r. r\<lparr>sm_display_name := display_name, sm_permissions := ps,
                          sm_updated_at := e_now e\<rparr>)
      in (map_option change (find_staff db store_id member_id),
          db\<lparr>cl_staff := upd_where (works_here store_id member_id) change (cl_staff db)\<rparr>))"

text \<open>Removing is one transaction: the member, every session of theirs, every refresh token of
  those sessions and every code not yet used.\<close>

definition revoke_sessions :: "env \<Rightarrow> (device_row \<Rightarrow> bool) \<Rightarrow> cloud \<Rightarrow> cloud" where
  "revoke_sessions e hit db =
     db\<lparr>cl_sessions := upd_where (\<lambda>d. hit d \<and> ds_revoked_at d = None)
          (\<lambda>d. d\<lparr>ds_revoked_at := Some (e_now e)\<rparr>) (cl_sessions db)\<rparr>"

definition revoke_tokens :: "env \<Rightarrow> (token_row \<Rightarrow> bool) \<Rightarrow> cloud \<Rightarrow> cloud" where
  "revoke_tokens e hit db =
     db\<lparr>cl_tokens := upd_where (\<lambda>t. hit t \<and> rt_revoked_at t = None)
          (\<lambda>t. t\<lparr>rt_revoked_at := Some (e_now e)\<rparr>) (cl_tokens db)\<rparr>"

definition drop_open_invites :: "uuid \<Rightarrow> cloud \<Rightarrow> cloud" where
  "drop_open_invites member_id db =
     db\<lparr>cl_invites := filter (\<lambda>i. \<not> (iv_staff i = member_id \<and> iv_redeemed_at i = None))
                        (cl_invites db)\<rparr>"

definition staff_remove ::
  "env \<Rightarrow> uuid \<Rightarrow> uuid \<Rightarrow> cloud \<Rightarrow> staff_row option \<times> cloud" where
  "staff_remove e store_id member_id db =
     (let bury = (\<lambda>r. r\<lparr>sm_removed_at := Some (e_now e), sm_updated_at := e_now e\<rparr>)
      in case find_staff db store_id member_id of
           None \<Rightarrow> (None, db)
         | Some r \<Rightarrow>
             let db1 = revoke_sessions e (\<lambda>d. ds_staff d = Some member_id)
                   (db\<lparr>cl_staff := upd_where (works_here store_id member_id) bury (cl_staff db)\<rparr>);
                 db2 = revoke_tokens e (\<lambda>t. \<exists>d \<in> set (cl_sessions db1).
                         ds_id d = rt_session t \<and> ds_staff d = Some member_id) db1
             in (Some (bury r), drop_open_invites member_id db2))"

definition replace_invite ::
  "env \<Rightarrow> uuid \<Rightarrow> string \<Rightarrow> instant \<Rightarrow> cloud \<Rightarrow> api_error + cloud" where
  "replace_invite e member_id code_hash expires_at db =
     (let db1 = drop_open_invites member_id db;
          row = \<lparr>iv_id = new_id e db, iv_staff = member_id, iv_code_hash = code_hash,
                 iv_expires_at = expires_at, iv_redeemed_at = None\<rparr>
      in bindR (ensure (find_key sm_id member_id (cl_staff db1) \<noteq> None
                  \<and> (\<forall>i \<in> set (cl_invites db1). iv_code_hash i \<noteq> code_hash)) Internal) (\<lambda>_.
         bindR (insert_row iv_id row (cl_invites db1)) (\<lambda>rows.
         Inr ((drawn db1)\<lparr>cl_invites := rows\<rparr>))))"

definition owner_of_code :: "env \<Rightarrow> cloud \<Rightarrow> string \<Rightarrow> uuid option" where
  "owner_of_code e db code_hash =
     Option.bind (find (\<lambda>i. iv_code_hash i = code_hash \<and> open_invite (e_now e) i) (cl_invites db))
       (\<lambda>i. Option.bind (find_key sm_id (iv_staff i) (cl_staff db))
       (\<lambda>st. map_option st_owner (find_key st_id (sm_store st) (cl_stores db))))"

record redeemed_invite =
  rd_staff :: staff_row
  rd_owner_id :: uuid

definition redeemable :: "env \<Rightarrow> cloud \<Rightarrow> string \<Rightarrow> invite_row \<Rightarrow> bool" where
  "redeemable e db code_hash i \<longleftrightarrow>
     iv_code_hash i = code_hash \<and> open_invite (e_now e) i
     \<and> (case find_key sm_id (iv_staff i) (cl_staff db) of
           None \<Rightarrow> False | Some st \<Rightarrow> sm_removed_at st = None)"

definition redeem ::
  "env \<Rightarrow> string \<Rightarrow> cloud \<Rightarrow> api_error + (redeemed_invite option \<times> cloud)" where
  "redeem e code_hash db =
     (case find (redeemable e db code_hash) (cl_invites db) of
        None \<Rightarrow> Inr (None, db)
      | Some i \<Rightarrow>
          bindR (ok_or (Option.bind (find_key sm_id (iv_staff i) (cl_staff db))
                   (\<lambda>st. map_option (\<lambda>s. \<lparr>rd_staff = st, rd_owner_id = st_owner s\<rparr>)
                      (find_key st_id (sm_store st) (cl_stores db))))
                 (error_of_sql RowNotFound)) (\<lambda>redeemed.
          Inr (Some redeemed, db\<lparr>cl_invites := upd_where (\<lambda>r. iv_id r = iv_id i)
                 (\<lambda>r. r\<lparr>iv_redeemed_at := Some (e_now e)\<rparr>) (cl_invites db)\<rparr>)))"

section \<open>Staff service\<close>

definition invite_lifetime :: duration where
  "invite_lifetime = hours 24"

fun permission_as_str :: "permission \<Rightarrow> string" where
  "permission_as_str ManageProducts = ''manage_products''"
| "permission_as_str RecordExpenses = ''record_expenses''"
| "permission_as_str ViewProfit = ''view_profit''"
| "permission_as_str DeleteRecords = ''delete_records''"

definition log_staff :: "env \<Rightarrow> actor \<Rightarrow> staff_row \<Rightarrow> audit_action \<Rightarrow> unit action" where
  "log_staff e actor st what =
     noteS (audit_record e actor (entry_new e (sm_store st) what (sm_id st)
       (JObj [(''name'', JStr (sm_display_name st)),
              (''permissions'', JArr (map (\<lambda>p. JStr (permission_as_str p))
                 (permissions_to_list (sm_permissions st))))])))"

definition access_changed :: "env \<Rightarrow> uuid \<Rightarrow> unit action" where
  "access_changed e store_id =
     bindS (modifyS forget_all) (\<lambda>_.
     noteS (publish (event_new e store_id TopicAccessChanged None)))"

definition new_invite :: "env \<Rightarrow> crypto \<Rightarrow> uuid \<Rightarrow> invite_view action" where
  "new_invite e cy member_id =
     bindS (getS (\<lambda>s. generate_code cy (bk_drawn (cl_books (sv_db s))))) (\<lambda>code.
     bindS (modifyS (with_db drawn)) (\<lambda>_.
     let expires_at = e_now e + invite_lifetime
     in bindS (execS (replace_invite e member_id (code_fingerprint cy code) expires_at)) (\<lambda>_.
        liftS (Inr \<lparr>nv_code = code, nv_expires_at = expires_at\<rparr>))))"

definition add_staff ::
  "env \<Rightarrow> crypto \<Rightarrow> billing_settings \<Rightarrow> uuid \<Rightarrow> actor \<Rightarrow> save_staff_request
    \<Rightarrow> (staff_view \<times> invite_view) action" where
  "add_staff e cy settings store_id actor request =
     bindS (liftS (check_staff e settings (ac_subscription actor))) (\<lambda>_.
     bindS (transact (staff_create e store_id (trim (fr_display_name request))
              (permissions_from_list (fr_permissions request)))) (\<lambda>st.
     bindS (new_invite e cy (sm_id st)) (\<lambda>invite.
     bindS (log_staff e actor st StaffAdded) (\<lambda>_.
     liftS (Inr (view_staff st, invite))))))"

definition update_staff ::
  "env \<Rightarrow> uuid \<Rightarrow> actor \<Rightarrow> uuid \<Rightarrow> save_staff_request \<Rightarrow> staff_view action" where
  "update_staff e store_id actor member_id request =
     bindS (transact (\<lambda>db. Inr (staff_update e store_id member_id (trim (fr_display_name request))
              (permissions_from_list (fr_permissions request)) db))) (\<lambda>found.
     bindS (liftS (ok_or found (NotFound ''staff member''))) (\<lambda>st.
     bindS (log_staff e actor st StaffChanged) (\<lambda>_.
     bindS (access_changed e store_id) (\<lambda>_.
     liftS (Inr (view_staff st))))))"

definition remove_staff :: "env \<Rightarrow> uuid \<Rightarrow> actor \<Rightarrow> uuid \<Rightarrow> unit action" where
  "remove_staff e store_id actor member_id =
     bindS (transact (\<lambda>db. Inr (staff_remove e store_id member_id db))) (\<lambda>found.
     bindS (liftS (ok_or found (NotFound ''staff member''))) (\<lambda>st.
     bindS (log_staff e actor st StaffRemoved) (\<lambda>_.
     access_changed e store_id)))"

definition reinvite_staff ::
  "env \<Rightarrow> crypto \<Rightarrow> billing_settings \<Rightarrow> uuid \<Rightarrow> actor \<Rightarrow> uuid \<Rightarrow> invite_view action" where
  "reinvite_staff e cy settings store_id actor member_id =
     bindS (liftS (check_staff e settings (ac_subscription actor))) (\<lambda>_.
     bindS (readS (\<lambda>db. ok_or (find_staff db store_id member_id) (NotFound ''staff member'')))
       (\<lambda>st.
     bindS (new_invite e cy (sm_id st)) (\<lambda>invite.
     bindS (log_staff e actor st StaffInvited) (\<lambda>_.
     liftS (Inr invite)))))"

section \<open>Staff handlers\<close>

definition handle_list_staff ::
  "env \<Rightarrow> uuid \<Rightarrow> actor \<Rightarrow> staff_view list action" where
  "handle_list_staff e store_id actor =
     bindS (liftS (require_owner actor)) (\<lambda>_. getS (\<lambda>s. list_staff e (sv_db s) store_id))"

definition handle_add_staff ::
  "env \<Rightarrow> crypto \<Rightarrow> billing_settings \<Rightarrow> uuid \<Rightarrow> actor \<Rightarrow> string + save_staff_request
    \<Rightarrow> (staff_view \<times> invite_view) action" where
  "handle_add_staff e cy settings store_id actor body =
     bindS (liftS (validated_json body save_staff_issues)) (\<lambda>request.
     bindS (liftS (require_owner actor)) (\<lambda>_.
     add_staff e cy settings store_id actor request))"

definition handle_update_staff ::
  "env \<Rightarrow> uuid \<Rightarrow> actor \<Rightarrow> uuid \<Rightarrow> string + save_staff_request \<Rightarrow> staff_view action" where
  "handle_update_staff e store_id actor member_id body =
     bindS (liftS (validated_json body save_staff_issues)) (\<lambda>request.
     bindS (liftS (require_owner actor)) (\<lambda>_.
     update_staff e store_id actor member_id request))"

definition handle_remove_staff :: "env \<Rightarrow> uuid \<Rightarrow> actor \<Rightarrow> uuid \<Rightarrow> unit action" where
  "handle_remove_staff e store_id actor member_id =
     bindS (liftS (require_owner actor)) (\<lambda>_. remove_staff e store_id actor member_id)"

definition handle_reinvite_staff ::
  "env \<Rightarrow> crypto \<Rightarrow> billing_settings \<Rightarrow> uuid \<Rightarrow> actor \<Rightarrow> uuid \<Rightarrow> invite_view action" where
  "handle_reinvite_staff e cy settings store_id actor member_id =
     bindS (liftS (require_owner actor)) (\<lambda>_.
       reinvite_staff e cy settings store_id actor member_id)"

section \<open>Devices\<close>

record device_view =
  dv_id :: uuid
  dv_device_name :: string
  dv_member_name :: string
  dv_is_staff :: bool
  dv_store_id :: "uuid option"
  dv_signed_in_at :: instant
  dv_last_seen_at :: instant
  dv_is_current :: bool

definition member_of :: "cloud \<Rightarrow> device_row \<Rightarrow> staff_row option" where
  "member_of db d = Option.bind (ds_staff d) (\<lambda>i. find_key sm_id i (cl_staff db))"

definition member_name :: "cloud \<Rightarrow> device_row \<Rightarrow> string" where
  "member_name db d =
     (case member_of db d of
        Some st \<Rightarrow> sm_display_name st
      | None \<Rightarrow> (case find_key ow_id (ds_owner d) (cl_owners db) of
          None \<Rightarrow> [] | Some o' \<Rightarrow> ow_full_name o'))"

definition syncs :: "env \<Rightarrow> cloud \<Rightarrow> uuid \<Rightarrow> device_row \<Rightarrow> bool" where
  "syncs e db owner_id d \<longleftrightarrow>
     ds_owner d = owner_id \<and> ds_revoked_at d = None
     \<and> find_key ow_id (ds_owner d) (cl_owners db) \<noteq> None
     \<and> (case member_of db d of None \<Rightarrow> True | Some st \<Rightarrow> sm_removed_at st = None)
     \<and> list_ex (\<lambda>t. rt_session t = ds_id d \<and> rt_revoked_at t = None \<and> e_now e < rt_expires_at t)
         (cl_tokens db)"

definition list_devices :: "env \<Rightarrow> cloud \<Rightarrow> actor \<Rightarrow> device_view list" where
  "list_devices e db owner =
     map (\<lambda>d. \<lparr>dv_id = ds_id d, dv_device_name = ds_device_name d,
               dv_member_name = member_name db d, dv_is_staff = (ds_staff d \<noteq> None),
               dv_store_id = map_option sm_store (member_of db d),
               dv_signed_in_at = ds_created_at d, dv_last_seen_at = ds_last_seen_at d,
               dv_is_current = (ds_id d = ac_session_id owner)\<rparr>)
       (sort_key (\<lambda>d. - ds_last_seen_at d)
         (filter (syncs e db (ac_owner_id owner)) (cl_sessions db)))"

record revoked_device =
  vd_device_name :: string
  vd_member_name :: string
  vd_store_id :: "uuid option"

definition device_revoke ::
  "env \<Rightarrow> uuid \<Rightarrow> uuid \<Rightarrow> cloud \<Rightarrow> revoked_device option \<times> cloud" where
  "device_revoke e owner_id session_id db =
     (case find (\<lambda>d. ds_id d = session_id \<and> ds_owner d = owner_id \<and> ds_revoked_at d = None
                     \<and> find_key ow_id (ds_owner d) (cl_owners db) \<noteq> None) (cl_sessions db) of
        None \<Rightarrow> (None, db)
      | Some d \<Rightarrow>
          (Some \<lparr>vd_device_name = ds_device_name d, vd_member_name = member_name db d,
                 vd_store_id = map_option sm_store (member_of db d)\<rparr>,
           revoke_tokens e (\<lambda>t. rt_session t = session_id)
             (revoke_sessions e (\<lambda>x. ds_id x = session_id \<and> ds_owner x = owner_id) db)))"

definition revoke_device :: "env \<Rightarrow> actor \<Rightarrow> uuid \<Rightarrow> unit action" where
  "revoke_device e owner session_id =
     bindS (transact (\<lambda>db. Inr (device_revoke e (ac_owner_id owner) session_id db))) (\<lambda>found.
     bindS (liftS (ok_or found (NotFound ''device''))) (\<lambda>revoked.
     bindS (modifyS forget_all) (\<lambda>_.
     noteS (audit_record e owner
       (entry_account e (vd_store_id revoked) DeviceSignedOut session_id
          (JObj [(''device'', JStr (vd_device_name revoked)),
                 (''name'', JStr (vd_member_name revoked))]))))))"

end
