(* ===== verification/Privacy.thy ===== *)
theory Privacy
  imports Cloud
begin

text \<open>
  \<^verbatim>\<open>backend/src/features/privacy\<close>: what an owner agreed to, the copy of everything held about
  them, deletion with its grace period, and the retention sweep.
\<close>

section \<open>Consent\<close>

datatype legal_document = PrivacyNotice | Terms

definition all_documents :: "legal_document list" where
  "all_documents = [PrivacyNotice, Terms]"

fun document_column :: "legal_document \<Rightarrow> string" where
  "document_column PrivacyNotice = ''privacy_notice''"
| "document_column Terms = ''terms''"

fun current_version :: "legal_document \<Rightarrow> string" where
  "current_version PrivacyNotice = ''2026-09-01''"
| "current_version Terms = ''2026-09-01''"

record consent_given =
  cg_document :: legal_document
  cg_version :: string
  cg_agreed_at :: instant

record required_consent =
  rc_document :: legal_document
  rc_version :: string

record deletion_state =
  dl_requested_at :: instant
  dl_deletes_at :: instant

record privacy_state =
  vs_agreed :: "consent_given list"
  vs_outstanding :: "required_consent list"
  vs_deletion :: "deletion_state option"

definition consent_record ::
  "env \<Rightarrow> uuid \<Rightarrow> legal_document \<Rightarrow> string \<Rightarrow> cloud \<Rightarrow> api_error + cloud" where
  "consent_record e owner_id document version db =
     (if list_ex (\<lambda>c. cn_owner c = owner_id \<and> cn_document c = document_column document
                      \<and> cn_version c = version) (cl_consents db)
      then Inr db
      else bindR (ensure (find_key ow_id owner_id (cl_owners db) \<noteq> None) Internal) (\<lambda>_.
           bindR (insert_row cn_id
             \<lparr>cn_id = new_id e db, cn_owner = owner_id, cn_document = document_column document,
              cn_version = version, cn_agreed_at = e_now e\<rparr> (cl_consents db)) (\<lambda>rows.
           Inr ((drawn db)\<lparr>cl_consents := rows\<rparr>))))"

definition document_of :: "string \<Rightarrow> legal_document option" where
  "document_of raw =
     (if raw = ''privacy_notice'' then Some PrivacyNotice
      else if raw = ''terms'' then Some Terms else None)"

text \<open>\<open>DISTINCT ON (document) .. ORDER BY document, agreed_at DESC\<close>: the newest row of each
  document.\<close>

definition newest :: "consent_row list \<Rightarrow> string \<Rightarrow> consent_row option" where
  "newest rows document =
     (case sort_key (\<lambda>c. - cn_agreed_at c) (filter (\<lambda>c. cn_document c = document) rows) of
        [] \<Rightarrow> None | c # _ \<Rightarrow> Some c)"

definition given_by :: "env \<Rightarrow> cloud \<Rightarrow> uuid \<Rightarrow> consent_given list" where
  "given_by e db owner_id =
     (let rows = filter (\<lambda>c. cn_owner c = owner_id) (cl_consents db);
          documents = sort_key (e_collate e) (remdups (map cn_document rows))
      in List.map_filter (\<lambda>raw. Option.bind (document_of raw) (\<lambda>document.
           map_option (\<lambda>c. \<lparr>cg_document = document, cg_version = cn_version c,
                            cg_agreed_at = cn_agreed_at c\<rparr>) (newest rows raw))) documents)"

definition check_registration_consent ::
  "string option \<Rightarrow> string option \<Rightarrow> api_error + unit" where
  "check_registration_consent privacy_version terms_version =
     (let refused = (\<lambda>d. BadRequest (document_column d @ '' version '' @ current_version d
                           @ '' must be agreed to''))
      in bindR (ensure (privacy_version = Some (current_version PrivacyNotice))
                  (refused PrivacyNotice)) (\<lambda>_.
         ensure (terms_version = Some (current_version Terms)) (refused Terms)))"

definition record_registration_consent :: "env \<Rightarrow> uuid \<Rightarrow> unit action" where
  "record_registration_consent e owner_id =
     bindS (execS (consent_record e owner_id PrivacyNotice (current_version PrivacyNotice))) (\<lambda>_.
     execS (consent_record e owner_id Terms (current_version Terms)))"

definition privacy_record ::
  "env \<Rightarrow> uuid \<Rightarrow> legal_document \<Rightarrow> string \<Rightarrow> unit action" where
  "privacy_record e owner_id document version =
     bindS (liftS (ensure (version = current_version document)
              (BadRequest ''that is not the version in force''))) (\<lambda>_.
     execS (consent_record e owner_id document version))"

section \<open>Deletion\<close>

definition request_deletion ::
  "env \<Rightarrow> uuid \<Rightarrow> duration \<Rightarrow> cloud \<Rightarrow> api_error + (deletion_state \<times> cloud)" where
  "request_deletion e owner_id grace db =
     (let mark = (\<lambda>r. r\<lparr>
            ow_deletion_requested_at := (case ow_deletion_requested_at r of
               None \<Rightarrow> Some (e_now e) | Some t \<Rightarrow> Some t),
            ow_delete_after := (case ow_delete_after r of
               None \<Rightarrow> Some (e_now e + grace) | Some t \<Rightarrow> Some t)\<rparr>)
      in bindR (ok_or (find_key ow_id owner_id (cl_owners db)) (error_of_sql RowNotFound)) (\<lambda>r.
         Inr (\<lparr>dl_requested_at = the (ow_deletion_requested_at (mark r)),
               dl_deletes_at = the (ow_delete_after (mark r))\<rparr>,
              db\<lparr>cl_owners := upd_where (\<lambda>r. ow_id r = owner_id) mark (cl_owners db)\<rparr>)))"

definition cancel_deletion :: "uuid \<Rightarrow> cloud \<Rightarrow> cloud" where
  "cancel_deletion owner_id db =
     db\<lparr>cl_owners := upd_where (\<lambda>r. ow_id r = owner_id)
          (\<lambda>r. r\<lparr>ow_deletion_requested_at := None, ow_delete_after := None\<rparr>) (cl_owners db)\<rparr>"

definition deletion_state_of :: "cloud \<Rightarrow> uuid \<Rightarrow> deletion_state option" where
  "deletion_state_of db owner_id =
     Option.bind (find_key ow_id owner_id (cl_owners db)) (\<lambda>r.
     Option.bind (ow_deletion_requested_at r) (\<lambda>requested.
     map_option (\<lambda>deletes. \<lparr>dl_requested_at = requested, dl_deletes_at = deletes\<rparr>)
       (ow_delete_after r)))"

definition privacy_state_of :: "env \<Rightarrow> cloud \<Rightarrow> uuid \<Rightarrow> privacy_state" where
  "privacy_state_of e db owner_id =
     (let agreed = given_by e db owner_id
      in \<lparr>vs_agreed = agreed,
          vs_outstanding = map (\<lambda>d. \<lparr>rc_document = d, rc_version = current_version d\<rparr>)
            (filter (\<lambda>d. \<not> list_ex (\<lambda>g. cg_document g = d \<and> cg_version g = current_version d)
                           agreed) all_documents),
          vs_deletion = deletion_state_of db owner_id\<rparr>)"

section \<open>The copy of an account\<close>

record account_export =
  ax_exported_at :: instant
  ax_account :: "owner_row option"
  ax_stores :: "store_row list"
  ax_staff :: "staff_row list"
  ax_devices :: "device_row list"
  ax_products :: "product_row list"
  ax_sales :: "(sale_row \<times> item_row list) list"
  ax_expenses :: "expense_row list"
  ax_withdrawals :: "withdrawal_row list"
  ax_movements :: "movement_row list"
  ax_activity :: "audit_row list"
  ax_consents :: "consent_row list"
  ax_payments :: "payment_row list"
  ax_reports :: "report_row list"

definition owned :: "cloud \<Rightarrow> uuid \<Rightarrow> uuid \<Rightarrow> bool" where
  "owned db owner_id store_id =
     list_ex (\<lambda>s. st_id s = store_id \<and> st_owner s = owner_id) (cl_stores db)"

text \<open>Columns the queries do not select are blanked: the password hash, a device's member, a
  payment's gateway reference, a crash report's fingerprint and stack.\<close>

definition export_account :: "env \<Rightarrow> cloud \<Rightarrow> uuid \<Rightarrow> account_export" where
  "export_account e db owner_id =
     (let b = cl_books db; mine = owned db owner_id
      in \<lparr>ax_exported_at = e_now e,
          ax_account = map_option (\<lambda>r. r\<lparr>ow_password_hash := []\<rparr>)
            (find_key ow_id owner_id (cl_owners db)),
          ax_stores = filter (\<lambda>s. st_owner s = owner_id) (cl_stores db),
          ax_staff = filter (\<lambda>r. mine (sm_store r)) (cl_staff db),
          ax_devices = map (\<lambda>d. d\<lparr>ds_staff := None\<rparr>)
            (filter (\<lambda>d. ds_owner d = owner_id) (cl_sessions db)),
          ax_products = filter (\<lambda>p. mine (p_store p)) (bk_products b),
          ax_sales = map (\<lambda>s. (s, filter (\<lambda>i. i_sale i = s_id s) (bk_items b)))
            (filter (\<lambda>s. mine (s_store s)) (bk_sales b)),
          ax_expenses = filter (\<lambda>x. mine (x_store x)) (bk_expenses b),
          ax_withdrawals = filter (\<lambda>w. mine (wd_store w)) (bk_withdrawals b),
          ax_movements = filter (\<lambda>m. mine (m_store m)) (bk_movements b),
          ax_activity = filter (\<lambda>a. ar_owner_id a = owner_id) (bk_audit b),
          ax_consents = filter (\<lambda>c. cn_owner c = owner_id) (cl_consents db),
          ax_payments = map (\<lambda>p. p\<lparr>py_reference := None\<rparr>)
            (filter (\<lambda>p. py_owner p = owner_id) (cl_payments db)),
          ax_reports = map (\<lambda>r. r\<lparr>er_fingerprint := [], er_stack := None\<rparr>)
            (filter (\<lambda>r. er_owner r = owner_id) (cl_reports db))\<rparr>)"

section \<open>The sweep\<close>

record retention_policy =
  rp_error_reports :: duration
  rp_activity :: duration
  rp_dormant_sessions :: duration

definition default_retention :: retention_policy where
  "default_retention =
     \<lparr>rp_error_reports = days 90, rp_activity = days 730, rp_dormant_sessions = days 365\<rparr>"

record sweep_result =
  sp_accounts_deleted :: nat
  sp_error_reports_deleted :: nat
  sp_activity_deleted :: nat
  sp_sessions_deleted :: nat

definition due :: "env \<Rightarrow> owner_row \<Rightarrow> bool" where
  "due e r = (case ow_delete_after r of None \<Rightarrow> False | Some t \<Rightarrow> t \<le> e_now e)"

definition owner_due :: "env \<Rightarrow> cloud \<Rightarrow> uuid \<Rightarrow> bool" where
  "owner_due e db owner_id = list_ex (\<lambda>r. ow_id r = owner_id \<and> due e r) (cl_owners db)"

definition store_due :: "env \<Rightarrow> cloud \<Rightarrow> uuid \<Rightarrow> bool" where
  "store_due e db store_id =
     list_ex (\<lambda>s. st_id s = store_id \<and> owner_due e db (st_owner s)) (cl_stores db)"

definition staff_due :: "env \<Rightarrow> cloud \<Rightarrow> uuid \<Rightarrow> bool" where
  "staff_due e db i = list_ex (\<lambda>r. sm_id r = i \<and> store_due e db (sm_store r)) (cl_staff db)"

definition session_due :: "env \<Rightarrow> cloud \<Rightarrow> uuid \<Rightarrow> bool" where
  "session_due e db i =
     list_ex (\<lambda>d. ds_id d = i \<and> (owner_due e db (ds_owner d)
        \<or> (case ds_staff d of None \<Rightarrow> False | Some m \<Rightarrow> staff_due e db m))) (cl_sessions db)"

definition accounting_of :: "env \<Rightarrow> payment_row \<Rightarrow> accounting_row" where
  "accounting_of e p =
     \<lparr>ac_id = py_id p, ac_plan = py_plan p, ac_months = py_months p, ac_amount = py_amount p,
      ac_currency = py_currency p, ac_provider = py_provider p, ac_reference = py_reference p,
      ac_paid_at = py_paid_at p, ac_retained_at = e_now e\<rparr>"

text \<open>\<open>ON DELETE CASCADE\<close> and \<open>SET NULL\<close>, followed from the owner rows that go: their stores and
  everything in them, subscriptions, payments, consents, sessions, tokens, crash reports and
  log. A sale or expense of a store that stays forgets a member that went.\<close>

definition unless :: "('k \<Rightarrow> bool) \<Rightarrow> 'k option \<Rightarrow> 'k option" where
  "unless gone x = (case x of None \<Rightarrow> None | Some k \<Rightarrow> if gone k then None else Some k)"

definition purge_books :: "env \<Rightarrow> cloud \<Rightarrow> books \<Rightarrow> books" where
  "purge_books e db b =
     (let gone = store_due e db; left = staff_due e db
      in b\<lparr>bk_products := filter (\<lambda>p. \<not> gone (p_store p)) (bk_products b),
           bk_movements := filter (\<lambda>m. \<not> gone (m_store m)) (bk_movements b),
           bk_items := filter (\<lambda>i. \<not> list_ex (\<lambda>s. s_id s = i_sale i \<and> gone (s_store s))
                                     (bk_sales b)) (bk_items b),
           bk_sales := map (\<lambda>s. s\<lparr>s_recorded_by := unless left (s_recorded_by s)\<rparr>)
             (filter (\<lambda>s. \<not> gone (s_store s)) (bk_sales b)),
           bk_expenses := map (\<lambda>x. x\<lparr>x_recorded_by := unless left (x_recorded_by x)\<rparr>)
             (filter (\<lambda>x. \<not> gone (x_store x)) (bk_expenses b)),
           bk_withdrawals := filter (\<lambda>w. \<not> gone (wd_store w)) (bk_withdrawals b),
           bk_audit := map (\<lambda>a. a\<lparr>ar_staff_id := unless left (ar_staff_id a)\<rparr>)
             (filter (\<lambda>a. \<not> (owner_due e db (ar_owner_id a)
                 \<or> (case ar_store_id a of None \<Rightarrow> False | Some s \<Rightarrow> gone s))) (bk_audit b))\<rparr>)"

definition purge_accounts :: "env \<Rightarrow> cloud \<Rightarrow> nat \<times> cloud" where
  "purge_accounts e db =
     (let kept = filter (\<lambda>p. py_status p = ''paid'' \<and> owner_due e db (py_owner p)
                        \<and> find_key ac_id (py_id p) (cl_accounting db) = None) (cl_payments db)
      in (length (filter (due e) (cl_owners db)),
          db\<lparr>cl_accounting := cl_accounting db @ map (accounting_of e) kept,
             cl_owners := filter (\<lambda>r. \<not> due e r) (cl_owners db),
             cl_stores := filter (\<lambda>s. \<not> owner_due e db (st_owner s)) (cl_stores db),
             cl_subscriptions := filter (\<lambda>r. \<not> owner_due e db (sb_owner r)) (cl_subscriptions db),
             cl_payments := filter (\<lambda>p. \<not> owner_due e db (py_owner p)) (cl_payments db),
             cl_staff := filter (\<lambda>r. \<not> store_due e db (sm_store r)) (cl_staff db),
             cl_invites := filter (\<lambda>i. \<not> staff_due e db (iv_staff i)) (cl_invites db),
             cl_sessions := filter (\<lambda>d. \<not> session_due e db (ds_id d)) (cl_sessions db),
             cl_tokens := filter (\<lambda>t. \<not> (owner_due e db (rt_owner t)
                            \<or> session_due e db (rt_session t))) (cl_tokens db),
             cl_consents := filter (\<lambda>c. \<not> owner_due e db (cn_owner c)) (cl_consents db),
             cl_reports := filter (\<lambda>r. \<not> owner_due e db (er_owner r)) (cl_reports db),
             cl_books := purge_books e db (cl_books db)\<rparr>))"

definition sweep :: "env \<Rightarrow> retention_policy \<Rightarrow> cloud \<Rightarrow> sweep_result \<times> cloud" where
  "sweep e policy db =
     (let (accounts, db1) = purge_accounts e db;
          old_report = (\<lambda>r. er_last_seen r < e_now e - rp_error_reports policy);
          old_entry = (\<lambda>a. ar_recorded_at a < e_now e - rp_activity policy);
          dormant = (\<lambda>d. ds_revoked_at d \<noteq> None
                         \<and> ds_last_seen_at d < e_now e - rp_dormant_sessions policy);
          dead = map ds_id (filter dormant (cl_sessions db1))
      in (\<lparr>sp_accounts_deleted = accounts,
           sp_error_reports_deleted = length (filter old_report (cl_reports db1)),
           sp_activity_deleted = length (filter old_entry (bk_audit (cl_books db1))),
           sp_sessions_deleted = length dead\<rparr>,
          db1\<lparr>cl_reports := filter (\<lambda>r. \<not> old_report r) (cl_reports db1),
              cl_sessions := filter (\<lambda>d. \<not> dormant d) (cl_sessions db1),
              cl_tokens := filter (\<lambda>t. rt_session t \<notin> set dead) (cl_tokens db1),
              cl_books := (cl_books db1)\<lparr>bk_audit :=
                filter (\<lambda>a. \<not> old_entry a) (bk_audit (cl_books db1))\<rparr>\<rparr>))"

end
