(* ===== verification/Throttle.thy ===== *)
theory Throttle
  imports Cloud
begin

text \<open>
  The fixed-window rate limiter in Redis (\<^verbatim>\<open>infrastructure/cache/rate_limiter.rs\<close>) and the
  crash reports it guards (\<^verbatim>\<open>features/diagnostics\<close>). \<open>limiter\<close> holds its settings and what
  Redis does with the next commands: whether there is a connection, whether INCR and EXPIRE
  get through. The limiter fails open.
\<close>

record limiter =
  lm_connected :: bool
  lm_incr_ok :: bool
  lm_expire_ok :: bool
  lm_limit :: int
  lm_window_seconds :: int

datatype rate_limit_verdict = Allowed | Exceeded

definition limit_key :: "string \<Rightarrow> string" where
  "limit_key bucket = ''kitaza:ratelimit:'' @ bucket"

text \<open>A key whose time has passed is gone.\<close>

definition live_count :: "instant \<Rightarrow> string \<Rightarrow> (string \<times> int \<times> instant option) list
    \<Rightarrow> (int \<times> instant option) option" where
  "live_count now key entries =
     (case find_key fst key entries of
        None \<Rightarrow> None
      | Some (_, n, expires) \<Rightarrow>
          if (case expires of None \<Rightarrow> True | Some t \<Rightarrow> now < t) then Some (n, expires) else None)"

definition put_count ::
  "string \<Rightarrow> int \<Rightarrow> instant option \<Rightarrow> (string \<times> int \<times> instant option) list
    \<Rightarrow> (string \<times> int \<times> instant option) list" where
  "put_count key n expires entries =
     (key, n, expires) # filter (\<lambda>x. fst x \<noteq> key) entries"

definition limit_check ::
  "env \<Rightarrow> limiter \<Rightarrow> string \<Rightarrow> server \<Rightarrow> rate_limit_verdict \<times> server" where
  "limit_check e lm bucket s =
     (if \<not> lm_connected lm \<or> \<not> lm_incr_ok lm then (Allowed, s)
      else
        let key = limit_key bucket;
            (before, expires) = (case live_count (e_now e) key (sv_attempts s) of
                None \<Rightarrow> (0, None) | Some x \<Rightarrow> x);
            attempts = before + 1;
            expires' = (if attempts = 1 \<and> lm_expire_ok lm
                        then Some (e_now e + lm_window_seconds lm * usec_per_second)
                        else expires);
            s' = s\<lparr>sv_attempts := put_count key attempts expires' (sv_attempts s)\<rparr>
        in (if attempts = 1 then Allowed
            else if lm_limit lm < attempts then Exceeded else Allowed, s'))"

definition limit_reset :: "limiter \<Rightarrow> string \<Rightarrow> server \<Rightarrow> server" where
  "limit_reset lm bucket s =
     (if lm_connected lm
      then s\<lparr>sv_attempts := filter (\<lambda>x. fst x \<noteq> limit_key bucket) (sv_attempts s)\<rparr> else s)"

definition checkS :: "env \<Rightarrow> limiter \<Rightarrow> string \<Rightarrow> rate_limit_verdict action" where
  "checkS e lm bucket s = (case limit_check e lm bucket s of (v, s') \<Rightarrow> (Inr v, s'))"

section \<open>Crash reports\<close>

record error_report_payload =
  ep_fingerprint :: string
  ep_error_type :: string
  ep_message :: string
  ep_stack :: "string option"
  ep_occurrences :: int
  ep_first_seen :: instant
  ep_last_seen :: instant
  ep_app_version :: string
  ep_platform :: string

definition length_issue ::
  "string \<Rightarrow> nat \<Rightarrow> nat \<Rightarrow> string \<Rightarrow> string \<Rightarrow> (string \<times> string option) list" where
  "length_issue field lo hi message value =
     (if lo \<le> length value \<and> length value \<le> hi then [] else [(field, Some message)])"

definition payload_issues :: "error_report_payload \<Rightarrow> (string \<times> string option) list" where
  "payload_issues p =
     length_issue ''fingerprint'' 1 32 ''is required'' (ep_fingerprint p)
     @ length_issue ''error_type'' 1 200 ''must be under 200 characters'' (ep_error_type p)
     @ length_issue ''message'' 0 2000 ''must be under 2000 characters'' (ep_message p)
     @ (case ep_stack p of None \<Rightarrow> []
        | Some v \<Rightarrow> length_issue ''stack'' 0 16000 ''must be under 16000 characters'' v)
     @ (if 1 \<le> ep_occurrences p \<and> ep_occurrences p \<le> 1000000 then []
        else [(''occurrences'', Some ''must be a positive count'')])
     @ length_issue ''app_version'' 1 64 ''is required'' (ep_app_version p)
     @ length_issue ''platform'' 1 128 ''is required'' (ep_platform p)"

definition report_issues :: "error_report_payload list \<Rightarrow> (string \<times> string option) list" where
  "report_issues reports =
     (if 1 \<le> length reports \<and> length reports \<le> 20 then []
      else [(''reports'', Some ''must hold between 1 and 20 reports'')])
     @ concat (map payload_issues reports)"

definition retention_days :: int where
  "retention_days = 90"

definition report_key :: "report_row \<Rightarrow> uuid \<times> string \<times> string" where
  "report_key r = (er_owner r, er_fingerprint r, er_app_version r)"

definition merge_report :: "report_row \<Rightarrow> report_row \<Rightarrow> report_row" where
  "merge_report old new =
     old\<lparr>er_occurrences := er_occurrences old + er_occurrences new,
         er_first_seen := min (er_first_seen old) (er_first_seen new),
         er_last_seen := max (er_last_seen old) (er_last_seen new),
         er_message_text := er_message_text new,
         er_stack := (case er_stack new of None \<Rightarrow> er_stack old | Some v \<Rightarrow> Some v),
         er_received_at := er_received_at new\<rparr>"

definition report_of :: "env \<Rightarrow> uuid \<Rightarrow> uuid \<Rightarrow> error_report_payload \<Rightarrow> report_row" where
  "report_of e i owner_id p =
     \<lparr>er_id = i, er_owner = owner_id, er_fingerprint = ep_fingerprint p,
      er_error_type = ep_error_type p, er_message_text = ep_message p, er_stack = ep_stack p,
      er_occurrences = ep_occurrences p, er_first_seen = ep_first_seen p,
      er_last_seen = ep_last_seen p, er_app_version = ep_app_version p,
      er_platform = ep_platform p, er_received_at = e_now e\<rparr>"

definition record_report ::
  "env \<Rightarrow> uuid \<Rightarrow> error_report_payload \<Rightarrow> cloud \<Rightarrow> cloud" where
  "record_report e owner_id p db =
     (drawn db)\<lparr>cl_reports := snd (upsert report_key (\<lambda>_ _. True) merge_report
        (report_of e (new_id e db) owner_id p) (cl_reports db))\<rparr>"

text \<open>The transaction of one request: every report, then the clean-up of the whole table. An
  owner who does not exist breaks the foreign key.\<close>

definition record_reports ::
  "env \<Rightarrow> uuid \<Rightarrow> error_report_payload list \<Rightarrow> cloud \<Rightarrow> api_error + cloud" where
  "record_reports e owner_id reports db =
     bindR (ensure (reports = [] \<or> find_key ow_id owner_id (cl_owners db) \<noteq> None) Internal) (\<lambda>_.
     let db1 = fold (record_report e owner_id) reports db
     in Inr (db1\<lparr>cl_reports :=
          filter (\<lambda>r. \<not> er_last_seen r < e_now e - days retention_days) (cl_reports db1)\<rparr>))"

definition report_errors ::
  "env \<Rightarrow> limiter \<Rightarrow> uuid \<Rightarrow> string + error_report_payload list \<Rightarrow> nat action" where
  "report_errors e lm owner_id body =
     bindS (liftS (validated_json body report_issues)) (\<lambda>reports.
     bindS (checkS e lm (''diagnostics:'' @ e_uuid_text e owner_id)) (\<lambda>verdict.
     if verdict = Exceeded then liftS (Inl TooManyRequests)
     else bindS (execS (record_reports e owner_id reports)) (\<lambda>_. liftS (Inr (length reports)))))"

section \<open>One window\<close>

lemma find_put_count:
  "find_key fst k (put_count key n x entries) =
     (if k = key then Some (key, n, x) else find_key fst k entries)"
proof -
  have "find (\<lambda>x. fst x = k) (filter (\<lambda>x. fst x \<noteq> key) entries) = find (\<lambda>x. fst x = k) entries"
    if "k \<noteq> key"
    using that by (induction entries) auto
  then show ?thesis by (auto simp: find_key_def put_count_def)
qed

lemma limit_key_inj [simp]: "limit_key a = limit_key b \<longleftrightarrow> a = b"
  by (simp add: limit_key_def)

lemma live_count_put:
  "live_count now (limit_key b) (put_count (limit_key c) n x entries) =
     (if b = c then (if (case x of None \<Rightarrow> True | Some t \<Rightarrow> now < t) then Some (n, x) else None)
      else live_count now (limit_key b) entries)"
  by (simp add: live_count_def find_put_count)

lemma live_count_other:
  "c \<noteq> b \<Longrightarrow> live_count now (limit_key c) (sv_attempts (snd (limit_check e lm b s)))
     = live_count now (limit_key c) (sv_attempts s)"
  by (simp add: limit_check_def live_count_put Let_def split: prod.split)

text \<open>The checks of one bucket at a list of moments.\<close>

fun checks ::
  "(instant \<Rightarrow> env) \<Rightarrow> limiter \<Rightarrow> string \<Rightarrow> instant list \<Rightarrow> server \<Rightarrow> rate_limit_verdict list" where
  "checks clock lm b [] s = []"
| "checks clock lm b (t # ts) s =
     (case limit_check (clock t) lm b s of (v, s') \<Rightarrow> v # checks clock lm b ts s')"

lemma checks_counted:
  assumes "lm_connected lm" "lm_incr_ok lm" "\<And>t. e_now (clock t) = t" "1 \<le> n"
    and "find_key fst (limit_key b) (sv_attempts s) = Some (limit_key b, n, Some x)"
    and "\<forall>t \<in> set ts. t < x"
  shows "checks clock lm b ts s
    = map (\<lambda>i. if lm_limit lm < n + int i + 1 then Exceeded else Allowed) [0..<length ts]"
  using assms(4-6)
proof (induction ts arbitrary: s n)
  case (Cons t ts)
  let ?s = "snd (limit_check (clock t) lm b s)"
  have verdict: "fst (limit_check (clock t) lm b s)
      = (if lm_limit lm < n + 1 then Exceeded else Allowed)"
    and stored: "find_key fst (limit_key b) (sv_attempts ?s) = Some (limit_key b, n + 1, Some x)"
    using Cons.prems assms(1-3)
    by (simp_all add: limit_check_def live_count_def find_put_count Let_def)
  have "checks clock lm b ts ?s
      = map (\<lambda>i. if lm_limit lm < (n + 1) + int i + 1 then Exceeded else Allowed) [0..<length ts]"
    by (rule Cons.IH) (use Cons.prems stored in auto)
  then show ?case
    using verdict
    by (simp add: case_prod_beta upt_conv_Cons map_Suc_upt[symmetric] o_def algebra_simps
        del: upt_Suc)
qed simp

end
