(* ===== verification/Identity.thy ===== *)
theory Identity
  imports Staff Privacy Throttle
begin

text \<open>
  \<^verbatim>\<open>backend/src/features/authentication\<close>: registering, signing in, joining as staff,
  exchanging a refresh token, signing out, and the account a session sees. Each step of a service
  is a statement of its own, so an action that fails keeps what it wrote before.
\<close>

section \<open>Payloads\<close>

text \<open>\<open>ae_email_ok\<close> is validator's e-mail check, and the rest of \<open>auth_env\<close> what the service holds.\<close>

record auth_env =
  ae_email_ok :: "string \<Rightarrow> bool"
  ae_crypto :: crypto
  ae_security :: security
  ae_limiter :: limiter
  ae_billing :: billing_settings
  ae_refresh_lifetime :: duration

record register_request =
  rg_email :: string
  rg_password :: string
  rg_full_name :: string
  rg_store_name :: string
  rg_business_type :: "string option"
  rg_device_tag :: "string option"
  rg_device_name :: "string option"
  rg_privacy_version :: "string option"
  rg_terms_version :: "string option"

record login_request =
  lg_email :: string
  lg_password :: string
  lg_device_tag :: "string option"
  lg_device_name :: "string option"

record join_request =
  jn_code :: string
  jn_device_tag :: "string option"
  jn_device_name :: "string option"

definition email_issue :: "auth_env \<Rightarrow> string \<Rightarrow> (string \<times> string option) list" where
  "email_issue ae v =
     (if ae_email_ok ae v then [] else [(''email'', Some ''must be a valid email address'')])"

definition device_issue :: "string option \<Rightarrow> (string \<times> string option) list" where
  "device_issue v = (case v of None \<Rightarrow> []
     | Some d \<Rightarrow> length_issue ''device_name'' 0 80 ''must be at most 80 characters'' d)"

definition register_issues ::
  "auth_env \<Rightarrow> register_request \<Rightarrow> (string \<times> string option) list" where
  "register_issues ae r =
     email_issue ae (rg_email r)
     @ (if 8 \<le> length (rg_password r) then []
        else [(''password'', Some ''must be at least 8 characters'')])
     @ length_issue ''full_name'' 2 80 ''must be between 2 and 80 characters'' (rg_full_name r)
     @ length_issue ''store_name'' 2 80 ''must be between 2 and 80 characters'' (rg_store_name r)
     @ device_issue (rg_device_name r)"

definition login_issues :: "auth_env \<Rightarrow> login_request \<Rightarrow> (string \<times> string option) list" where
  "login_issues ae r =
     email_issue ae (lg_email r)
     @ (if lg_password r = [] then [(''password'', Some ''is required'')] else [])
     @ device_issue (lg_device_name r)"

definition join_issues :: "join_request \<Rightarrow> (string \<times> string option) list" where
  "join_issues r =
     length_issue ''code'' 1 32 ''is required'' (jn_code r) @ device_issue (jn_device_name r)"

definition refresh_issues :: "string \<Rightarrow> (string \<times> string option) list" where
  "refresh_issues token =
     (if token = [] then [(''refresh_token'', Some ''is required'')] else [])"

datatype member_role = RoleOwner | RoleStaff

record access_summary =
  as_role :: member_role
  as_staff_id :: "uuid option"
  as_display_name :: string
  as_permissions :: "permission list"

definition access_of :: "actor \<Rightarrow> access_summary" where
  "access_of a =
     \<lparr>as_role = (if is_owner a then RoleOwner else RoleStaff), as_staff_id = staff_id a,
      as_display_name = ac_name a, as_permissions = permissions_to_list (actor_permissions a)\<rparr>"

record owner_profile =
  op_id :: uuid
  op_email :: "string option"
  op_full_name :: string

record account_view =
  av_owner :: owner_profile
  av_stores :: "store_summary list"
  av_access :: access_summary
  av_subscription :: subscription_summary

record authenticated_session =
  ah_access_token :: string
  ah_refresh_token :: string
  ah_expires_in_seconds :: int
  ah_session_id :: uuid
  ah_account :: account_view

section \<open>Repository\<close>

definition find_owner_by_email :: "cloud \<Rightarrow> string \<Rightarrow> owner_row option" where
  "find_owner_by_email db email =
     find (\<lambda>r. to_lowercase (ow_email r) = to_lowercase email) (cl_owners db)"

definition find_owner_by_id :: "cloud \<Rightarrow> uuid \<Rightarrow> owner_row option" where
  "find_owner_by_id db owner_id = find_key ow_id owner_id (cl_owners db)"

text \<open>One transaction: the owner (the index on \<open>lower(email)\<close> admits one per address), the first
  store and the trial.\<close>

definition create_owner_with_store ::
  "env \<Rightarrow> string \<Rightarrow> string \<Rightarrow> string \<Rightarrow> string \<Rightarrow> string \<Rightarrow> instant \<Rightarrow> cloud
    \<Rightarrow> api_error + (owner_row \<times> cloud)" where
  "create_owner_with_store e email password_hash full_name store_name business_type trial_ends db =
     (let owner = \<lparr>ow_id = new_id e db, ow_email = to_lowercase email,
                   ow_password_hash = password_hash, ow_full_name = full_name,
                   ow_created_at = e_now e, ow_deletion_requested_at = None,
                   ow_delete_after = None\<rparr>
      in bindR (ensure (find_owner_by_email db (ow_email owner) = None) Internal) (\<lambda>_.
         bindR (insert_row ow_id owner (cl_owners db)) (\<lambda>owners.
         let db1 = (drawn db)\<lparr>cl_owners := owners\<rparr>
         in bindR (insert_store (new_store e (new_id e db1) (ow_id owner) store_name business_type)
                     (drawn db1)) (\<lambda>db2.
            bindR (insert_row sb_owner
               \<lparr>sb_owner = ow_id owner, sb_plan = ''pro'', sb_trial_ends_at = Some trial_ends,
                sb_paid_through = None, sb_updated_at = e_now e\<rparr>
               (cl_subscriptions db2)) (\<lambda>subs.
            Inr (owner, db2\<lparr>cl_subscriptions := subs\<rparr>))))))"

definition list_stores :: "cloud \<Rightarrow> uuid \<Rightarrow> store_row list" where
  "list_stores db owner_id =
     sort_key st_created_at (filter (\<lambda>s. st_owner s = owner_id) (cl_stores db))"

definition find_store :: "cloud \<Rightarrow> uuid \<Rightarrow> store_row option" where
  "find_store db store_id = find_key st_id store_id (cl_stores db)"

definition open_session ::
  "env \<Rightarrow> uuid \<Rightarrow> uuid option \<Rightarrow> string \<Rightarrow> cloud \<Rightarrow> api_error + (uuid \<times> cloud)" where
  "open_session e owner_id member device db =
     (let row = \<lparr>ds_id = new_id e db, ds_owner = owner_id, ds_staff = member,
                 ds_device_name = device, ds_created_at = e_now e, ds_last_seen_at = e_now e,
                 ds_revoked_at = None\<rparr>
      in bindR (ensure (find_key ow_id owner_id (cl_owners db) \<noteq> None
                  \<and> (case member of None \<Rightarrow> True
                     | Some m \<Rightarrow> find_key sm_id m (cl_staff db) \<noteq> None)) Internal) (\<lambda>_.
         bindR (insert_row ds_id row (cl_sessions db)) (\<lambda>rows.
         Inr (ds_id row, (drawn db)\<lparr>cl_sessions := rows\<rparr>))))"

definition touch_session :: "env \<Rightarrow> uuid \<Rightarrow> cloud \<Rightarrow> cloud" where
  "touch_session e session_id db =
     db\<lparr>cl_sessions := upd_where (\<lambda>d. ds_id d = session_id)
          (\<lambda>d. d\<lparr>ds_last_seen_at := e_now e\<rparr>) (cl_sessions db)\<rparr>"

definition store_refresh_token ::
  "env \<Rightarrow> uuid \<Rightarrow> uuid \<Rightarrow> string \<Rightarrow> instant \<Rightarrow> cloud \<Rightarrow> api_error + cloud" where
  "store_refresh_token e owner_id session_id token_hash expires_at db =
     bindR (ensure (find_key ow_id owner_id (cl_owners db) \<noteq> None
        \<and> find_key ds_id session_id (cl_sessions db) \<noteq> None
        \<and> (\<forall>t \<in> set (cl_tokens db). rt_hash t \<noteq> token_hash)) Internal) (\<lambda>_.
     bindR (insert_row rt_id
        \<lparr>rt_id = new_id e db, rt_owner = owner_id, rt_session = session_id, rt_hash = token_hash,
         rt_expires_at = expires_at, rt_revoked_at = None, rt_rotated_at = None\<rparr>
        (cl_tokens db)) (\<lambda>rows.
     Inr ((drawn db)\<lparr>cl_tokens := rows\<rparr>)))"

record refresh_token_record =
  tr_owner_id :: uuid
  tr_session_id :: uuid
  tr_staff_id :: "uuid option"
  tr_expires_at :: instant
  tr_revoked_at :: "instant option"
  tr_rotated_at :: "instant option"
  tr_session_live :: bool
  tr_staff_live :: bool

definition find_refresh_token :: "cloud \<Rightarrow> string \<Rightarrow> refresh_token_record option" where
  "find_refresh_token db token_hash =
     Option.bind (find_key rt_hash token_hash (cl_tokens db)) (\<lambda>t.
     map_option (\<lambda>d. \<lparr>tr_owner_id = rt_owner t, tr_session_id = rt_session t,
         tr_staff_id = ds_staff d, tr_expires_at = rt_expires_at t,
         tr_revoked_at = rt_revoked_at t, tr_rotated_at = rt_rotated_at t,
         tr_session_live = (ds_revoked_at d = None),
         tr_staff_live = (case member_of db d of None \<Rightarrow> True
            | Some st \<Rightarrow> sm_removed_at st = None)\<rparr>)
       (find_key ds_id (rt_session t) (cl_sessions db)))"

definition mark_rotated :: "env \<Rightarrow> string \<Rightarrow> cloud \<Rightarrow> cloud" where
  "mark_rotated e token_hash db =
     db\<lparr>cl_tokens := upd_where (\<lambda>t. rt_hash t = token_hash \<and> rt_rotated_at t = None)
          (\<lambda>t. t\<lparr>rt_rotated_at := Some (e_now e)\<rparr>) (cl_tokens db)\<rparr>"

text \<open>One statement: the token's session if it is live, and that session's live tokens.\<close>

definition end_session_for_token :: "env \<Rightarrow> string \<Rightarrow> cloud \<Rightarrow> cloud" where
  "end_session_for_token e token_hash db =
     (case find_key rt_hash token_hash (cl_tokens db) of
        None \<Rightarrow> db
      | Some t \<Rightarrow>
          let ended = filter (\<lambda>d. ds_id d = rt_session t \<and> ds_revoked_at d = None) (cl_sessions db)
          in revoke_tokens e (\<lambda>x. rt_session x \<in> ds_id ` set ended)
               (revoke_sessions e (\<lambda>d. ds_id d = rt_session t) db))"

definition dead_token :: "env \<Rightarrow> token_row \<Rightarrow> bool" where
  "dead_token e t \<longleftrightarrow>
     rt_expires_at t < e_now e
     \<or> (case rt_revoked_at t of None \<Rightarrow> False | Some r \<Rightarrow> r < e_now e - days 7)
     \<or> (case rt_rotated_at t of None \<Rightarrow> False | Some r \<Rightarrow> r < e_now e - days 7)"

definition purge_dead_sessions :: "env \<Rightarrow> uuid \<Rightarrow> cloud \<Rightarrow> cloud" where
  "purge_dead_sessions e owner_id db =
     (let tokens = filter (\<lambda>t. \<not> (rt_owner t = owner_id \<and> dead_token e t)) (cl_tokens db)
      in db\<lparr>cl_tokens := tokens,
            cl_sessions := filter (\<lambda>d. \<not> (ds_owner d = owner_id
               \<and> ds_created_at d < e_now e - days 1
               \<and> \<not> list_ex (\<lambda>t. rt_session t = ds_id d) tokens)) (cl_sessions db)\<rparr>)"

section \<open>Service\<close>

definition rotation_grace :: duration where
  "rotation_grace = hours 24"

definition unknown_device :: string where
  "unknown_device = ''Unknown device''"

definition invalid_credentials :: api_error where
  "invalid_credentials = Unauthorized ''email or password is incorrect''"

definition sign_in_again :: api_error where
  "sign_in_again = Unauthorized ''please sign in again''"

definition device_label :: "string option \<Rightarrow> string option \<Rightarrow> string" where
  "device_label name tag =
     (case (case name of Some n \<Rightarrow> Some n | None \<Rightarrow> tag) of
        None \<Rightarrow> unknown_device
      | Some v \<Rightarrow> let d = take 80 (trim v) in if d = [] then unknown_device else d)"

definition account_of :: "env \<Rightarrow> auth_env \<Rightarrow> actor \<Rightarrow> cloud \<Rightarrow> api_error + account_view" where
  "account_of e ae actor db =
     bindR (ok_or (find_owner_by_id db (ac_owner_id actor)) (NotFound ''account'')) (\<lambda>owner.
     let (email, stores) = (case ac_staff actor of
           None \<Rightarrow> (Some (ow_email owner), list_stores db (ow_id owner))
         | Some grant \<Rightarrow> (None, (case find_store db (sg_store_id grant) of
               None \<Rightarrow> [] | Some s \<Rightarrow> [s])))
     in Inr \<lparr>av_owner = \<lparr>op_id = ow_id owner, op_email = email, op_full_name = ow_full_name owner\<rparr>,
             av_stores = map to_summary stores, av_access = access_of actor,
             av_subscription = billing_summary e (ae_billing ae) (ac_subscription actor)\<rparr>)"

text \<open>\<open>issue\<close>: an access token, a fresh refresh token stored by its digest, and the account.\<close>

definition issue_session :: "env \<Rightarrow> auth_env \<Rightarrow> actor \<Rightarrow> authenticated_session action" where
  "issue_session e ae actor =
     bindS (liftS (issue_access_token e (ae_security ae) (ac_owner_id actor)
              (ac_session_id actor))) (\<lambda>access_token.
     bindS (getS (\<lambda>s. cy_token (ae_crypto ae) (bk_drawn (cl_books (sv_db s))))) (\<lambda>refresh_token.
     bindS (execS (store_refresh_token e (ac_owner_id actor) (ac_session_id actor)
              (cy_sha256 (ae_crypto ae) refresh_token) (e_now e + ae_refresh_lifetime ae))) (\<lambda>_.
     bindS (readS (account_of e ae actor)) (\<lambda>account.
     liftS (Inr \<lparr>ah_access_token = access_token, ah_refresh_token = refresh_token,
        ah_expires_in_seconds = access_lifetime_seconds (ae_security ae),
        ah_session_id = ac_session_id actor, ah_account = account\<rparr>)))))"

definition actor_for :: "env \<Rightarrow> uuid \<Rightarrow> actor action" where
  "actor_for e session_id =
     bindS (resolve e session_id) (\<lambda>found. liftS (ok_or found Internal))"

definition open_owner_session ::
  "env \<Rightarrow> auth_env \<Rightarrow> owner_row \<Rightarrow> string \<Rightarrow> authenticated_session action" where
  "open_owner_session e ae owner device =
     bindS (transact (open_session e (ow_id owner) None device)) (\<lambda>session_id.
     bindS (actor_for e session_id) (\<lambda>actor. issue_session e ae actor))"

definition register ::
  "env \<Rightarrow> auth_env \<Rightarrow> register_request \<Rightarrow> authenticated_session action" where
  "register e ae request =
     bindS (liftS (check_registration_consent (rg_privacy_version request)
              (rg_terms_version request))) (\<lambda>_.
     let email = to_lowercase (trim (rg_email request))
     in bindS (readS (\<lambda>db. ensure (find_owner_by_email db email = None)
                 (Conflict ''an account already uses this email address''))) (\<lambda>_.
        bindS (liftS (ok_or (cy_hash (ae_crypto ae) (rg_password request)) Internal))
          (\<lambda>password_hash.
        bindS (transact (create_owner_with_store e email password_hash
                 (trim (rg_full_name request)) (trim (rg_store_name request))
                 (case rg_business_type request of None \<Rightarrow> default_business_type | Some t \<Rightarrow> t)
                 (e_now e + bs_trial (ae_billing ae)))) (\<lambda>owner.
        bindS (record_registration_consent e (ow_id owner)) (\<lambda>_.
        open_owner_session e ae owner
          (device_label (rg_device_name request) (rg_device_tag request)))))))"

definition login :: "env \<Rightarrow> auth_env \<Rightarrow> login_request \<Rightarrow> authenticated_session action" where
  "login e ae request =
     (let email = to_lowercase (trim (lg_email request)); bucket = ''login:'' @ email
      in bindS (checkS e (ae_limiter ae) bucket) (\<lambda>verdict.
         if verdict = Exceeded then liftS (Inl TooManyRequests)
         else bindS (readS (\<lambda>db. ok_or (find_owner_by_email db email) invalid_credentials))
           (\<lambda>owner.
         bindS (liftS (ensure (cy_verify (ae_crypto ae) (lg_password request)
                         (ow_password_hash owner)) invalid_credentials)) (\<lambda>_.
         bindS (modifyS (limit_reset (ae_limiter ae) bucket)) (\<lambda>_.
         bindS (modifyS (with_db (purge_dead_sessions e (ow_id owner)))) (\<lambda>_.
         open_owner_session e ae owner
           (device_label (lg_device_name request) (lg_device_tag request))))))))"

definition join :: "env \<Rightarrow> auth_env \<Rightarrow> join_request \<Rightarrow> authenticated_session action" where
  "join e ae request =
     (let code_hash = code_fingerprint (ae_crypto ae) (jn_code request)
      in bindS (readS (\<lambda>db. case owner_of_code e db code_hash of
             None \<Rightarrow> Inr ()
           | Some owner_id \<Rightarrow> check_staff e (ae_billing ae) (subscription db owner_id))) (\<lambda>_.
         bindS (transact (redeem e code_hash)) (\<lambda>found.
         bindS (liftS (ok_or found (Unauthorized ''this code is not valid or has expired'')))
           (\<lambda>redeemed.
         bindS (transact (open_session e (rd_owner_id redeemed) (Some (sm_id (rd_staff redeemed)))
                  (device_label (jn_device_name request) (jn_device_tag request))))
           (\<lambda>session_id.
         bindS (actor_for e session_id) (\<lambda>actor.
         bindS (noteS (audit_record e actor
                  (entry_new e (sm_store (rd_staff redeemed)) StaffJoined
                     (sm_id (rd_staff redeemed))
                     (JObj [(''name'', JStr (ac_name actor)),
                            (''device'', JStr (ac_device_name actor))])))) (\<lambda>_.
         issue_session e ae actor)))))))"

definition token_usable :: "env \<Rightarrow> refresh_token_record \<Rightarrow> bool" where
  "token_usable e r \<longleftrightarrow>
     tr_revoked_at r = None \<and> e_now e < tr_expires_at r
     \<and> (case tr_rotated_at r of None \<Rightarrow> True | Some t \<Rightarrow> e_now e < t + rotation_grace)
     \<and> tr_session_live r \<and> tr_staff_live r"

definition refresh :: "env \<Rightarrow> auth_env \<Rightarrow> string \<Rightarrow> authenticated_session action" where
  "refresh e ae refresh_token =
     (let token_hash = cy_sha256 (ae_crypto ae) refresh_token
      in bindS (readS (\<lambda>db. ok_or (find_refresh_token db token_hash) sign_in_again)) (\<lambda>r.
         bindS (liftS (ensure (token_usable e r) sign_in_again)) (\<lambda>_.
         bindS (modifyS (with_db (mark_rotated e token_hash))) (\<lambda>_.
         bindS (modifyS (with_db (touch_session e (tr_session_id r)))) (\<lambda>_.
         bindS (resolve e (tr_session_id r)) (\<lambda>found.
         bindS (liftS (ok_or found sign_in_again)) (\<lambda>actor.
         issue_session e ae actor)))))))"

definition logout :: "env \<Rightarrow> auth_env \<Rightarrow> string \<Rightarrow> unit action" where
  "logout e ae refresh_token =
     bindS (modifyS (with_db (end_session_for_token e (cy_sha256 (ae_crypto ae) refresh_token))))
       (\<lambda>_. modifyS forget_all)"

section \<open>Handlers\<close>

definition handle_register ::
  "env \<Rightarrow> auth_env \<Rightarrow> string + register_request \<Rightarrow> authenticated_session action" where
  "handle_register e ae body =
     bindS (liftS (validated_json body (register_issues ae))) (register e ae)"

definition handle_login ::
  "env \<Rightarrow> auth_env \<Rightarrow> string + login_request \<Rightarrow> authenticated_session action" where
  "handle_login e ae body = bindS (liftS (validated_json body (login_issues ae))) (login e ae)"

definition handle_join ::
  "env \<Rightarrow> auth_env \<Rightarrow> string + join_request \<Rightarrow> authenticated_session action" where
  "handle_join e ae body = bindS (liftS (validated_json body join_issues)) (join e ae)"

definition handle_refresh ::
  "env \<Rightarrow> auth_env \<Rightarrow> string + string \<Rightarrow> authenticated_session action" where
  "handle_refresh e ae body = bindS (liftS (validated_json body refresh_issues)) (refresh e ae)"

definition handle_logout :: "env \<Rightarrow> auth_env \<Rightarrow> string + string \<Rightarrow> unit action" where
  "handle_logout e ae body = bindS (liftS (validated_json body refresh_issues)) (logout e ae)"

end
