(* ===== verification/Requests.thy ===== *)
theory Requests
  imports Identity
begin

text \<open>
  A server at work: \<open>served\<close> is one request of the account features answered, any change of the
  books, a sweep or a restart, and \<open>serving\<close> the states a server can reach. What every request
  keeps is proved once, in the locale \<open>account_tables\<close>, from what the single statements keep: its
  client names a property of the tables and one of what the session directory remembers.
\<close>

section \<open>Requests\<close>

text \<open>One request, whatever it is asked and whoever asks, with whatever clock, gateway and
  randomness; anything the bookkeeping features do to the books; a sweep; a restart, which
  forgets what the process remembered.\<close>

inductive served :: "auth_env \<Rightarrow> calendar \<Rightarrow> env \<Rightarrow> server \<Rightarrow> server \<Rightarrow> bool" for ae cal where
  register: "served ae cal e s (snd (handle_register e ae rg s))"
| login: "served ae cal e s (snd (handle_login e ae lg s))"
| join: "served ae cal e s (snd (handle_join e ae jn s))"
| refresh: "served ae cal e s (snd (handle_refresh e ae tk s))"
| logout: "served ae cal e s (snd (handle_logout e ae tk s))"
| current: "served ae cal e s (snd (current_actor e (ae_security ae) header s))"
| scope: "served ae cal e s (snd (store_scope e (ae_security ae) (ae_billing ae) parts s))"
| create_store: "served ae cal e s (snd (create_store e (ae_billing ae) actor cs s))"
| update_store: "served ae cal e s (snd (update_store e actor i us s))"
| list_staff: "served ae cal e s (snd (handle_list_staff e i actor s))"
| add_staff: "served ae cal e s (snd (handle_add_staff e (ae_crypto ae) (ae_billing ae) i actor fr s))"
| update_staff: "served ae cal e s (snd (handle_update_staff e i actor j fr s))"
| remove_staff: "served ae cal e s (snd (handle_remove_staff e i actor j s))"
| reinvite: "served ae cal e s
    (snd (handle_reinvite_staff e (ae_crypto ae) (ae_billing ae) i actor j s))"
| revoke_device: "served ae cal e s (snd (revoke_device e actor i s))"
| checkout: "served ae cal e s (snd (handle_checkout e ge (ae_billing ae) actor cb s))"
| webhook: "served ae cal e s (snd (handle_webhook e cal ge (ae_billing ae) h raw s))"
| pay_test: "served ae cal e s (snd (pay_test_checkout e cal (ae_billing ae) i s))"
| consent: "served ae cal e s (snd (privacy_record e i d v s))"
| request_deletion: "served ae cal e s (snd (transact (request_deletion e i g) s))"
| cancel_deletion: "served ae cal e s (snd (modifyS (with_db (cancel_deletion i)) s))"
| report: "served ae cal e s (snd (report_errors e lm i rp s))"
| sweep: "served ae cal e s (snd (transact (\<lambda>db. Inr (sweep e policy db)) s))"
| bookkeeping: "served ae cal e s (with_db (with_books f) s)"
| restart: "served ae cal e s (s\<lparr>sv_remembered := [], sv_confirmed := {}\<rparr>)"

inductive serving :: "auth_env \<Rightarrow> calendar \<Rightarrow> server \<Rightarrow> bool" for ae cal where
  boot: "serving ae cal \<lparr>sv_db = empty_cloud, sv_remembered = [], sv_confirmed = {},
           sv_attempts = []\<rparr>"
| serve: "serving ae cal s \<Longrightarrow> served ae cal e s s' \<Longrightarrow> serving ae cal s'"

text \<open>What the server can have become since it was \<open>s\<close>, every request along the way having met an
  outside world with \<open>good\<close>.\<close>

inductive serves_on :: "auth_env \<Rightarrow> calendar \<Rightarrow> (env \<Rightarrow> bool) \<Rightarrow> server \<Rightarrow> server \<Rightarrow> bool"
  for ae cal good s where
  now: "serves_on ae cal good s s"
| onward: "serves_on ae cal good s s1 \<Longrightarrow> served ae cal e s1 s2 \<Longrightarrow> good e
    \<Longrightarrow> serves_on ae cal good s s2"

section \<open>What every request keeps\<close>

named_theorems keeps_accounts

lemma keeps_if [intro]:
  "preserves I m \<Longrightarrow> preserves I m' \<Longrightarrow> preserves I (if c then m else m')"
  by simp

lemma keeps_option [intro]:
  "preserves I m \<Longrightarrow> (\<And>x. preserves I (f x)) \<Longrightarrow> preserves I (case v of None \<Rightarrow> m | Some x \<Rightarrow> f x)"
  by (cases v) simp_all

lemmas keeps_rules = preserves_bindS preserves_liftS preserves_getS preserves_readS keeps_if
  keeps_option

locale account_tables =
  fixes J :: "cloud \<Rightarrow> bool"
    and E :: "uuid \<times> instant \<times> actor option \<Rightarrow> bool"
    and good :: "env \<Rightarrow> bool"
  assumes remembers: "J db \<Longrightarrow> E (i, t, who_is db i)"
    and books [simp]: "J (with_books f db) = J db"
    and J_open_payment: "good e \<Longrightarrow> open_payment e i o' pl mth c pr db = Inr db' \<Longrightarrow> J db \<Longrightarrow> J db'"
    and J_set_reference: "set_reference i ref db = Inr db' \<Longrightarrow> J db \<Longrightarrow> J db'"
    and J_confirm_payment: "good e \<Longrightarrow> confirm_payment e cal ref me db = (paid, db') \<Longrightarrow> J db \<Longrightarrow> J db'"
    and J_insert_store: "insert_store r db = Inr db' \<Longrightarrow> J db \<Longrightarrow> J db'"
    and J_change_store: "good e \<Longrightarrow> J db \<Longrightarrow> J (db\<lparr>cl_stores :=
      upd_where (\<lambda>r. st_id r = i) (change_store e us) (cl_stores db)\<rparr>)"
    and J_staff_create: "good e \<Longrightarrow> staff_create e i n ps db = Inr (m, db') \<Longrightarrow> J db \<Longrightarrow> J db'"
    and J_staff_update: "good e \<Longrightarrow> staff_update e i j n' ps' db = (changed, db') \<Longrightarrow> J db \<Longrightarrow> J db'"
    and J_staff_remove: "good e \<Longrightarrow> staff_remove e i j db = (changed, db') \<Longrightarrow> J db \<Longrightarrow> J db'"
    and J_replace_invite: "good e \<Longrightarrow> replace_invite e j h t' db = Inr db' \<Longrightarrow> J db \<Longrightarrow> J db'"
    and J_redeem: "good e \<Longrightarrow> redeem e h db = Inr (rd, db') \<Longrightarrow> J db \<Longrightarrow> J db'"
    and J_device_revoke: "good e \<Longrightarrow> device_revoke e o' i db = (dn, db') \<Longrightarrow> J db \<Longrightarrow> J db'"
    and J_create_owner: "good e
      \<Longrightarrow> create_owner_with_store e email h n sn bt trial db = Inr (ow, db') \<Longrightarrow> J db \<Longrightarrow> J db'"
    and J_open_session: "good e \<Longrightarrow> open_session e o' member n db = Inr (i', db') \<Longrightarrow> J db \<Longrightarrow> J db'"
    and J_touch_session: "good e \<Longrightarrow> J db \<Longrightarrow> J (touch_session e i db)"
    and J_purge_dead: "good e \<Longrightarrow> J db \<Longrightarrow> J (purge_dead_sessions e o' db)"
    and J_store_refresh_token: "good e \<Longrightarrow> store_refresh_token e o' i h t' db = Inr db' \<Longrightarrow> J db \<Longrightarrow> J db'"
    and J_mark_rotated: "good e \<Longrightarrow> J db \<Longrightarrow> J (mark_rotated e h db)"
    and J_end_session: "good e \<Longrightarrow> J db \<Longrightarrow> J (end_session_for_token e h db)"
    and J_consent_record: "good e \<Longrightarrow> consent_record e o' d v db = Inr db' \<Longrightarrow> J db \<Longrightarrow> J db'"
    and J_request_deletion: "good e \<Longrightarrow> request_deletion e o' g db = Inr (ds, db') \<Longrightarrow> J db \<Longrightarrow> J db'"
    and J_cancel_deletion: "J db \<Longrightarrow> J (cancel_deletion o' db)"
    and J_record_reports: "good e \<Longrightarrow> record_reports e o' ps'' db = Inr db' \<Longrightarrow> J db \<Longrightarrow> J db'"
    and J_sweep: "good e \<Longrightarrow> sweep e policy db = (sw, db') \<Longrightarrow> J db \<Longrightarrow> J db'"
begin

definition kept :: "server \<Rightarrow> bool" where
  "kept s \<longleftrightarrow> J (sv_db s) \<and> (\<forall>x \<in> set (sv_remembered s). E x)"

lemma keeps_execS:
  "(\<And>db db'. t db = Inr db' \<Longrightarrow> J db \<Longrightarrow> J db') \<Longrightarrow> preserves kept (execS t)"
  by (rule preserves_execS) (simp add: kept_def)

lemma keeps_transact:
  "(\<And>db x db'. t db = Inr (x, db') \<Longrightarrow> J db \<Longrightarrow> J db') \<Longrightarrow> preserves kept (transact t)"
  by (rule preserves_transact) (simp add: kept_def)

lemma keeps_with_db:
  "(\<And>db. J db \<Longrightarrow> J (f db)) \<Longrightarrow> preserves kept (modifyS (with_db f))"
  by (rule preserves_modifyS) (simp add: kept_def)

lemma keeps_noteS [keeps_accounts]: "preserves kept (noteS f)"
  by (rule preserves_noteS) (simp add: kept_def)

lemma keeps_drawn [keeps_accounts]: "preserves kept (modifyS (with_db drawn))"
  by (rule keeps_with_db) (simp add: drawn_def books)

lemma keeps_forget [keeps_accounts]: "preserves kept (modifyS forget_all)"
  by (rule preserves_modifyS) (simp add: kept_def)

lemma keeps_reset [keeps_accounts]: "preserves kept (modifyS (limit_reset lm b))"
  by (rule preserves_modifyS) (simp add: kept_def limit_reset_def)

lemma keeps_checkS [keeps_accounts]: "preserves kept (checkS e lm b)"
  by (auto simp: preserves_def checkS_def limit_check_def kept_def Let_def
      split: prod.split option.split)

lemma keeps_resolve [keeps_accounts]:
  shows "preserves kept (resolve e i)"
proof -
  have "set (remember now i a m) \<subseteq> insert (i, now, a) (set m)" for now a m
    by (auto simp: remember_def)
  then show ?thesis using remembers
    by (fastforce simp: preserves_def kept_def resolve_def Let_def split: option.split)
qed

lemma keeps_assert_owner [keeps_accounts]: "preserves kept (assert_owner_of o' i)"
  by (simp add: preserves_def assert_owner_of_def kept_def)

lemma keeps_current_actor [keeps_accounts]:
  assumes "good e"
  shows "preserves kept (current_actor e sc h)"
  using assms unfolding current_actor_def actor_for_token_def by (intro keeps_rules keeps_accounts)

lemma keeps_current_owner [keeps_accounts]:
  assumes "good e"
  shows "preserves kept (current_owner e sc h)"
  using assms unfolding current_owner_def by (intro keeps_rules keeps_accounts)

lemma keeps_store_scope [keeps_accounts]:
  assumes "good e"
  shows "preserves kept (store_scope e sc settings parts)"
  using assms unfolding store_scope_def authorise_def by (intro keeps_rules keeps_accounts)

lemma keeps_billing_confirm [keeps_accounts]:
  assumes "good e"
  shows "preserves kept (billing_confirm e cal paid)"
proof -
  have "preserves kept
      (transact (\<lambda>db. Inr (confirm_payment e cal (pc_reference paid) (pc_method paid) db)))"
    by (rule keeps_transact) (auto intro: J_confirm_payment[OF assms])
  with assms show ?thesis unfolding billing_confirm_def by (intro keeps_rules keeps_accounts)
qed

lemma keeps_checkout [keeps_accounts]:
  assumes "good e"
  shows "preserves kept (handle_checkout e ge settings owner body)"
proof -
  have "preserves kept (execS (open_payment e i o' pl mo c pr))"
    "preserves kept (execS (set_reference i r))" for i o' pl mo c pr r
    by (rule keeps_execS; erule (1) J_open_payment[OF assms] J_set_reference)+
  with assms show ?thesis unfolding handle_checkout_def billing_checkout_def Let_def
    by (intro keeps_rules keeps_accounts)
qed

lemma keeps_webhook [keeps_accounts]:
  assumes "good e"
  shows "preserves kept (handle_webhook e cal ge settings h b)"
  using assms unfolding handle_webhook_def paymongo_webhook_def
  by (intro keeps_rules keeps_accounts)
    (auto split: payment_gateway.split intro!: keeps_rules keeps_accounts)

lemma keeps_pay_test [keeps_accounts]:
  assumes "good e"
  shows "preserves kept (pay_test_checkout e cal settings i)"
  using assms unfolding pay_test_checkout_def
  by (intro keeps_rules keeps_accounts) (auto intro!: keeps_accounts)

lemma keeps_create_store [keeps_accounts]:
  assumes "good e"
  shows "preserves kept (create_store e settings owner body)"
proof -
  have "preserves kept (transact (\<lambda>db. bindR (insert_store (f db) (drawn db))
      (\<lambda>db1. Inr (f db, db1))))" for f
    by (rule keeps_transact) (auto simp: drawn_def dest!: J_insert_store)
  with assms show ?thesis unfolding create_store_def Let_def by (intro keeps_rules keeps_accounts)
qed

lemma keeps_update_store [keeps_accounts]:
  assumes "good e"
  shows "preserves kept (update_store e actor i body)"
proof -
  have "preserves kept (modifyS (with_db (\<lambda>db. db\<lparr>cl_stores :=
      upd_where (\<lambda>r. st_id r = i) (change_store e request) (cl_stores db)\<rparr>)))" for request
    by (rule keeps_with_db) (rule J_change_store[OF assms])
  with assms show ?thesis unfolding update_store_def Let_def by (intro keeps_rules keeps_accounts)
qed

lemma keeps_new_invite [keeps_accounts]:
  assumes "good e"
  shows "preserves kept (new_invite e cy i)"
proof -
  have "preserves kept (execS (replace_invite e i h t))" for h t
    by (rule keeps_execS) (rule J_replace_invite[OF assms])
  with assms show ?thesis unfolding new_invite_def Let_def by (intro keeps_rules keeps_accounts)
qed

lemma keeps_log_staff [keeps_accounts]:
  assumes "good e"
  shows "preserves kept (log_staff e a st what)"
  using assms unfolding log_staff_def by (intro keeps_accounts)

lemma keeps_access_changed [keeps_accounts]:
  assumes "good e"
  shows "preserves kept (access_changed e i)"
  using assms unfolding access_changed_def by (intro keeps_rules keeps_accounts)

lemma keeps_list_staff [keeps_accounts]:
  assumes "good e"
  shows "preserves kept (handle_list_staff e i a)"
  using assms unfolding handle_list_staff_def by (intro keeps_rules)

lemma keeps_add_staff [keeps_accounts]:
  assumes "good e"
  shows "preserves kept (handle_add_staff e cy settings i a body)"
proof -
  have "preserves kept (transact (staff_create e i n ps))" for n ps
    by (rule keeps_transact) (rule J_staff_create[OF assms])
  with assms show ?thesis unfolding handle_add_staff_def add_staff_def
    by (intro keeps_rules keeps_accounts)
qed

lemma keeps_update_staff [keeps_accounts]:
  assumes "good e"
  shows "preserves kept (handle_update_staff e i a j body)"
proof -
  have "preserves kept (transact (\<lambda>db. Inr (staff_update e i j n ps db)))" for n ps
    by (rule keeps_transact) (auto intro: J_staff_update[OF assms])
  with assms show ?thesis unfolding handle_update_staff_def update_staff_def
    by (intro keeps_rules keeps_accounts)
qed

lemma keeps_remove_staff [keeps_accounts]:
  assumes "good e"
  shows "preserves kept (handle_remove_staff e i a j)"
proof -
  have "preserves kept (transact (\<lambda>db. Inr (staff_remove e i j db)))"
    by (rule keeps_transact) (auto intro: J_staff_remove[OF assms])
  with assms show ?thesis unfolding handle_remove_staff_def remove_staff_def
    by (intro keeps_rules keeps_accounts)
qed

lemma keeps_reinvite_staff [keeps_accounts]:
  assumes "good e"
  shows "preserves kept (handle_reinvite_staff e cy settings i a j)"
  using assms unfolding handle_reinvite_staff_def reinvite_staff_def by (intro keeps_rules keeps_accounts)

lemma keeps_revoke_device [keeps_accounts]:
  assumes "good e"
  shows "preserves kept (revoke_device e a i)"
proof -
  have "preserves kept (transact (\<lambda>db. Inr (device_revoke e (ac_owner_id a) i db)))"
    by (rule keeps_transact) (auto intro: J_device_revoke[OF assms])
  with assms show ?thesis unfolding revoke_device_def by (intro keeps_rules keeps_accounts)
qed

lemma keeps_issue [keeps_accounts]:
  assumes "good e"
  shows "preserves kept (issue_session e ae a)"
proof -
  have "preserves kept (execS (store_refresh_token e o' i h t))" for o' i h t
    by (rule keeps_execS) (rule J_store_refresh_token[OF assms])
  with assms show ?thesis unfolding issue_session_def by (intro keeps_rules keeps_accounts)
qed

lemma keeps_open_session [keeps_accounts]:
  assumes "good e"
  shows "preserves kept (transact (open_session e o' m d))"
  by (rule keeps_transact) (rule J_open_session[OF assms])

lemma keeps_actor_for [keeps_accounts]:
  assumes "good e"
  shows "preserves kept (actor_for e i)"
  using assms unfolding actor_for_def by (intro keeps_rules keeps_accounts)

lemma keeps_open_owner_session [keeps_accounts]:
  assumes "good e"
  shows "preserves kept (open_owner_session e ae o' d)"
  using assms unfolding open_owner_session_def by (intro keeps_rules keeps_accounts)

lemma keeps_consent [keeps_accounts]:
  assumes "good e"
  shows "preserves kept (execS (consent_record e o' d v))"
  by (rule keeps_execS) (rule J_consent_record[OF assms])

lemma keeps_register [keeps_accounts]:
  assumes "good e"
  shows "preserves kept (handle_register e ae body)"
proof -
  have "preserves kept (transact (create_owner_with_store e m h n s b t))" for m h n s b t
    by (rule keeps_transact) (rule J_create_owner[OF assms])
  with assms show ?thesis
    unfolding handle_register_def register_def record_registration_consent_def Let_def
    by (intro keeps_rules keeps_accounts)
qed

lemma keeps_login [keeps_accounts]:
  assumes "good e"
  shows "preserves kept (handle_login e ae body)"
proof -
  have "preserves kept (modifyS (with_db (purge_dead_sessions e o')))" for o'
    by (rule keeps_with_db) (rule J_purge_dead[OF assms])
  with assms show ?thesis unfolding handle_login_def login_def Let_def
    by (intro keeps_rules keeps_accounts)
qed

lemma keeps_join [keeps_accounts]:
  assumes "good e"
  shows "preserves kept (handle_join e ae body)"
proof -
  have "preserves kept (transact (redeem e h))" for h
    by (rule keeps_transact) (rule J_redeem[OF assms])
  with assms show ?thesis unfolding handle_join_def join_def Let_def
    by (intro keeps_rules keeps_accounts)
qed

lemma keeps_refresh [keeps_accounts]:
  assumes "good e"
  shows "preserves kept (handle_refresh e ae body)"
proof -
  have "preserves kept (modifyS (with_db (mark_rotated e h)))"
    "preserves kept (modifyS (with_db (touch_session e i)))" for h i
    by (rule keeps_with_db; erule J_mark_rotated[OF assms] J_touch_session[OF assms])+
  with assms show ?thesis unfolding handle_refresh_def refresh_def Let_def
    by (intro keeps_rules keeps_accounts)
qed

lemma keeps_logout [keeps_accounts]:
  assumes "good e"
  shows "preserves kept (handle_logout e ae body)"
proof -
  have "preserves kept (modifyS (with_db (end_session_for_token e h)))" for h
    by (rule keeps_with_db) (rule J_end_session[OF assms])
  with assms show ?thesis unfolding handle_logout_def logout_def by (intro keeps_rules keeps_accounts)
qed

lemma keeps_privacy_record [keeps_accounts]:
  assumes "good e"
  shows "preserves kept (privacy_record e o' d v)"
  using assms unfolding privacy_record_def by (intro keeps_rules keeps_accounts)

lemma keeps_request_deletion [keeps_accounts]:
  assumes "good e"
  shows "preserves kept (transact (request_deletion e o' g))"
  by (rule keeps_transact) (rule J_request_deletion[OF assms])

lemma keeps_cancel_deletion [keeps_accounts]: "preserves kept (modifyS (with_db (cancel_deletion o')))"
  by (rule keeps_with_db) (rule J_cancel_deletion)

lemma keeps_sweep [keeps_accounts]:
  assumes "good e"
  shows "preserves kept (transact (\<lambda>db. Inr (sweep e policy db)))"
  by (rule keeps_transact) (auto intro: J_sweep[OF assms])

lemma keeps_report_errors [keeps_accounts]:
  assumes "good e"
  shows "preserves kept (report_errors e lm o' body)"
proof -
  have "preserves kept (execS (record_reports e o' ps))" for ps
    by (rule keeps_execS) (rule J_record_reports[OF assms])
  with assms show ?thesis unfolding report_errors_def by (intro keeps_rules keeps_accounts)
qed

lemma served_keeps:
  assumes "served ae cal e s s'" and "good e" and "kept s"
  shows "kept s'"
proof -
  note good = assms(2)
  have kept: "preserves kept m \<Longrightarrow> kept (snd (m s))" for m :: "'a action"
    using assms(3) by (simp add: preserves_def)
  show ?thesis
    using assms(1)
  proof (cases rule: served.cases)
    case (bookkeeping f)
    then show ?thesis using assms(3) by (simp add: kept_def)
  next
    case restart
    then show ?thesis using assms(3) by (simp add: kept_def)
  qed (hypsubst, rule kept, rule keeps_accounts, (rule good)?)+
qed

lemma serves_on_keeps: "serves_on ae cal good s s' \<Longrightarrow> kept s \<Longrightarrow> kept s'"
  by (induction rule: serves_on.induct) (auto intro: served_keeps)

end

end
