(* ===== verification/Account_Invariant.thy ===== *)
theory Account_Invariant
  imports Requests
begin

text \<open>
  The integrity of the account tables, what every request keeps of it. \<open>accounts_ok\<close> is the
  invariant: keys and addresses are unique, every reference points at a row, and every owner has
  a store and a subscription. The last section interprets the contract of \<open>Requests\<close> with it.
\<close>

section \<open>The invariant\<close>

definition owners_ok :: "cloud \<Rightarrow> bool" where
  "owners_ok db \<longleftrightarrow> distinct (map ow_id (cl_owners db))
     \<and> distinct (map (\<lambda>r. to_lowercase (ow_email r)) (cl_owners db))"

definition stores_ok :: "cloud \<Rightarrow> bool" where
  "stores_ok db \<longleftrightarrow> distinct (map st_id (cl_stores db))
     \<and> st_owner ` set (cl_stores db) = ow_id ` set (cl_owners db)"

definition subscriptions_ok :: "cloud \<Rightarrow> bool" where
  "subscriptions_ok db \<longleftrightarrow> distinct (map sb_owner (cl_subscriptions db))
     \<and> sb_owner ` set (cl_subscriptions db) = ow_id ` set (cl_owners db)"

definition payments_ok :: "cloud \<Rightarrow> bool" where
  "payments_ok db \<longleftrightarrow> distinct (map py_id (cl_payments db))
     \<and> distinct (map py_reference (filter (\<lambda>p. py_reference p \<noteq> None) (cl_payments db)))
     \<and> py_owner ` set (cl_payments db) \<subseteq> ow_id ` set (cl_owners db)"

definition members_ok :: "cloud \<Rightarrow> bool" where
  "members_ok db \<longleftrightarrow> distinct (map sm_id (cl_staff db))
     \<and> sm_store ` set (cl_staff db) \<subseteq> st_id ` set (cl_stores db)"

definition invites_ok :: "cloud \<Rightarrow> bool" where
  "invites_ok db \<longleftrightarrow> distinct (map iv_id (cl_invites db))
     \<and> distinct (map iv_code_hash (cl_invites db))
     \<and> iv_staff ` set (cl_invites db) \<subseteq> sm_id ` set (cl_staff db)"

definition sessions_ok :: "cloud \<Rightarrow> bool" where
  "sessions_ok db \<longleftrightarrow> distinct (map ds_id (cl_sessions db))
     \<and> ds_owner ` set (cl_sessions db) \<subseteq> ow_id ` set (cl_owners db)
     \<and> ds_staff ` set (cl_sessions db) \<subseteq> insert None (Some ` sm_id ` set (cl_staff db))"

definition tokens_ok :: "cloud \<Rightarrow> bool" where
  "tokens_ok db \<longleftrightarrow> distinct (map rt_id (cl_tokens db)) \<and> distinct (map rt_hash (cl_tokens db))
     \<and> rt_owner ` set (cl_tokens db) \<subseteq> ow_id ` set (cl_owners db)
     \<and> rt_session ` set (cl_tokens db) \<subseteq> ds_id ` set (cl_sessions db)"

definition consents_ok :: "cloud \<Rightarrow> bool" where
  "consents_ok db \<longleftrightarrow> cn_owner ` set (cl_consents db) \<subseteq> ow_id ` set (cl_owners db)
     \<and> er_owner ` set (cl_reports db) \<subseteq> ow_id ` set (cl_owners db)"

definition accounts_ok :: "cloud \<Rightarrow> bool" where
  "accounts_ok db \<longleftrightarrow> owners_ok db \<and> stores_ok db \<and> subscriptions_ok db \<and> payments_ok db
     \<and> members_ok db \<and> invites_ok db \<and> sessions_ok db \<and> tokens_ok db \<and> consents_ok db"

lemmas table_defs = owners_ok_def stores_ok_def subscriptions_ok_def payments_ok_def
  members_ok_def invites_ok_def sessions_ok_def tokens_ok_def consents_ok_def

definition server_ok :: "server \<Rightarrow> bool" where
  "server_ok s \<longleftrightarrow> accounts_ok (sv_db s)"

text \<open>Facts about the tables an operation leaves alone.\<close>

lemma image_upd_where [simp]:
  "(\<And>r. P r \<Longrightarrow> g (f r) = g r) \<Longrightarrow> g ` set (upd_where P f rows) = g ` set rows"
  by (induction rows) auto

lemma find_key_in [simp]: "find_key key k rows \<noteq> None \<longleftrightarrow> k \<in> key ` set rows"
  by (auto simp: find_key_def find_None_iff image_iff)

lemma find_key_none [simp]: "find_key key k rows = None \<longleftrightarrow> k \<notin> key ` set rows"
  using find_key_in[of key k rows] by blast

lemma accounts_ok_empty: "accounts_ok empty_cloud"
  by (simp add: accounts_ok_def table_defs empty_cloud_def)

lemma accounts_ok_cong:
  assumes "accounts_ok db" and "cl_owners db' = cl_owners db" and "cl_stores db' = cl_stores db"
    and "cl_subscriptions db' = cl_subscriptions db" and "cl_payments db' = cl_payments db"
    and "cl_staff db' = cl_staff db" and "cl_invites db' = cl_invites db"
    and "cl_sessions db' = cl_sessions db" and "cl_tokens db' = cl_tokens db"
    and "cl_consents db' = cl_consents db" and "cl_reports db' = cl_reports db"
  shows "accounts_ok db'"
  using assms unfolding accounts_ok_def table_defs by simp

lemma drawn_reports [simp]: "cl_reports (drawn db) = cl_reports db"
  by (simp add: drawn_def)

lemma accounts_ok_drawn [simp]: "accounts_ok (drawn db) = accounts_ok db"
  by (rule iffI; erule accounts_ok_cong) simp_all

lemma accounts_ok_with_books [simp]: "accounts_ok (with_books f db) = accounts_ok db"
  by (rule iffI; erule accounts_ok_cong) simp_all

text \<open>Writing one table: only what is said of that table has to be shown again.\<close>

lemma ok_with_payments:
  "accounts_ok db \<Longrightarrow> payments_ok (db\<lparr>cl_payments := rows\<rparr>) \<Longrightarrow> accounts_ok (db\<lparr>cl_payments := rows\<rparr>)"
  by (simp add: accounts_ok_def table_defs)

lemma ok_with_subscriptions:
  "accounts_ok db \<Longrightarrow> subscriptions_ok (db\<lparr>cl_subscriptions := rows\<rparr>)
    \<Longrightarrow> accounts_ok (db\<lparr>cl_subscriptions := rows\<rparr>)"
  by (simp add: accounts_ok_def table_defs)

lemma ok_with_invites:
  "accounts_ok db \<Longrightarrow> invites_ok (db\<lparr>cl_invites := rows\<rparr>) \<Longrightarrow> accounts_ok (db\<lparr>cl_invites := rows\<rparr>)"
  by (simp add: accounts_ok_def table_defs)

lemma ok_with_tokens:
  "accounts_ok db \<Longrightarrow> tokens_ok (db\<lparr>cl_tokens := rows\<rparr>) \<Longrightarrow> accounts_ok (db\<lparr>cl_tokens := rows\<rparr>)"
  by (simp add: accounts_ok_def table_defs)

lemma ok_with_consents:
  "accounts_ok db \<Longrightarrow> consents_ok (db\<lparr>cl_consents := rows\<rparr>) \<Longrightarrow> accounts_ok (db\<lparr>cl_consents := rows\<rparr>)"
  by (simp add: accounts_ok_def table_defs)

lemma ok_with_reports:
  "accounts_ok db \<Longrightarrow> consents_ok (db\<lparr>cl_reports := rows\<rparr>) \<Longrightarrow> accounts_ok (db\<lparr>cl_reports := rows\<rparr>)"
  by (simp add: accounts_ok_def table_defs)

text \<open>Changing columns that no constraint reads.\<close>

lemma ok_same_owners:
  assumes "accounts_ok db" and "map ow_id rows = map ow_id (cl_owners db)"
    and "map ow_email rows = map ow_email (cl_owners db)"
  shows "accounts_ok (db\<lparr>cl_owners := rows\<rparr>)"
proof -
  have "ow_id ` set rows = ow_id ` set (cl_owners db)" using assms(2) by (metis list.set_map)
  moreover have "map (\<lambda>r. to_lowercase (ow_email r)) rows
      = map (\<lambda>r. to_lowercase (ow_email r)) (cl_owners db)"
    using arg_cong[OF assms(3), of "map to_lowercase"] by (simp add: o_def)
  ultimately show ?thesis using assms(1,2) by (simp add: accounts_ok_def table_defs)
qed

lemma ok_same_stores:
  assumes "accounts_ok db" and "map st_id rows = map st_id (cl_stores db)"
    and "map st_owner rows = map st_owner (cl_stores db)"
  shows "accounts_ok (db\<lparr>cl_stores := rows\<rparr>)"
proof -
  have "st_id ` set rows = st_id ` set (cl_stores db)"
    "st_owner ` set rows = st_owner ` set (cl_stores db)" using assms(2,3) by (metis list.set_map)+
  then show ?thesis using assms(1,2) by (simp add: accounts_ok_def table_defs)
qed

lemma ok_same_staff:
  assumes "accounts_ok db" and "map sm_id rows = map sm_id (cl_staff db)"
    and "map sm_store rows = map sm_store (cl_staff db)"
  shows "accounts_ok (db\<lparr>cl_staff := rows\<rparr>)"
proof -
  have "sm_id ` set rows = sm_id ` set (cl_staff db)"
    "sm_store ` set rows = sm_store ` set (cl_staff db)" using assms(2,3) by (metis list.set_map)+
  then show ?thesis using assms(1,2) by (simp add: accounts_ok_def table_defs)
qed

lemma ok_same_sessions:
  assumes "accounts_ok db" and "map ds_id rows = map ds_id (cl_sessions db)"
    and "map ds_owner rows = map ds_owner (cl_sessions db)"
    and "map ds_staff rows = map ds_staff (cl_sessions db)"
  shows "accounts_ok (db\<lparr>cl_sessions := rows\<rparr>)"
proof -
  have "ds_id ` set rows = ds_id ` set (cl_sessions db)"
    "ds_owner ` set rows = ds_owner ` set (cl_sessions db)"
    "ds_staff ` set rows = ds_staff ` set (cl_sessions db)"
    using assms(2-4) by (metis list.set_map)+
  then show ?thesis using assms(1,2) by (simp add: accounts_ok_def table_defs)
qed

lemma ok_same_tokens:
  assumes "accounts_ok db" and "map rt_id rows = map rt_id (cl_tokens db)"
    and "map rt_hash rows = map rt_hash (cl_tokens db)"
    and "map rt_owner rows = map rt_owner (cl_tokens db)"
    and "map rt_session rows = map rt_session (cl_tokens db)"
  shows "accounts_ok (db\<lparr>cl_tokens := rows\<rparr>)"
proof -
  have "rt_owner ` set rows = rt_owner ` set (cl_tokens db)"
    "rt_session ` set rows = rt_session ` set (cl_tokens db)"
    using assms(4,5) by (metis list.set_map)+
  then show ?thesis using assms(1-3) by (simp add: accounts_ok_def table_defs)
qed

section \<open>The statements\<close>

lemma ok_open_payment:
  assumes "open_payment e i o' plan months c pr db = Inr db'" and "accounts_ok db"
  shows "accounts_ok db'"
proof -
  obtain p where "db' = db\<lparr>cl_payments := cl_payments db @ [p]\<rparr>"
    "py_id p \<notin> py_id ` set (cl_payments db)" "py_reference p = None"
    "py_owner p \<in> ow_id ` set (cl_owners db)"
    using assms(1) by (auto simp: open_payment_def simp del: insert_iff)
  moreover from this have "payments_ok db'"
    using assms(2) by (simp add: accounts_ok_def payments_ok_def)
  ultimately show ?thesis using ok_with_payments[OF assms(2)] by simp
qed

lemma distinct_new_reference:
  assumes "distinct (map py_id rows)"
    and "distinct (map py_reference (filter (\<lambda>p. py_reference p \<noteq> None) rows))"
    and "\<forall>p \<in> set rows. py_reference p = Some r \<longrightarrow> py_id p = i"
  shows "distinct (map py_reference (filter (\<lambda>p. py_reference p \<noteq> None)
           (upd_where (\<lambda>p. py_id p = i) (\<lambda>p. p\<lparr>py_reference := Some r\<rparr>) rows)))"
  using assms
proof (induction rows)
  case (Cons x xs)
  let ?new = "upd_where (\<lambda>p. py_id p = i) (\<lambda>p. p\<lparr>py_reference := Some r\<rparr>) xs"
  have IH: "distinct (map py_reference (filter (\<lambda>p. py_reference p \<noteq> None) ?new))"
    by (rule Cons.IH) (use Cons.prems in \<open>auto split: if_splits\<close>)
  show ?case
  proof (cases "py_id x = i")
    case True
    have "py_id x \<notin> py_id ` set xs" using Cons.prems(1) by simp
    then have other: "py_id y \<noteq> i" if "y \<in> set xs" for y using that True by (metis imageI)
    then have "?new = xs" by (rule upd_where_none)
    moreover have "Some r \<notin> py_reference ` set xs" using Cons.prems(3) other by fastforce
    ultimately show ?thesis using IH True by auto
  next
    case False
    have "py_reference x \<notin> py_reference ` set (filter (\<lambda>p. py_reference p \<noteq> None) ?new)"
      if "py_reference x \<noteq> None"
    proof
      assume "py_reference x \<in> py_reference ` set (filter (\<lambda>p. py_reference p \<noteq> None) ?new)"
      then consider "py_reference x = Some r"
        | y where "y \<in> set xs" "py_reference x = py_reference y"
        by (force simp: upd_where_def split: if_splits)
      then show False
      proof cases
        case 1
        then show False using bspec[OF Cons.prems(3), of x] False by simp
      next
        case (2 y)
        then have "py_reference x \<in> py_reference ` set (filter (\<lambda>p. py_reference p \<noteq> None) xs)"
          using that by (intro image_eqI[of _ _ y]) simp_all
        then show False using that Cons.prems(2) by simp
      qed
    qed
    then show ?thesis using IH False by (cases "py_reference x = None") simp_all
  qed
qed simp

lemma ok_set_reference:
  assumes "set_reference i r db = Inr db'" and "accounts_ok db"
  shows "accounts_ok db'"
proof (cases "i \<in> py_id ` set (cl_payments db)")
  case True
  then have free: "\<forall>p \<in> set (cl_payments db). py_reference p = Some r \<longrightarrow> py_id p = i"
    and db': "db' = db\<lparr>cl_payments := upd_where (\<lambda>p. py_id p = i)
                (\<lambda>p. p\<lparr>py_reference := Some r\<rparr>) (cl_payments db)\<rparr>"
    using assms(1) by (auto simp: set_reference_def list_ex_iff split: if_splits)
  have "payments_ok db" using assms(2) by (simp add: accounts_ok_def)
  then have "payments_ok db'" using distinct_new_reference[OF _ _ free]
    by (simp add: db' payments_ok_def map_upd_where)
  then show ?thesis using ok_with_payments[OF assms(2)] db' by simp
next
  case False
  then have "upd_where (\<lambda>p. py_id p = i) f (cl_payments db) = cl_payments db" for f
    by (intro upd_where_none) auto
  then show ?thesis using assms by (simp add: set_reference_def split: if_splits)
qed

lemma ok_same_payments:
  assumes "accounts_ok db" and "map py_id rows = map py_id (cl_payments db)"
    and "map py_reference rows = map py_reference (cl_payments db)"
    and "map py_owner rows = map py_owner (cl_payments db)"
  shows "accounts_ok (db\<lparr>cl_payments := rows\<rparr>)"
proof -
  have "map py_reference (filter (\<lambda>p. py_reference p \<noteq> None) xs)
      = filter (\<lambda>r. r \<noteq> None) (map py_reference xs)" for xs
    by (simp add: filter_map o_def)
  then have "map py_reference (filter (\<lambda>p. py_reference p \<noteq> None) rows)
      = map py_reference (filter (\<lambda>p. py_reference p \<noteq> None) (cl_payments db))"
    using assms(3) by metis
  moreover have "py_owner ` set rows = py_owner ` set (cl_payments db)"
    using arg_cong[OF assms(4), of set] by simp
  ultimately show ?thesis using ok_with_payments[OF assms(1), of rows] assms(1,2)
    by (simp add: accounts_ok_def payments_ok_def)
qed

lemma map_extend:
  assumes "o' \<in> sb_owner ` set rows"
  shows "map sb_owner (extend_subscription e o' plan t rows) = map sb_owner rows"
proof -
  obtain old where "find_key sb_owner o' rows = Some old"
    using assms find_key_in[of sb_owner o' rows] by blast
  then show ?thesis by (simp add: extend_subscription_def upsert_def map_upd_where)
qed

lemma ok_confirm_payment:
  assumes "confirm_payment e cal r m db = (c, db')" and "accounts_ok db"
  shows "accounts_ok db'"
proof (cases "find (confirmable db r) (cl_payments db)")
  case None
  then show ?thesis using assms by (simp add: confirm_payment_def)
next
  case (Some p)
  then have "p \<in> set (cl_payments db)" by (auto simp: find_Some_iff)
  then have "py_owner p \<in> sb_owner ` set (cl_subscriptions db)"
    using assms(2) by (auto simp: accounts_ok_def table_defs)
  note ext = map_extend[OF this]
  then have "sb_owner ` set (extend_subscription e (py_owner p) plan t (cl_subscriptions db))
      = sb_owner ` set (cl_subscriptions db)" for plan t
    by (metis list.set_map)
  then have "accounts_ok (db\<lparr>cl_subscriptions :=
      extend_subscription e (py_owner p) plan t (cl_subscriptions db)\<rparr>)" for plan t
    using assms(2) ext unfolding accounts_ok_def table_defs by simp
  note extended = ok_same_payments[OF this, simplified]
  show ?thesis using assms(1) Some
    by (simp add: confirm_payment_def Let_def)
      (elim conjE, hypsubst, rule extended, simp_all add: map_upd_where)
qed


subsection \<open>Stores and staff\<close>

lemma ok_insert_store:
  assumes "insert_store r db = Inr db'" and "accounts_ok db"
  shows "accounts_ok db'"
proof -
  have db': "db' = db\<lparr>cl_stores := cl_stores db @ [r]\<rparr>" "st_id r \<notin> st_id ` set (cl_stores db)"
    "st_owner r \<in> ow_id ` set (cl_owners db)"
    using assms(1) by (auto simp: insert_store_def simp del: insert_iff)
  have "stores_ok db'" "members_ok db'"
    using assms(2) db' by (simp_all add: accounts_ok_def stores_ok_def members_ok_def insert_absorb
        subset_insertI2)
  then show ?thesis using assms(2) db'(1) by (simp add: accounts_ok_def table_defs)
qed

lemma ok_change_store:
  "accounts_ok db \<Longrightarrow> accounts_ok
     (db\<lparr>cl_stores := upd_where (\<lambda>r. st_id r = i) (change_store e request) (cl_stores db)\<rparr>)"
  by (erule ok_same_stores) (simp_all add: map_upd_where change_store_def)

lemma ok_staff_create:
  assumes "staff_create e i name ps db = Inr (r, db')" and "accounts_ok db"
  shows "accounts_ok db'"
proof -
  have r: "db' = (drawn db)\<lparr>cl_staff := cl_staff db @ [r]\<rparr>" "sm_id r \<notin> sm_id ` set (cl_staff db)"
    "sm_store r \<in> st_id ` set (cl_stores db)"
    using assms(1) by (auto simp: staff_create_def Let_def simp del: insert_iff)
  have "accounts_ok (drawn db)" using assms(2) by simp
  moreover have "members_ok db'" "invites_ok db'" "sessions_ok db'"
    using assms(2) r by (auto simp: accounts_ok_def members_ok_def invites_ok_def sessions_ok_def)
  ultimately show ?thesis using r(1) by (simp add: accounts_ok_def table_defs)
qed

lemma ok_staff_update:
  "staff_update e i j name ps db = (r, db') \<Longrightarrow> accounts_ok db \<Longrightarrow> accounts_ok db'"
  by (auto simp: staff_update_def Let_def map_upd_where intro!: ok_same_staff)

lemma ok_revoke_sessions: "accounts_ok db \<Longrightarrow> accounts_ok (revoke_sessions e hit db)"
  unfolding revoke_sessions_def by (erule ok_same_sessions) (simp_all add: map_upd_where)

lemma ok_revoke_tokens: "accounts_ok db \<Longrightarrow> accounts_ok (revoke_tokens e hit db)"
  unfolding revoke_tokens_def by (erule ok_same_tokens) (simp_all add: map_upd_where)

lemma image_filter_subset: "f ` set xs \<subseteq> A \<Longrightarrow> f ` set (filter P xs) \<subseteq> A"
  by auto

lemma ok_drop_open_invites: "accounts_ok db \<Longrightarrow> accounts_ok (drop_open_invites i db)"
  unfolding drop_open_invites_def
  by (rule ok_with_invites)
    (simp_all add: accounts_ok_def invites_ok_def distinct_map_filter image_filter_subset
      del: set_filter)

lemma ok_staff_remove:
  assumes "staff_remove e i j db = (r, db')" and "accounts_ok db"
  shows "accounts_ok db'"
proof -
  have "accounts_ok (db\<lparr>cl_staff := upd_where (works_here i j)
      (\<lambda>r. r\<lparr>sm_removed_at := Some (e_now e), sm_updated_at := e_now e\<rparr>) (cl_staff db)\<rparr>)"
    using assms(2) by (rule ok_same_staff) (simp_all add: map_upd_where)
  then show ?thesis using assms
    by (auto simp: staff_remove_def Let_def split: option.splits
        intro!: ok_drop_open_invites ok_revoke_tokens ok_revoke_sessions)
qed

lemma ok_replace_invite:
  assumes "replace_invite e j h t db = Inr db'" and "accounts_ok db"
  shows "accounts_ok db'"
proof -
  let ?db = "drop_open_invites j db"
  define r where "r = \<lparr>iv_id = new_id e db, iv_staff = j, iv_code_hash = h, iv_expires_at = t,
    iv_redeemed_at = None\<rparr>"
  have r: "db' = (drawn ?db)\<lparr>cl_invites := cl_invites ?db @ [r]\<rparr>"
    "iv_id r \<notin> iv_id ` set (cl_invites ?db)" "iv_staff r = j"
    "iv_code_hash r \<notin> iv_code_hash ` set (cl_invites ?db)"
    "j \<in> sm_id ` set (cl_staff ?db)"
    using assms(1) by (auto simp: replace_invite_def Let_def r_def simp del: insert_iff)
  have ok: "accounts_ok (drawn ?db)" using assms(2) by (simp add: ok_drop_open_invites)
  have "invites_ok db'"
    using ok r(2-5) by (simp add: r(1) accounts_ok_def invites_ok_def)
  then show ?thesis using ok_with_invites[OF ok] r(1) by simp
qed

lemma ok_same_invites:
  assumes "accounts_ok db" and "map iv_id rows = map iv_id (cl_invites db)"
    and "map iv_code_hash rows = map iv_code_hash (cl_invites db)"
    and "map iv_staff rows = map iv_staff (cl_invites db)"
  shows "accounts_ok (db\<lparr>cl_invites := rows\<rparr>)"
proof -
  have "iv_staff ` set rows = iv_staff ` set (cl_invites db)"
    using assms(4) by (metis list.set_map)
  then show ?thesis using assms(1-3) by (simp add: accounts_ok_def table_defs)
qed

lemma ok_redeem: "redeem e h db = Inr (r, db') \<Longrightarrow> accounts_ok db \<Longrightarrow> accounts_ok db'"
  by (auto simp: redeem_def map_upd_where split: option.splits intro!: ok_same_invites)

lemma ok_device_revoke:
  "device_revoke e o' i db = (r, db') \<Longrightarrow> accounts_ok db \<Longrightarrow> accounts_ok db'"
  by (auto simp: device_revoke_def split: option.splits
      intro!: ok_revoke_tokens ok_revoke_sessions)

subsection \<open>Owners, sessions and tokens\<close>

lemma ok_create_owner:
  assumes "create_owner_with_store e email h name sname bt trial db = Inr (r, db')"
    and "accounts_ok db"
  shows "accounts_ok db'"
proof -
  obtain st sub where
    db': "cl_owners db' = cl_owners db @ [r]" "cl_stores db' = cl_stores db @ [st]"
      "cl_subscriptions db' = cl_subscriptions db @ [sub]"
      "cl_payments db' = cl_payments db" "cl_staff db' = cl_staff db"
      "cl_invites db' = cl_invites db" "cl_sessions db' = cl_sessions db"
      "cl_tokens db' = cl_tokens db" "cl_consents db' = cl_consents db"
      "cl_reports db' = cl_reports db"
    and new: "ow_id r \<notin> ow_id ` set (cl_owners db)" "st_id st \<notin> st_id ` set (cl_stores db)"
      "st_owner st = ow_id r" "sb_owner sub = ow_id r"
      "find_owner_by_email db (ow_email r) = None"
    using assms(1)
    by (auto simp: create_owner_with_store_def insert_store_def Let_def new_store_def
        simp del: insert_iff)
  have "to_lowercase (ow_email r) \<notin> (\<lambda>r. to_lowercase (ow_email r)) ` set (cl_owners db)"
    using new(5) by (auto simp: find_owner_by_email_def find_None_iff)
  moreover have "ow_id r \<notin> sb_owner ` set (cl_subscriptions db)"
    using new(1) assms(2) by (simp add: accounts_ok_def subscriptions_ok_def)
  ultimately show ?thesis using assms(2) new(1-4)
    by (simp add: accounts_ok_def table_defs db' subset_insertI2)
qed

lemma ok_open_session:
  assumes "open_session e o' m d db = Inr (i, db')" and "accounts_ok db"
  shows "accounts_ok db'"
proof -
  define r where "r = \<lparr>ds_id = new_id e db, ds_owner = o', ds_staff = m, ds_device_name = d,
    ds_created_at = e_now e, ds_last_seen_at = e_now e, ds_revoked_at = None\<rparr>"
  have r: "db' = (drawn db)\<lparr>cl_sessions := cl_sessions db @ [r]\<rparr>"
    "ds_id r \<notin> ds_id ` set (cl_sessions db)" "ds_owner r \<in> ow_id ` set (cl_owners db)"
    "ds_staff r \<in> insert None (Some ` sm_id ` set (cl_staff db))"
    using assms(1) by (cases m; auto simp: open_session_def Let_def r_def simp del: insert_iff)+
  have "accounts_ok (drawn db)" using assms(2) by simp
  moreover have "sessions_ok db'" "tokens_ok db'"
    using assms(2) r by (auto simp: accounts_ok_def sessions_ok_def tokens_ok_def)
  ultimately show ?thesis using r(1) by (simp add: accounts_ok_def table_defs)
qed

lemma ok_touch_session: "accounts_ok db \<Longrightarrow> accounts_ok (touch_session e i db)"
  unfolding touch_session_def by (erule ok_same_sessions) (simp_all add: map_upd_where)

lemma ok_mark_rotated: "accounts_ok db \<Longrightarrow> accounts_ok (mark_rotated e h db)"
  unfolding mark_rotated_def by (erule ok_same_tokens) (simp_all add: map_upd_where)

lemma ok_end_session: "accounts_ok db \<Longrightarrow> accounts_ok (end_session_for_token e h db)"
  by (auto simp: end_session_for_token_def Let_def split: option.split
      intro!: ok_revoke_tokens ok_revoke_sessions)

lemma ok_store_refresh_token:
  assumes "store_refresh_token e o' i h t db = Inr db'" and "accounts_ok db"
  shows "accounts_ok db'"
proof -
  define r where "r = \<lparr>rt_id = new_id e db, rt_owner = o', rt_session = i, rt_hash = h,
    rt_expires_at = t, rt_revoked_at = None, rt_rotated_at = None\<rparr>"
  have r: "db' = (drawn db)\<lparr>cl_tokens := cl_tokens db @ [r]\<rparr>"
    "rt_id r \<notin> rt_id ` set (cl_tokens db)" "rt_hash r \<notin> rt_hash ` set (cl_tokens db)"
    "rt_owner r \<in> ow_id ` set (cl_owners db)" "rt_session r \<in> ds_id ` set (cl_sessions db)"
    using assms(1) by (auto simp: store_refresh_token_def r_def simp del: insert_iff)
  have ok: "accounts_ok (drawn db)" using assms(2) by simp
  moreover have "tokens_ok db'"
    using assms(2) r(2-5) by (simp add: r(1) accounts_ok_def tokens_ok_def)
  ultimately show ?thesis using ok_with_tokens[OF ok] r(1) by simp
qed

lemma ok_purge_dead: "accounts_ok db \<Longrightarrow> accounts_ok (purge_dead_sessions e o' db)"
proof -
  assume ok: "accounts_ok db"
  let ?db = "purge_dead_sessions e o' db"
  have "rt_session ` set (cl_tokens ?db) \<subseteq> ds_id ` set (cl_sessions ?db)"
  proof (intro image_subsetI)
    fix t assume t: "t \<in> set (cl_tokens ?db)"
    then have "rt_session t \<in> ds_id ` set (cl_sessions db)"
      using ok by (auto simp: purge_dead_sessions_def Let_def accounts_ok_def tokens_ok_def)
    then obtain d where "d \<in> set (cl_sessions db)" "ds_id d = rt_session t" by auto
    moreover from this have "d \<in> set (cl_sessions ?db)"
      using t by (auto simp: purge_dead_sessions_def Let_def list_ex_iff)
    ultimately show "rt_session t \<in> ds_id ` set (cl_sessions ?db)" by (metis imageI)
  qed
  moreover have "sessions_ok ?db"
    using ok by (simp add: accounts_ok_def sessions_ok_def purge_dead_sessions_def Let_def
        distinct_map_filter image_filter_subset del: set_filter)
  moreover have "rt_owner ` set (cl_tokens ?db) \<subseteq> ow_id ` set (cl_owners db)"
    "distinct (map rt_id (cl_tokens ?db))" "distinct (map rt_hash (cl_tokens ?db))"
    using ok by (simp_all add: accounts_ok_def tokens_ok_def purge_dead_sessions_def Let_def
        distinct_map_filter image_filter_subset del: set_filter)
  ultimately show ?thesis using ok
    by (simp add: accounts_ok_def table_defs) (simp add: purge_dead_sessions_def Let_def)
qed

subsection \<open>Consent, crash reports and deletion\<close>

lemma ok_consent_record:
  assumes "consent_record e o' d v db = Inr db'" and "accounts_ok db"
  shows "accounts_ok db'"
proof (cases "db' = db")
  case False
  define r where "r = \<lparr>cn_id = new_id e db, cn_owner = o', cn_document = document_column d,
    cn_version = v, cn_agreed_at = e_now e\<rparr>"
  have r: "db' = (drawn db)\<lparr>cl_consents := cl_consents db @ [r]\<rparr>"
    "cn_owner r \<in> ow_id ` set (cl_owners db)"
    using assms(1) False
    by (auto simp: consent_record_def r_def simp del: insert_iff split: if_splits)
  have "accounts_ok (drawn db)" using assms(2) by simp
  moreover have "consents_ok db'"
    using assms(2) r by (simp add: accounts_ok_def consents_ok_def)
  ultimately show ?thesis using r(1) ok_with_consents by metis
qed (use assms in simp)

lemma ok_request_deletion:
  "request_deletion e o' g db = Inr (d, db') \<Longrightarrow> accounts_ok db \<Longrightarrow> accounts_ok db'"
  by (auto simp: request_deletion_def Let_def map_upd_where intro!: ok_same_owners)

lemma ok_cancel_deletion: "accounts_ok db \<Longrightarrow> accounts_ok (cancel_deletion o' db)"
  unfolding cancel_deletion_def by (erule ok_same_owners) (simp_all add: map_upd_where)

lemma record_report_reports:
  "o' \<in> A \<Longrightarrow> er_owner ` set (cl_reports db) \<subseteq> A
    \<Longrightarrow> er_owner ` set (cl_reports (record_report e o' p db)) \<subseteq> A"
  by (auto simp: record_report_def upsert_def upd_where_def report_of_def merge_report_def
      split: option.splits)

lemma ok_record_report:
  assumes "accounts_ok db" and "o' \<in> ow_id ` set (cl_owners db)"
  shows "accounts_ok (record_report e o' p db)
    \<and> cl_owners (record_report e o' p db) = cl_owners db"
proof -
  have "accounts_ok (drawn db)" using assms(1) by simp
  moreover have "consents_ok (record_report e o' p db)"
    using assms record_report_reports[OF assms(2), of db e p]
    by (simp add: accounts_ok_def consents_ok_def) (simp add: record_report_def)
  ultimately show ?thesis using ok_with_reports[of "drawn db"] by (simp add: record_report_def)
qed

lemma ok_record_reports_fold:
  "accounts_ok db \<Longrightarrow> o' \<in> ow_id ` set (cl_owners db)
    \<Longrightarrow> accounts_ok (fold (record_report e o') ps db)"
proof (induction ps arbitrary: db)
  case (Cons p ps)
  then show ?case using ok_record_report[OF Cons.prems, of e p] by (simp del: image_iff)
qed simp

lemma ok_record_reports:
  assumes "record_reports e o' ps db = Inr db'" and "accounts_ok db"
  shows "accounts_ok db'"
proof -
  have "accounts_ok (fold (record_report e o') ps db)"
    using assms by (cases "ps = []")
      (auto simp: record_reports_def intro!: ok_record_reports_fold simp del: image_iff)
  then have "accounts_ok ((fold (record_report e o') ps db)\<lparr>cl_reports :=
      filter P (cl_reports (fold (record_report e o') ps db))\<rparr>)" for P
    by (rule ok_with_reports)
      (use \<open>accounts_ok (fold _ ps db)\<close> in \<open>simp add: accounts_ok_def consents_ok_def
        image_filter_subset del: set_filter\<close>)
  then show ?thesis using assms(1) by (auto simp: record_reports_def Let_def)
qed

subsection \<open>The sweep\<close>

lemma owner_kept:
  assumes "o' \<in> ow_id ` set (cl_owners db)" and "\<not> owner_due e db o'"
  shows "o' \<in> ow_id ` set (filter (\<lambda>r. \<not> due e r) (cl_owners db))"
proof -
  obtain r where "r \<in> set (cl_owners db)" "ow_id r = o'" using assms(1) by auto
  then show ?thesis using assms(2) by (auto simp: owner_due_def list_ex_iff intro!: image_eqI[of _ _ r])
qed

lemma store_kept:
  assumes "i \<in> st_id ` set (cl_stores db)" and "\<not> store_due e db i"
  shows "i \<in> st_id ` set (filter (\<lambda>s. \<not> owner_due e db (st_owner s)) (cl_stores db))"
proof -
  obtain r where "r \<in> set (cl_stores db)" "st_id r = i" using assms(1) by auto
  then show ?thesis using assms(2) by (auto simp: store_due_def list_ex_iff intro!: image_eqI[of _ _ r])
qed

lemma staff_kept:
  assumes "i \<in> sm_id ` set (cl_staff db)" and "\<not> staff_due e db i"
  shows "i \<in> sm_id ` set (filter (\<lambda>r. \<not> store_due e db (sm_store r)) (cl_staff db))"
proof -
  obtain r where "r \<in> set (cl_staff db)" "sm_id r = i" using assms(1) by auto
  then show ?thesis using assms(2) by (auto simp: staff_due_def list_ex_iff intro!: image_eqI[of _ _ r])
qed

lemma session_kept:
  assumes "d \<in> set (cl_sessions db)" and "\<not> session_due e db (ds_id d)"
  shows "\<not> owner_due e db (ds_owner d) \<and> (\<forall>m. ds_staff d = Some m \<longrightarrow> \<not> staff_due e db m)"
  using assms by (auto simp: session_due_def list_ex_iff split: option.splits)

lemma image_filter_into:
  assumes "f ` set xs \<subseteq> A" and "\<And>x. x \<in> set xs \<Longrightarrow> P x \<Longrightarrow> f x \<in> A \<Longrightarrow> f x \<in> B"
  shows "f ` set (filter P xs) \<subseteq> B"
  using assms by auto

lemma owners_after_purge:
  assumes "f ` set xs = ow_id ` set (cl_owners db)" and "distinct (map ow_id (cl_owners db))"
  shows "f ` set (filter (\<lambda>x. \<not> owner_due e db (f x)) xs)
    = ow_id ` set (filter (\<lambda>r. \<not> due e r) (cl_owners db))"
proof -
  have due: "owner_due e db (ow_id r) \<longleftrightarrow> due e r" if "r \<in> set (cl_owners db)" for r
    using that assms(2) by (auto simp: owner_due_def list_ex_iff distinct_map dest: inj_onD)
  have "f ` set (filter (\<lambda>x. \<not> owner_due e db (f x)) xs) = {y \<in> f ` set xs. \<not> owner_due e db y}"
    by auto
  also have "\<dots> = {y \<in> ow_id ` set (cl_owners db). \<not> owner_due e db y}" using assms(1) by simp
  also have "\<dots> = ow_id ` set (filter (\<lambda>r. \<not> due e r) (cl_owners db))" using due by auto
  finally show ?thesis .
qed

lemma distinct_filter_twice:
  "distinct (map f (filter Q xs)) \<Longrightarrow> distinct (map f (filter Q (filter P xs)))"
proof -
  assume "distinct (map f (filter Q xs))"
  then have "distinct (map f (filter P (filter Q xs)))" by (rule distinct_map_filter)
  moreover have "filter P (filter Q xs) = filter Q (filter P xs)" by (simp add: conj_commute)
  ultimately show "distinct (map f (filter Q (filter P xs)))" by simp
qed

lemma purge_tables:
  assumes "purge_accounts e db = (n, db')"
  shows "cl_owners db' = filter (\<lambda>r. \<not> due e r) (cl_owners db)"
    "cl_stores db' = filter (\<lambda>s. \<not> owner_due e db (st_owner s)) (cl_stores db)"
    "cl_subscriptions db' = filter (\<lambda>r. \<not> owner_due e db (sb_owner r)) (cl_subscriptions db)"
    "cl_payments db' = filter (\<lambda>p. \<not> owner_due e db (py_owner p)) (cl_payments db)"
    "cl_staff db' = filter (\<lambda>r. \<not> store_due e db (sm_store r)) (cl_staff db)"
    "cl_invites db' = filter (\<lambda>i. \<not> staff_due e db (iv_staff i)) (cl_invites db)"
    "cl_sessions db' = filter (\<lambda>d. \<not> session_due e db (ds_id d)) (cl_sessions db)"
    "cl_tokens db' = filter (\<lambda>t. \<not> (owner_due e db (rt_owner t) \<or> session_due e db (rt_session t)))
       (cl_tokens db)"
    "cl_consents db' = filter (\<lambda>c. \<not> owner_due e db (cn_owner c)) (cl_consents db)"
    "cl_reports db' = filter (\<lambda>r. \<not> owner_due e db (er_owner r)) (cl_reports db)"
    "cl_books db' = purge_books e db (cl_books db)"
  unfolding arg_cong[OF assms, of snd, simplified, symmetric]
  by (simp_all add: purge_accounts_def Let_def del: filter_filter)

lemma ok_purge_accounts:
  assumes "purge_accounts e db = (n, db')" and "accounts_ok db"
  shows "accounts_ok db'"
proof -
  note tables = purge_tables[OF assms(1)]
  have ids: "distinct (map ow_id (cl_owners db))"
    using assms(2) by (simp add: accounts_ok_def owners_ok_def)
  have "owners_ok db'" using assms(2)
    by (simp add: tables accounts_ok_def owners_ok_def distinct_map_filter)
  moreover have "stores_ok db'" using assms(2) ids
    by (simp add: tables accounts_ok_def stores_ok_def distinct_map_filter owners_after_purge
        del: set_filter)
  moreover have "subscriptions_ok db'" using assms(2) ids
    by (simp add: tables accounts_ok_def subscriptions_ok_def distinct_map_filter
        owners_after_purge del: set_filter)
  moreover have "payments_ok db'"
  proof -
    have "py_owner ` set (filter (\<lambda>p. \<not> owner_due e db (py_owner p)) (cl_payments db))
        \<subseteq> ow_id ` set (filter (\<lambda>r. \<not> due e r) (cl_owners db))"
      by (rule image_filter_into[of _ _ "ow_id ` set (cl_owners db)"])
        (use assms(2) in \<open>simp_all add: accounts_ok_def payments_ok_def owner_kept del: set_filter\<close>)
    then show ?thesis using assms(2)
      by (simp add: tables accounts_ok_def payments_ok_def distinct_map_filter
          distinct_filter_twice del: set_filter filter_filter)
  qed
  moreover have "members_ok db'"
  proof -
    have "sm_store ` set (filter (\<lambda>r. \<not> store_due e db (sm_store r)) (cl_staff db))
        \<subseteq> st_id ` set (filter (\<lambda>s. \<not> owner_due e db (st_owner s)) (cl_stores db))"
      by (rule image_filter_into[of _ _ "st_id ` set (cl_stores db)"])
        (use assms(2) in \<open>simp_all add: accounts_ok_def members_ok_def store_kept del: set_filter\<close>)
    then show ?thesis using assms(2)
      by (simp add: tables accounts_ok_def members_ok_def distinct_map_filter del: set_filter)
  qed
  moreover have "invites_ok db'"
  proof -
    have "iv_staff ` set (filter (\<lambda>i. \<not> staff_due e db (iv_staff i)) (cl_invites db))
        \<subseteq> sm_id ` set (filter (\<lambda>r. \<not> store_due e db (sm_store r)) (cl_staff db))"
      by (rule image_filter_into[of _ _ "sm_id ` set (cl_staff db)"])
        (use assms(2) in \<open>simp_all add: accounts_ok_def invites_ok_def staff_kept del: set_filter\<close>)
    then show ?thesis using assms(2)
      by (simp add: tables accounts_ok_def invites_ok_def distinct_map_filter del: set_filter)
  qed
  moreover have "sessions_ok db'"
  proof -
    have "ds_owner ` set (filter (\<lambda>d. \<not> session_due e db (ds_id d)) (cl_sessions db))
        \<subseteq> ow_id ` set (filter (\<lambda>r. \<not> due e r) (cl_owners db))"
      by (rule image_filter_into[of _ _ "ow_id ` set (cl_owners db)"])
        (use assms(2) session_kept in
          \<open>simp_all add: accounts_ok_def sessions_ok_def owner_kept del: set_filter\<close>)
    moreover have "ds_staff ` set (filter (\<lambda>d. \<not> session_due e db (ds_id d)) (cl_sessions db))
        \<subseteq> insert None (Some ` sm_id ` set (filter (\<lambda>r. \<not> store_due e db (sm_store r)) (cl_staff db)))"
    proof (rule image_filter_into)
      show "ds_staff ` set (cl_sessions db) \<subseteq> insert None (Some ` sm_id ` set (cl_staff db))"
        using assms(2) by (simp add: accounts_ok_def sessions_ok_def)
      fix d assume "d \<in> set (cl_sessions db)" "\<not> session_due e db (ds_id d)"
        "ds_staff d \<in> insert None (Some ` sm_id ` set (cl_staff db))"
      then show "ds_staff d \<in> insert None
          (Some ` sm_id ` set (filter (\<lambda>r. \<not> store_due e db (sm_store r)) (cl_staff db)))"
        using session_kept[of d db e] staff_kept[of _ db e]
        by (cases "ds_staff d") (auto simp del: set_filter)
    qed
    ultimately show ?thesis using assms(2)
      by (simp add: tables accounts_ok_def sessions_ok_def distinct_map_filter del: set_filter)
  qed
  moreover have "tokens_ok db'"
  proof -
    let ?keep = "\<lambda>t. \<not> (owner_due e db (rt_owner t) \<or> session_due e db (rt_session t))"
    have "rt_owner ` set (filter ?keep (cl_tokens db))
        \<subseteq> ow_id ` set (filter (\<lambda>r. \<not> due e r) (cl_owners db))"
      by (rule image_filter_into[of _ _ "ow_id ` set (cl_owners db)"])
        (use assms(2) in \<open>simp_all add: accounts_ok_def tokens_ok_def owner_kept del: set_filter\<close>)
    moreover have "rt_session ` set (filter ?keep (cl_tokens db))
        \<subseteq> ds_id ` set (filter (\<lambda>d. \<not> session_due e db (ds_id d)) (cl_sessions db))"
      by (rule image_filter_into[of _ _ "ds_id ` set (cl_sessions db)"])
        (use assms(2) in \<open>auto simp add: accounts_ok_def tokens_ok_def\<close>)
    ultimately show ?thesis using assms(2)
      by (simp add: tables accounts_ok_def tokens_ok_def distinct_map_filter del: set_filter)
  qed
  moreover have "consents_ok db'"
  proof -
    have "cn_owner ` set (filter (\<lambda>c. \<not> owner_due e db (cn_owner c)) (cl_consents db))
        \<subseteq> ow_id ` set (filter (\<lambda>r. \<not> due e r) (cl_owners db))"
      "er_owner ` set (filter (\<lambda>c. \<not> owner_due e db (er_owner c)) (cl_reports db))
        \<subseteq> ow_id ` set (filter (\<lambda>r. \<not> due e r) (cl_owners db))"
      by (rule image_filter_into[of _ _ "ow_id ` set (cl_owners db)"];
          use assms(2) in \<open>simp add: accounts_ok_def consents_ok_def owner_kept del: set_filter\<close>)+
    then show ?thesis by (simp add: tables consents_ok_def del: set_filter)
  qed
  ultimately show ?thesis by (simp add: accounts_ok_def)
qed

lemma ok_sweep:
  assumes "sweep e policy db = (n, db')" and "accounts_ok db"
  shows "accounts_ok db'"
proof -
  obtain k db1 where purged: "purge_accounts e db = (k, db1)" by fastforce
  then have ok: "accounts_ok db1" using ok_purge_accounts assms(2) by blast
  define dormant where "dormant = (\<lambda>d :: device_row. ds_revoked_at d \<noteq> None
    \<and> ds_last_seen_at d < e_now e - rp_dormant_sessions policy)"
  define dead where "dead = set (map ds_id (filter dormant (cl_sessions db1)))"
  have tables: "cl_owners db' = cl_owners db1" "cl_stores db' = cl_stores db1"
    "cl_subscriptions db' = cl_subscriptions db1" "cl_payments db' = cl_payments db1"
    "cl_staff db' = cl_staff db1" "cl_invites db' = cl_invites db1"
    "cl_consents db' = cl_consents db1"
    "cl_sessions db' = filter (\<lambda>d. \<not> dormant d) (cl_sessions db1)"
    "cl_tokens db' = filter (\<lambda>t. rt_session t \<notin> dead) (cl_tokens db1)"
    "set (cl_reports db') \<subseteq> set (cl_reports db1)"
    unfolding arg_cong[OF assms(1), of snd, simplified, symmetric]
    by (auto simp: sweep_def purged Let_def dormant_def dead_def)
  have "rt_session ` set (cl_tokens db') \<subseteq> ds_id ` set (cl_sessions db')"
    unfolding tables
  proof (rule image_filter_into)
    show "rt_session ` set (cl_tokens db1) \<subseteq> ds_id ` set (cl_sessions db1)"
      using ok by (simp add: accounts_ok_def tokens_ok_def)
  qed (auto simp: dead_def)
  then have "tokens_ok db'" using ok
    by (simp add: accounts_ok_def tokens_ok_def tables(1,9) distinct_map_filter
        image_filter_subset del: set_filter)
  moreover have "sessions_ok db'" using ok
    by (simp add: accounts_ok_def sessions_ok_def tables distinct_map_filter
        image_filter_subset del: set_filter)
  moreover have "consents_ok db'" using ok
    by (simp add: accounts_ok_def consents_ok_def tables(1,7))
      (rule subset_trans[OF image_mono[OF tables(10)]], simp)
  ultimately show ?thesis using ok by (simp add: accounts_ok_def table_defs tables)
qed

section \<open>Every state a server reaches\<close>

interpretation accounts_kept: account_tables accounts_ok "\<lambda>_. True" "\<lambda>_. True"
proof
  show "accounts_ok (with_books f db) = accounts_ok db" for f db by simp
  show "sweep e policy db = (sw, db') \<Longrightarrow> accounts_ok db \<Longrightarrow> accounts_ok db'" for e policy db sw db'
    by (rule ok_sweep)
qed (rule TrueI | erule (1) ok_open_payment ok_set_reference ok_confirm_payment ok_insert_store
    ok_staff_create ok_staff_update ok_staff_remove ok_replace_invite ok_redeem ok_device_revoke
    ok_create_owner ok_open_session ok_store_refresh_token ok_consent_record ok_request_deletion
    ok_record_reports
  | erule ok_change_store ok_touch_session ok_purge_dead ok_mark_rotated ok_end_session
    ok_cancel_deletion)+

lemma serving_keeps: "serving ae cal s \<Longrightarrow> server_ok s"
proof (induction rule: serving.induct)
  case boot
  then show ?case by (simp add: server_ok_def accounts_ok_empty)
next
  case (serve s e s')
  then show ?case using accounts_kept.served_keeps[OF serve(2)]
    by (simp add: server_ok_def accounts_kept.kept_def)
qed

end
