(* ===== verification/Sign_Out.thy ===== *)
theory Sign_Out
  imports Account_Invariant
begin

text \<open>
  What ending a session means, for the three operations that do it: an owner signing a device out
  (\<^verbatim>\<open>devices/device_repository.rs\<close>), an owner removing a staff member
  (\<^verbatim>\<open>staff/staff_repository.rs\<close>) and a phone signing itself out
  (\<^verbatim>\<open>authentication/auth_repository.rs\<close>). \<open>signs_out\<close> is the contract: the session rows an operation
  hits are revoked afterwards. Its lemmas say what follows for everyone who asks.
\<close>

lemma find_key_sessions:
  assumes "find_key ds_id i (cl_sessions db) = Some d"
  shows "d \<in> set (cl_sessions db) \<and> ds_id d = i"
  using find_key_SomeD[OF assms] by simp

lemma who_is_live:
  assumes "who_is db i = Some a"
  shows "\<exists>d \<in> set (cl_sessions db). ds_id d = i \<and> ds_revoked_at d = None"
  using who_is_Some[OF assms] find_key_sessions by blast

lemma find_refresh_token_live:
  assumes "find_refresh_token db h = Some r" and "tr_session_live r"
  shows "\<exists>d \<in> set (cl_sessions db). ds_id d = tr_session_id r \<and> ds_revoked_at d = None"
  using assms by (auto simp: find_refresh_token_def bind_eq_Some_conv dest!: find_key_sessions)

lemma refused_token:
  assumes "find_refresh_token (sv_db s) (cy_sha256 (ae_crypto ae) token) = Some r"
    and "\<not> token_usable e r"
  shows "refresh e ae token s = (Inl sign_in_again, s)"
  using assms by (simp add: refresh_def Let_def bindS_def readS_def liftS_def ensure_def)

locale signs_out =
  fixes step :: "cloud \<Rightarrow> cloud" and hit :: "cloud \<Rightarrow> device_row \<Rightarrow> bool"
  assumes sessions_end: "accounts_ok db \<Longrightarrow> d \<in> set (cl_sessions db) \<Longrightarrow> hit db d
    \<Longrightarrow> d' \<in> set (cl_sessions (step db)) \<Longrightarrow> ds_id d' = ds_id d \<Longrightarrow> ds_revoked_at d' \<noteq> None"
begin

lemma answers_no_one:
  assumes "accounts_ok db" "d \<in> set (cl_sessions db)" "hit db d"
  shows "who_is (step db) (ds_id d) = None"
proof (rule ccontr)
  assume "who_is (step db) (ds_id d) \<noteq> None"
  then show False using who_is_live sessions_end[OF assms] by blast
qed

lemma tokens_refused:
  assumes "accounts_ok db" "d \<in> set (cl_sessions db)" "hit db d"
    and "find_refresh_token (step db) h = Some r" "tr_session_id r = ds_id d"
  shows "\<not> token_usable e r"
proof
  assume "token_usable e r"
  then have "tr_session_live r" by (simp add: token_usable_def)
  then show False
    using find_refresh_token_live[OF assms(4)] sessions_end[OF assms(1-3)] assms(5)
    by metis
qed

lemma refresh_refused:
  assumes "accounts_ok db" "d \<in> set (cl_sessions db)" "hit db d" "sv_db s = step db"
    and "find_refresh_token (step db) (cy_sha256 (ae_crypto ae) token) = Some r"
    and "tr_session_id r = ds_id d"
  shows "refresh e ae token s = (Inl sign_in_again, s)"
  using refused_token[of s ae token r e] tokens_refused[OF assms(1-3,5,6)]
    assms(4,5) by simp

end

text \<open>The rows a revocation leaves.\<close>

lemma in_upd_where: "x \<in> set (upd_where P f rows) \<longleftrightarrow> (\<exists>r \<in> set rows. x = (if P r then f r else r))"
  by (auto simp: set_upd_where)

lemma revoked_row:
  assumes "d' \<in> set (cl_sessions (revoke_sessions e hit db))"
    and "\<And>d. d \<in> set (cl_sessions db) \<Longrightarrow> ds_id d = ds_id d' \<Longrightarrow> hit d"
  shows "ds_revoked_at d' \<noteq> None"
proof -
  obtain d where "d \<in> set (cl_sessions db)"
    and d': "d' = (if hit d \<and> ds_revoked_at d = None then d\<lparr>ds_revoked_at := Some (e_now e)\<rparr> else d)"
    using assms(1) by (auto simp: revoke_sessions_def in_upd_where)
  then show ?thesis using assms(2)[of d] by (auto split: if_splits)
qed

lemma sessions_of_tokens [simp]:
  "cl_sessions (revoke_tokens e hit db) = cl_sessions db"
  "cl_sessions (drop_open_invites i db) = cl_sessions db"
  by (simp_all add: revoke_tokens_def drop_open_invites_def)

lemma one_session:
  assumes "accounts_ok db" "d \<in> set (cl_sessions db)" "x \<in> set (cl_sessions db)" "ds_id x = ds_id d"
  shows "x = d"
  using assms by (auto simp: accounts_ok_def sessions_ok_def distinct_map inj_on_def)

lemma session_owner_exists:
  assumes "accounts_ok db" "d \<in> set (cl_sessions db)"
  shows "find_key ow_id (ds_owner d) (cl_owners db) \<noteq> None"
  using assms by (auto simp: accounts_ok_def sessions_ok_def)

interpretation device_out: signs_out "\<lambda>db. snd (device_revoke e o' i db)"
  "\<lambda>db d. ds_id d = i \<and> ds_owner d = o'" for e o' i
proof
  fix db d d'
  assume ok: "accounts_ok db" "d \<in> set (cl_sessions db)" and hit: "ds_id d = i \<and> ds_owner d = o'"
    and d': "d' \<in> set (cl_sessions (snd (device_revoke e o' i db)))" "ds_id d' = ds_id d"
  show "ds_revoked_at d' \<noteq> None"
  proof (cases "find (\<lambda>d. ds_id d = i \<and> ds_owner d = o' \<and> ds_revoked_at d = None
      \<and> find_key ow_id (ds_owner d) (cl_owners db) \<noteq> None) (cl_sessions db)")
    case None
    then have "ds_revoked_at d \<noteq> None"
      using ok hit session_owner_exists[OF ok] by (auto simp: find_None_iff)
    moreover have "d' = d" using None d' one_session[OF ok] by (simp add: device_revoke_def)
    ultimately show ?thesis by simp
  next
    case (Some x)
    show ?thesis
      by (rule revoked_row[of d' e "\<lambda>x. ds_id x = i \<and> ds_owner x = o'" db])
        (use Some d' hit one_session[OF ok] in \<open>auto simp: device_revoke_def\<close>)
  qed
qed

interpretation staff_out: signs_out "\<lambda>db. snd (staff_remove e st m db)"
  "\<lambda>db d. ds_staff d = Some m \<and> find_staff db st m \<noteq> None" for e st m
proof
  fix db d d'
  assume ok: "accounts_ok db" "d \<in> set (cl_sessions db)"
    and hit: "ds_staff d = Some m \<and> find_staff db st m \<noteq> None"
    and d': "d' \<in> set (cl_sessions (snd (staff_remove e st m db)))" "ds_id d' = ds_id d"
  define db1 where "db1 = db\<lparr>cl_staff := upd_where (works_here st m)
      (\<lambda>r. r\<lparr>sm_removed_at := Some (e_now e), sm_updated_at := e_now e\<rparr>) (cl_staff db)\<rparr>"
  have sessions: "cl_sessions (snd (staff_remove e st m db))
      = cl_sessions (revoke_sessions e (\<lambda>d. ds_staff d = Some m) db1)"
    using hit by (auto simp: staff_remove_def Let_def db1_def)
  have same: "cl_sessions db1 = cl_sessions db" by (simp add: db1_def)
  show "ds_revoked_at d' \<noteq> None"
    by (rule revoked_row[of d' e "\<lambda>d. ds_staff d = Some m" db1])
      (use sessions d' hit one_session[OF ok] same in auto)
qed

interpretation phone_out: signs_out "end_session_for_token e h"
  "\<lambda>db d. \<exists>t. find_key rt_hash h (cl_tokens db) = Some t \<and> rt_session t = ds_id d" for e h
proof
  fix db d d'
  assume ok: "accounts_ok db" "d \<in> set (cl_sessions db)"
    and hit: "\<exists>t. find_key rt_hash h (cl_tokens db) = Some t \<and> rt_session t = ds_id d"
    and d': "d' \<in> set (cl_sessions (end_session_for_token e h db))" "ds_id d' = ds_id d"
  from hit obtain t where t: "find_key rt_hash h (cl_tokens db) = Some t" "rt_session t = ds_id d"
    by blast
  show "ds_revoked_at d' \<noteq> None"
    by (rule revoked_row[of d' e "\<lambda>d. ds_id d = rt_session t" db])
      (use t d' in \<open>auto simp: end_session_for_token_def Let_def\<close>)
qed

section \<open>Out for good\<close>

text \<open>
  A session that is signed out: every row with its id is revoked, and the directory remembers no one
  for it. As long as the generator does not hand its id out again, every request keeps it so.
\<close>

definition revoked_only :: "uuid \<Rightarrow> cloud \<Rightarrow> bool" where
  "revoked_only i db \<longleftrightarrow> (\<forall>d \<in> set (cl_sessions db). ds_id d = i \<longrightarrow> ds_revoked_at d \<noteq> None)"

definition never_draws :: "uuid \<Rightarrow> env \<Rightarrow> bool" where
  "never_draws i e \<longleftrightarrow> (\<forall>n. e_uuid e n \<noteq> i)"

context signs_out
begin

lemma ends_for_good:
  "accounts_ok db \<Longrightarrow> d \<in> set (cl_sessions db) \<Longrightarrow> hit db d \<Longrightarrow> revoked_only (ds_id d) (step db)"
  using sessions_end by (auto simp: revoked_only_def)

end

lemma revoked_only_same: "cl_sessions db' = cl_sessions db \<Longrightarrow> revoked_only i db' = revoked_only i db"
  by (simp add: revoked_only_def)

lemma revoked_only_fewer:
  "set (cl_sessions db') \<subseteq> set (cl_sessions db) \<Longrightarrow> revoked_only i db \<Longrightarrow> revoked_only i db'"
  by (auto simp: revoked_only_def)

lemma revoked_only_no_one: "revoked_only i db \<Longrightarrow> who_is db i = None"
  using who_is_live[of db i] by (cases "who_is db i") (auto simp: revoked_only_def)

lemma revoked_only_revoke: "revoked_only i db \<Longrightarrow> revoked_only i (revoke_sessions e hit db)"
  by (auto simp: revoked_only_def revoke_sessions_def in_upd_where split: if_splits)

lemma revoked_only_revoke_tokens [simp]: "revoked_only i (revoke_tokens e hit db) = revoked_only i db"
  "revoked_only i (drop_open_invites j db) = revoked_only i db"
  "revoked_only i (drawn db) = revoked_only i db"
  by (simp_all add: revoked_only_def)

named_theorems sessions_stay

lemma sessions_open_payment [sessions_stay]:
  "open_payment e i o' pl mth c pr db = Inr db' \<Longrightarrow> cl_sessions db' = cl_sessions db"
  by (auto simp: open_payment_def Let_def)

lemma sessions_set_reference [sessions_stay]:
  "set_reference i ref db = Inr db' \<Longrightarrow> cl_sessions db' = cl_sessions db"
  by (auto simp: set_reference_def Let_def split: if_splits)

lemma sessions_confirm_payment [sessions_stay]:
  "confirm_payment e cal ref me db = (paid, db') \<Longrightarrow> cl_sessions db' = cl_sessions db"
  by (auto simp: confirm_payment_def Let_def split: option.splits)

lemma sessions_insert_store [sessions_stay]:
  "insert_store r db = Inr db' \<Longrightarrow> cl_sessions db' = cl_sessions db"
  by (auto simp: insert_store_def Let_def)

lemma sessions_staff_create [sessions_stay]:
  "staff_create e i n ps db = Inr (m, db') \<Longrightarrow> cl_sessions db' = cl_sessions db"
  by (auto simp: staff_create_def Let_def)

lemma sessions_staff_update [sessions_stay]:
  "staff_update e i j n' ps' db = (changed, db') \<Longrightarrow> cl_sessions db' = cl_sessions db"
  by (auto simp: staff_update_def Let_def)

lemma sessions_replace_invite [sessions_stay]:
  "replace_invite e j h t' db = Inr db' \<Longrightarrow> cl_sessions db' = cl_sessions db"
  by (auto simp: replace_invite_def Let_def)

lemma sessions_redeem [sessions_stay]:
  "redeem e h db = Inr (rd, db') \<Longrightarrow> cl_sessions db' = cl_sessions db"
  by (auto simp: redeem_def Let_def split: option.splits)

lemma sessions_create_owner_with_store [sessions_stay]:
  "create_owner_with_store e email h n sn bt trial db = Inr (ow, db') \<Longrightarrow> cl_sessions db' = cl_sessions db"
  by (auto simp: create_owner_with_store_def insert_store_def Let_def)

lemma sessions_store_refresh_token [sessions_stay]:
  "store_refresh_token e o' i h t' db = Inr db' \<Longrightarrow> cl_sessions db' = cl_sessions db"
  by (auto simp: store_refresh_token_def Let_def)

lemma sessions_consent_record [sessions_stay]:
  "consent_record e o' d v db = Inr db' \<Longrightarrow> cl_sessions db' = cl_sessions db"
  by (auto simp: consent_record_def Let_def split: if_splits)

lemma sessions_request_deletion [sessions_stay]:
  "request_deletion e o' g db = Inr (ds, db') \<Longrightarrow> cl_sessions db' = cl_sessions db"
  by (auto simp: request_deletion_def Let_def)

lemma sessions_record_report: "cl_sessions (record_report e o' r db) = cl_sessions db"
  by (auto simp: record_report_def Let_def split: option.split)

lemma sessions_record_reports [sessions_stay]:
  assumes "record_reports e o' ps db = Inr db'"
  shows "cl_sessions db' = cl_sessions db"
proof -
  have "cl_sessions (fold (record_report e o') ps db) = cl_sessions db" for db
    by (induction ps arbitrary: db) (simp_all add: sessions_record_report)
  then show ?thesis using assms by (auto simp: record_reports_def Let_def)
qed

lemma fewer_sessions_purge: "set (cl_sessions (snd (purge_accounts e db))) \<subseteq> set (cl_sessions db)"
  by (auto simp: purge_accounts_def Let_def)

lemma fewer_sessions_sweep:
  assumes "sweep e policy db = (sw, db')"
  shows "set (cl_sessions db') \<subseteq> set (cl_sessions db)"
  using fewer_sessions_purge[of e db] assms
  by (cases "purge_accounts e db") (auto simp: sweep_def Let_def)

lemma revoked_only_staff:
  "revoked_only i (db\<lparr>cl_staff := x\<rparr>) = revoked_only i db"
  by (simp add: revoked_only_def)

lemma revoked_only_staff_remove:
  "staff_remove e i' m db = (changed, db') \<Longrightarrow> revoked_only i db \<Longrightarrow> revoked_only i db'"
  by (auto simp: staff_remove_def Let_def revoked_only_staff revoked_only_revoke split: option.splits)

lemma revoked_only_device_revoke:
  "device_revoke e o' j db = (dn, db') \<Longrightarrow> revoked_only i db \<Longrightarrow> revoked_only i db'"
  by (auto simp: device_revoke_def revoked_only_revoke split: option.splits)

lemma revoked_only_end_session:
  "revoked_only i db \<Longrightarrow> revoked_only i (end_session_for_token e h db)"
  by (simp add: end_session_for_token_def Let_def revoked_only_revoke split: option.split)

lemma revoked_only_touch: "revoked_only i db \<Longrightarrow> revoked_only i (touch_session e j db)"
  by (auto simp: revoked_only_def touch_session_def in_upd_where)

lemma revoked_only_open_session:
  assumes "open_session e o' member n db = Inr (j, db')" and "never_draws i e" and "revoked_only i db"
  shows "revoked_only i db'"
proof -
  obtain r where "cl_sessions db' = cl_sessions db @ [r]" "ds_id r = new_id e db"
    using assms(1) by (auto simp: open_session_def Let_def)
  then show ?thesis using assms(2,3) by (auto simp: revoked_only_def never_draws_def new_id_def)
qed

lemma revoked_only_purge_dead: "revoked_only i db \<Longrightarrow> revoked_only i (purge_dead_sessions e o' db)"
  by (erule revoked_only_fewer[rotated]) (auto simp: purge_dead_sessions_def Let_def)

lemma revoked_only_sweep:
  "sweep e policy db = (sw, db') \<Longrightarrow> revoked_only i db \<Longrightarrow> revoked_only i db'"
  by (rule revoked_only_fewer[OF fewer_sessions_sweep])

lemma revoked_only_stay: "cl_sessions db' = cl_sessions db \<Longrightarrow> revoked_only i db \<Longrightarrow> revoked_only i db'"
  by (rule revoked_only_same[THEN iffD2])

lemma revoked_only_answers: "revoked_only i db \<Longrightarrow> j = i \<longrightarrow> who_is db j = None"
  by (intro impI, hypsubst, rule revoked_only_no_one)

lemma revoked_only_books: "revoked_only i (with_books f db) = revoked_only i db"
  by (rule revoked_only_same, rule with_books_simps)

interpretation out_for_good: account_tables "revoked_only i"
  "\<lambda>x. fst x = i \<longrightarrow> snd (snd x) = None" "never_draws i" for i
  by (rule account_tables.intro, simp_all only: fst_conv snd_conv)
    (rule revoked_only_books | erule revoked_only_answers
    | erule (2) revoked_only_open_session
    | erule (1) revoked_only_staff_remove revoked_only_device_revoke revoked_only_sweep
    | erule revoked_only_end_session revoked_only_touch revoked_only_purge_dead
    | (erule revoked_only_stay[rotated],
       (erule sessions_stay | simp add: mark_rotated_def cancel_deletion_def; fail)))+

text \<open>Signed out for good: no request brings the session back, in the tables or in the memory.\<close>

lemma kept_out_resolves:
  assumes "out_for_good.kept i s"
  shows "fst (resolve e i s) = Inr None"
proof -
  have "a = None" if "remembered (e_now e) i (sv_remembered s) = Some a" for a
    using that assms find_key_SomeD[of fst i "sv_remembered s"]
    by (force simp: remembered_def out_for_good.kept_def split: option.splits if_splits)
  then show ?thesis using assms revoked_only_no_one[of i "sv_db s"]
    by (auto simp: resolve_def Let_def out_for_good.kept_def split: option.split)
qed

lemma signed_out_kept:
  "revoked_only i (sv_db s) \<Longrightarrow> sv_remembered s = [] \<Longrightarrow> out_for_good.kept i s"
  by (simp add: out_for_good.kept_def)

lemma stays_signed_out:
  assumes "serves_on ae cal (never_draws i) s s'" and "revoked_only i (sv_db s)" and "sv_remembered s = []"
  shows "fst (resolve e i s') = Inr None \<and> revoked_only i (sv_db s')"
  using kept_out_resolves out_for_good.serves_on_keeps[OF assms(1) signed_out_kept[OF assms(2,3)]]
  by (simp add: out_for_good.kept_def)

end
