(* ===== verification/Account_Samples.thy ===== *)
theory Account_Samples
  imports Sign_Out Samples
begin

text \<open>
  A concrete instance at which the account properties are instantiated: hashing and tokens that
  can be read off, a calendar of twenty-eight day months, and the states a short story goes
  through: an owner registers, adds a cashier, and the cashier's phone joins.
\<close>

definition sample_at :: "instant \<Rightarrow> env" where
  "sample_at now = (sample_env now)\<lparr>e_uuid_text := (\<lambda>_. ''id'')\<rparr>"

lemma sample_at_now [simp]: "e_now (sample_at t) = t"
  by (simp add: sample_at_def)

definition sample_calendar :: calendar where
  "sample_calendar = \<lparr>cal_weekday = (\<lambda>d. (d + 3) mod 7), cal_month_start = Some,
     cal_add_months = (\<lambda>t n. Some (t + days (28 * int n)))\<rparr>"

definition sample_crypto :: crypto where
  "sample_crypto = \<lparr>cy_sha256 = (\<lambda>s. s), cy_index = (\<lambda>_ i. i), cy_token = (\<lambda>n. replicate n (CHR ''k'')),
     cy_hash = Some, cy_verify = (\<lambda>plain hash. plain = hash)\<rparr>"

definition sample_security :: security where
  "sample_security = \<lparr>sc_lifetime = 900 * usec_per_second, sc_encode = (\<lambda>c. Some (cm_sid c)),
     sc_decode = (\<lambda>_ t. Some \<lparr>cm_sub = t, cm_sid = t, cm_iat = 0, cm_exp = 0\<rparr>),
     sc_parse_uuid = map_of [(''ben'', 109), (''tindahan'', 101)]\<rparr>"

definition sample_limiter :: limiter where
  "sample_limiter = \<lparr>lm_connected = True, lm_incr_ok = True, lm_expire_ok = True, lm_limit = 3,
     lm_window_seconds = 60\<rparr>"

definition sample_billing :: billing_settings where
  "sample_billing = \<lparr>bs_mode = BillingTest, bs_public_url = ''http'', bs_trial = days 30,
     bs_grace = days 7\<rparr>"

definition sample_auth :: auth_env where
  "sample_auth = \<lparr>ae_email_ok = (\<lambda>_. True), ae_crypto = sample_crypto,
     ae_security = sample_security, ae_limiter = sample_limiter, ae_billing = sample_billing,
     ae_refresh_lifetime = days 60\<rparr>"

definition sample_boot :: server where
  "sample_boot = \<lparr>sv_db = empty_cloud, sv_remembered = [], sv_confirmed = {}, sv_attempts = []\<rparr>"

definition sample_register :: register_request where
  "sample_register = \<lparr>rg_email = ''ana@x.ph'', rg_password = ''longenough'', rg_full_name = ''Ana'',
     rg_store_name = ''Tindahan'', rg_business_type = None, rg_device_tag = None,
     rg_device_name = Some ''phone'', rg_privacy_version = Some ''2026-09-01'',
     rg_terms_version = Some ''2026-09-01''\<rparr>"

definition sample_registered :: server where
  "sample_registered =
     snd (handle_register (sample_at 1000) sample_auth (Inr sample_register) sample_boot)"

text \<open>The registration draws the ids 100 (owner), 101 (store), 102 and 103 (consents), 104 (the
  phone's session) and 105 (its refresh token).\<close>

definition sample_ana :: actor where
  "sample_ana = \<lparr>ac_owner_id = 100, ac_session_id = 104, ac_name = ''Ana'',
     ac_device_name = ''phone'', ac_staff = None,
     ac_subscription = Some \<lparr>sub_plan = ''pro'', sub_trial_ends_at = Some (1000 + days 30),
       sub_paid_through = None\<rparr>\<rparr>"

definition sample_hired :: server where
  "sample_hired = snd (handle_add_staff (sample_at 2000) sample_crypto sample_billing 101
     sample_ana (Inr \<lparr>fr_display_name = ''Ben'', fr_permissions = [RecordExpenses]\<rparr>)
     sample_registered)"

definition sample_joined :: server where
  "sample_joined = snd (handle_join (sample_at 3000) sample_auth
     (Inr \<lparr>jn_code = ''abcde fghjk'', jn_device_tag = None, jn_device_name = Some ''tablet''\<rparr>)
     sample_hired)"

lemma sample_calendar_ok: "calendar_ok sample_calendar"
proof -
  have "(d + 3) mod 7 < 7" for d :: int by simp
  then have "(d + 3) mod 7 \<le> 6" for d :: int by (simp add: zless_imp_add1_zle[of _ 7, simplified])
  then show ?thesis by (simp add: calendar_ok_def sample_calendar_def)
qed

lemma sample_serving_registered: "serving sample_auth sample_calendar sample_registered"
  unfolding sample_registered_def sample_boot_def
  by (rule serving.serve[OF serving.boot served.register])

lemma sample_serving_hired: "serving sample_auth sample_calendar sample_hired"
  using serving.serve[OF sample_serving_registered, of "sample_at 2000" sample_hired]
    served.add_staff[of sample_auth sample_calendar "sample_at 2000"]
  unfolding sample_hired_def by (simp add: sample_auth_def)

lemma sample_serving: "serving sample_auth sample_calendar sample_joined"
  unfolding sample_joined_def by (rule serving.serve[OF sample_serving_hired served.join])

text \<open>The state after the story, which evaluation starts from.\<close>

lemma sample_registered_is [code]:
  "sample_registered =
   \<lparr>sv_db =
    \<lparr>cl_owners =
       [\<lparr>ow_id = 100, ow_email = ''ana@x.ph'',
           ow_password_hash = ''longenough'', ow_full_name = ''Ana'',
           ow_created_at = 1000, ow_deletion_requested_at = None,
           ow_delete_after = None\<rparr>],
       cl_stores =
         [\<lparr>st_id = 101, st_owner = 100, st_name = ''Tindahan'',
             st_business_type = ''sari_sari'', st_currency_code = ''PHP'',
             st_share_benchmarks = True, st_created_at = 1000,
             st_updated_at = 1000\<rparr>],
       cl_subscriptions =
         [\<lparr>sb_owner = 100, sb_plan = ''pro'',
             sb_trial_ends_at = Some 2592000001000, sb_paid_through = None,
             sb_updated_at = 1000\<rparr>],
       cl_payments = [], cl_staff = [], cl_invites = [],
       cl_sessions =
         [\<lparr>ds_id = 104, ds_owner = 100, ds_staff = None,
             ds_device_name = ''phone'', ds_created_at = 1000,
             ds_last_seen_at = 1000, ds_revoked_at = None\<rparr>],
       cl_tokens =
         [\<lparr>rt_id = 105, rt_owner = 100, rt_session = 104,
             rt_hash = ''kkkkk'', rt_expires_at = 5184000001000,
             rt_revoked_at = None, rt_rotated_at = None\<rparr>],
       cl_consents =
         [\<lparr>cn_id = 102, cn_owner = 100, cn_document = ''privacy_notice'',
             cn_version = ''2026-09-01'', cn_agreed_at = 1000\<rparr>,
          \<lparr>cn_id = 103, cn_owner = 100, cn_document = ''terms'',
             cn_version = ''2026-09-01'', cn_agreed_at = 1000\<rparr>],
       cl_accounting = [], cl_reports = [],
       cl_books =
         \<lparr>bk_products = [], bk_movements = [], bk_sales = [], bk_items = [],
            bk_expenses = [], bk_withdrawals = [], bk_audit = [],
            bk_seq = 1, bk_events = [], bk_invalidated = [], bk_drawn = 6\<rparr>\<rparr>,
    sv_remembered =
      [(104, 1000,
        Some
         \<lparr>ac_owner_id = 100, ac_session_id = 104, ac_name = ''Ana'',
            ac_device_name = ''phone'', ac_staff = None,
            ac_subscription =
              Some
               \<lparr>sub_plan = ''pro'', sub_trial_ends_at = Some 2592000001000,
                  sub_paid_through = None\<rparr>\<rparr>)],
    sv_confirmed = {}, sv_attempts = []\<rparr>"
  by code_simp

lemma sample_joined_is [code]:
  "sample_joined =
   \<lparr>sv_db =
    \<lparr>cl_owners =
       [\<lparr>ow_id = 100, ow_email = ''ana@x.ph'',
           ow_password_hash = ''longenough'', ow_full_name = ''Ana'',
           ow_created_at = 1000, ow_deletion_requested_at = None,
           ow_delete_after = None\<rparr>],
       cl_stores =
         [\<lparr>st_id = 101, st_owner = 100, st_name = ''Tindahan'',
             st_business_type = ''sari_sari'', st_currency_code = ''PHP'',
             st_share_benchmarks = True, st_created_at = 1000,
             st_updated_at = 1000\<rparr>],
       cl_subscriptions =
         [\<lparr>sb_owner = 100, sb_plan = ''pro'',
             sb_trial_ends_at = Some 2592000001000, sb_paid_through = None,
             sb_updated_at = 1000\<rparr>],
       cl_payments = [],
       cl_staff =
         [\<lparr>sm_id = 106, sm_store = 101, sm_display_name = ''Ben'',
             sm_permissions =
               \<lparr>pm_manage_products = False, pm_record_expenses = True,
                  pm_view_profit = False, pm_delete_records = False\<rparr>,
             sm_created_at = 2000, sm_updated_at = 2000,
             sm_removed_at = None\<rparr>],
       cl_invites =
         [\<lparr>iv_id = 108, iv_staff = 106, iv_code_hash = ''ABCDEFGHJK'',
             iv_expires_at = 86400002000, iv_redeemed_at = Some 3000\<rparr>],
       cl_sessions =
         [\<lparr>ds_id = 104, ds_owner = 100, ds_staff = None,
             ds_device_name = ''phone'', ds_created_at = 1000,
             ds_last_seen_at = 1000, ds_revoked_at = None\<rparr>,
          \<lparr>ds_id = 109, ds_owner = 100, ds_staff = Some 106,
             ds_device_name = ''tablet'', ds_created_at = 3000,
             ds_last_seen_at = 3000, ds_revoked_at = None\<rparr>],
       cl_tokens =
         [\<lparr>rt_id = 105, rt_owner = 100, rt_session = 104,
             rt_hash = ''kkkkk'', rt_expires_at = 5184000001000,
             rt_revoked_at = None, rt_rotated_at = None\<rparr>,
          \<lparr>rt_id = 110, rt_owner = 100, rt_session = 109,
             rt_hash = ''kkkkkkkkkk'', rt_expires_at = 5184000003000,
             rt_revoked_at = None, rt_rotated_at = None\<rparr>],
       cl_consents =
         [\<lparr>cn_id = 102, cn_owner = 100, cn_document = ''privacy_notice'',
             cn_version = ''2026-09-01'', cn_agreed_at = 1000\<rparr>,
          \<lparr>cn_id = 103, cn_owner = 100, cn_document = ''terms'',
             cn_version = ''2026-09-01'', cn_agreed_at = 1000\<rparr>],
       cl_accounting = [], cl_reports = [],
       cl_books =
         \<lparr>bk_products = [], bk_movements = [], bk_sales = [], bk_items = [],
            bk_expenses = [], bk_withdrawals = [],
            bk_audit =
              [\<lparr>ar_seq = 1, ar_owner_id = 100, ar_store_id = Some 101,
                  ar_staff_id = None, ar_actor_name = ''Ana'',
                  ar_device_name = ''phone'', ar_action = ''staff_added'',
                  ar_entity_id = Some 106,
                  ar_details =
                    JObj
                     [(''name'', JStr ''Ben''),
                      (''permissions'', JArr [JStr ''record_expenses''])],
                  ar_occurred_at = 2000, ar_recorded_at = 2000\<rparr>,
               \<lparr>ar_seq = 2, ar_owner_id = 100, ar_store_id = Some 101,
                  ar_staff_id = Some 106, ar_actor_name = ''Ben'',
                  ar_device_name = ''tablet'', ar_action = ''staff_joined'',
                  ar_entity_id = Some 106,
                  ar_details =
                    JObj
                     [(''name'', JStr ''Ben''),
                      (''device'', JStr ''tablet'')],
                  ar_occurred_at = 3000, ar_recorded_at = 3000\<rparr>],
            bk_seq = 3, bk_events = [], bk_invalidated = [],
            bk_drawn = 11\<rparr>\<rparr>,
    sv_remembered =
      [(109, 3000,
        Some
         \<lparr>ac_owner_id = 100, ac_session_id = 109, ac_name = ''Ben'',
            ac_device_name = ''tablet'',
            ac_staff =
              Some
               \<lparr>sg_staff_id = 106, sg_store_id = 101,
                  sg_permissions =
                    \<lparr>pm_manage_products = False, pm_record_expenses = True,
                       pm_view_profit = False, pm_delete_records = False\<rparr>\<rparr>,
            ac_subscription =
              Some
               \<lparr>sub_plan = ''pro'', sub_trial_ends_at = Some 2592000001000,
                  sub_paid_through = None\<rparr>\<rparr>),
       (104, 1000,
        Some
         \<lparr>ac_owner_id = 100, ac_session_id = 104, ac_name = ''Ana'',
            ac_device_name = ''phone'', ac_staff = None,
            ac_subscription =
              Some
               \<lparr>sub_plan = ''pro'', sub_trial_ends_at = Some 2592000001000,
                  sub_paid_through = None\<rparr>\<rparr>)],
    sv_confirmed = {}, sv_attempts = []\<rparr>"
  by code_simp

text \<open>A run that does not fail, and its result.\<close>

lemma ranS: "\<not> isl (fst r) \<Longrightarrow> r = (Inr (projr (fst r)), snd r)"
  by (cases r) auto

lemma ran_pair:
  "\<not> isl (fst r) \<Longrightarrow> r = (Inr (fst (projr (fst r)), snd (projr (fst r))), snd r)"
  by (cases r) auto

end
