(* ===== verification/Access_Properties.thy ===== *)
theory Access_Properties
  imports Account_Samples
begin

text \<open>
  What an account promises about who may use it: the tables stay consistent, a session that was
  ended is refused everywhere within seconds, a join code works once, attempts are counted, and
  a wrong password opens nothing.
\<close>

section \<open>The books of the account do not touch who is who\<close>

lemma with_books_queries [simp]:
  "session_query (with_books f db) i = session_query db i"
  "who_is (with_books f db) i = who_is db i"
  "find_refresh_token (with_books f db) h = find_refresh_token db h"
  "owner_of_code e (with_books f db) h = owner_of_code e db h"
  by (simp_all add: session_query_def who_is_def find_refresh_token_def member_of_def
      owner_of_code_def cong: option.case_cong)

lemma sample_joined_tables:
  "cl_sessions (sv_db sample_joined) =
     [\<lparr>ds_id = 104, ds_owner = 100, ds_staff = None, ds_device_name = ''phone'',
       ds_created_at = 1000, ds_last_seen_at = 1000, ds_revoked_at = None\<rparr>,
      \<lparr>ds_id = 109, ds_owner = 100, ds_staff = Some 106, ds_device_name = ''tablet'',
       ds_created_at = 3000, ds_last_seen_at = 3000, ds_revoked_at = None\<rparr>]"
  "map iv_redeemed_at (cl_invites (sv_db sample_joined)) = [Some 3000]"
  by code_simp+

section \<open>Every reachable state\<close>

text \<open>C5: whatever requests a server has answered, and whatever sweeps and restarts came between
  them, its account tables are well formed: keys, e-mail addresses, join codes and payment
  references are unique, every reference points at a row, every owner has a store and a
  subscription.\<close>

theorem accounts_stay_well_formed:
  assumes "serving ae cal s"
  shows "accounts_ok (sv_db s)"
  using serving_keeps[OF assms] by (simp add: server_ok_def)

theorem accounts_stay_well_formed_witness:
  "accounts_ok (sv_db sample_joined) \<and> length (cl_sessions (sv_db sample_joined)) = 2"
  using accounts_stay_well_formed[OF sample_serving] by (simp add: sample_joined_tables)

section \<open>Ended sessions\<close>

lemma revoke_device_result:
  assumes "revoke_device e owner i s = (Inr (), s')"
  shows "sv_remembered s' = []
    \<and> (\<exists>f. sv_db s' = with_books f (snd (device_revoke e (ac_owner_id owner) i (sv_db s))))
    \<and> (\<exists>d \<in> set (cl_sessions (sv_db s)). ds_id d = i \<and> ds_owner d = ac_owner_id owner)"
proof -
  obtain found db where run: "device_revoke e (ac_owner_id owner) i (sv_db s) = (Some found, db)"
    using assms by (cases "device_revoke e (ac_owner_id owner) i (sv_db s)")
      (auto simp: revoke_device_def)
  then have "\<exists>d. find (\<lambda>d. ds_id d = i \<and> ds_owner d = ac_owner_id owner \<and> ds_revoked_at d = None
      \<and> find_key ow_id (ds_owner d) (cl_owners (sv_db s)) \<noteq> None) (cl_sessions (sv_db s)) = Some d"
    by (auto simp: device_revoke_def split: option.splits)
  then have "\<exists>d \<in> set (cl_sessions (sv_db s)). ds_id d = i \<and> ds_owner d = ac_owner_id owner"
    by (auto dest!: find_SomeD)
  then show ?thesis using assms run by (auto simp: revoke_device_def)
qed

lemma resolve_forgotten:
  "sv_remembered s = [] \<Longrightarrow> fst (resolve e i s) = Inr (who_is (sv_db s) i)"
  by (simp add: resolve_def remembered_def Let_def)

text \<open>a device an owner signed out is locked out at once on this instance: the session
  resolves to no one, and no refresh token of it can be exchanged.\<close>

theorem signed_out_device_is_locked_out:
  assumes "serving ae cal s" and "revoke_device e owner i s = (Inr (), s')"
  shows "fst (resolve e' i s') = Inr None
    \<and> (\<forall>h r. find_refresh_token (sv_db s') h = Some r \<longrightarrow> tr_session_id r = i
         \<longrightarrow> \<not> token_usable e' r)"
proof -
  have ok: "accounts_ok (sv_db s)" using serving_keeps[OF assms(1)] by (simp add: server_ok_def)
  obtain f d where f: "sv_db s' = with_books f (snd (device_revoke e (ac_owner_id owner) i (sv_db s)))"
    and d: "d \<in> set (cl_sessions (sv_db s))" "ds_id d = i" "ds_owner d = ac_owner_id owner"
    and forgotten: "sv_remembered s' = []"
    using revoke_device_result[OF assms(2)] by blast
  have "who_is (sv_db s') i = None"
    using device_out.answers_no_one[OF ok d(1), of i "ac_owner_id owner" e] d f by simp
  moreover have "\<not> token_usable e' r"
    if "find_refresh_token (sv_db s') h = Some r" "tr_session_id r = i" for h r
    using device_out.tokens_refused[OF ok d(1), of i "ac_owner_id owner" e h r e'] d f that by simp
  ultimately show ?thesis by (simp add: resolve_forgotten forgotten)
qed

theorem signed_out_device_is_locked_out_witness:
  "fst (resolve (sample_at 5000) 109
     (snd (revoke_device (sample_at 4000) sample_ana 109 sample_joined))) = Inr None"
proof -
  have "fst (revoke_device (sample_at 4000) sample_ana 109 sample_joined) = Inr ()" by code_simp
  then show ?thesis
    using signed_out_device_is_locked_out[OF sample_serving,
        of "sample_at 4000" sample_ana 109] by (metis prod.collapse)
qed

text \<open>a phone that signed itself out is out with everything it held: its session resolves to no
  one, and exchanging any refresh token of that session is refused and changes nothing.\<close>

theorem signed_out_phone_is_locked_out:
  assumes "serving ae cal s" and "logout e ae token s = (Inr (), s')"
    and "find_refresh_token (sv_db s) (cy_sha256 (ae_crypto ae) token) = Some r"
    and "find_refresh_token (sv_db s') (cy_sha256 (ae_crypto ae) other) = Some r'"
    and "tr_session_id r' = tr_session_id r"
  shows "fst (resolve e' (tr_session_id r) s') = Inr None
    \<and> refresh e' ae other s' = (Inl sign_in_again, s')"
proof -
  let ?h = "cy_sha256 (ae_crypto ae) token"
  have ok: "accounts_ok (sv_db s)" using serving_keeps[OF assms(1)] by (simp add: server_ok_def)
  have s': "sv_db s' = end_session_for_token e ?h (sv_db s)" "sv_remembered s' = []"
    using assms(2) by (auto simp: logout_def)
  obtain t d where t: "find_key rt_hash ?h (cl_tokens (sv_db s)) = Some t"
    and d: "d \<in> set (cl_sessions (sv_db s))" "ds_id d = rt_session t" "tr_session_id r = ds_id d"
    using assms(3) by (auto simp: find_refresh_token_def bind_eq_Some_conv dest: find_key_sessions)
  have hit: "\<exists>t. find_key rt_hash ?h (cl_tokens (sv_db s)) = Some t \<and> rt_session t = ds_id d"
    using t d by simp
  have "refresh e' ae other s' = (Inl sign_in_again, s')"
    using phone_out.refresh_refused[OF ok d(1) hit s'(1), of ae other r' e'] assms(4,5) d s' by simp
  then show ?thesis
    using phone_out.answers_no_one[OF ok d(1) hit, of e] s' d by (simp add: resolve_forgotten)
qed

theorem signed_out_phone_is_locked_out_witness:
  "refresh (sample_at 5000) sample_auth ''kkkkkkkkkk''
     (snd (logout (sample_at 4000) sample_auth ''kkkkkkkkkk'' sample_joined))
   = (Inl sign_in_again, snd (logout (sample_at 4000) sample_auth ''kkkkkkkkkk'' sample_joined))"
proof -
  let ?s = "snd (logout (sample_at 4000) sample_auth ''kkkkkkkkkk'' sample_joined)"
  have run: "logout (sample_at 4000) sample_auth ''kkkkkkkkkk'' sample_joined = (Inr (), ?s)"
    by (simp add: logout_def bindS_def modifyS_def)
  have "map_option tr_session_id (find_refresh_token (sv_db sample_joined)
      (cy_sha256 (ae_crypto sample_auth) ''kkkkkkkkkk'')) = Some 109"
    "map_option tr_session_id (find_refresh_token (sv_db ?s)
      (cy_sha256 (ae_crypto sample_auth) ''kkkkkkkkkk'')) = Some 109"
    by code_simp+
  then show ?thesis
    using signed_out_phone_is_locked_out[OF sample_serving run] by (fastforce simp: map_option_eq_Some)
qed

lemma remove_staff_result:
  assumes "handle_remove_staff e st actor m s = (Inr (), s')"
  shows "sv_remembered s' = [] \<and> find_staff (sv_db s) st m \<noteq> None
    \<and> (\<exists>f. sv_db s' = with_books f (snd (staff_remove e st m (sv_db s))))"
proof -
  obtain r where "find_staff (sv_db s) st m = Some r"
    using assms by (cases "find_staff (sv_db s) st m")
      (auto simp: handle_remove_staff_def remove_staff_def staff_remove_def Let_def)
  then show ?thesis
    using assms by (auto simp: handle_remove_staff_def remove_staff_def access_changed_def
        log_staff_def with_db_def with_books_def)
qed

lemma redeemable_member:
  assumes "redeem e h db = Inr (Some r, db')"
  shows "sm_removed_at (rd_staff r) = None \<and> rd_staff r \<in> set (cl_staff db)"
proof -
  obtain i where "find (redeemable e db h) (cl_invites db) = Some i"
    "Option.bind (find_key sm_id (iv_staff i) (cl_staff db))
       (\<lambda>st. map_option (\<lambda>s. \<lparr>rd_staff = st, rd_owner_id = st_owner s\<rparr>)
          (find_key st_id (sm_store st) (cl_stores db))) = Some r"
    using assms by (auto simp: redeem_def split: option.splits)
  then show ?thesis
    by (auto simp: bind_eq_Some_conv redeemable_def dest!: find_SomeD split: option.splits
        dest: find_key_SomeD)
qed

text \<open>C17: removing a staff member takes their access away at once: none of their sessions resolves
  to anyone, and no join code, not even one the owner had already shared, lets them back in.\<close>

theorem removed_staff_are_locked_out:
  assumes "serving ae cal s" and "handle_remove_staff e st actor m s = (Inr (), s')"
  shows "(\<forall>d \<in> set (cl_sessions (sv_db s)). ds_staff d = Some m
            \<longrightarrow> fst (resolve e' (ds_id d) s') = Inr None)
    \<and> (\<forall>h r db. redeem e' h (sv_db s') = Inr (Some r, db) \<longrightarrow> sm_id (rd_staff r) \<noteq> m)"
proof -
  have ok: "accounts_ok (sv_db s)" using serving_keeps[OF assms(1)] by (simp add: server_ok_def)
  obtain f where s': "sv_remembered s' = []" "find_staff (sv_db s) st m \<noteq> None"
    "sv_db s' = with_books f (snd (staff_remove e st m (sv_db s)))"
    using remove_staff_result[OF assms(2)] by blast
  have "fst (resolve e' (ds_id d) s') = Inr None"
    if "d \<in> set (cl_sessions (sv_db s))" "ds_staff d = Some m" for d
    using staff_out.answers_no_one[OF ok that(1), of m st e] that s' by (simp add: resolve_forgotten)
  moreover have "sm_id (rd_staff r) \<noteq> m" if "redeem e' h (sv_db s') = Inr (Some r, db)" for h r db
  proof
    assume m: "sm_id (rd_staff r) = m"
    note back_in = redeemable_member[OF that]
    obtain x where x: "x \<in> set (cl_staff (sv_db s))" "sm_id x = m" "works_here st m x"
      using s'(2) by (auto simp: find_staff_def works_here_def dest: find_SomeD)
    have all: "y \<in> set (cl_staff (sv_db s)) \<Longrightarrow> sm_id y = m \<Longrightarrow> y = x" for y
      using ok x by (auto simp: accounts_ok_def members_ok_def distinct_map inj_on_def)
    have "cl_staff (sv_db s') = upd_where (works_here st m)
        (\<lambda>r. r\<lparr>sm_removed_at := Some (e_now e), sm_updated_at := e_now e\<rparr>) (cl_staff (sv_db s))"
      using s' by (auto simp: staff_remove_def Let_def revoke_sessions_def revoke_tokens_def
          drop_open_invites_def)
    then obtain y where y: "y \<in> set (cl_staff (sv_db s))" "rd_staff r = (if works_here st m y
        then y\<lparr>sm_removed_at := Some (e_now e), sm_updated_at := e_now e\<rparr> else y)"
      using back_in by (auto simp: in_upd_where)
    have "sm_id y = m" using y(2) m by (auto split: if_splits)
    then have "y = x" using all y(1) by blast
    then show False using y(2) x(3) back_in by simp
  qed
  ultimately show ?thesis by blast
qed

theorem removed_staff_are_locked_out_witness:
  "fst (resolve (sample_at 5000) 109
     (snd (handle_remove_staff (sample_at 4000) 101 sample_ana 106 sample_joined))) = Inr None"
proof -
  let ?run = "handle_remove_staff (sample_at 4000) 101 sample_ana 106 sample_joined"
  have "fst ?run = Inr ()" by code_simp
  then have "?run = (Inr (), snd ?run)" by (simp add: prod_eq_iff)
  from removed_staff_are_locked_out[OF sample_serving this] show ?thesis
    by (simp add: sample_joined_tables)
qed

section \<open>Join codes\<close>




lemma preserved_Inr: "preserves I m \<Longrightarrow> m s = (x, s') \<Longrightarrow> I s \<Longrightarrow> I s'"
  by (auto simp: preserves_def dest: spec[of _ s])




section \<open>How a code is typed\<close>

lemma alphabet_cases:
  "list_all (\<lambda>c. is_ascii_alphanumeric c \<and> to_ascii_uppercase c = c
     \<and> to_ascii_uppercase (lower_char c) = c) code_alphabet"
  by code_simp

lemma code_characters:
  assumes "c \<in> set (filter is_ascii_alphanumeric (generate_code cy n))"
  shows "c \<in> set code_alphabet"
proof -
  have "code_alphabet ! (k mod length code_alphabet) \<in> set code_alphabet" for k
    by (rule nth_mem) (simp add: code_alphabet_def)
  moreover have "\<not> is_ascii_alphanumeric (CHR ''-'')" by code_simp
  ultimately show ?thesis
    using assms unfolding generate_code_def Let_def set_filter set_append
    by (auto dest!: in_set_takeD in_set_dropD)
qed

text \<open>a join code is recognised however it is typed: in either case, with or without the
  dash, with spaces anywhere.\<close>

theorem typed_codes_match:
  assumes "list_all2 (\<lambda>a b. a = b \<or> a = lower_char b)
    (filter is_ascii_alphanumeric typed) (filter is_ascii_alphanumeric (generate_code cy n))"
  shows "code_fingerprint cy typed = code_fingerprint cy (generate_code cy n)"
proof -
  let ?code = "filter is_ascii_alphanumeric (generate_code cy n)"
  have "map to_ascii_uppercase xs = map to_ascii_uppercase ys"
    if "list_all2 (\<lambda>a b. a = b \<or> a = lower_char b) xs ys" "set ys \<subseteq> set code_alphabet" for xs ys
    using that alphabet_cases by (induction rule: list_all2_induct) (auto simp: list_all_iff)
  from this[OF assms] have "map to_ascii_uppercase (filter is_ascii_alphanumeric typed)
      = map to_ascii_uppercase ?code"
    using code_characters by blast
  then show ?thesis by (simp only: code_fingerprint_def normalise_code_def)
qed

theorem typed_codes_match_witness:
  "code_fingerprint sample_crypto '' abcde fghjk'' = code_fingerprint sample_crypto
     (generate_code sample_crypto 7)"
  by (rule typed_codes_match) code_simp

section \<open>Attempts\<close>

text \<open>within one window, as many attempts go through as the limit allows and every later one is
  refused, when Redis answers.\<close>

theorem attempts_are_limited:
  assumes "lm_connected lm" "lm_incr_ok lm" "lm_expire_ok lm" "1 \<le> lm_limit lm"
    and "\<And>t. e_now (clock t) = t"
    and "live_count t0 (limit_key b) (sv_attempts s) = None"
    and "\<forall>t \<in> set ts. t < t0 + lm_window_seconds lm * usec_per_second"
  shows "checks clock lm b (t0 # ts) s
    = map (\<lambda>i. if lm_limit lm < int i + 1 then Exceeded else Allowed) [0..<Suc (length ts)]"
proof -
  let ?s = "snd (limit_check (clock t0) lm b s)" and ?x = "t0 + lm_window_seconds lm * usec_per_second"
  have "fst (limit_check (clock t0) lm b s) = Allowed"
    and stored: "find_key fst (limit_key b) (sv_attempts ?s) = Some (limit_key b, 1, Some ?x)"
    using assms by (simp_all add: limit_check_def Let_def find_put_count)
  moreover have "checks clock lm b ts ?s
      = map (\<lambda>i. if lm_limit lm < 1 + int i + 1 then Exceeded else Allowed) [0..<length ts]"
    by (rule checks_counted[OF _ _ _ _ stored]) (use assms in auto)
  ultimately show ?thesis
    using assms(4) by (simp add: case_prod_beta upt_conv_Cons map_Suc_upt[symmetric] o_def
        algebra_simps del: upt_Suc)
qed

theorem attempts_are_limited_witness:
  "checks sample_at sample_limiter ''login:a'' [10, 11, 12, 13, 14] sample_boot
   = [Allowed, Allowed, Allowed, Exceeded, Exceeded]"
  using attempts_are_limited[of sample_limiter sample_at 10 "''login:a''" sample_boot "[11, 12, 13, 14]"]
  by (simp add: sample_limiter_def sample_boot_def live_count_def upt_rec)

text \<open>a wrong password, or an address no one registered, opens nothing: the answer is the same
  refusal in both cases (or that there were too many attempts), and the database is unchanged.\<close>

theorem wrong_password_opens_nothing:
  assumes "\<not> (\<exists>r. find_owner_by_email (sv_db s) (to_lowercase (trim (lg_email request))) = Some r
      \<and> cy_verify (ae_crypto ae) (lg_password request) (ow_password_hash r))"
  shows "fst (login e ae request s) \<in> {Inl invalid_credentials, Inl TooManyRequests}
    \<and> sv_db (snd (login e ae request s)) = sv_db s"
proof -
  let ?b = "''login:'' @ to_lowercase (trim (lg_email request))"
  obtain v s1 where check: "limit_check e (ae_limiter ae) ?b s = (v, s1)" by fastforce
  then have "checkS e (ae_limiter ae) ?b s = (Inr v, s1)" by (simp add: checkS_def)
  moreover have "sv_db s1 = sv_db s"
    using check by (auto simp: limit_check_def Let_def split: if_splits prod.splits)
  ultimately show ?thesis using assms
    by (cases "find_owner_by_email (sv_db s) (to_lowercase (trim (lg_email request)))")
      (simp_all add: login_def Let_def bindS_def liftS_def readS_def)
qed

theorem wrong_password_opens_nothing_witness:
  "sv_db (snd (login (sample_at 2000) sample_auth \<lparr>lg_email = ''ANA@x.ph'',
     lg_password = ''guess'', lg_device_tag = None, lg_device_name = None\<rparr> sample_registered))
   = sv_db sample_registered"
proof -
  have "map_option ow_password_hash (find_owner_by_email (sv_db sample_registered)
      (to_lowercase (trim ''ANA@x.ph''))) = Some ''longenough''" by code_simp
  then show ?thesis
    by (intro wrong_password_opens_nothing[THEN conjunct2])
      (auto simp: sample_auth_def sample_crypto_def)
qed

section \<open>The session directory against a changing database\<close>

text \<open>C37: a session no lookup has found for longer than the trust window and the time a lookup
  takes is refused from memory too: whatever this instance, or another one, wrote meanwhile, and
  however lookups, insertions and forgetting interleave, the directory does not let it in.\<close>

theorem signed_out_sessions_expire:
  assumes "watch_reachable i lag (watch_start now i db) w" and "0 \<le> lag"
    and "\<forall>(t, a) \<in> wt_past w. since \<le> t \<longrightarrow> a = None"
    and "since + trust_window + lag \<le> wt_now w"
  shows "remembered (wt_now w) i (wt_memory w) \<in> {None, Some None}"
proof (cases "remembered (wt_now w) i (wt_memory w)")
  case (Some a)
  obtain t where t: "(t, a) \<in> wt_past w" "wt_now w - t < trust_window + lag"
    using remembered_is_past[OF watch_inv_reachable[OF assms(1,2)] Some] by blast
  then have "since \<le> t" using assms(4) by linarith
  then show ?thesis using t(1) assms(3) Some by auto
qed simp

definition sample_watched :: watch where
  "sample_watched =
     (let w0 = watch_start 0 109 (sv_db sample_joined);
          asked = (0, who_is (sv_db sample_joined) 109);
          w1 = w0\<lparr>wt_asked := asked # wt_asked w0\<rparr>;
          w2 = w1\<lparr>wt_asked := remove1 asked (wt_asked w1),
                  wt_memory := remember (wt_now w1) 109 (snd asked) (wt_memory w1)\<rparr>;
          out = snd (device_revoke (sample_at 4000) 100 109 (sv_db sample_joined));
          w3 = w2\<lparr>wt_db := out, wt_past := insert (wt_now w2, who_is out 109) (wt_past w2)\<rparr>;
          w4 = w3\<lparr>wt_now := wt_now w3 + 1,
                  wt_past := insert (wt_now w3 + 1, who_is (wt_db w3) 109) (wt_past w3)\<rparr>
      in w4\<lparr>wt_now := wt_now w4 + (trust_window + 5),
            wt_past := insert (wt_now w4 + (trust_window + 5), who_is (wt_db w4) 109) (wt_past w4)\<rparr>)"

lemma sample_watch_reachable:
  "watch_reachable 109 5 (watch_start 0 109 (sv_db sample_joined)) sample_watched"
proof -
  define asked where "asked = (0::instant, who_is (sv_db sample_joined) 109)"
  define out where "out = snd (device_revoke (sample_at 4000) 100 109 (sv_db sample_joined))"
  define w0 where "w0 = watch_start 0 109 (sv_db sample_joined)"
  define w1 :: watch where "w1 = w0\<lparr>wt_asked := asked # wt_asked w0\<rparr>"
  define w2 :: watch where "w2 = w1\<lparr>wt_asked := remove1 asked (wt_asked w1),
     wt_memory := remember (wt_now w1) 109 (snd asked) (wt_memory w1)\<rparr>"
  define w3 :: watch where "w3 = w2\<lparr>wt_db := out,
     wt_past := insert (wt_now w2, who_is out 109) (wt_past w2)\<rparr>"
  have "watch_step 109 5 w0 w1"
    using watch_step.ask[of w0 109 5]
    by (simp add: w1_def asked_def w0_def watch_start_def remembered_def)
  moreover have "watch_step 109 5 w1 w2" unfolding w2_def by (rule watch_step.answer) (simp add: w1_def)
  moreover have "watch_step 109 5 w2 w3" unfolding w3_def by (rule watch_step.change)
  ultimately have "watch_reachable 109 5 w0 w3"
    by (meson watch_reachable.intros)
  moreover have "wt_asked w3 = []" by (simp add: w3_def w2_def w1_def w0_def watch_start_def)
  ultimately have "watch_reachable 109 5 w0 (let w4 = w3\<lparr>wt_now := wt_now w3 + 1,
          wt_past := insert (wt_now w3 + 1, who_is (wt_db w3) 109) (wt_past w3)\<rparr>
      in w4\<lparr>wt_now := wt_now w4 + (trust_window + 5),
            wt_past := insert (wt_now w4 + (trust_window + 5), who_is (wt_db w4) 109) (wt_past w4)\<rparr>)"
    unfolding Let_def
    by (intro watch_reachable.step[OF watch_reachable.step[OF _ watch_step.tick] watch_step.tick])
      (simp_all add: trust_window_def)
  then show ?thesis
    unfolding sample_watched_def Let_def w3_def w2_def w1_def w0_def asked_def out_def .
qed

theorem signed_out_sessions_expire_witness:
  "remembered (wt_now sample_watched) 109 (wt_memory sample_watched) \<in> {None, Some None}
   \<and> remembered 0 109 (wt_memory sample_watched) \<noteq> None"
proof -
  have "who_is (snd (device_revoke (sample_at 4000) 100 109 (sv_db sample_joined))) 109 = None"
    by code_simp
  then have "\<forall>(t, a) \<in> wt_past sample_watched. 1 \<le> t \<longrightarrow> a = None"
    by (auto simp: sample_watched_def Let_def watch_start_def trust_window_def)
  from signed_out_sessions_expire[OF sample_watch_reachable _ this] show ?thesis
    by (simp add: sample_watched_def Let_def watch_start_def remembered_def remember_def
        trust_window_def)
qed

section \<open>Whose store it is\<close>

lemma scope_admits:
  assumes "store_scope e sc settings parts s = (Inr (store_id, actor), s')" and "memo_sound s"
  shows "memo_sound s' \<and> sv_db s' = sv_db s
    \<and> (case ac_staff actor of Some grant \<Rightarrow> sg_store_id grant = store_id
       | None \<Rightarrow> owns_store (sv_db s) (ac_owner_id actor) store_id)"
proof -
  obtain s1 where actor: "current_actor e sc (rq_authorization parts) s = (Inr actor, s1)"
    and allowed: "authorise actor store_id s1 = (Inr (), s')"
    using assms(1) by (auto simp: store_scope_def)
  have "preserves (\<lambda>x. sv_db x = sv_db s \<and> sv_confirmed x = sv_confirmed s)
      (current_actor e sc (rq_authorization parts))"
    unfolding current_actor_def actor_for_token_def
    by (intro keeps_rules) (simp add: preserves_def)
  from preserved_Inr[OF this actor] have same: "sv_db s1 = sv_db s" "sv_confirmed s1 = sv_confirmed s"
    by simp_all
  then have "memo_sound s1" using assms(2) by (simp add: memo_sound_def)
  from memo_sound_authorise[OF allowed this] show ?thesis using same by (simp cong: option.case_cong)
qed

lemma scope_checks:
  assumes "store_scope e sc settings parts s = (Inr (store_id, actor), s')" and "memo_sound s"
  shows "fst (current_actor e sc (rq_authorization parts) s) = Inr actor
    \<and> Option.bind (rq_store_id parts) (sc_parse_uuid sc) = Some store_id
    \<and> check_store_request e settings (sv_db s) actor store_id (takes_entries parts) = Inr ()"
  using assms(1) scope_admits[OF assms] by (auto simp: store_scope_def scope_store_id_def)




section \<open>Registration\<close>

lemma lower_char_idem [simp]: "lower_char (lower_char c) = lower_char c"
  by (auto simp: lower_char_def Let_def of_char_of take_bit_eq_mod)

lemma to_lowercase_idem [simp]: "to_lowercase (to_lowercase s) = to_lowercase s"
  by (simp add: to_lowercase_def)

definition account_rows ::
  "cloud \<Rightarrow> owner_row list \<times> store_row list \<times> subscription_row list \<times> consent_row list" where
  "account_rows db = (cl_owners db, cl_stores db, cl_subscriptions db, cl_consents db)"

lemma filter_key_none: "k \<notin> f ` set xs \<Longrightarrow> filter (\<lambda>x. f x = k) xs = []"
  by (induction xs) auto

lemma find_append_None:
  "find P (xs @ ys) = (case find P xs of None \<Rightarrow> find P ys | Some x \<Rightarrow> Some x)"
  by (induction xs) auto

lemma account_rows_books [simp]: "account_rows (with_books f db) = account_rows db"
  by (simp add: account_rows_def)

lemma opening_keeps_account_rows:
  "preserves (\<lambda>s. account_rows (sv_db s) = X) (open_owner_session e ae o' d)"
proof -
  have "preserves (\<lambda>s. account_rows (sv_db s) = X) (transact (open_session e i m d))" for i m
    by (rule preserves_transact) (auto simp: account_rows_def open_session_def Let_def)
  moreover have "preserves (\<lambda>s. account_rows (sv_db s) = X) (execS (store_refresh_token e i j h t))"
    for i j h t
    by (rule preserves_execS) (auto simp: account_rows_def store_refresh_token_def)
  moreover have "preserves (\<lambda>s. account_rows (sv_db s) = X) (resolve e i)" for i
    by (simp add: preserves_def)
  ultimately show ?thesis
    unfolding open_owner_session_def actor_for_def issue_session_def by (intro keeps_rules)
qed

lemma consents_given:
  assumes "filter (\<lambda>c. cn_owner c = i) (cl_consents db) = [c1, c2]"
    and "cn_document c1 = ''privacy_notice''" "cn_document c2 = ''terms''"
    and "cn_version c1 = current_version PrivacyNotice" "cn_version c2 = current_version Terms"
  shows "vs_outstanding (privacy_state_of e db i) = []"
proof -
  have "list_ex (\<lambda>g. cg_document g = d \<and> cg_version g = current_version d) (given_by e db i)" for d
  proof -
    have docs: "set (sort_key (e_collate e) (remdups (map cn_document [c1, c2])))
        = {''privacy_notice'', ''terms''}" using assms(2,3) by auto
    have "newest [c1, c2] ''privacy_notice'' = Some c1" "newest [c1, c2] ''terms'' = Some c2"
      using assms(2,3) by (simp_all add: newest_def)
    then show ?thesis using docs assms
      by (cases d) (auto simp: given_by_def Let_def list_ex_iff List.map_filter_def document_of_def
          intro!: bexI[of _ "''privacy_notice''"] bexI[of _ "''terms''"])
  qed
  then show ?thesis by (simp add: privacy_state_of_def Let_def filter_empty_conv)
qed

lemma consents_recorded:
  assumes "record_registration_consent e i s = (Inr (), s')"
    and "i \<notin> cn_owner ` set (cl_consents (sv_db s))"
  shows "\<exists>c1 c2. cl_consents (sv_db s') = cl_consents (sv_db s) @ [c1, c2]
    \<and> cn_owner c1 = i \<and> cn_owner c2 = i
    \<and> cn_document c1 = ''privacy_notice'' \<and> cn_document c2 = ''terms''
    \<and> cn_version c1 = current_version PrivacyNotice \<and> cn_version c2 = current_version Terms
    \<and> cl_owners (sv_db s') = cl_owners (sv_db s) \<and> cl_stores (sv_db s') = cl_stores (sv_db s)
    \<and> cl_subscriptions (sv_db s') = cl_subscriptions (sv_db s)"
proof -
  have mine: "\<not> list_ex (\<lambda>c. cn_owner c = i \<and> P c) (cl_consents (sv_db s))" for P
    using assms(2) by (auto simp: list_ex_iff)
  show ?thesis using assms(1) mine
    by (auto simp: record_registration_consent_def consent_record_def split: if_splits)
qed

text \<open>C29: registering opens a complete account: the address finds the owner, who has exactly one
  store, a trial of the configured length on the larger plan, and nothing left to agree to.\<close>

theorem registration_opens_a_trial:
  assumes "serving ae cal s" and "register e ae request s = (Inr v, s')"
  shows "\<exists>o'. find_owner_by_email (sv_db s') (to_lowercase (trim (rg_email request))) = Some o'
    \<and> length (list_stores (sv_db s') (ow_id o')) = 1
    \<and> subscription (sv_db s') (ow_id o') = Some \<lparr>sub_plan = ''pro'',
        sub_trial_ends_at = Some (e_now e + bs_trial (ae_billing ae)), sub_paid_through = None\<rparr>
    \<and> vs_outstanding (privacy_state_of e' (sv_db s') (ow_id o')) = []"
proof -
  let ?email = "to_lowercase (trim (rg_email request))"
  have ok: "accounts_ok (sv_db s)" using serving_keeps[OF assms(1)] by (simp add: server_ok_def)
  obtain h n sn bt and r :: owner_row and db s1 d where
    free: "find_owner_by_email (sv_db s) ?email = None"
    and created: "create_owner_with_store e ?email h n sn bt
      (e_now e + bs_trial (ae_billing ae)) (sv_db s) = Inr (r, db)"
    and agreed: "record_registration_consent e (ow_id r) (s\<lparr>sv_db := db\<rparr>) = (Inr (), s1)"
    and opened: "open_owner_session e ae r d s1 = (Inr v, s')"
    using assms(2) by (auto simp: register_def Let_def)
  obtain st :: store_row where rows: "cl_owners db = cl_owners (sv_db s) @ [r]"
      "cl_stores db = cl_stores (sv_db s) @ [st]" "st_owner st = ow_id r"
      "cl_subscriptions db = cl_subscriptions (sv_db s) @ [\<lparr>sb_owner = ow_id r, sb_plan = ''pro'',
         sb_trial_ends_at = Some (e_now e + bs_trial (ae_billing ae)), sb_paid_through = None,
         sb_updated_at = e_now e\<rparr>]"
      "cl_consents db = cl_consents (sv_db s)"
    and new: "ow_id r \<notin> ow_id ` set (cl_owners (sv_db s))" "ow_email r = to_lowercase ?email"
    using created
    by (auto simp: create_owner_with_store_def insert_store_def Let_def new_store_def
        simp del: insert_iff)
  have unused: "ow_id r \<notin> st_owner ` set (cl_stores (sv_db s))"
    "ow_id r \<notin> sb_owner ` set (cl_subscriptions (sv_db s))"
    "ow_id r \<notin> cn_owner ` set (cl_consents (sv_db s))"
    using ok new(1) by (auto simp: accounts_ok_def stores_ok_def subscriptions_ok_def consents_ok_def)
  obtain c1 c2 where s1: "cl_consents (sv_db s1) = cl_consents db @ [c1, c2]"
    "cn_owner c1 = ow_id r" "cn_owner c2 = ow_id r"
    "cn_document c1 = ''privacy_notice''" "cn_document c2 = ''terms''"
    "cn_version c1 = current_version PrivacyNotice" "cn_version c2 = current_version Terms"
    "cl_owners (sv_db s1) = cl_owners db" "cl_stores (sv_db s1) = cl_stores db"
    "cl_subscriptions (sv_db s1) = cl_subscriptions db"
    using consents_recorded[OF agreed] unused(3) rows(5) by auto
  have fresh: "find_key sb_owner (ow_id r) (cl_subscriptions (sv_db s)) = None"
    using unused(2) by (auto simp: find_key_None_iff simp del: find_key_none)
  have same: "account_rows (sv_db s') = account_rows (sv_db s1)"
    using preserved_Inr[OF opening_keeps_account_rows[of "account_rows (sv_db s1)"] opened] by simp
  have "find_owner_by_email (sv_db s') ?email = Some r"
    using same s1 rows(1) free new(2)
    by (simp add: account_rows_def find_owner_by_email_def find_append_None)
  moreover have "length (list_stores (sv_db s') (ow_id r)) = 1"
  proof -
    have "filter (\<lambda>x. st_owner x = ow_id r) (cl_stores (sv_db s)) = []"
      using unused(1) by (rule filter_key_none)
    then show ?thesis using same s1 rows(2,3) by (simp add: account_rows_def list_stores_def)
  qed
  moreover have "subscription (sv_db s') (ow_id r) = Some \<lparr>sub_plan = ''pro'',
      sub_trial_ends_at = Some (e_now e + bs_trial (ae_billing ae)), sub_paid_through = None\<rparr>"
    using same s1 rows(4) fresh
    by (simp add: account_rows_def subscription_def find_key_def find_append_None)
  moreover have "vs_outstanding (privacy_state_of e' (sv_db s') (ow_id r)) = []"
  proof (rule consents_given)
    have "filter (\<lambda>c. cn_owner c = ow_id r) (cl_consents (sv_db s)) = []"
      using unused(3) by (rule filter_key_none)
    then show "filter (\<lambda>c. cn_owner c = ow_id r) (cl_consents (sv_db s')) = [c1, c2]"
      using same s1 rows(5) by (simp add: account_rows_def)
  qed (use s1 in auto)
  ultimately show ?thesis by blast
qed

theorem registration_opens_a_trial_witness:
  "\<exists>o'. find_owner_by_email (sv_db sample_registered) (to_lowercase (trim ''ana@x.ph'')) = Some o'
     \<and> length (list_stores (sv_db sample_registered) (ow_id o')) = 1"
proof -
  let ?run = "register (sample_at 1000) sample_auth sample_register sample_boot"
  have "\<not> isl (fst ?run)" by code_simp
  moreover have "serving sample_auth sample_calendar sample_boot"
    unfolding sample_boot_def by (rule serving.boot)
  moreover have "snd ?run = sample_registered" by code_simp
  ultimately show ?thesis
    using registration_opens_a_trial[OF _ ranS, of sample_auth sample_calendar sample_boot
        "sample_at 1000" sample_register] by (auto simp: sample_register_def)
qed

lemma tokens_of_revoked:
  assumes "revoked_only i db" and "find_refresh_token db h = Some r" and "tr_session_id r = i"
  shows "\<not> token_usable e r"
proof
  assume "token_usable e r"
  then have "tr_session_live r" by (simp add: token_usable_def)
  then show False
    using find_refresh_token_live[OF assms(2)] assms(1,3) unfolding revoked_only_def by metis
qed

lemma ended_sessions:
  assumes "serving ae cal s"
    and "revoke_device e a i s = (Inr (), s')
      \<or> handle_remove_staff e st a m s = (Inr (), s')
        \<and> (\<exists>d \<in> set (cl_sessions (sv_db s)). ds_id d = i \<and> ds_staff d = Some m)
      \<or> logout e ae token s = (Inr (), s')
        \<and> (\<exists>r. find_refresh_token (sv_db s) (cy_sha256 (ae_crypto ae) token) = Some r
              \<and> tr_session_id r = i)"
  shows "revoked_only i (sv_db s') \<and> sv_remembered s' = []"
proof -
  have ok: "accounts_ok (sv_db s)" using serving_keeps[OF assms(1)] by (simp add: server_ok_def)
  from assms(2) show ?thesis
  proof (elim disjE conjE)
    assume "revoke_device e a i s = (Inr (), s')"
    from revoke_device_result[OF this] show ?thesis
      using device_out.ends_for_good[OF ok, of _ i "ac_owner_id a" e]
      by (auto simp: revoked_only_books)
  next
    assume "handle_remove_staff e st a m s = (Inr (), s')"
      and "\<exists>d \<in> set (cl_sessions (sv_db s)). ds_id d = i \<and> ds_staff d = Some m"
    from remove_staff_result[OF this(1)] this(2) show ?thesis
      using staff_out.ends_for_good[OF ok, of _ m st e] by (auto simp: revoked_only_books)
  next
    let ?h = "cy_sha256 (ae_crypto ae) token"
    assume out: "logout e ae token s = (Inr (), s')"
      and "\<exists>r. find_refresh_token (sv_db s) ?h = Some r \<and> tr_session_id r = i"
    then obtain t d where "find_key rt_hash ?h (cl_tokens (sv_db s)) = Some t"
      "d \<in> set (cl_sessions (sv_db s))" "ds_id d = rt_session t" "i = ds_id d"
      by (auto simp: find_refresh_token_def bind_eq_Some_conv dest: find_key_sessions)
    then have "revoked_only i (end_session_for_token e ?h (sv_db s))"
      using phone_out.ends_for_good[OF ok, of d ?h e] by auto
    then show ?thesis using out by (auto simp: logout_def)
  qed
qed

text \<open>C13: signed out is signed out for good. However a session was ended, by the owner, with the
  staff member or by the phone, no later request, in whatever order the server answers them, makes
  it anyone's again or lets one of its refresh tokens be exchanged, as long as its id is not
  drawn a second time.\<close>

theorem sessions_never_come_back:
  assumes "serving ae cal s"
    and "revoke_device e a i s = (Inr (), s')
      \<or> handle_remove_staff e st a m s = (Inr (), s')
        \<and> (\<exists>d \<in> set (cl_sessions (sv_db s)). ds_id d = i \<and> ds_staff d = Some m)
      \<or> logout e ae token s = (Inr (), s')
        \<and> (\<exists>r. find_refresh_token (sv_db s) (cy_sha256 (ae_crypto ae) token) = Some r
              \<and> tr_session_id r = i)"
    and "serves_on ae cal (never_draws i) s' later"
  shows "fst (resolve e' i later) = Inr None
    \<and> (\<forall>h r. find_refresh_token (sv_db later) h = Some r \<longrightarrow> tr_session_id r = i
         \<longrightarrow> \<not> token_usable e' r)"
  using stays_signed_out[OF assms(3)] ended_sessions[OF assms(1,2)] tokens_of_revoked by blast

theorem sessions_never_come_back_witness:
  "fst (resolve (sample_at 9000) 109
     (snd (handle_login ((sample_at 5000)\<lparr>e_uuid := \<lambda>n. if even n then 301 else 302\<rparr>) sample_auth
        (Inr \<lparr>lg_email = ''ana@x.ph'', lg_password = ''longenough'', lg_device_tag = None,
          lg_device_name = None\<rparr>)
        (snd (revoke_device (sample_at 4000) sample_ana 109 sample_joined))))) = Inr None"
proof -
  let ?out = "revoke_device (sample_at 4000) sample_ana 109 sample_joined"
  let ?e = "(sample_at 5000)\<lparr>e_uuid := \<lambda>n. if even n then 301 else 302\<rparr>"
  have "fst ?out = Inr ()" by code_simp
  then have out: "?out = (Inr (), snd ?out)" by (simp add: prod_eq_iff)
  have "never_draws 109 ?e" by (simp add: never_draws_def)
  then have on: "serves_on sample_auth sample_calendar (never_draws 109) (snd ?out)
      (snd (handle_login ?e sample_auth b (snd ?out)))" for b
    by (rule serves_on.onward[OF serves_on.now served.login])
  from sessions_never_come_back[OF sample_serving disjI1[OF out] on] show ?thesis by blast
qed
end
