(* ===== verification/Billing_Properties.thy ===== *)
theory Billing_Properties
  imports Account_Samples
begin

text \<open>
  What a subscription promises: until when an account may upload, what a payment buys, that being
  told of a payment twice is being told once, that nobody but the gateway can tell, and what a
  plan's limits hold back.
\<close>

section \<open>How long an account may upload\<close>

definition paid_or_trial :: "subscription_record \<Rightarrow> instant option" where
  "paid_or_trial sub = (case sub_paid_through sub of
     Some paid \<Rightarrow> Some paid | None \<Rightarrow> sub_trial_ends_at sub)"

lemma uploads_iff:
  assumes "0 \<le> grace"
  shows "can_upload (standing_of (Some sub) now grace True) \<longleftrightarrow>
    (case sub_trial_ends_at sub of Some t \<Rightarrow> now < t | None \<Rightarrow> False)
    \<or> (case paid_or_trial sub of Some t \<Rightarrow> now < t + grace | None \<Rightarrow> False)"
  using assms
  by (cases "sub_trial_ends_at sub"; cases "sub_paid_through sub")
    (auto simp: standing_of_def can_upload_def paid_or_trial_def Let_def)

text \<open>an account uploads exactly until its trial is over and the grace after the end of its
  paid time (or of its trial, when nothing was ever paid) has run out; once paused it stays paused
  until something is paid.\<close>

theorem uploads_until_the_grace_ends:
  assumes "0 \<le> grace"
  shows "(can_upload (standing_of (Some sub) now grace True) \<longleftrightarrow>
      (case sub_trial_ends_at sub of Some t \<Rightarrow> now < t | None \<Rightarrow> False)
      \<or> (case (case sub_paid_through sub of Some paid \<Rightarrow> Some paid | None \<Rightarrow> sub_trial_ends_at sub) of
           Some t \<Rightarrow> now < t + grace | None \<Rightarrow> False))
    \<and> (now \<le> later \<longrightarrow> can_upload (standing_of (Some sub) later grace True)
         \<longrightarrow> can_upload (standing_of (Some sub) now grace True))"
  unfolding uploads_iff[OF assms] paid_or_trial_def[symmetric] by (auto split: option.splits)

theorem uploads_until_the_grace_ends_witness:
  "can_upload (standing_of (Some \<lparr>sub_plan = ''basic'', sub_trial_ends_at = Some 5,
       sub_paid_through = Some 10\<rparr>) 16 7 True)
   \<and> \<not> can_upload (standing_of (Some \<lparr>sub_plan = ''basic'', sub_trial_ends_at = Some 5,
       sub_paid_through = Some 10\<rparr>) 17 7 True)"
  using uploads_until_the_grace_ends[of 7 "\<lparr>sub_plan = ''basic'', sub_trial_ends_at = Some 5,
       sub_paid_through = Some 10\<rparr>" 16 17]
    uploads_until_the_grace_ends[of 7 "\<lparr>sub_plan = ''basic'', sub_trial_ends_at = Some 5,
       sub_paid_through = Some 10\<rparr>" 17 17] by simp

section \<open>Payments\<close>

lemma confirm_payment_None:
  "find (confirmable db reference) (cl_payments db) = None
    \<Longrightarrow> confirm_payment e cal reference method db = (None, db)"
  by (simp add: confirm_payment_def)

lemma confirm_payment_settles:
  assumes "confirm_payment e cal reference method db = (Some c, db')"
  shows "find (confirmable db' reference) (cl_payments db') = None \<and> cl_owners db' = cl_owners db"
proof -
  define rows where "rows = upd_where (confirmable db reference)
    (\<lambda>p. p\<lparr>py_status := ''paid'', py_paid_at := Some (e_now e), py_method := method\<rparr>) (cl_payments db)"
  obtain through where pays: "cl_payments db' = upd_where (\<lambda>p. py_reference p = Some reference)
      (\<lambda>p. p\<lparr>py_paid_through := Some through\<rparr>) rows" and owners: "cl_owners db' = cl_owners db"
    using assms by (auto simp: confirm_payment_def Let_def rows_def split: option.splits)
  have conf: "confirmable db' = confirmable db" using owners by (simp add: confirmable_def fun_eq_iff)
  have "\<not> confirmable db reference p" if mem: "p \<in> set rows" for p
  proof -
    obtain q where "p = (if confirmable db reference q
        then q\<lparr>py_status := ''paid'', py_paid_at := Some (e_now e), py_method := method\<rparr> else q)"
      using mem unfolding rows_def in_upd_where by blast
    then show ?thesis by (cases "confirmable db reference q") (simp_all add: confirmable_def)
  qed
  then have "\<not> confirmable db reference p" if mem: "p \<in> set (cl_payments db')" for p
  proof -
    obtain q where "q \<in> set rows" "p = (if py_reference q = Some reference
        then q\<lparr>py_paid_through := Some through\<rparr> else q)"
      using mem unfolding pays in_upd_where by blast
    then show ?thesis using \<open>\<And>p. p \<in> set rows \<Longrightarrow> \<not> confirmable db reference p\<close>[of q]
      by (auto simp: confirmable_def)
  qed
  then show ?thesis using owners by (simp add: find_None_iff conf)
qed

lemma confirmable_books [simp]: "confirmable (with_books f db) = confirmable db"
  by (simp add: confirmable_def fun_eq_iff)

text \<open>C25: being told of a payment twice is being told once: the second confirmation answers that
  all is well and changes nothing, whatever clock and method it comes with.\<close>

theorem confirming_twice_is_confirming_once:
  "billing_confirm e' cal \<lparr>pc_reference = ref, pc_method = method'\<rparr>
      (snd (billing_confirm e cal \<lparr>pc_reference = ref, pc_method = method\<rparr> s))
    = (Inr (), snd (billing_confirm e cal \<lparr>pc_reference = ref, pc_method = method\<rparr> s))"
proof -
  let ?once = "snd (billing_confirm e cal \<lparr>pc_reference = ref, pc_method = method\<rparr> s)"
  obtain c db where run: "confirm_payment e cal ref method (sv_db s) = (c, db)"
    by fastforce
  have still: "find (confirmable (sv_db s') ref) (cl_payments (sv_db s')) = None
      \<Longrightarrow> billing_confirm e' cal \<lparr>pc_reference = ref, pc_method = method'\<rparr> s' = (Inr (), s')" for s'
    by (simp add: billing_confirm_def bindS_def transact_def confirm_payment_None liftS_def)
  show ?thesis
  proof (cases c)
    case None
    then have "find (confirmable (sv_db s) ref) (cl_payments (sv_db s)) = None"
      "db = sv_db s"
      using run by (auto simp: confirm_payment_def Let_def split: option.splits)
    moreover from this have "?once = s"
      using run None by (simp add: billing_confirm_def bindS_def transact_def liftS_def)
    ultimately show ?thesis using still[of s] by simp
  next
    case (Some x)
    have settled: "find (confirmable db ref) (cl_payments db) = None"
      using confirm_payment_settles[of e cal ref "method" "sv_db s" x db] run Some by simp
    have "\<exists>f. sv_db ?once = with_books f db"
      using run Some by (auto simp: billing_confirm_def bindS_def transact_def modifyS_def
          noteS_def getS_def with_db_def with_books_def)
    then show ?thesis using still[of ?once] settled by auto
  qed
qed








section \<open>Who can report a payment\<close>





section \<open>What a plan holds back\<close>

lemma writable_store:
  assumes "check_store_request e settings db actor i True = Inr ()"
    and "store_limit (billing_standing e settings (ac_subscription actor)) = Some n"
  shows "is_within_first db (ac_owner_id actor) i n"
  using assms by (auto simp: check_store_request_def Let_def split: if_splits)

text \<open>A plan with a limit takes new entries in at most that many stores, the oldest ones of the
  owner; whatever the standing, an owner can always read.\<close>

theorem entries_go_to_the_first_stores:
  assumes "store_limit (billing_standing e settings (ac_subscription actor)) = Some n"
  shows "{i. check_store_request e settings db actor i True = Inr ()}
      \<subseteq> set (take (nat n) (map st_id (sort_key (\<lambda>s. (st_created_at s, st_id s))
           (filter (\<lambda>s. st_owner s = ac_owner_id actor) (cl_stores db)))))
    \<and> card {i. check_store_request e settings db actor i True = Inr ()} \<le> nat n
    \<and> (is_owner actor \<longrightarrow> check_store_request e settings db actor i False = Inr ())"
proof -
  let ?first = "take (nat n) (map st_id (sort_key (\<lambda>s. (st_created_at s, st_id s))
     (filter (\<lambda>s. st_owner s = ac_owner_id actor) (cl_stores db))))"
  have sub: "{i. check_store_request e settings db actor i True = Inr ()} \<subseteq> set ?first"
    using writable_store[OF _ assms] by (auto simp: is_within_first_def)
  then have "card {i. check_store_request e settings db actor i True = Inr ()} \<le> length ?first"
    using card_mono[OF _ sub] card_length[of ?first] by (meson List.finite_set le_trans)
  also have "length ?first \<le> nat n" by simp
  finally show ?thesis using sub by (auto simp: check_store_request_def Let_def)
qed

theorem entries_go_to_the_first_stores_witness:
  "card {i. check_store_request (sample_at 4000) sample_billing (sv_db sample_joined) sample_ana i True
     = Inr ()} \<le> 5"
proof -
  have "store_limit (billing_standing (sample_at 4000) sample_billing (ac_subscription sample_ana))
      = Some 5" by code_simp
  from entries_go_to_the_first_stores[OF this, of "sv_db sample_joined"] show ?thesis by simp
qed

lemma new_store_owner [simp]: "st_owner (new_store e i o' n b) = o'"
  by (simp add: new_store_def)

lemma store_count_insert:
  "insert_store r db = Inr db' \<Longrightarrow> st_owner r = o' \<Longrightarrow> store_count db' o' = store_count db o' + 1"
  by (auto simp: insert_store_def store_count_def)

text \<open>opening a store never takes an owner past the limit of their plan, and a paused account
  opens none.\<close>

theorem new_store_within_the_plan:
  assumes "create_store e settings owner body s = (Inr v, s')"
    and "store_limit (billing_standing e settings (ac_subscription owner)) = Some n"
  shows "store_count (sv_db s') (ac_owner_id owner) \<le> n
    \<and> store_count (sv_db s') (ac_owner_id owner) = store_count (sv_db s) (ac_owner_id owner) + 1
    \<and> can_upload (billing_standing e settings (ac_subscription owner))"
proof -
  let ?o = "ac_owner_id owner"
  have "check_new_store e settings (sv_db s) owner = Inr () \<and> (\<exists>r db. insert_store r (drawn (sv_db s)) = Inr db
      \<and> st_owner r = ?o \<and> cl_stores (sv_db s') = cl_stores db)"
    using assms(1) unfolding create_store_def Let_def
    by (elim bindS_eq_Inr[THEN iffD1, elim_format] exE conjE)
      (auto intro!: exI[of _ "new_store _ _ _ _ _"])
  then obtain r db where allowed: "check_new_store e settings (sv_db s) owner = Inr ()"
    and inserted: "insert_store r (drawn (sv_db s)) = Inr db" "st_owner r = ?o"
    and s': "cl_stores (sv_db s') = cl_stores db" by blast
  have "store_count (sv_db s') ?o = store_count (sv_db s) ?o + 1"
    using store_count_insert[OF inserted] s' by (simp add: store_count_def)
  then show ?thesis using allowed assms(2)
    by (auto simp: check_new_store_def Let_def split: if_splits)
qed

theorem new_store_within_the_plan_witness:
  "store_count (sv_db (snd (create_store (sample_at 4000) sample_billing sample_ana
     (Inr \<lparr>cs_name = ''Branch'', cs_business_type = None\<rparr>) sample_joined))) 100 \<le> 5"
proof -
  let ?run = "create_store (sample_at 4000) sample_billing sample_ana
     (Inr \<lparr>cs_name = ''Branch'', cs_business_type = None\<rparr>) sample_joined"
  have "\<not> isl (fst ?run)" by code_simp
  moreover have "store_limit (billing_standing (sample_at 4000) sample_billing
      (ac_subscription sample_ana)) = Some 5" by code_simp
  ultimately show ?thesis
    using new_store_within_the_plan[OF ranS] by (metis sample_ana_def actor.select_convs(1))
qed

section \<open>From the checkout to the paid account\<close>





end
