(* ===== verification/Window_Totals.thy ===== *)
theory Window_Totals
  imports "HOL-Library.Multiset" Sales Expenses Withdrawals
begin

text \<open>
  What the dashboard, the reports and the benchmarks have in common: the rows of one store that are
  not deleted and happened within a half-open window, their sums as Postgres returns them, and
  grouping. The locale \<open>windowed\<close> holds what every such query promises; sales, expenses and
  withdrawals provide it.
\<close>

section \<open>The outside world of a report\<close>

text \<open>
  \<open>rv_dec\<close> is the rounding of an exact result to a Decimal (division and multiplication),
  \<open>rv_to_f64\<close> is \<open>Decimal::to_f64\<close> and \<open>rv_fl\<close> the rounding of an exact result to a double.
  \<open>rv_fixed2\<close> and \<open>rv_fixed1\<close> print with two and one decimals. \<open>rv_order\<close> is the order, not
  specified, in which a hash table or an aggregate leaves its groups, and \<open>rv_zone t\<close> the offset of
  the database session's time zone at t.
\<close>

record report_env =
  rv_dec :: "rat \<Rightarrow> rat"
  rv_to_f64 :: "rat \<Rightarrow> rat option"
  rv_fl :: "rat \<Rightarrow> rat"
  rv_fixed2 :: "rat \<Rightarrow> string"
  rv_fixed1 :: "rat \<Rightarrow> string"
  rv_order :: "string \<Rightarrow> rat"
  rv_zone :: "instant \<Rightarrow> duration"

text \<open>Both roundings are monotone and leave what they can represent alone; \<open>to_f64\<close> always has a
  result. The halves, quarters and small integers the rules compare with are representable.\<close>

definition report_env_ok :: "report_env \<Rightarrow> bool" where
  "report_env_ok rv \<longleftrightarrow>
     (\<forall>x y. x \<le> y \<longrightarrow> rv_dec rv x \<le> rv_dec rv y) \<and> (\<forall>x y. x \<le> y \<longrightarrow> rv_fl rv x \<le> rv_fl rv y)
     \<and> (\<forall>n :: int. \<bar>n\<bar> \<le> 1000 \<longrightarrow> rv_dec rv (of_int n / 2) = of_int n / 2 \<and> rv_fl rv (of_int n / 2) = of_int n / 2)
     \<and> (\<forall>x. rv_to_f64 rv x = Some (rv_fl rv x))"

text \<open>\<open>f64::round\<close> rounds halves away from zero.\<close>

definition f64_round :: "rat \<Rightarrow> rat" where
  "f64_round x = of_int (if 0 \<le> x then \<lfloor>x + 1 / 2\<rfloor> else - \<lfloor>1 / 2 - x\<rfloor>)"

section \<open>Windows\<close>

definition inside :: "instant \<Rightarrow> instant \<Rightarrow> instant \<Rightarrow> bool" where
  "inside t0 t1 t \<longleftrightarrow> t0 \<le> t \<and> t < t1"

definition sum14 :: "int list \<Rightarrow> api_error + int" where
  "sum14 xs = bindR (ensure (fits14 (sum_list xs)) Internal) (\<lambda>_. Inr (sum_list xs))"

lemma sum14_eq_Inr [simp]: "sum14 xs = Inr v \<longleftrightarrow> v = sum_list xs \<and> fits14 v"
  by (auto simp: sum14_def)

lemma sum14_eq_Inl [simp]: "sum14 xs = Inl err \<longleftrightarrow> err = Internal \<and> \<not> fits14 (sum_list xs)"
  by (cases "fits14 (sum_list xs)") (auto simp: sum14_def)

definition sales_in :: "books \<Rightarrow> uuid \<Rightarrow> instant \<Rightarrow> instant \<Rightarrow> sale_row list" where
  "sales_in b store_id t0 t1 =
     filter (\<lambda>r. s_store r = store_id \<and> s_deleted_at r = None \<and> inside t0 t1 (s_occurred_at r))
       (bk_sales b)"

definition expenses_in :: "books \<Rightarrow> uuid \<Rightarrow> instant \<Rightarrow> instant \<Rightarrow> expense_row list" where
  "expenses_in b store_id t0 t1 =
     filter (\<lambda>r. x_store r = store_id \<and> x_deleted_at r = None \<and> inside t0 t1 (x_occurred_at r))
       (bk_expenses b)"

definition withdrawals_in :: "books \<Rightarrow> uuid \<Rightarrow> instant \<Rightarrow> instant \<Rightarrow> withdrawal_row list" where
  "withdrawals_in b store_id t0 t1 =
     filter (\<lambda>r. wd_store r = store_id \<and> wd_deleted_at r = None \<and> inside t0 t1 (wd_occurred_at r))
       (bk_withdrawals b)"

text \<open>\<open>sale_items JOIN sales\<close>: one line of the result for each item and each sale it belongs to.\<close>

definition items_in :: "books \<Rightarrow> uuid \<Rightarrow> instant \<Rightarrow> instant \<Rightarrow> item_row list" where
  "items_in b store_id t0 t1 =
     concat (map (\<lambda>i. map (\<lambda>_. i) (filter (\<lambda>s. s_id s = i_sale i) (sales_in b store_id t0 t1)))
       (bk_items b))"

section \<open>What a windowed query promises\<close>

locale windowed =
  fixes rows_in :: "books \<Rightarrow> uuid \<Rightarrow> instant \<Rightarrow> instant \<Rightarrow> 'r list"
    and table :: "books \<Rightarrow> 'r list"
    and store_of :: "'r \<Rightarrow> uuid"
    and deleted_at :: "'r \<Rightarrow> instant option"
    and occurred_at :: "'r \<Rightarrow> instant"
  assumes rows: "rows_in b st t0 t1 =
    filter (\<lambda>r. store_of r = st \<and> deleted_at r = None \<and> inside t0 t1 (occurred_at r)) (table b)"
begin

definition amount_in :: "('r \<Rightarrow> int) \<Rightarrow> books \<Rightarrow> uuid \<Rightarrow> instant \<Rightarrow> instant \<Rightarrow> int" where
  "amount_in f b st t0 t1 = (\<Sum>r\<leftarrow>rows_in b st t0 t1. f r)"

lemma member: "r \<in> set (rows_in b st t0 t1) \<longleftrightarrow>
    r \<in> set (table b) \<and> store_of r = st \<and> deleted_at r = None \<and> t0 \<le> occurred_at r \<and> occurred_at r < t1"
  by (auto simp: rows inside_def)

text \<open>Two windows that meet add up to the window they cover.\<close>

lemma adjacent:
  assumes "t0 \<le> mid" "mid \<le> t1"
  shows "amount_in f b st t0 mid + amount_in f b st mid t1 = amount_in f b st t0 t1"
proof -
  have "(\<Sum>r\<leftarrow>filter (\<lambda>r. P r \<and> inside t0 mid (t r)) xs. f r)
      + (\<Sum>r\<leftarrow>filter (\<lambda>r. P r \<and> inside mid t1 (t r)) xs. f r)
      = (\<Sum>r\<leftarrow>filter (\<lambda>r. P r \<and> inside t0 t1 (t r)) xs. f r)" for P t xs
    using assms by (induction xs) (auto simp: inside_def)
  from this[of "\<lambda>r. store_of r = st \<and> deleted_at r = None" occurred_at "table b"]
  show ?thesis by (simp add: amount_in_def rows)
qed

text \<open>Rows of other stores do not count, nor does anything outside the table.\<close>

lemma own_rows_only:
  assumes "filter (\<lambda>r. store_of r = st) (table b) = filter (\<lambda>r. store_of r = st) (table b')"
  shows "rows_in b st t0 t1 = rows_in b' st t0 t1"
proof -
  have mine: "filter (\<lambda>r. store_of r = st \<and> P r) xs = filter P (filter (\<lambda>r. store_of r = st) xs)"
    for P xs by (auto simp: conj_commute)
  show ?thesis by (simp only: rows mine assms)
qed

lemma appended:
  assumes "table b' = table b @ [r]"
  shows "rows_in b' st t0 t1 = rows_in b st t0 t1
    @ (if store_of r = st \<and> deleted_at r = None \<and> inside t0 t1 (occurred_at r) then [r] else [])"
  using assms by (simp add: rows)

end

interpretation sales_window: windowed sales_in bk_sales s_store s_deleted_at s_occurred_at
  by unfold_locales (simp add: sales_in_def)

interpretation expenses_window: windowed expenses_in bk_expenses x_store x_deleted_at x_occurred_at
  by unfold_locales (simp add: expenses_in_def)

interpretation withdrawals_window:
  windowed withdrawals_in bk_withdrawals wd_store wd_deleted_at wd_occurred_at
  by unfold_locales (simp add: withdrawals_in_def)

section \<open>Grouping\<close>

definition groups :: "('r \<Rightarrow> 'k) \<Rightarrow> 'r list \<Rightarrow> ('k \<times> 'r list) list" where
  "groups key rows = map (\<lambda>k. (k, filter (\<lambda>r. key r = k) rows)) (remdups (map key rows))"

lemma sum_over_keys:
  fixes f :: "'r \<Rightarrow> 'm :: comm_monoid_add"
  assumes "distinct ks" "key ` set rows \<subseteq> set ks"
  shows "(\<Sum>k\<leftarrow>ks. \<Sum>r\<leftarrow>filter (\<lambda>r. key r = k) rows. f r) = (\<Sum>r\<leftarrow>rows. f r)"
  using assms(2)
proof (induction rows)
  case (Cons r rows)
  have "(\<Sum>k\<leftarrow>ks. if key r = k then f r else 0) = (\<Sum>k\<in>set ks. if key r = k then f r else 0)"
    by (rule sum_list_distinct_conv_sum_set[OF assms(1)])
  also have "\<dots> = f r" using Cons.prems by simp
  finally have one: "(\<Sum>k\<leftarrow>ks. if key r = k then f r else 0) = f r" .
  have "(\<Sum>k\<leftarrow>ks. \<Sum>x\<leftarrow>filter (\<lambda>x. key x = k) (r # rows). f x)
      = (\<Sum>k\<leftarrow>ks. (if key r = k then f r else 0) + (\<Sum>x\<leftarrow>filter (\<lambda>x. key x = k) rows. f x))"
    by (rule arg_cong[where f = sum_list]) simp
  also have "\<dots> = (\<Sum>k\<leftarrow>ks. if key r = k then f r else 0)
      + (\<Sum>k\<leftarrow>ks. \<Sum>x\<leftarrow>filter (\<lambda>x. key x = k) rows. f x)" by (rule sum_list_addf)
  finally show ?case using Cons one by simp
qed simp

lemma sum_groups:
  fixes f :: "'r \<Rightarrow> 'm :: comm_monoid_add"
  shows "(\<Sum>(k, g)\<leftarrow>groups key rows. \<Sum>r\<leftarrow>g. f r) = (\<Sum>r\<leftarrow>rows. f r)"
  using sum_over_keys[of "remdups (map key rows)" key rows f] by (simp add: groups_def o_def)

lemma distinct_groups: "distinct (map fst (groups key rows))"
  by (simp add: groups_def o_def)

lemma in_groupsD: "(k, g) \<in> set (groups key rows) \<Longrightarrow> g = filter (\<lambda>r. key r = k) rows \<and> g \<noteq> []"
  by (auto simp: groups_def filter_empty_conv)

lemma sum_list_sort_key:
  fixes f :: "'r \<Rightarrow> 'm :: comm_monoid_add"
  shows "(\<Sum>r\<leftarrow>sort_key k rows. f r) = (\<Sum>r\<leftarrow>rows. f r)"
proof -
  have "mset (map f (sort_key k rows)) = mset (map f rows)" by (simp add: mset_map)
  then show ?thesis by (metis sum_mset_sum_list)
qed

end
