(* ===== verification/Dashboard.thy ===== *)
theory Dashboard
  imports Window_Totals
begin

text \<open>
  \<^verbatim>\<open>features/dashboard\<close>: the totals of a store over a reporting window, the score it is given
  and the summary the owner reads. Money that went through \<open>numeric(14,2)\<close> is exact in
  rust_decimal, so differences are differences of centavos; the margin is a rounded quotient. The
  seven queries of a summary run concurrently, so each reads the books at a moment of its own.
\<close>

section \<open>Payloads\<close>

datatype health_rating = Green | Yellow | Red

record business_health =
  bh_rating :: health_rating
  bh_score :: int
  bh_headline :: string
  bh_reasons :: "string list"

record health_inputs =
  hi_sales_total :: money
  hi_net_profit :: money
  hi_previous_net_profit :: money
  hi_withdrawals_total :: money
  hi_low_stock_count :: int

record sales_totals =
  tt_sales_total :: money
  tt_cost_total :: money
  tt_discount_total :: money
  tt_sale_count :: int

record best_seller =
  be_product_name :: string
  be_quantity_sold :: quantity
  be_revenue :: money

record dashboard_query =
  dq_period :: report_period
  dq_utc_offset_minutes :: int

record dashboard_summary =
  sm_period :: report_period
  sm_range_start :: instant
  sm_range_end :: instant
  sm_sales_total :: money
  sm_sale_count :: int
  sm_cost_of_goods :: money
  sm_gross_profit :: money
  sm_expenses_total :: money
  sm_net_profit :: money
  sm_withdrawals_total :: money
  sm_cash_movement :: money
  sm_previous_net_profit :: money
  sm_low_stock_count :: int
  sm_best_seller :: "best_seller option"
  sm_health :: business_health

section \<open>The score\<close>

definition healthy_margin_percent :: int where
  "healthy_margin_percent = 15"

definition thin_margin_percent :: int where
  "thin_margin_percent = 5"

text \<open>A result outside i64 is replaced by 0.\<close>

definition to_i64_or_zero :: "int \<Rightarrow> int" where
  "to_i64_or_zero n = (if - (2 ^ 63) \<le> n \<and> n < 2 ^ 63 then n else 0)"

definition margin_percent :: "env \<Rightarrow> report_env \<Rightarrow> money \<Rightarrow> money \<Rightarrow> int" where
  "margin_percent e rv net_profit sales_total =
     (if sales_total = 0 then 0
      else to_i64_or_zero
        (e_round e (rv_dec rv (rv_dec rv (of_int net_profit / of_int sales_total) * 100))))"

definition peso :: "report_env \<Rightarrow> money \<Rightarrow> string" where
  "peso rv amount = ''PHP '' @ rv_fixed2 rv (of_int amount / 100)"

fun headline_for :: "health_rating \<Rightarrow> string" where
  "headline_for Green = ''Your store is doing well''"
| "headline_for Yellow = ''Keep an eye on your numbers''"
| "headline_for Red = ''Your store needs attention''"

text \<open>Each signal adds to the score and gives its reason. The score stays far inside i32.\<close>

definition profit_signal :: "report_env \<Rightarrow> health_inputs \<Rightarrow> int \<times> string list" where
  "profit_signal rv inputs =
     (if hi_net_profit inputs > 0
      then (25, [''You earned a profit of '' @ peso rv (hi_net_profit inputs) @ ''.''])
      else (- 30, [''You spent '' @ peso rv (- hi_net_profit inputs) @ '' more than you sold.'']))"

definition margin_signal :: "env \<Rightarrow> report_env \<Rightarrow> health_inputs \<Rightarrow> int \<times> string list" where
  "margin_signal e rv inputs =
     (let margin = margin_percent e rv (hi_net_profit inputs) (hi_sales_total inputs)
      in if margin \<ge> healthy_margin_percent
         then (15, [''Healthy margin: '' @ show_int margin @ ''% of sales is profit.''])
         else if margin \<ge> thin_margin_percent
         then (0, [''Thin margin: only '' @ show_int margin @ ''% of sales is profit.''])
         else if margin > 0
         then (- 10, [''Very thin margin: '' @ show_int margin @ ''% of sales is profit.''])
         else (0, []))"

definition trend_signal :: "health_inputs \<Rightarrow> int \<times> string list" where
  "trend_signal inputs =
     (if hi_previous_net_profit inputs \<noteq> 0
      then if hi_net_profit inputs > hi_previous_net_profit inputs
           then (10, [''Profit is higher than the previous period.''])
           else if hi_net_profit inputs < hi_previous_net_profit inputs
           then (- 10, [''Profit is lower than the previous period.''])
           else (0, [])
      else (0, []))"

definition withdrawal_signal :: "report_env \<Rightarrow> health_inputs \<Rightarrow> int \<times> string list" where
  "withdrawal_signal rv inputs =
     (if hi_withdrawals_total inputs > hi_net_profit inputs \<and> hi_withdrawals_total inputs > 0
      then (- 15, [''You withdrew '' @ peso rv (hi_withdrawals_total inputs)
                     @ '', more than the profit you made.''])
      else (0, []))"

definition stock_signal :: "health_inputs \<Rightarrow> int \<times> string list" where
  "stock_signal inputs =
     (if hi_low_stock_count inputs > 0
      then (- 5, [show_int (hi_low_stock_count inputs) @ '' product(s) need restocking.''])
      else (0, []))"

definition rating_of :: "int \<Rightarrow> health_rating" where
  "rating_of score =
     (if 70 \<le> score \<and> score \<le> 100 then Green
      else if 40 \<le> score \<and> score \<le> 69 then Yellow else Red)"

definition no_sales_yet :: business_health where
  "no_sales_yet =
     \<lparr>bh_rating = Yellow, bh_score = 50, bh_headline = ''No sales recorded yet'',
      bh_reasons = [''Record your first sale to see how your store is doing.'']\<rparr>"

definition evaluate :: "env \<Rightarrow> report_env \<Rightarrow> health_inputs \<Rightarrow> business_health" where
  "evaluate e rv inputs =
     (if hi_sales_total inputs = 0 then no_sales_yet
      else
        let signals = [profit_signal rv inputs, margin_signal e rv inputs, trend_signal inputs,
                       withdrawal_signal rv inputs, stock_signal inputs];
            score = clamp 0 100 (50 + sum_list (map fst signals));
            rating = rating_of score
        in \<lparr>bh_rating = rating, bh_score = score, bh_headline = headline_for rating,
            bh_reasons = concat (map snd signals)\<rparr>)"

section \<open>Repository\<close>

definition sales_totals_of ::
  "books \<Rightarrow> uuid \<Rightarrow> instant \<Rightarrow> instant \<Rightarrow> api_error + sales_totals" where
  "sales_totals_of b store_id t0 t1 =
     (let rows = sales_in b store_id t0 t1
      in bindR (sum14 (map s_total_amount rows)) (\<lambda>sales.
         bindR (sum14 (map s_cost_amount rows)) (\<lambda>cost.
         bindR (sum14 (map s_discount_amount rows)) (\<lambda>discount.
           Inr \<lparr>tt_sales_total = sales, tt_cost_total = cost, tt_discount_total = discount,
                tt_sale_count = int (length rows)\<rparr>))))"

definition expenses_total_of ::
  "books \<Rightarrow> uuid \<Rightarrow> instant \<Rightarrow> instant \<Rightarrow> api_error + money" where
  "expenses_total_of b store_id t0 t1 = sum14 (map x_amount (expenses_in b store_id t0 t1))"

definition withdrawals_total_of ::
  "books \<Rightarrow> uuid \<Rightarrow> instant \<Rightarrow> instant \<Rightarrow> api_error + money" where
  "withdrawals_total_of b store_id t0 t1 = sum14 (map wd_amount (withdrawals_in b store_id t0 t1))"

text \<open>\<open>GROUP BY product_name ORDER BY revenue DESC\<close>; products of equal revenue come in no
  specified order.\<close>

definition best_seller_of ::
  "report_env \<Rightarrow> books \<Rightarrow> uuid \<Rightarrow> instant \<Rightarrow> instant \<Rightarrow> api_error + best_seller option" where
  "best_seller_of rv b store_id t0 t1 =
     (let rows = map (\<lambda>(name, g). \<lparr>be_product_name = name, be_quantity_sold = (\<Sum>i\<leftarrow>g. i_quantity i),
                        be_revenue = (\<Sum>i\<leftarrow>g. i_line_total i)\<rparr>)
                   (groups i_product_name (items_in b store_id t0 t1))
      in bindR (ensure (list_all (\<lambda>r. fits14 (be_quantity_sold r) \<and> fits14 (be_revenue r)) rows)
                  Internal) (\<lambda>_.
         Inr (case sort_key (\<lambda>r. (- be_revenue r, rv_order rv (be_product_name r))) rows of
                [] \<Rightarrow> None | r # _ \<Rightarrow> Some r)))"

definition low_stock_count_of :: "books \<Rightarrow> uuid \<Rightarrow> int" where
  "low_stock_count_of b store_id =
     int (length (filter (\<lambda>r. p_store r = store_id \<and> p_deleted_at r = None \<and> p_is_active r
                            \<and> p_reorder_level r > 0 \<and> p_stock r \<le> p_reorder_level r)
                   (bk_products b)))"

section \<open>Service\<close>

text \<open>\<open>seen n\<close> is the books as the n-th of the seven concurrent queries sees them.\<close>

definition compute_summary ::
  "env \<Rightarrow> report_env \<Rightarrow> (nat \<Rightarrow> books) \<Rightarrow> uuid \<Rightarrow> report_period \<Rightarrow> date_range
    \<Rightarrow> api_error + dashboard_summary" where
  "compute_summary e rv seen store_id period window =
     (let previous = previous_window window
      in bindR (sales_totals_of (seen 0) store_id (dr_start window) (dr_end window)) (\<lambda>sales.
         bindR (expenses_total_of (seen 1) store_id (dr_start window) (dr_end window)) (\<lambda>expenses_total.
         bindR (withdrawals_total_of (seen 2) store_id (dr_start window) (dr_end window))
           (\<lambda>withdrawals_total.
         bindR (best_seller_of rv (seen 3) store_id (dr_start window) (dr_end window)) (\<lambda>best.
         let low_stock_count = low_stock_count_of (seen 4) store_id
         in bindR (sales_totals_of (seen 5) store_id (dr_start previous) (dr_end previous))
           (\<lambda>previous_sales.
         bindR (expenses_total_of (seen 6) store_id (dr_start previous) (dr_end previous))
           (\<lambda>previous_expenses.
         let gross_profit = tt_sales_total sales - tt_cost_total sales;
             net_profit = gross_profit - expenses_total;
             previous_net_profit =
               (tt_sales_total previous_sales - tt_cost_total previous_sales) - previous_expenses
         in Inr \<lparr>sm_period = period, sm_range_start = dr_start window, sm_range_end = dr_end window,
              sm_sales_total = tt_sales_total sales, sm_sale_count = tt_sale_count sales,
              sm_cost_of_goods = tt_cost_total sales, sm_gross_profit = gross_profit,
              sm_expenses_total = expenses_total, sm_net_profit = net_profit,
              sm_withdrawals_total = withdrawals_total,
              sm_cash_movement = net_profit - withdrawals_total,
              sm_previous_net_profit = previous_net_profit,
              sm_low_stock_count = low_stock_count, sm_best_seller = best,
              sm_health = evaluate e rv \<lparr>hi_sales_total = tt_sales_total sales,
                 hi_net_profit = net_profit, hi_previous_net_profit = previous_net_profit,
                 hi_withdrawals_total = withdrawals_total, hi_low_stock_count = low_stock_count\<rparr>\<rparr>)))))))"
section \<open>Lemmas\<close>

lemma concat_map_irrelevant:
  "(\<And>x. x \<in> set xs \<Longrightarrow> \<not> P x \<Longrightarrow> f x = []) \<Longrightarrow> concat (map f xs) = concat (map f (filter P xs))"
  by (induction xs) auto

text \<open>What a store's reports read is what the store holds.\<close>

lemma sales_in_same: "same_store st b b' \<Longrightarrow> sales_in b' st t0 t1 = sales_in b st t0 t1"
  by (rule sales_window.own_rows_only) (simp add: same_store_def sales_of_def)

lemma expenses_in_same: "same_store st b b' \<Longrightarrow> expenses_in b' st t0 t1 = expenses_in b st t0 t1"
  by (rule expenses_window.own_rows_only) (simp add: same_store_def)

lemma withdrawals_in_same:
  "same_store st b b' \<Longrightarrow> withdrawals_in b' st t0 t1 = withdrawals_in b st t0 t1"
  by (rule withdrawals_window.own_rows_only) (simp add: same_store_def)

lemma items_in_own:
  "items_in b st t0 t1 = concat (map (\<lambda>i. map (\<lambda>_. i)
     (filter (\<lambda>s. s_id s = i_sale i) (sales_in b st t0 t1))) (items_of st b))"
  unfolding items_in_def items_of_def
  by (rule concat_map_irrelevant) (force simp: filter_empty_conv sales_in_def sales_of_def)

lemma items_in_same: "same_store st b b' \<Longrightarrow> items_in b' st t0 t1 = items_in b st t0 t1"
  by (simp add: items_in_own sales_in_same) (simp add: same_store_def)

lemma low_stock_same: "same_store st b b' \<Longrightarrow> low_stock_count_of b' st = low_stock_count_of b st"
proof -
  assume "same_store st b b'"
  then have same: "filter (\<lambda>r. p_store r = st) (bk_products b') = filter (\<lambda>r. p_store r = st) (bk_products b)"
    by (simp add: same_store_def)
  have mine: "filter (\<lambda>r. p_store r = st \<and> P r) xs = filter P (filter (\<lambda>r. p_store r = st) xs)"
    for P xs by (auto simp: conj_commute)
  show ?thesis by (simp only: low_stock_count_of_def mine same)
qed

lemmas same_reports = sales_in_same expenses_in_same withdrawals_in_same items_in_same low_stock_same

lemma summary_same:
  assumes "\<And>n. same_store st (seen n) (seen' n)"
  shows "compute_summary e rv seen' st period window = compute_summary e rv seen st period window"
  unfolding compute_summary_def sales_totals_of_def expenses_total_of_def withdrawals_total_of_def
    best_seller_of_def same_reports[OF assms] by (rule refl)

text \<open>What a summary says, figure by figure.\<close>

lemma sales_totals_of_eq_Inr [simp]:
  "sales_totals_of b st t0 t1 = Inr t \<longleftrightarrow>
     t = \<lparr>tt_sales_total = sales_window.amount_in s_total_amount b st t0 t1,
          tt_cost_total = sales_window.amount_in s_cost_amount b st t0 t1,
          tt_discount_total = sales_window.amount_in s_discount_amount b st t0 t1,
          tt_sale_count = int (length (sales_in b st t0 t1))\<rparr>
     \<and> fits14 (tt_sales_total t) \<and> fits14 (tt_cost_total t) \<and> fits14 (tt_discount_total t)"
  by (auto simp: sales_totals_of_def Let_def sales_window.amount_in_def)

lemma expenses_total_of_eq_Inr [simp]:
  "expenses_total_of b st t0 t1 = Inr v \<longleftrightarrow>
     v = expenses_window.amount_in x_amount b st t0 t1 \<and> fits14 v"
  by (simp add: expenses_total_of_def expenses_window.amount_in_def)

lemma withdrawals_total_of_eq_Inr [simp]:
  "withdrawals_total_of b st t0 t1 = Inr v \<longleftrightarrow>
     v = withdrawals_window.amount_in wd_amount b st t0 t1 \<and> fits14 v"
  by (simp add: withdrawals_total_of_def withdrawals_window.amount_in_def)

text \<open>The profit of a window: what live sales brought in, less their cost and the expenses.\<close>

definition profit_in :: "books \<Rightarrow> uuid \<Rightarrow> instant \<Rightarrow> instant \<Rightarrow> money" where
  "profit_in b st t0 t1 = (\<Sum>r\<leftarrow>sales_in b st t0 t1. s_total_amount r - s_cost_amount r)
     - (\<Sum>x\<leftarrow>expenses_in b st t0 t1. x_amount x)"

lemma profit_in_amounts:
  "profit_in b st t0 t1 = sales_window.amount_in s_total_amount b st t0 t1
     - sales_window.amount_in s_cost_amount b st t0 t1 - expenses_window.amount_in x_amount b st t0 t1"
  by (simp add: profit_in_def sales_window.amount_in_def expenses_window.amount_in_def sum_list_subtractf)

lemma summary_figures:
  assumes "compute_summary e rv (\<lambda>_. b) st period w = Inr v"
  shows "sm_sales_total v = sales_window.amount_in s_total_amount b st (dr_start w) (dr_end w)"
    and "sm_sale_count v = int (length (sales_in b st (dr_start w) (dr_end w)))"
    and "sm_cost_of_goods v = sales_window.amount_in s_cost_amount b st (dr_start w) (dr_end w)"
    and "sm_expenses_total v = expenses_window.amount_in x_amount b st (dr_start w) (dr_end w)"
    and "sm_withdrawals_total v = withdrawals_window.amount_in wd_amount b st (dr_start w) (dr_end w)"
    and "sm_net_profit v = profit_in b st (dr_start w) (dr_end w)"
    and "sm_previous_net_profit v = profit_in b st (dr_start (previous_window w)) (dr_start w)"
    and "sm_cash_movement v = sm_net_profit v - sm_withdrawals_total v"
    and "sm_low_stock_count v = low_stock_count_of b st"
    and "sm_range_start v = dr_start w" and "sm_range_end v = dr_end w"
  using assms by (auto simp: compute_summary_def Let_def profit_in_amounts previous_window_def)

text \<open>A margin has the sign of the profit.\<close>

lemma margin_of_loss:
  assumes "report_env_ok rv" "rounds_to_nearest (e_round e)" "0 < sales" "net \<le> 0"
  shows "margin_percent e rv net sales \<le> 0"
proof -
  have dec: "rv_dec rv x \<le> 0" if "x \<le> 0" for x
  proof -
    have "rv_dec rv (of_int 0 / 2) = of_int 0 / 2"
      using assms(1) unfolding report_env_ok_def by (metis abs_zero zero_le_numeral)
    moreover have "rv_dec rv x \<le> rv_dec rv 0" using that assms(1) by (simp add: report_env_ok_def)
    ultimately show ?thesis by simp
  qed
  have "(of_int net / of_int sales :: rat) \<le> 0"
    using assms(3,4) by (simp add: divide_le_0_iff)
  then have "rv_dec rv (rv_dec rv (of_int net / of_int sales) * 100) \<le> 0"
    by (intro dec mult_nonpos_nonneg) auto
  then have "e_round e (rv_dec rv (rv_dec rv (of_int net / of_int sales) * 100)) \<le> e_round e 0"
    using assms(2) by (simp add: rounds_to_nearest_def)
  also have "e_round e 0 = 0" using assms(2) unfolding rounds_to_nearest_def by (metis of_int_0)
  finally show ?thesis by (simp add: margin_percent_def to_i64_or_zero_def)
qed

end
