(* ===== verification/Reports.thy ===== *)
theory Reports
  imports Dashboard
begin

text \<open>
  \<^verbatim>\<open>features/reports\<close>: the daily profit trend, the best products, where the money goes, and the
  expenses that are out of line with the store's own history.
\<close>

section \<open>Payloads\<close>

record report_query =
  rq_period :: report_period
  rq_utc_offset_minutes :: int

record trend_query =
  tq_days :: int
  tq_utc_offset_minutes :: int

definition default_trend_days :: int where
  "default_trend_days = 14"

record daily_point =
  dp_day :: int
  dp_sales_total :: money
  dp_cost_total :: money
  dp_expenses_total :: money

definition point_net_profit :: "daily_point \<Rightarrow> money" where
  "point_net_profit p = dp_sales_total p - dp_cost_total p - dp_expenses_total p"

record trend_point =
  tp_day :: int
  tp_sales_total :: money
  tp_expenses_total :: money
  tp_net_profit :: money

record product_performance =
  pp_product_name :: string
  pp_quantity_sold :: quantity
  pp_revenue :: money
  pp_profit :: money

record expense_slice =
  es_category :: string
  es_total_amount :: money
  es_entry_count :: int

record expense_sample =
  ex_id :: uuid
  ex_category :: string
  ex_description :: "string option"
  ex_amount :: money
  ex_occurred_at :: instant

record unusual_expense =
  ue_expense :: expense_sample
  ue_category_average :: money
  ue_times_above_average :: rat
  ue_explanation :: string

record weekly_summary =
  ws_period :: report_period
  ws_sales_total :: money
  ws_expenses_total :: money
  ws_net_profit :: money
  ws_withdrawals_total :: money
  ws_top_products :: "product_performance list"
  ws_expense_breakdown :: "expense_slice list"
  ws_unusual_expenses :: "unusual_expense list"

section \<open>Repository\<close>

text \<open>\<open>(occurred_at + offset)::date\<close>: a timestamp with time zone becomes a date in the time zone of
  the database session.\<close>

definition local_day :: "report_env \<Rightarrow> int \<Rightarrow> instant \<Rightarrow> int" where
  "local_day rv utc_offset_minutes t =
     (let shifted = t + minutes utc_offset_minutes in date_naive (shifted + rv_zone rv shifted))"

definition day_sums ::
  "('r \<Rightarrow> int) \<Rightarrow> ('r \<Rightarrow> 'm :: comm_monoid_add) \<Rightarrow> 'r list \<Rightarrow> (int \<times> 'm) list" where
  "day_sums day amount rows = map (\<lambda>(d, g). (d, \<Sum>r\<leftarrow>g. amount r)) (groups day rows)"

text \<open>The full outer join of the days with sales and the days with expenses, in the order of the
  days. A sum that does not fit its column is an error of the statement.\<close>

definition daily_series ::
  "report_env \<Rightarrow> books \<Rightarrow> uuid \<Rightarrow> instant \<Rightarrow> instant \<Rightarrow> int \<Rightarrow> api_error + daily_point list" where
  "daily_series rv b store_id t0 t1 utc_offset_minutes =
     (let day = local_day rv utc_offset_minutes;
          sales = day_sums (\<lambda>r. day (s_occurred_at r)) s_total_amount (sales_in b store_id t0 t1);
          costs = day_sums (\<lambda>r. day (s_occurred_at r)) s_cost_amount (sales_in b store_id t0 t1);
          spent = day_sums (\<lambda>r. day (x_occurred_at r)) x_amount (expenses_in b store_id t0 t1);
          or_zero = (\<lambda>found. case found of None \<Rightarrow> 0 | Some v \<Rightarrow> v);
          points = map (\<lambda>d. \<lparr>dp_day = d, dp_sales_total = or_zero (map_of sales d),
                        dp_cost_total = or_zero (map_of costs d),
                        dp_expenses_total = or_zero (map_of spent d)\<rparr>)
                     (sort (remdups (map fst sales @ map fst spent)))
      in bindR (ensure (list_all (\<lambda>p. fits14 (dp_sales_total p) \<and> fits14 (dp_cost_total p)
                          \<and> fits14 (dp_expenses_total p)) points) Internal) (\<lambda>_. Inr points))"

text \<open>The profit of a line is what it sold for less its cost times its quantity; the sum is rounded
  into its column.\<close>

definition performance_of :: "env \<Rightarrow> string \<times> item_row list \<Rightarrow> product_performance" where
  "performance_of e = (\<lambda>(name, g).
     \<lparr>pp_product_name = name, pp_quantity_sold = (\<Sum>i\<leftarrow>g. i_quantity i),
      pp_revenue = (\<Sum>i\<leftarrow>g. i_line_total i),
      pp_profit = e_numeric e (of_int (\<Sum>i\<leftarrow>g. 1000 * i_line_total i - i_unit_cost i * i_quantity i) / 1000)\<rparr>)"

definition product_performances ::
  "env \<Rightarrow> report_env \<Rightarrow> books \<Rightarrow> uuid \<Rightarrow> instant \<Rightarrow> instant \<Rightarrow> nat
    \<Rightarrow> api_error + product_performance list" where
  "product_performances e rv b store_id t0 t1 limit =
     (let rows = map (performance_of e) (groups i_product_name (items_in b store_id t0 t1))
      in bindR (ensure (list_all (\<lambda>r. fits14 (pp_quantity_sold r) \<and> fits14 (pp_revenue r)
                          \<and> fits14 (pp_profit r)) rows) Internal) (\<lambda>_.
         Inr (take limit (sort_key (\<lambda>r. (- pp_profit r, rv_order rv (pp_product_name r))) rows))))"

definition expense_breakdown_of ::
  "report_env \<Rightarrow> books \<Rightarrow> uuid \<Rightarrow> instant \<Rightarrow> instant \<Rightarrow> api_error + expense_slice list" where
  "expense_breakdown_of rv b store_id t0 t1 =
     (let rows = map (\<lambda>(c, g). \<lparr>es_category = c, es_total_amount = (\<Sum>x\<leftarrow>g. x_amount x),
                        es_entry_count = int (length g)\<rparr>)
                   (groups x_category (expenses_in b store_id t0 t1))
      in bindR (ensure (list_all (\<lambda>r. fits14 (es_total_amount r)) rows) Internal) (\<lambda>_.
         Inr (sort_key (\<lambda>r. (- es_total_amount r, rv_order rv (es_category r))) rows)))"

definition sample_of :: "expense_row \<Rightarrow> expense_sample" where
  "sample_of x = \<lparr>ex_id = x_id x, ex_category = x_category x, ex_description = x_description x,
     ex_amount = x_amount x, ex_occurred_at = x_occurred_at x\<rparr>"

definition recent_expenses :: "books \<Rightarrow> uuid \<Rightarrow> instant \<Rightarrow> expense_sample list" where
  "recent_expenses b store_id since =
     map sample_of (take 500 (sort_key (\<lambda>x. - x_occurred_at x)
       (filter (\<lambda>x. x_store x = store_id \<and> x_deleted_at x = None \<and> since \<le> x_occurred_at x)
         (bk_expenses b))))"

section \<open>The insight engine\<close>

definition outlier_multiplier :: rat where
  "outlier_multiplier = 5 / 2"

definition minimum_samples :: nat where
  "minimum_samples = 4"

definition max_flagged :: nat where
  "max_flagged = 5"

text \<open>Averages and ratios are quotients of Decimals.\<close>

definition mean_of :: "report_env \<Rightarrow> expense_sample list \<Rightarrow> rat" where
  "mean_of rv entries =
     rv_dec rv (of_int (\<Sum>x\<leftarrow>entries. ex_amount x) / 100 / of_nat (length entries))"

definition ratio_of :: "report_env \<Rightarrow> money \<Rightarrow> rat \<Rightarrow> rat" where
  "ratio_of rv amount average =
     (case rv_to_f64 rv (rv_dec rv (of_int amount / 100 / average)) of None \<Rightarrow> 0 | Some v \<Rightarrow> v)"

definition underscores_to_spaces :: "string \<Rightarrow> string" where
  "underscores_to_spaces = map (\<lambda>c. if c = CHR ''_'' then CHR '' '' else c)"

definition flag :: "env \<Rightarrow> report_env \<Rightarrow> string \<Rightarrow> rat \<Rightarrow> expense_sample \<Rightarrow> unusual_expense" where
  "flag e rv category average entry =
     (let ratio = ratio_of rv (ex_amount entry) average
      in \<lparr>ue_expense = entry, ue_category_average = e_round e (average * 100),
          ue_times_above_average = rv_fl rv (f64_round (rv_fl rv (ratio * 10)) / 10),
          ue_explanation = ''This '' @ underscores_to_spaces category @ '' expense is ''
            @ rv_fixed1 rv ratio @ ''x your usual '' @ underscores_to_spaces category
            @ '' spending of PHP '' @ rv_fixed2 rv average @ ''.''\<rparr>)"

text \<open>One category: too few entries, or an average of zero, and nothing is flagged.\<close>

definition flagged_in ::
  "env \<Rightarrow> report_env \<Rightarrow> string \<times> expense_sample list \<Rightarrow> unusual_expense list" where
  "flagged_in e rv = (\<lambda>(category, entries).
     if length entries < minimum_samples then []
     else let average = mean_of rv entries
          in if average = 0 then []
             else map (flag e rv category average)
               (filter (\<lambda>entry. \<not> ratio_of rv (ex_amount entry) average < outlier_multiplier) entries))"

text \<open>The categories come out of a hash map in no specified order; the sort that follows is stable.\<close>

definition detect_unusual_expenses ::
  "env \<Rightarrow> report_env \<Rightarrow> expense_sample list \<Rightarrow> unusual_expense list" where
  "detect_unusual_expenses e rv samples =
     (let by_category = sort_key (\<lambda>(c, _). rv_order rv c) (groups ex_category samples);
          flagged = concat (map (flagged_in e rv) by_category)
      in take max_flagged (sort_key (\<lambda>u. - ue_times_above_average u) flagged))"

section \<open>Service\<close>

definition top_product_limit :: nat where
  "top_product_limit = 5"

definition max_trend_days :: int where
  "max_trend_days = 90"

definition insight_lookback_days :: int where
  "insight_lookback_days = 60"

definition trend_point_of :: "daily_point \<Rightarrow> trend_point" where
  "trend_point_of p = \<lparr>tp_day = dp_day p, tp_sales_total = dp_sales_total p,
     tp_expenses_total = dp_expenses_total p, tp_net_profit = point_net_profit p\<rparr>"

definition profit_trend ::
  "env \<Rightarrow> report_env \<Rightarrow> books \<Rightarrow> uuid \<Rightarrow> trend_query \<Rightarrow> api_error + trend_point list" where
  "profit_trend e rv b store_id query =
     (let number = clamp 1 max_trend_days (tq_days query);
          end_at = e_now e;
          start = end_at - days number
      in bindR (daily_series rv b store_id start end_at (tq_utc_offset_minutes query)) (\<lambda>points.
           Inr (map trend_point_of points)))"

definition resolve_query :: "env \<Rightarrow> calendar \<Rightarrow> report_query \<Rightarrow> date_range" where
  "resolve_query e cal query =
     for_period cal (rq_period query) (rq_utc_offset_minutes query) (e_now e)"

definition top_products ::
  "env \<Rightarrow> report_env \<Rightarrow> calendar \<Rightarrow> books \<Rightarrow> uuid \<Rightarrow> report_query
    \<Rightarrow> api_error + product_performance list" where
  "top_products e rv cal b store_id query =
     (let window = resolve_query e cal query
      in product_performances e rv b store_id (dr_start window) (dr_end window) top_product_limit)"

definition expense_breakdown ::
  "env \<Rightarrow> report_env \<Rightarrow> calendar \<Rightarrow> books \<Rightarrow> uuid \<Rightarrow> report_query
    \<Rightarrow> api_error + expense_slice list" where
  "expense_breakdown e rv cal b store_id query =
     (let window = resolve_query e cal query
      in expense_breakdown_of rv b store_id (dr_start window) (dr_end window))"

definition unusual_expenses :: "env \<Rightarrow> report_env \<Rightarrow> books \<Rightarrow> uuid \<Rightarrow> unusual_expense list" where
  "unusual_expenses e rv b store_id =
     detect_unusual_expenses e rv
       (recent_expenses b store_id (e_now e - days insight_lookback_days))"

text \<open>\<open>seen n\<close> is the books as the n-th of the six concurrent queries sees them.\<close>

definition periodic_summary ::
  "env \<Rightarrow> report_env \<Rightarrow> calendar \<Rightarrow> (nat \<Rightarrow> books) \<Rightarrow> uuid \<Rightarrow> report_query
    \<Rightarrow> api_error + weekly_summary" where
  "periodic_summary e rv cal seen store_id query =
     (let window = resolve_query e cal query;
          t0 = dr_start window; t1 = dr_end window;
          since = e_now e - days insight_lookback_days
      in bindR (sales_totals_of (seen 0) store_id t0 t1) (\<lambda>sales.
         bindR (expenses_total_of (seen 1) store_id t0 t1) (\<lambda>expenses_total.
         bindR (withdrawals_total_of (seen 2) store_id t0 t1) (\<lambda>withdrawals_total.
         bindR (product_performances e rv (seen 3) store_id t0 t1 top_product_limit) (\<lambda>products.
         bindR (expense_breakdown_of rv (seen 4) store_id t0 t1) (\<lambda>slices.
         let samples = recent_expenses (seen 5) store_id since
         in Inr \<lparr>ws_period = rq_period query, ws_sales_total = tt_sales_total sales,
              ws_expenses_total = expenses_total,
              ws_net_profit = tt_sales_total sales - tt_cost_total sales - expenses_total,
              ws_withdrawals_total = withdrawals_total, ws_top_products = products,
              ws_expense_breakdown = slices,
              ws_unusual_expenses = detect_unusual_expenses e rv samples\<rparr>))))))"

section \<open>Handlers\<close>

definition handle_profit_trend ::
  "env \<Rightarrow> report_env \<Rightarrow> books \<Rightarrow> uuid \<Rightarrow> actor \<Rightarrow> trend_query \<Rightarrow> api_error + trend_point list" where
  "handle_profit_trend e rv b store_id actor query =
     bindR (require actor ViewProfit) (\<lambda>_. profit_trend e rv b store_id query)"

definition handle_top_products ::
  "env \<Rightarrow> report_env \<Rightarrow> calendar \<Rightarrow> books \<Rightarrow> uuid \<Rightarrow> actor \<Rightarrow> report_query
    \<Rightarrow> api_error + product_performance list" where
  "handle_top_products e rv cal b store_id actor query =
     bindR (require actor ViewProfit) (\<lambda>_. top_products e rv cal b store_id query)"

definition handle_expense_breakdown ::
  "env \<Rightarrow> report_env \<Rightarrow> calendar \<Rightarrow> books \<Rightarrow> uuid \<Rightarrow> actor \<Rightarrow> report_query
    \<Rightarrow> api_error + expense_slice list" where
  "handle_expense_breakdown e rv cal b store_id actor query =
     bindR (require actor ViewProfit) (\<lambda>_. expense_breakdown e rv cal b store_id query)"

definition handle_unusual_expenses ::
  "env \<Rightarrow> report_env \<Rightarrow> books \<Rightarrow> uuid \<Rightarrow> actor \<Rightarrow> api_error + unusual_expense list" where
  "handle_unusual_expenses e rv b store_id actor =
     bindR (require actor ViewProfit) (\<lambda>_. Inr (unusual_expenses e rv b store_id))"

definition handle_periodic_summary ::
  "env \<Rightarrow> report_env \<Rightarrow> calendar \<Rightarrow> (nat \<Rightarrow> books) \<Rightarrow> uuid \<Rightarrow> actor \<Rightarrow> report_query
    \<Rightarrow> api_error + weekly_summary" where
  "handle_periodic_summary e rv cal seen store_id actor query =
     bindR (require actor ViewProfit) (\<lambda>_. periodic_summary e rv cal seen store_id query)"

end
