(* ===== verification/Report_Properties.thy ===== *)
theory Report_Properties
  imports Reports Dashboard_Properties
begin

text \<open>
  What the reports promise: the daily trend and the breakdown account for every entry of their
  window, the weekly summary agrees with the dashboard, an expense is flagged when it is out of
  line, and no other store shows in any of them.
\<close>

section \<open>Accounting for every entry\<close>

definition or_zero :: "'m :: zero option \<Rightarrow> 'm" where
  "or_zero found = (case found of None \<Rightarrow> 0 | Some v \<Rightarrow> v)"

lemma sum_over_days:
  fixes kv :: "(int \<times> int) list"
  assumes "distinct (map fst kv)" "fst ` set kv \<subseteq> set ds" "distinct ds"
  shows "(\<Sum>d\<leftarrow>ds. or_zero (map_of kv d)) = (\<Sum>(k, v)\<leftarrow>kv. v)"
  using assms(1,2)
proof (induction kv)
  case Nil
  then show ?case by (simp add: or_zero_def)
next
  case (Cons x kv)
  obtain k v where x: "x = (k, v)" by (cases x)
  have none: "map_of kv k = None" using Cons.prems(1) by (auto simp: x map_of_eq_None_iff)
  have "(\<Sum>d\<leftarrow>ds. or_zero (map_of (x # kv) d)) = (\<Sum>d\<leftarrow>ds. (if d = k then v else 0) + or_zero (map_of kv d))"
    by (rule arg_cong[where f = sum_list]) (auto simp: x or_zero_def none)
  also have "\<dots> = (\<Sum>d\<leftarrow>ds. if d = k then v else 0) + (\<Sum>d\<leftarrow>ds. or_zero (map_of kv d))"
    by (rule sum_list_addf)
  also have "(\<Sum>d\<leftarrow>ds. if d = k then v else 0) = v"
    using Cons.prems(2) x by (simp add: sum_list_distinct_conv_sum_set[OF assms(3)])
  finally show ?case using Cons by (simp add: x)
qed

lemma day_sums_facts:
  fixes amount :: "'r \<Rightarrow> int"
  shows "distinct (map fst (day_sums day amount rows))"
    and "fst ` set (day_sums day amount rows) = day ` set rows"
    and "(\<Sum>(k, v)\<leftarrow>day_sums day amount rows. v) = (\<Sum>r\<leftarrow>rows. amount r)"
proof -
  have "map fst (day_sums day amount rows) = map fst (groups day rows)"
    by (simp add: day_sums_def case_prod_beta)
  then show "distinct (map fst (day_sums day amount rows))" by (simp add: distinct_groups)
  show "fst ` set (day_sums day amount rows) = day ` set rows"
    by (force simp: day_sums_def groups_def)
  show "(\<Sum>(k, v)\<leftarrow>day_sums day amount rows. v) = (\<Sum>r\<leftarrow>rows. amount r)"
    using sum_groups[of amount day rows] by (simp add: day_sums_def o_def case_prod_unfold)
qed

lemma daily_series_sums:
  assumes "daily_series rv b st t0 t1 off = Inr points"
  shows "(\<Sum>p\<leftarrow>points. dp_sales_total p) = sales_window.amount_in s_total_amount b st t0 t1"
    and "(\<Sum>p\<leftarrow>points. dp_cost_total p) = sales_window.amount_in s_cost_amount b st t0 t1"
    and "(\<Sum>p\<leftarrow>points. dp_expenses_total p) = expenses_window.amount_in x_amount b st t0 t1"
    and "sorted (map dp_day points)" and "distinct (map dp_day points)"
proof -
  let ?day = "local_day rv off"
  let ?sales = "\<lambda>f. day_sums (\<lambda>r. ?day (s_occurred_at r)) f (sales_in b st t0 t1)"
  let ?spent = "day_sums (\<lambda>r. ?day (x_occurred_at r)) x_amount (expenses_in b st t0 t1)"
  let ?ds = "sort (remdups (map fst (?sales s_total_amount) @ map fst ?spent))"
  have points: "points = map (\<lambda>d. \<lparr>dp_day = d, dp_sales_total = or_zero (map_of (?sales s_total_amount) d),
      dp_cost_total = or_zero (map_of (?sales s_cost_amount) d),
      dp_expenses_total = or_zero (map_of ?spent d)\<rparr>) ?ds"
    using assms by (simp add: daily_series_def Let_def or_zero_def)
  have over: "(\<Sum>d\<leftarrow>?ds. or_zero (map_of (day_sums day f rows) d)) = (\<Sum>r\<leftarrow>rows. f r)"
    if "day ` set rows \<subseteq> set ?ds" for day and f :: "'r \<Rightarrow> int" and rows
    using sum_over_days[of "day_sums day f rows" ?ds] that
    by (simp add: day_sums_facts del: set_map set_sort set_remdups)
  have days: "(\<lambda>r. ?day (s_occurred_at r)) ` set (sales_in b st t0 t1) \<subseteq> set ?ds"
    "(\<lambda>r. ?day (x_occurred_at r)) ` set (expenses_in b st t0 t1) \<subseteq> set ?ds"
    by (auto simp: day_sums_facts(2))
  show "(\<Sum>p\<leftarrow>points. dp_sales_total p) = sales_window.amount_in s_total_amount b st t0 t1"
    using over[OF days(1)] by (simp add: points o_def sales_window.amount_in_def)
  show "(\<Sum>p\<leftarrow>points. dp_cost_total p) = sales_window.amount_in s_cost_amount b st t0 t1"
    using over[OF days(1)] by (simp add: points o_def sales_window.amount_in_def)
  show "(\<Sum>p\<leftarrow>points. dp_expenses_total p) = expenses_window.amount_in x_amount b st t0 t1"
    using over[OF days(2)] by (simp add: points o_def expenses_window.amount_in_def)
  show "sorted (map dp_day points)" "distinct (map dp_day points)"
    unfolding points by (simp_all add: o_def)
qed

lemma sum_point_net_profit:
  "(\<Sum>p\<leftarrow>ps. point_net_profit p) = (\<Sum>p\<leftarrow>ps. dp_sales_total p) - (\<Sum>p\<leftarrow>ps. dp_cost_total p)
     - (\<Sum>p\<leftarrow>ps. dp_expenses_total p)"
  by (induction ps) (auto simp: point_net_profit_def)

text \<open>C23: The daily trend accounts for every live sale and expense of its days exactly once: its points
  come in the order of their days, no day twice, and add up to the takings, the expenses and the
  profit of the whole stretch, wherever the device's clock and the database's draw the days.\<close>

theorem trend_accounts_for_everything:
  assumes "profit_trend e rv b st query = Inr points"
    and "start = e_now e - days (clamp 1 max_trend_days (tq_days query))"
  shows "(\<Sum>p\<leftarrow>points. tp_net_profit p) = profit_in b st start (e_now e)
    \<and> (\<Sum>p\<leftarrow>points. tp_sales_total p) = (\<Sum>r\<leftarrow>sales_in b st start (e_now e). s_total_amount r)
    \<and> (\<Sum>p\<leftarrow>points. tp_expenses_total p) = (\<Sum>x\<leftarrow>expenses_in b st start (e_now e). x_amount x)
    \<and> sorted (map tp_day points) \<and> distinct (map tp_day points)"
proof -
  obtain daily where daily: "daily_series rv b st start (e_now e) (tq_utc_offset_minutes query) = Inr daily"
    and points: "points = map trend_point_of daily"
    using assms by (auto simp: profit_trend_def Let_def)
  show ?thesis using daily_series_sums[OF daily]
    by (simp add: points o_def trend_point_of_def sum_point_net_profit profit_in_amounts
        sales_window.amount_in_def expenses_window.amount_in_def)
qed

definition sample_trend :: "trend_point list" where
  "sample_trend = projr (profit_trend (sample_env 90) sample_report (snd sample_sold) 10
     \<lparr>tq_days = 1000, tq_utc_offset_minutes = 480\<rparr>)"

theorem trend_accounts_for_everything_witness:
  "(\<Sum>p\<leftarrow>sample_trend. tp_net_profit p) = profit_in (snd sample_sold) 10 (90 - days 90) 90
   \<and> length sample_trend = 1"
proof -
  let ?run = "profit_trend (sample_env 90) sample_report (snd sample_sold) 10
     \<lparr>tq_days = 1000, tq_utc_offset_minutes = 480\<rparr>"
  have "\<not> isl ?run" by code_simp
  then have "?run = Inr sample_trend" by (cases ?run) (auto simp: sample_trend_def)
  moreover have "length sample_trend = 1" by code_simp
  ultimately show ?thesis
    using trend_accounts_for_everything[of "sample_env 90" sample_report "snd sample_sold" 10
        "\<lparr>tq_days = 1000, tq_utc_offset_minutes = 480\<rparr>" sample_trend "90 - days 90"]
    by (simp add: max_trend_days_def clamp_def)
qed

section \<open>One set of figures\<close>

lemma distinct_map_sort_key: "distinct (map f (sort_key k xs)) = distinct (map f xs)"
  by (rule mset_eq_imp_distinct_iff) (simp add: mset_map)

lemma length_as_sum: "int (length xs) = (\<Sum>_\<leftarrow>xs. 1)"
  by (induction xs) auto

lemma count_groups: "(\<Sum>g\<leftarrow>groups key rows. int (length (snd g))) = int (length rows)"
  using sum_groups[of "\<lambda>_. 1 :: int" key rows] unfolding length_as_sum case_prod_unfold .

lemma expense_breakdown_slices:
  assumes "expense_breakdown_of rv b st t0 t1 = Inr slices"
  shows "(\<Sum>r\<leftarrow>slices. es_total_amount r) = expenses_window.amount_in x_amount b st t0 t1"
    and "(\<Sum>r\<leftarrow>slices. es_entry_count r) = int (length (expenses_in b st t0 t1))"
    and "distinct (map es_category slices)" and "sorted_wrt (\<lambda>r r'. es_total_amount r' \<le> es_total_amount r) slices"
proof -
  define rows where "rows = map (\<lambda>(c, g). \<lparr>es_category = c, es_total_amount = (\<Sum>x\<leftarrow>g. x_amount x),
    es_entry_count = int (length g)\<rparr>) (groups x_category (expenses_in b st t0 t1))"
  have slices: "slices = sort_key (\<lambda>r. (- es_total_amount r, rv_order rv (es_category r))) rows"
    using assms by (simp add: expense_breakdown_of_def Let_def rows_def)
  show "(\<Sum>r\<leftarrow>slices. es_total_amount r) = expenses_window.amount_in x_amount b st t0 t1"
    using sum_groups[of x_amount x_category "expenses_in b st t0 t1"]
    by (simp add: slices sum_list_sort_key rows_def o_def case_prod_unfold expenses_window.amount_in_def)
  have "(\<Sum>r\<leftarrow>rows. es_entry_count r) = int (length (expenses_in b st t0 t1))"
    unfolding rows_def using count_groups[of x_category "expenses_in b st t0 t1"]
    by (simp only: map_map o_def case_prod_unfold expense_slice.simps)
  then show "(\<Sum>r\<leftarrow>slices. es_entry_count r) = int (length (expenses_in b st t0 t1))"
    unfolding slices sum_list_sort_key .
  have "map es_category rows = map fst (groups x_category (expenses_in b st t0 t1))"
    by (simp add: rows_def case_prod_unfold)
  then have "distinct (map es_category rows)" by (simp add: distinct_groups)
  then show "distinct (map es_category slices)"
    unfolding slices by (simp add: distinct_map_sort_key)
  have "sorted (map (\<lambda>r. (- es_total_amount r, rv_order rv (es_category r))) slices)"
    unfolding slices by (rule sorted_sort_key)
  then show "sorted_wrt (\<lambda>r r'. es_total_amount r' \<le> es_total_amount r) slices"
    unfolding sorted_map by (rule sorted_wrt_mono_rel[rotated]) (auto simp: less_eq_prod_def)
qed

text \<open>C22: The weekly summary and the dashboard, asked about the same window of the same books, agree on
  takings, expenses, profit and withdrawals, and the breakdown the summary shows adds up to those
  expenses: every entry in exactly one slice, one slice per category, the largest first.\<close>

theorem weekly_summary_agrees_with_dashboard:
  assumes "periodic_summary e rv cal (\<lambda>_. b) st query = Inr s"
    and "compute_summary e rv (\<lambda>_. b) st (rq_period query) (resolve_query e cal query) = Inr v"
  shows "ws_sales_total s = sm_sales_total v \<and> ws_expenses_total s = sm_expenses_total v
    \<and> ws_net_profit s = sm_net_profit v \<and> ws_withdrawals_total s = sm_withdrawals_total v
    \<and> (\<Sum>r\<leftarrow>ws_expense_breakdown s. es_total_amount r) = sm_expenses_total v
    \<and> (\<Sum>r\<leftarrow>ws_expense_breakdown s. es_entry_count r)
        = int (length (expenses_in b st (sm_range_start v) (sm_range_end v)))
    \<and> distinct (map es_category (ws_expense_breakdown s))
    \<and> sorted_wrt (\<lambda>r r'. es_total_amount r' \<le> es_total_amount r) (ws_expense_breakdown s)"
proof -
  let ?w = "resolve_query e cal query"
  have slices: "expense_breakdown_of rv b st (dr_start ?w) (dr_end ?w) = Inr (ws_expense_breakdown s)"
    and figures: "ws_sales_total s = sales_window.amount_in s_total_amount b st (dr_start ?w) (dr_end ?w)"
      "ws_expenses_total s = expenses_window.amount_in x_amount b st (dr_start ?w) (dr_end ?w)"
      "ws_withdrawals_total s = withdrawals_window.amount_in wd_amount b st (dr_start ?w) (dr_end ?w)"
      "ws_net_profit s = profit_in b st (dr_start ?w) (dr_end ?w)"
    using assms(1) by (auto simp: periodic_summary_def Let_def profit_in_amounts)
  show ?thesis
    using figures summary_figures[OF assms(2)] expense_breakdown_slices[OF slices] by simp
qed

section \<open>Expenses out of line\<close>

definition same_category :: "expense_sample list \<Rightarrow> expense_sample \<Rightarrow> expense_sample list" where
  "same_category samples y = filter (\<lambda>z. ex_category z = ex_category y) samples"

lemma in_flagged:
  "u \<in> set (concat (map (flagged_in e rv) (sort_key k (groups ex_category samples)))) \<longleftrightarrow>
     (\<exists>y \<in> set samples. minimum_samples \<le> length (same_category samples y)
        \<and> mean_of rv (same_category samples y) \<noteq> 0
        \<and> outlier_multiplier \<le> ratio_of rv (ex_amount y) (mean_of rv (same_category samples y))
        \<and> u = flag e rv (ex_category y) (mean_of rv (same_category samples y)) y)"
proof
  assume "u \<in> set (concat (map (flagged_in e rv) (sort_key k (groups ex_category samples))))"
  then obtain c g where g: "(c, g) \<in> set (groups ex_category samples)" and u: "u \<in> set (flagged_in e rv (c, g))"
    by auto
  have eq: "g = filter (\<lambda>z. ex_category z = c) samples" using in_groupsD[OF g] by simp
  obtain y where y: "y \<in> set g" "minimum_samples \<le> length g" "mean_of rv g \<noteq> 0"
    "outlier_multiplier \<le> ratio_of rv (ex_amount y) (mean_of rv g)" "u = flag e rv c (mean_of rv g) y"
    using u by (auto simp: flagged_in_def Let_def not_less split: if_splits)
  then have "y \<in> set samples" "same_category samples y = g" "ex_category y = c"
    by (auto simp: eq same_category_def)
  then show "\<exists>y \<in> set samples. minimum_samples \<le> length (same_category samples y)
        \<and> mean_of rv (same_category samples y) \<noteq> 0
        \<and> outlier_multiplier \<le> ratio_of rv (ex_amount y) (mean_of rv (same_category samples y))
        \<and> u = flag e rv (ex_category y) (mean_of rv (same_category samples y)) y"
    using y by blast
next
  assume "\<exists>y \<in> set samples. minimum_samples \<le> length (same_category samples y)
        \<and> mean_of rv (same_category samples y) \<noteq> 0
        \<and> outlier_multiplier \<le> ratio_of rv (ex_amount y) (mean_of rv (same_category samples y))
        \<and> u = flag e rv (ex_category y) (mean_of rv (same_category samples y)) y"
  then obtain y where y: "y \<in> set samples" "minimum_samples \<le> length (same_category samples y)"
    "mean_of rv (same_category samples y) \<noteq> 0"
    "outlier_multiplier \<le> ratio_of rv (ex_amount y) (mean_of rv (same_category samples y))"
    "u = flag e rv (ex_category y) (mean_of rv (same_category samples y)) y" by blast
  then have "(ex_category y, same_category samples y) \<in> set (groups ex_category samples)"
    by (auto simp: groups_def same_category_def)
  moreover have "u \<in> set (flagged_in e rv (ex_category y, same_category samples y))"
    using y by (auto simp: flagged_in_def Let_def same_category_def)
  ultimately show "u \<in> set (concat (map (flagged_in e rv) (sort_key k (groups ex_category samples))))"
    by auto
qed

lemma ranked_or_crowded_out:
  fixes f :: "'u \<Rightarrow> rat"
  assumes "u \<in> set us"
  shows "u \<in> set (take n (sort_key (\<lambda>v. - f v) us))
    \<or> (length (take n (sort_key (\<lambda>v. - f v) us)) = n \<and> (\<forall>v \<in> set (take n (sort_key (\<lambda>v. - f v) us)). f u \<le> f v))"
proof -
  let ?s = "sort_key (\<lambda>v. - f v) us"
  have "u \<in> set (take n ?s) \<union> set (drop n ?s)" using assms by (metis append_take_drop_id set_append set_sort)
  moreover have "f u \<le> f v" if "u \<in> set (drop n ?s)" "v \<in> set (take n ?s)" for v
  proof -
    have "sorted (map (\<lambda>v. - f v) (take n ?s @ drop n ?s))" by simp
    then show ?thesis using that unfolding map_append sorted_append by auto
  qed
  moreover have "length (take n ?s) = n" if "u \<in> set (drop n ?s)"
    using that by (cases "n < length us") auto
  ultimately show ?thesis by blast
qed

lemma ratio_of_outlier:
  assumes "report_env_ok rv" "0 < average" "outlier_multiplier * average \<le> of_int amount / 100"
  shows "outlier_multiplier \<le> ratio_of rv amount average"
proof -
  have "rv_dec rv (of_int 5 / 2) = of_int 5 / 2 \<and> rv_fl rv (of_int 5 / 2) = of_int 5 / 2"
    using assms(1) unfolding report_env_ok_def by (elim conjE allE[of _ "5 :: int"]) simp
  then have five: "rv_dec rv (5 / 2) = 5 / 2" "rv_fl rv (5 / 2) = 5 / 2" by simp_all
  have "5 / 2 \<le> of_int amount / 100 / average"
    using assms(2,3) by (simp add: outlier_multiplier_def pos_le_divide_eq)
  then have "rv_fl rv (rv_dec rv (5 / 2)) \<le> rv_fl rv (rv_dec rv (of_int amount / 100 / average))"
    using assms(1) by (simp add: report_env_ok_def)
  then show ?thesis using assms(1) five
    by (simp add: ratio_of_def report_env_ok_def outlier_multiplier_def)
qed

text \<open>C34: What is flagged as unusual is a live expense of this store of the last sixty days, at least two
  and a half times the mean of the four or more of its category; at most five are shown, the worst
  first; and an expense that is at least that far above its mean is shown unless five at least as
  bad crowd it out.\<close>

theorem flagged_expenses_are_outliers:
  assumes "report_env_ok rv"
  shows "length (unusual_expenses e rv b st) \<le> 5
    \<and> sorted_wrt (\<lambda>u v. ue_times_above_average v \<le> ue_times_above_average u) (unusual_expenses e rv b st)
    \<and> (\<forall>u \<in> set (unusual_expenses e rv b st). \<exists>x \<in> set (bk_expenses b). ue_expense u = sample_of x
         \<and> x_store x = st \<and> x_deleted_at x = None \<and> e_now e - days 60 \<le> x_occurred_at x
         \<and> 4 \<le> length (same_category (recent_expenses b st (e_now e - days 60)) (sample_of x))
         \<and> 5 / 2 \<le> ratio_of rv (x_amount x)
              (mean_of rv (same_category (recent_expenses b st (e_now e - days 60)) (sample_of x))))
    \<and> (\<forall>y \<in> set (recent_expenses b st (e_now e - days 60)).
         let usual = same_category (recent_expenses b st (e_now e - days 60)) y; mean = mean_of rv usual
         in 4 \<le> length usual \<longrightarrow> 0 < mean \<longrightarrow> 5 / 2 * mean \<le> of_int (ex_amount y) / 100
            \<longrightarrow> flag e rv (ex_category y) mean y \<in> set (unusual_expenses e rv b st)
              \<or> length (unusual_expenses e rv b st) = 5
                \<and> (\<forall>v \<in> set (unusual_expenses e rv b st).
                     ue_times_above_average (flag e rv (ex_category y) mean y) \<le> ue_times_above_average v))"
proof -
  define recent where "recent = recent_expenses b st (e_now e - days 60)"
  define found where "found = concat (map (flagged_in e rv)
    (sort_key (\<lambda>(c, _). rv_order rv c) (groups ex_category recent)))"
  have shown: "unusual_expenses e rv b st = take 5 (sort_key (\<lambda>u. - ue_times_above_average u) found)"
    by (simp add: unusual_expenses_def detect_unusual_expenses_def Let_def found_def recent_def
        insight_lookback_days_def max_flagged_def)
  have row: "\<exists>x \<in> set (bk_expenses b). y = sample_of x \<and> x_store x = st \<and> x_deleted_at x = None
      \<and> e_now e - days 60 \<le> x_occurred_at x" if "y \<in> set recent" for y
    using that set_take_subset[of 500] unfolding recent_def recent_expenses_def by fastforce
  have sound: "\<exists>x \<in> set (bk_expenses b). ue_expense u = sample_of x
      \<and> x_store x = st \<and> x_deleted_at x = None \<and> e_now e - days 60 \<le> x_occurred_at x
      \<and> 4 \<le> length (same_category recent (sample_of x))
      \<and> 5 / 2 \<le> ratio_of rv (x_amount x) (mean_of rv (same_category recent (sample_of x)))"
    if u: "u \<in> set (unusual_expenses e rv b st)" for u
  proof -
    have "u \<in> set found" using u unfolding shown by (auto dest: in_set_takeD)
    then obtain y where y: "y \<in> set recent" "4 \<le> length (same_category recent y)"
      "5 / 2 \<le> ratio_of rv (ex_amount y) (mean_of rv (same_category recent y))" "ue_expense u = y"
      unfolding found_def in_flagged
      by (auto simp: minimum_samples_def outlier_multiplier_def flag_def Let_def)
    from row[OF y(1)] y(2-4) show ?thesis by (auto simp: sample_of_def)
  qed
  have complete: "flag e rv (ex_category y) (mean_of rv (same_category recent y)) y \<in> set found"
    if "y \<in> set recent" "4 \<le> length (same_category recent y)" "0 < mean_of rv (same_category recent y)"
      "5 / 2 * mean_of rv (same_category recent y) \<le> of_int (ex_amount y) / 100" for y
    unfolding found_def in_flagged
    using that ratio_of_outlier[OF assms that(3)] that(4)
    by (intro bexI[of _ y]) (auto simp: minimum_samples_def outlier_multiplier_def)
  have "sorted_wrt (\<lambda>u v. ue_times_above_average v \<le> ue_times_above_average u) (unusual_expenses e rv b st)"
  proof -
    have "sorted (map (\<lambda>u. - ue_times_above_average u) (unusual_expenses e rv b st))"
      unfolding shown by (simp add: take_map[symmetric] sorted_wrt_take)
    then show ?thesis by (simp add: sorted_map)
  qed
  then show ?thesis
    using sound complete ranked_or_crowded_out[of _ found 5 ue_times_above_average]
    unfolding recent_def[symmetric] Let_def shown by (intro conjI) auto
qed

definition sample_spending :: books where
  "sample_spending = sample_books\<lparr>bk_expenses := map (\<lambda>(i, amount). \<lparr>x_id = i, x_store = 10,
     x_category = ''utilities'', x_description = None, x_amount = amount, x_occurred_at = 50,
     x_recorded_by = None, x_updated_at = 60, x_deleted_at = None\<rparr>)
     [(1, 10000), (2, 11000), (3, 9500), (4, 10500), (5, 200000)]\<rparr>"

theorem flagged_expenses_are_outliers_witness:
  "map (ex_id \<circ> ue_expense) (unusual_expenses (sample_env 90) sample_report sample_spending 10) = [5]
   \<and> length (unusual_expenses (sample_env 90) sample_report sample_spending 10) \<le> 5"
  using flagged_expenses_are_outliers[OF sample_report_ok, of "sample_env 90" sample_spending 10,
      THEN conjunct1]
  by (intro conjI) (code_simp, simp)

section \<open>Nobody else's books\<close>

lemma recent_expenses_same: "same_store st b b' \<Longrightarrow> recent_expenses b' st since = recent_expenses b st since"
proof -
  assume "same_store st b b'"
  then have same: "filter (\<lambda>r. x_store r = st) (bk_expenses b') = filter (\<lambda>r. x_store r = st) (bk_expenses b)"
    by (simp add: same_store_def)
  have mine: "filter (\<lambda>r. x_store r = st \<and> P r) xs = filter P (filter (\<lambda>r. x_store r = st) xs)"
    for P xs by (auto simp: conj_commute)
  show ?thesis by (simp only: recent_expenses_def mine same)
qed

text \<open>Whatever another store's phone pushes, every figure of this store's dashboard, trend, weekly
  summary and unusual expenses stays as it was.\<close>

theorem reports_ignore_other_stores:
  assumes "push e st actor request b = (oc, b')" and "books_ok b" and "other \<noteq> st"
  shows "compute_summary ex rv (\<lambda>_. b') other p w = compute_summary ex rv (\<lambda>_. b) other p w
    \<and> profit_trend ex rv b' other trend = profit_trend ex rv b other trend
    \<and> periodic_summary ex rv cal (\<lambda>_. b') other query = periodic_summary ex rv cal (\<lambda>_. b) other query
    \<and> unusual_expenses ex rv b' other = unusual_expenses ex rv b other"
proof -
  have "confined st b b'" using push_confined.push_with_rel[OF assms(1)[unfolded push_def]] by simp
  then have same: "same_store other b b'" using assms(2,3) by (simp add: confined_def)
  note eqs = same_reports[OF same] recent_expenses_same[OF same]
  have "compute_summary ex rv (\<lambda>_. b') other p w = compute_summary ex rv (\<lambda>_. b) other p w"
    using summary_same[of other "\<lambda>_. b" "\<lambda>_. b'"] same by blast
  moreover have "profit_trend ex rv b' other trend = profit_trend ex rv b other trend"
    unfolding profit_trend_def daily_series_def eqs by (rule refl)
  moreover have "periodic_summary ex rv cal (\<lambda>_. b') other query
      = periodic_summary ex rv cal (\<lambda>_. b) other query"
    unfolding periodic_summary_def sales_totals_of_def expenses_total_of_def withdrawals_total_of_def
      product_performances_def expense_breakdown_of_def eqs by (rule refl)
  moreover have "unusual_expenses ex rv b' other = unusual_expenses ex rv b other"
    unfolding unusual_expenses_def eqs by (rule refl)
  ultimately show ?thesis by blast
qed

theorem reports_ignore_other_stores_witness:
  "compute_summary (sample_env 90) sample_report (\<lambda>_. snd (push (sample_env 100) 10 sample_owner
       \<lparr>pr_products = [], pr_stock_movements = [], pr_sales = [], pr_expenses =
          [\<lparr>rx_id = Some 71, rx_category = ''rent'', rx_description = None, rx_amount = 5,
            rx_occurred_at = None\<rparr>], pr_withdrawals = [], pr_deletions = []\<rparr> sample_books)) 11 Today \<lparr>dr_start = 10, dr_end = 90\<rparr>
   = compute_summary (sample_env 90) sample_report (\<lambda>_. sample_books) 11 Today \<lparr>dr_start = 10, dr_end = 90\<rparr>"
  by (rule reports_ignore_other_stores[OF prod.collapse[symmetric] sample_books_ok, THEN conjunct1])
    simp

text \<open>The weekly summary of the sample books.\<close>

definition sample_week :: weekly_summary where
  "sample_week = projr (periodic_summary (sample_env 90) sample_report sample_calendar
     (\<lambda>_. sample_spending) 10 \<lparr>rq_period = Today, rq_utc_offset_minutes = 0\<rparr>)"

theorem weekly_summary_agrees_with_dashboard_witness:
  "(\<Sum>r\<leftarrow>ws_expense_breakdown sample_week. es_total_amount r) = ws_expenses_total sample_week
   \<and> ws_expenses_total sample_week = 241000"
proof -
  let ?q = "\<lparr>rq_period = Today, rq_utc_offset_minutes = 0\<rparr>"
  let ?week = "periodic_summary (sample_env 90) sample_report sample_calendar (\<lambda>_. sample_spending) 10 ?q"
  let ?day = "compute_summary (sample_env 90) sample_report (\<lambda>_. sample_spending) 10 (rq_period ?q)
      (resolve_query (sample_env 90) sample_calendar ?q)"
  have "\<not> isl ?week" "\<not> isl ?day" by code_simp+
  then have "?week = Inr sample_week" "?day = Inr (projr ?day)"
    by (cases ?week; cases ?day; simp add: sample_week_def)+
  moreover have "ws_expenses_total sample_week = 241000" by code_simp
  ultimately show ?thesis using weekly_summary_agrees_with_dashboard by simp
qed

end
