(* ===== verification/Benchmarks.thy ===== *)
theory Benchmarks
  imports Window_Totals Stores
begin

text \<open>
  \<^verbatim>\<open>features/benchmarks\<close>: a store's month beside the medians of the stores like it that share
  theirs. Figures are doubles: every operation is the exact one, rounded by \<open>rv_fl\<close>. The medians
  of a kind and size of store are remembered for six hours in the process.
\<close>

section \<open>A store's month\<close>

definition window_days :: int where
  "window_days = 30"

record store_month =
  mo_sales_total :: rat
  mo_cost_total :: rat
  mo_expense_total :: rat
  mo_sale_count :: int

definition month_margin_percent :: "report_env \<Rightarrow> store_month \<Rightarrow> rat option" where
  "month_margin_percent rv m =
     (if mo_sales_total m > 0
      then Some (rv_fl rv (rv_fl rv (rv_fl rv (mo_sales_total m - mo_cost_total m)
                    / mo_sales_total m) * 100))
      else None)"

definition month_expense_percent :: "report_env \<Rightarrow> store_month \<Rightarrow> rat option" where
  "month_expense_percent rv m =
     (if mo_sales_total m > 0
      then Some (rv_fl rv (rv_fl rv (mo_expense_total m / mo_sales_total m) * 100)) else None)"

definition month_daily_sales :: "report_env \<Rightarrow> store_month \<Rightarrow> rat" where
  "month_daily_sales rv m = rv_fl rv (mo_sales_total m / of_int window_days)"

definition is_trading :: "store_month \<Rightarrow> bool" where
  "is_trading m \<longleftrightarrow> mo_sale_count m \<ge> 20 \<and> mo_sales_total m > 0"

datatype size_band = SmallBand | MediumBand | LargeBand

definition band_of :: "rat \<Rightarrow> size_band" where
  "band_of monthly_sales =
     (if monthly_sales < 30000 then SmallBand
      else if monthly_sales < 150000 then MediumBand else LargeBand)"

text \<open>No upper bound is infinity.\<close>

fun band_bounds :: "size_band \<Rightarrow> rat \<times> rat option" where
  "band_bounds SmallBand = (0, Some 30000)"
| "band_bounds MediumBand = (30000, Some 150000)"
| "band_bounds LargeBand = (150000, None)"

fun band_as_str :: "size_band \<Rightarrow> string" where
  "band_as_str SmallBand = ''small''"
| "band_as_str MediumBand = ''medium''"
| "band_as_str LargeBand = ''large''"

section \<open>Repository\<close>

record peer_medians =
  pm_sample_size :: int
  pm_margin_percent :: "rat option"
  pm_expense_percent :: "rat option"
  pm_daily_sales :: "rat option"

text \<open>The month has no end: what is dated in the future counts.\<close>

definition month_sales :: "env \<Rightarrow> books \<Rightarrow> uuid \<Rightarrow> sale_row list" where
  "month_sales e b store_id =
     filter (\<lambda>r. s_store r = store_id \<and> s_deleted_at r = None
                 \<and> e_now e - days window_days \<le> s_occurred_at r) (bk_sales b)"

definition month_expenses :: "env \<Rightarrow> books \<Rightarrow> uuid \<Rightarrow> expense_row list" where
  "month_expenses e b store_id =
     filter (\<lambda>r. x_store r = store_id \<and> x_deleted_at r = None
                 \<and> e_now e - days window_days \<le> x_occurred_at r) (bk_expenses b)"

definition store_month_of :: "env \<Rightarrow> report_env \<Rightarrow> books \<Rightarrow> uuid \<Rightarrow> store_month" where
  "store_month_of e rv b store_id =
     \<lparr>mo_sales_total = rv_fl rv (of_int (\<Sum>r\<leftarrow>month_sales e b store_id. s_total_amount r) / 100),
      mo_cost_total = rv_fl rv (of_int (\<Sum>r\<leftarrow>month_sales e b store_id. s_cost_amount r) / 100),
      mo_expense_total = rv_fl rv (of_int (\<Sum>r\<leftarrow>month_expenses e b store_id. x_amount r) / 100),
      mo_sale_count = int (length (month_sales e b store_id))\<rparr>"

text \<open>\<open>percentile_cont(0.5)\<close>: the middle value, or half way between the two in the middle.\<close>

definition percentile_half :: "report_env \<Rightarrow> rat list \<Rightarrow> rat option" where
  "percentile_half rv xs =
     (let ys = sort xs; n = length ys; hi = ys ! (n div 2); lo = ys ! (n div 2 - 1)
      in if n = 0 then None
         else if odd n then Some hi
         else Some (rv_fl rv (lo + rv_fl rv (rv_fl rv (hi - lo) / 2))))"

definition peers :: "env \<Rightarrow> report_env \<Rightarrow> cloud \<Rightarrow> uuid \<Rightarrow> string \<Rightarrow> store_month list" where
  "peers e rv db store_id business_type =
     map (\<lambda>s. store_month_of e rv (cl_books db) (st_id s))
       (filter (\<lambda>s. st_share_benchmarks s \<and> st_id s \<noteq> store_id \<and> st_business_type s = business_type)
         (cl_stores db))"

text \<open>An infinite upper bound is sent as 0, which the query reads as none.\<close>

definition trading_peers ::
  "env \<Rightarrow> report_env \<Rightarrow> cloud \<Rightarrow> uuid \<Rightarrow> string \<Rightarrow> size_band \<Rightarrow> store_month list" where
  "trading_peers e rv db store_id business_type band =
     (let (lower, upper) = band_bounds band;
          upper_sent = (case upper of Some u \<Rightarrow> u | None \<Rightarrow> 0)
      in filter (\<lambda>m. mo_sale_count m \<ge> 20 \<and> mo_sales_total m > 0 \<and> mo_sales_total m \<ge> lower
                     \<and> (upper_sent = 0 \<or> mo_sales_total m < upper_sent))
           (peers e rv db store_id business_type))"

definition peer_medians_of ::
  "env \<Rightarrow> report_env \<Rightarrow> cloud \<Rightarrow> uuid \<Rightarrow> string \<Rightarrow> size_band \<Rightarrow> peer_medians" where
  "peer_medians_of e rv db store_id business_type band =
     (let trading = trading_peers e rv db store_id business_type band
      in \<lparr>pm_sample_size = int (length trading),
          pm_margin_percent = percentile_half rv (map (\<lambda>m. rv_fl rv (rv_fl rv
             (rv_fl rv (mo_sales_total m - mo_cost_total m) / mo_sales_total m) * 100)) trading),
          pm_expense_percent = percentile_half rv (map (\<lambda>m. rv_fl rv
             (rv_fl rv (mo_expense_total m / mo_sales_total m) * 100)) trading),
          pm_daily_sales = percentile_half rv
             (map (\<lambda>m. rv_fl rv (mo_sales_total m / of_int window_days)) trading)\<rparr>)"

definition business_type_of :: "cloud \<Rightarrow> uuid \<Rightarrow> api_error + string" where
  "business_type_of db store_id =
     (case find_key st_id store_id (cl_stores db) of
        None \<Rightarrow> Inl (error_of_sql RowNotFound) | Some r \<Rightarrow> Inr (st_business_type r))"

section \<open>Service\<close>

record comparison =
  cp_metric :: string
  cp_yours :: rat
  cp_typical :: rat

datatype no_comparison = TooFewStores | TooLittleHistory | SharingOff

fun no_comparison_text :: "no_comparison \<Rightarrow> string" where
  "no_comparison_text TooFewStores = ''not_enough_stores''"
| "no_comparison_text TooLittleHistory = ''not_enough_history''"
| "no_comparison_text SharingOff = ''not_sharing''"

record benchmark_report =
  br_available :: bool
  br_unavailable_because :: "no_comparison option"
  br_sample_size :: int
  br_business_type :: "string option"
  br_size_band :: "size_band option"
  br_comparisons :: "comparison list"

definition unavailable :: "no_comparison \<Rightarrow> benchmark_report" where
  "unavailable reason =
     \<lparr>br_available = False, br_unavailable_because = Some reason, br_sample_size = 0,
      br_business_type = None, br_size_band = None, br_comparisons = []\<rparr>"

definition minimum_peers :: int where
  "minimum_peers = 20"

definition median_fresh_for :: duration where
  "median_fresh_for = hours 6"

type_synonym median_cache = "((string \<times> string) \<times> (instant \<times> peer_medians)) list"

definition remembered_medians ::
  "env \<Rightarrow> string \<times> string \<Rightarrow> median_cache \<Rightarrow> peer_medians option" where
  "remembered_medians e key cache =
     (case map_of cache key of
        None \<Rightarrow> None
      | Some (at_time, medians) \<Rightarrow>
          if e_now e - at_time < median_fresh_for then Some medians else None)"

definition remember_medians ::
  "env \<Rightarrow> string \<times> string \<Rightarrow> peer_medians \<Rightarrow> median_cache \<Rightarrow> median_cache" where
  "remember_medians e key medians cache =
     (key, (e_now e, medians)) # filter (\<lambda>(k, _). k \<noteq> key) cache"

definition medians_for ::
  "env \<Rightarrow> report_env \<Rightarrow> cloud \<Rightarrow> uuid \<Rightarrow> string \<Rightarrow> size_band \<Rightarrow> median_cache
    \<Rightarrow> peer_medians \<times> median_cache" where
  "medians_for e rv db store_id business_type band cache =
     (let key = (business_type, band_as_str band)
      in case remembered_medians e key cache of
           Some medians \<Rightarrow> (medians, cache)
         | None \<Rightarrow>
             let medians = peer_medians_of e rv db store_id business_type band
             in (medians, if pm_sample_size medians \<ge> minimum_peers
                          then remember_medians e key medians cache else cache))"

definition rounded :: "report_env \<Rightarrow> rat \<Rightarrow> rat" where
  "rounded rv x = rv_fl rv (f64_round (rv_fl rv (x * 10)) / 10)"

definition comparisons_of :: "report_env \<Rightarrow> store_month \<Rightarrow> peer_medians \<Rightarrow> comparison list" where
  "comparisons_of rv m medians =
     List.map_filter (\<lambda>(metric, yours, typical).
        case (yours, typical) of
          (Some y, Some t) \<Rightarrow>
            Some \<lparr>cp_metric = metric, cp_yours = rounded rv y, cp_typical = rounded rv t\<rparr>
        | _ \<Rightarrow> None)
       [(''gross_margin_percent'', month_margin_percent rv m, pm_margin_percent medians),
        (''expense_percent'', month_expense_percent rv m, pm_expense_percent medians),
        (''daily_sales'', Some (month_daily_sales rv m), pm_daily_sales medians)]"

text \<open>\<open>seen n\<close> is the database as the n-th query of the request sees it.\<close>

definition compare_store ::
  "env \<Rightarrow> report_env \<Rightarrow> (nat \<Rightarrow> cloud) \<Rightarrow> uuid \<Rightarrow> bool \<Rightarrow> median_cache
    \<Rightarrow> (api_error + benchmark_report) \<times> median_cache" where
  "compare_store e rv seen store_id shares cache =
     (if \<not> shares then (Inr (unavailable SharingOff), cache)
      else
        let month = store_month_of e rv (cl_books (seen 0)) store_id
        in if \<not> is_trading month then (Inr (unavailable TooLittleHistory), cache)
           else case business_type_of (seen 1) store_id of
               Inl err \<Rightarrow> (Inl err, cache)
             | Inr business_type \<Rightarrow>
                 let band = band_of (mo_sales_total month);
                     (medians, cache') =
                       medians_for e rv (seen 2) store_id business_type band cache
                 in (if pm_sample_size medians < minimum_peers
                     then Inr (unavailable TooFewStores)
                     else Inr \<lparr>br_available = True, br_unavailable_because = None,
                            br_sample_size = pm_sample_size medians,
                            br_business_type = Some business_type, br_size_band = Some band,
                            br_comparisons = comparisons_of rv month medians\<rparr>, cache'))"

definition handle_compare ::
  "env \<Rightarrow> report_env \<Rightarrow> (nat \<Rightarrow> cloud) \<Rightarrow> actor \<Rightarrow> uuid \<Rightarrow> median_cache
    \<Rightarrow> (api_error + benchmark_report) \<times> median_cache" where
  "handle_compare e rv seen actor store_id cache =
     (case require actor ViewProfit of
        Inl err \<Rightarrow> (Inl err, cache)
      | Inr _ \<Rightarrow>
          case shares_benchmarks (seen 3) store_id of
            Inl err \<Rightarrow> (Inl err, cache)
          | Inr shares \<Rightarrow> compare_store e rv seen store_id shares cache)"

section \<open>Lemmas\<close>

text \<open>The bounds of a band hold exactly the stores of its size.\<close>

lemma band_bounds_iff:
  "0 \<le> x \<Longrightarrow> (case band_bounds band of (lower, upper) \<Rightarrow>
     lower \<le> x \<and> (case upper of None \<Rightarrow> True | Some u \<Rightarrow> x < u)) \<longleftrightarrow> band_of x = band"
  by (cases band) (auto simp: band_of_def)

lemma trading_peers_eq:
  "trading_peers e rv db store_id business_type band =
     filter (\<lambda>m. is_trading m \<and> band_of (mo_sales_total m) = band) (peers e rv db store_id business_type)"
  unfolding trading_peers_def
  by (cases band) (auto simp: is_trading_def band_of_def intro!: filter_cong)

lemma band_as_str_inj: "band_as_str x = band_as_str y \<longleftrightarrow> x = y"
  by (cases x; cases y) simp_all

lemma map_of_filter_other: "k \<noteq> key \<Longrightarrow> map_of (filter (\<lambda>(k, _). k \<noteq> key) xs) k = map_of xs k"
  by (induction xs) auto

end
