(* ===== verification/Benchmark_Properties.thy ===== *)
theory Benchmark_Properties
  imports Benchmarks Dashboard_Properties
begin

text \<open>
  What the comparisons promise: nothing is shown but medians of at least twenty sharing stores of
  the same kind and size, freshly read or at most six hours old, and only to stores that share and
  trade themselves; a store's own pushes never move the medians computed for it.
\<close>

section \<open>The remembered medians\<close>









section \<open>A market of stores\<close>











section \<open>A store is compared with others\<close>

text \<open>The medians a store is compared with do not depend on its own books: whatever its phones push,
  the query finds the same sample and the same medians.\<close>

theorem own_figures_do_not_move_the_medians:
  assumes "push ex st actor request (cl_books db) = (oc, b')" and "books_ok (cl_books db)"
  shows "peer_medians_of e rv (db\<lparr>cl_books := b'\<rparr>) st kind band = peer_medians_of e rv db st kind band"
proof -
  have "confined st (cl_books db) b'"
    using push_confined.push_with_rel[OF assms(1)[unfolded push_def]] by simp
  then have same: "same_store other (cl_books db) b'" if "other \<noteq> st" for other
    using assms(2) that by (simp add: confined_def)
  have month: "store_month_of e rv b' other = store_month_of e rv (cl_books db) other" if "other \<noteq> st" for other
  proof -
    have mine: "filter (\<lambda>r. s r = other \<and> P r) xs = filter P (filter (\<lambda>r. s r = other) xs)"
      for P xs and s :: "'r \<Rightarrow> uuid" by (auto simp: conj_commute)
    have "month_sales e b' other = month_sales e (cl_books db) other"
      "month_expenses e b' other = month_expenses e (cl_books db) other"
      using same[OF that] by (simp_all only: month_sales_def month_expenses_def mine same_store_def sales_of_def)
    then show ?thesis by (simp add: store_month_of_def)
  qed
  have "peers e rv (db\<lparr>cl_books := b'\<rparr>) st kind = peers e rv db st kind"
    by (simp add: peers_def month)
  then show ?thesis by (simp add: peer_medians_of_def trading_peers_def Let_def)
qed

theorem own_figures_do_not_move_the_medians_witness:
  "peer_medians_of (sample_env 90) sample_report (empty_cloud\<lparr>cl_books := snd (push (sample_env 100) 10 sample_owner
       \<lparr>pr_products = [], pr_stock_movements = [], pr_sales = [], pr_expenses =
          [\<lparr>rx_id = Some 71, rx_category = ''rent'', rx_description = None, rx_amount = 5,
            rx_occurred_at = None\<rparr>], pr_withdrawals = [], pr_deletions = []\<rparr> sample_books)\<rparr>) 10 ''sari'' SmallBand
   = peer_medians_of (sample_env 90) sample_report (empty_cloud\<lparr>cl_books := sample_books\<rparr>) 10 ''sari'' SmallBand"
  using own_figures_do_not_move_the_medians[of "sample_env 100" 10 sample_owner _
      "empty_cloud\<lparr>cl_books := sample_books\<rparr>", OF prod.collapse[symmetric]] sample_books_ok by simp

end
