(* ===== verification/Dashboard_Cache.thy ===== *)
theory Dashboard_Cache
  imports Dashboard
begin

text \<open>
  \<^verbatim>\<open>infrastructure/cache\<close> and the part of the dashboard service that reads through it. Redis is two
  maps, each value with the moment it expires; every command may fail, and without a connection
  the cache is simply not there. What serde writes it reads back, so entries are kept as values.
\<close>

section \<open>The connection\<close>

text \<open>\<open>connect_cache\<close>: whatever goes wrong within two seconds leaves the cache disabled.\<close>

datatype connect_outcome = Connected | ConnectFailed | ConnectTimedOut

definition connect_cache :: "connect_outcome \<Rightarrow> bool" where
  "connect_cache outcome =
     (case outcome of Connected \<Rightarrow> True | ConnectFailed \<Rightarrow> False | ConnectTimedOut \<Rightarrow> False)"

text \<open>A handle, with what each command of one call would do.\<close>

record cache_handle =
  ca_connected :: bool
  ca_get_ok :: bool
  ca_write_ok :: bool
  ca_members_ok :: bool
  ca_delete_ok :: bool
  ca_ttl_seconds :: int

section \<open>The cache\<close>

record dashboard_cache =
  dc_entries :: "(string \<times> dashboard_summary \<times> instant) list"
  dc_index :: "(string \<times> string list \<times> instant) list"

definition empty_cache :: dashboard_cache where
  "empty_cache = \<lparr>dc_entries = [], dc_index = []\<rparr>"

definition live_at :: "instant \<Rightarrow> 'k \<Rightarrow> ('k \<times> 'v \<times> instant) list \<Rightarrow> 'v option" where
  "live_at now k xs =
     (case map_of xs k of None \<Rightarrow> None | Some (v, expires) \<Rightarrow> if now < expires then Some v else None)"

definition put_until :: "'k \<Rightarrow> 'v \<Rightarrow> instant \<Rightarrow> ('k \<times> 'v \<times> instant) list \<Rightarrow> ('k \<times> 'v \<times> instant) list" where
  "put_until k v expires xs = (k, v, expires) # filter (\<lambda>x. fst x \<noteq> k) xs"

definition entry_key :: "env \<Rightarrow> uuid \<Rightarrow> string \<Rightarrow> string" where
  "entry_key e store_id scope = ''kitaza:dashboard:'' @ e_uuid_text e store_id @ '':'' @ scope"

definition index_key :: "env \<Rightarrow> uuid \<Rightarrow> string" where
  "index_key e store_id = ''kitaza:dashboard-index:'' @ e_uuid_text e store_id"

definition cache_read ::
  "env \<Rightarrow> cache_handle \<Rightarrow> uuid \<Rightarrow> string \<Rightarrow> dashboard_cache \<Rightarrow> dashboard_summary option" where
  "cache_read e ch store_id scope c =
     (if \<not> ca_connected ch \<or> \<not> ca_get_ok ch then None
      else live_at (e_now e) (entry_key e store_id scope) (dc_entries c))"

definition index_members :: "env \<Rightarrow> uuid \<Rightarrow> dashboard_cache \<Rightarrow> string list" where
  "index_members e store_id c =
     (case live_at (e_now e) (index_key e store_id) (dc_index c) of None \<Rightarrow> [] | Some ms \<Rightarrow> ms)"

text \<open>One atomic pipeline: the entry, the index, the index's expiry.\<close>

definition cache_write ::
  "env \<Rightarrow> cache_handle \<Rightarrow> uuid \<Rightarrow> string \<Rightarrow> dashboard_summary \<Rightarrow> dashboard_cache \<Rightarrow> dashboard_cache" where
  "cache_write e ch store_id scope v c =
     (if \<not> ca_connected ch \<or> \<not> ca_write_ok ch then c
      else
        let key = entry_key e store_id scope;
            ttl = ca_ttl_seconds ch * usec_per_second
        in \<lparr>dc_entries = put_until key v (e_now e + ttl) (dc_entries c),
            dc_index = put_until (index_key e store_id) (List.insert key (index_members e store_id c))
                         (e_now e + 4 * ttl) (dc_index c)\<rparr>)"

text \<open>Invalidating is two commands: reading the index, then deleting what it named and the index.\<close>

definition read_index ::
  "env \<Rightarrow> cache_handle \<Rightarrow> uuid \<Rightarrow> dashboard_cache \<Rightarrow> string list option" where
  "read_index e ch store_id c =
     (if \<not> ca_connected ch \<or> \<not> ca_members_ok ch then None else Some (index_members e store_id c))"

definition delete_members ::
  "env \<Rightarrow> cache_handle \<Rightarrow> uuid \<Rightarrow> string list \<Rightarrow> dashboard_cache \<Rightarrow> dashboard_cache" where
  "delete_members e ch store_id members c =
     (if \<not> ca_delete_ok ch then c
      else \<lparr>dc_entries = filter (\<lambda>x. fst x \<notin> set members) (dc_entries c),
            dc_index = filter (\<lambda>x. fst x \<noteq> index_key e store_id) (dc_index c)\<rparr>)"

definition cache_invalidate ::
  "env \<Rightarrow> cache_handle \<Rightarrow> uuid \<Rightarrow> dashboard_cache \<Rightarrow> dashboard_cache" where
  "cache_invalidate e ch store_id c =
     (case read_index e ch store_id c of
        None \<Rightarrow> c | Some members \<Rightarrow> delete_members e ch store_id members c)"

section \<open>The service\<close>

definition summary_cache_key :: "report_period \<Rightarrow> int \<Rightarrow> string" where
  "summary_cache_key period utc_offset_minutes =
     ''summary:'' @ period_cache_key period @ '':'' @ show_int utc_offset_minutes"

text \<open>A miss is computed at \<open>e\<close> and written at \<open>later\<close>, when the queries have answered.\<close>

definition cached_summary ::
  "env \<Rightarrow> env \<Rightarrow> report_env \<Rightarrow> calendar \<Rightarrow> cache_handle \<Rightarrow> (nat \<Rightarrow> books) \<Rightarrow> uuid \<Rightarrow> dashboard_query
    \<Rightarrow> dashboard_cache \<Rightarrow> (api_error + dashboard_summary) \<times> dashboard_cache" where
  "cached_summary e later rv cal ch seen store_id query c =
     (let key = summary_cache_key (dq_period query) (dq_utc_offset_minutes query)
      in case cache_read e ch store_id key c of
           Some cached \<Rightarrow> (Inr cached, c)
         | None \<Rightarrow>
             let window = for_period cal (dq_period query) (dq_utc_offset_minutes query) (e_now e)
             in case compute_summary e rv seen store_id (dq_period query) window of
                  Inl err \<Rightarrow> (Inl err, c)
                | Inr v \<Rightarrow> (Inr v, cache_write later ch store_id key v c))"

definition handle_store_summary ::
  "env \<Rightarrow> env \<Rightarrow> report_env \<Rightarrow> calendar \<Rightarrow> cache_handle \<Rightarrow> (nat \<Rightarrow> books) \<Rightarrow> uuid \<Rightarrow> actor
    \<Rightarrow> dashboard_query \<Rightarrow> dashboard_cache \<Rightarrow> (api_error + dashboard_summary) \<times> dashboard_cache" where
  "handle_store_summary e later rv cal ch seen store_id actor query c =
     (case require actor ViewProfit of
        Inl err \<Rightarrow> (Inl err, c)
      | Inr _ \<Rightarrow> cached_summary e later rv cal ch seen store_id query c)"

section \<open>Keys\<close>

text \<open>A uuid prints as thirty-six characters, and no two print alike.\<close>

definition uuid_text_ok :: "(uuid \<Rightarrow> string) \<Rightarrow> bool" where
  "uuid_text_ok text \<longleftrightarrow> inj text \<and> (\<forall>u. length (text u) = 36)"

lemma entry_key_inj:
  assumes "uuid_text_ok (e_uuid_text e)"
  shows "entry_key e st scope = entry_key e st' scope' \<longleftrightarrow> st = st' \<and> scope = scope'"
  using assms by (auto simp: entry_key_def uuid_text_ok_def append_eq_append_conv dest: injD)

lemma index_key_inj:
  "uuid_text_ok (e_uuid_text e) \<Longrightarrow> index_key e st = index_key e st' \<longleftrightarrow> st = st'"
  by (auto simp: index_key_def uuid_text_ok_def dest: injD)

lemma show_nat_inj: "show_nat m = show_nat n \<longleftrightarrow> m = n"
proof
  show "m = n" if "show_nat m = show_nat n"
    using that
  proof (induction m arbitrary: n rule: less_induct)
    case (less m)
    have digit: "char_of (48 + i) = (char_of (48 + j) :: char) \<longleftrightarrow> i = j" if "i < 10" "j < 10" for i j :: nat
      using that by (auto simp: char_of_eq_iff take_bit_eq_mod)
    have eq: "(if m < 10 then [char_of (48 + m)] else show_nat (m div 10) @ [char_of (48 + m mod 10)])
      = (if n < 10 then [char_of (48 + n)] else show_nat (n div 10) @ [char_of (48 + n mod 10)])"
      using less.prems by (simp only: show_nat.simps[symmetric])
    have long: "show_nat k \<noteq> []" for k by (subst show_nat.simps) simp
    show ?case
    proof (cases "m < 10")
      case True
      then show ?thesis using eq long long[symmetric] digit[of m n] by (auto split: if_splits)
    next
      case False
      then have "\<not> n < 10" "show_nat (m div 10) = show_nat (n div 10)"
        "char_of (48 + m mod 10) = (char_of (48 + n mod 10) :: char)"
        using eq long long[symmetric] by (auto split: if_splits)
      moreover have "m div 10 < m" using False by simp
      ultimately have "m div 10 = n div 10" "m mod 10 = n mod 10"
        using less.IH digit[of "m mod 10" "n mod 10"] by auto
      then show ?thesis by (metis div_mult_mod_eq)
    qed
  qed
qed simp

lemma show_nat_no_minus: "CHR ''-'' \<notin> set (show_nat n)"
proof (induction n rule: less_induct)
  case (less n)
  have digit: "char_of (48 + i) \<noteq> CHR ''-''" if "i < 10" for i :: nat
    using that by (auto simp: char_of_eq_iff take_bit_eq_mod)
  show ?case using less digit[of n] digit[of "n mod 10"] by (subst show_nat.simps) auto
qed

lemma show_int_inj: "show_int i = show_int j \<longleftrightarrow> i = j"
proof
  have minus: "show_nat n \<noteq> CHR ''-'' # xs" for n xs
    using show_nat_no_minus[of n] by (metis list.set_intros(1))
  show "i = j" if "show_int i = show_int j"
    using that minus minus[symmetric] by (auto simp: show_int_def show_nat_inj split: if_splits)
qed simp

lemma summary_cache_key_inj:
  "summary_cache_key p i = summary_cache_key q j \<longleftrightarrow> p = q \<and> i = j"
  by (cases p; cases q) (auto simp: summary_cache_key_def show_int_inj)

section \<open>Entries\<close>

lemma map_of_put: "map_of (put_until k v t xs) k' = (if k' = k then Some (v, t) else map_of xs k')"
  by (induction xs) (auto simp: put_until_def)

lemma map_of_dropped: "map_of (filter (\<lambda>x. P (fst x)) xs) k = (if P k then map_of xs k else None)"
  by (induction xs) auto

lemma cache_write_entries:
  "map_of (dc_entries (cache_write e ch st scope v c)) k =
     (if ca_connected ch \<and> ca_write_ok ch \<and> k = entry_key e st scope
      then Some (v, e_now e + ca_ttl_seconds ch * usec_per_second) else map_of (dc_entries c) k)"
  by (auto simp: cache_write_def Let_def map_of_put)

lemma delete_members_entries:
  "map_of (dc_entries (delete_members e ch st members c)) k =
     (if ca_delete_ok ch \<and> k \<in> set members then None else map_of (dc_entries c) k)"
  by (simp add: delete_members_def map_of_dropped[of "\<lambda>k. k \<notin> set members"])

section \<open>Runs of the cache\<close>

text \<open>
  \<open>books_at t\<close> is the database at t, whatever happens to it. Requests run against it in any
  interleaving: a summary is computed from queries answered between its start and its write, at
  most \<open>lag\<close> apart, invalidations read the index at one moment and delete at another, and any
  command may fail. \<open>clock t\<close> is the environment at t.
\<close>

inductive cache_run ::
  "(instant \<Rightarrow> env) \<Rightarrow> report_env \<Rightarrow> calendar \<Rightarrow> int \<Rightarrow> duration \<Rightarrow> (instant \<Rightarrow> books) \<Rightarrow> instant
    \<Rightarrow> dashboard_cache \<Rightarrow> bool" for clock rv cal ttl lag books_at where
  start: "cache_run clock rv cal ttl lag books_at t empty_cache"
| wait: "cache_run clock rv cal ttl lag books_at t c \<Longrightarrow> t \<le> t' \<Longrightarrow> cache_run clock rv cal ttl lag books_at t' c"
| summary: "cache_run clock rv cal ttl lag books_at t c \<Longrightarrow> t \<le> started + lag \<Longrightarrow> ca_ttl_seconds ch = ttl
    \<Longrightarrow> (\<And>n. started \<le> at_time n \<and> at_time n \<le> t)
    \<Longrightarrow> cached_summary (clock started) (clock t) rv cal ch (\<lambda>n. books_at (at_time n)) st query c1 = (r, c2)
    \<Longrightarrow> cache_read (clock started) ch st (summary_cache_key (dq_period query) (dq_utc_offset_minutes query))
          c1 = None
    \<Longrightarrow> r = Inr v
    \<Longrightarrow> cache_run clock rv cal ttl lag books_at t
          (cache_write (clock t) ch st (summary_cache_key (dq_period query) (dq_utc_offset_minutes query)) v c)"
| delete: "cache_run clock rv cal ttl lag books_at t c
    \<Longrightarrow> cache_run clock rv cal ttl lag books_at t (delete_members (clock t) ch st members c)"

text \<open>Every entry is the summary of its store, computed when its expiry says.\<close>

definition entry_real ::
  "(instant \<Rightarrow> env) \<Rightarrow> report_env \<Rightarrow> calendar \<Rightarrow> int \<Rightarrow> duration \<Rightarrow> (instant \<Rightarrow> books) \<Rightarrow> instant
    \<Rightarrow> string \<Rightarrow> dashboard_summary \<Rightarrow> instant \<Rightarrow> bool" where
  "entry_real clock rv cal ttl lag books_at t k v expires \<longleftrightarrow>
     (\<exists>st p off started at_time. k = entry_key (clock t) st (summary_cache_key p off)
        \<and> expires \<le> started + lag + ttl * usec_per_second
        \<and> (\<forall>n. started \<le> at_time n \<and> at_time n \<le> t)
        \<and> compute_summary (clock started) rv (\<lambda>n. books_at (at_time n)) st p
             (for_period cal p off started) = Inr v)"

definition entries_real ::
  "(instant \<Rightarrow> env) \<Rightarrow> report_env \<Rightarrow> calendar \<Rightarrow> int \<Rightarrow> duration \<Rightarrow> (instant \<Rightarrow> books) \<Rightarrow> instant
    \<Rightarrow> dashboard_cache \<Rightarrow> bool" where
  "entries_real clock rv cal ttl lag books_at t c \<longleftrightarrow>
     (\<forall>k v expires. map_of (dc_entries c) k = Some (v, expires)
        \<longrightarrow> entry_real clock rv cal ttl lag books_at t k v expires)"

lemma entry_real_mono:
  assumes "entry_real clock rv cal ttl lag books_at t k v expires" "t \<le> t'"
    and "e_uuid_text (clock t) = e_uuid_text (clock t')"
  shows "entry_real clock rv cal ttl lag books_at t' k v expires"
proof -
  obtain st p off started at_time where r: "k = entry_key (clock t) st (summary_cache_key p off)"
    "expires \<le> started + lag + ttl * usec_per_second" "\<forall>n. started \<le> at_time n \<and> at_time n \<le> t"
    "compute_summary (clock started) rv (\<lambda>n. books_at (at_time n)) st p (for_period cal p off started) = Inr v"
    using assms(1) unfolding entry_real_def by blast
  moreover have "\<forall>n. started \<le> at_time n \<and> at_time n \<le> t'" using r(3) assms(2) by (meson order_trans)
  moreover have "k = entry_key (clock t') st (summary_cache_key p off)"
    using r(1) assms(3) by (simp add: entry_key_def)
  ultimately show ?thesis unfolding entry_real_def by blast
qed

lemma cached_summary_miss:
  assumes "cached_summary e later rv cal ch seen st query c = (Inr v, c')"
    and "cache_read e ch st (summary_cache_key (dq_period query) (dq_utc_offset_minutes query)) c = None"
  shows "compute_summary e rv seen st (dq_period query)
      (for_period cal (dq_period query) (dq_utc_offset_minutes query) (e_now e)) = Inr v"
  using assms by (auto simp: cached_summary_def Let_def split: sum.splits)

lemma cache_run_real:
  assumes "cache_run clock rv cal ttl lag books_at t c"
    and "\<And>t. e_now (clock t) = t" and "\<And>t. e_uuid_text (clock t) = text"
  shows "entries_real clock rv cal ttl lag books_at t c"
  using assms(1)
proof (induction rule: cache_run.induct)
  case (start t)
  then show ?case by (simp add: entries_real_def empty_cache_def)
next
  case (wait t c t')
  then show ?case unfolding entries_real_def by (metis entry_real_mono assms(3))
next
  case (summary t c started ch at_time st query c1 r c2 v)
  let ?p = "dq_period query" and ?off = "dq_utc_offset_minutes query"
  let ?k = "entry_key (clock t) st (summary_cache_key ?p ?off)"
  have "compute_summary (clock started) rv (\<lambda>n. books_at (at_time n)) st ?p
      (for_period cal ?p ?off started) = Inr v"
    using cached_summary_miss[OF summary.hyps(5)[unfolded summary.hyps(7)] summary.hyps(6)]
    by (simp add: assms(2))
  then have real: "entry_real clock rv cal ttl lag books_at t ?k v (t + ttl * usec_per_second)"
    using summary.hyps(2,4) unfolding entry_real_def
    by (intro exI[of _ st] exI[of _ ?p] exI[of _ ?off] exI[of _ started] exI[of _ at_time]) simp
  show ?case unfolding entries_real_def cache_write_entries
    using real summary.IH summary.hyps(3) by (auto simp: entries_real_def assms(2) split: if_splits)
next
  case (delete t c ch st members)
  then show ?case unfolding entries_real_def delete_members_entries by (metis option.distinct(1))
qed

section \<open>Requests one at a time\<close>

text \<open>Whole requests, none between the two commands of an invalidation.\<close>

inductive solo_run :: "(instant \<Rightarrow> env) \<Rightarrow> int \<Rightarrow> instant \<Rightarrow> dashboard_cache \<Rightarrow> bool" for clock ttl where
  start: "solo_run clock ttl t empty_cache"
| wait: "solo_run clock ttl t c \<Longrightarrow> t \<le> t' \<Longrightarrow> solo_run clock ttl t' c"
| store: "solo_run clock ttl t c \<Longrightarrow> ca_ttl_seconds ch = ttl
    \<Longrightarrow> solo_run clock ttl t (cache_write (clock t) ch st scope v c)"
| invalidate: "solo_run clock ttl t c \<Longrightarrow> solo_run clock ttl t (cache_invalidate (clock t) ch st c)"

text \<open>Every live entry is named by a live index of its store, which names nothing else.\<close>

definition indexed_entry :: "env \<Rightarrow> int \<Rightarrow> instant \<Rightarrow> dashboard_cache \<Rightarrow> uuid \<Rightarrow> string \<Rightarrow> instant \<Rightarrow> bool" where
  "indexed_entry e ttl t c st scope expires \<longleftrightarrow> expires \<le> t + ttl * usec_per_second
     \<and> (\<exists>ms until. map_of (dc_index c) (index_key e st) = Some (ms, until) \<and> expires \<le> until
          \<and> entry_key e st scope \<in> set ms)"

definition indexed :: "env \<Rightarrow> int \<Rightarrow> instant \<Rightarrow> dashboard_cache \<Rightarrow> bool" where
  "indexed e ttl t c \<longleftrightarrow>
     (\<forall>st scope v expires. map_of (dc_entries c) (entry_key e st scope) = Some (v, expires) \<longrightarrow> t < expires
        \<longrightarrow> indexed_entry e ttl t c st scope expires)
     \<and> (\<forall>st ms until. map_of (dc_index c) (index_key e st) = Some (ms, until)
          \<longrightarrow> set ms \<subseteq> range (entry_key e st))"

lemma indexed_members:
  assumes "indexed e ttl t c" "e_now e = t"
  shows "set (index_members e st c) \<subseteq> range (entry_key e st)"
    and "map_of (dc_entries c) (entry_key e st scope) = Some (v, expires) \<Longrightarrow> t < expires
      \<Longrightarrow> entry_key e st scope \<in> set (index_members e st c)"
proof -
  show "set (index_members e st c) \<subseteq> range (entry_key e st)"
    using assms by (auto simp: index_members_def live_at_def indexed_def split: option.splits if_splits)
  show "entry_key e st scope \<in> set (index_members e st c)"
    if "map_of (dc_entries c) (entry_key e st scope) = Some (v, expires)" "t < expires"
    using assms that by (fastforce simp: index_members_def live_at_def indexed_def indexed_entry_def)
qed

lemma indexed_write:
  assumes "indexed e ttl t c" "e_now e = t" "ca_ttl_seconds ch = ttl" "uuid_text_ok (e_uuid_text e)"
  shows "indexed e ttl t (cache_write e ch st scope v c)"
proof (cases "ca_connected ch \<and> ca_write_ok ch")
  case True
  let ?c = "cache_write e ch st scope v c" and ?u = "usec_per_second"
  have index: "map_of (dc_index ?c) k = (if k = index_key e st
      then Some (List.insert (entry_key e st scope) (index_members e st c), t + 4 * (ttl * ?u))
      else map_of (dc_index c) k)" for k
    using True assms(2,3) by (simp add: cache_write_def Let_def map_of_put)
  have "indexed_entry e ttl t ?c st' scope' expires"
    if entry: "map_of (dc_entries ?c) (entry_key e st' scope') = Some (w, expires)" and live: "t < expires"
    for st' scope' w expires
  proof (cases "st' = st \<and> scope' = scope")
    case fresh: True
    then have "expires = t + ttl * ?u" using entry True assms(2,3) by (simp add: cache_write_entries)
    then show ?thesis using fresh live by (simp add: indexed_entry_def index)
  next
    case False
    then have old: "map_of (dc_entries c) (entry_key e st' scope') = Some (w, expires)"
      using entry by (auto simp: cache_write_entries entry_key_inj[OF assms(4)] split: if_splits)
    then have before: "indexed_entry e ttl t c st' scope' expires"
      using assms(1) live by (simp add: indexed_def)
    show ?thesis
    proof (cases "st' = st")
      case True
      then show ?thesis using before live indexed_members(2)[OF assms(1,2) old live]
        by (simp add: indexed_entry_def index)
    next
      case False
      then show ?thesis using before
        by (simp add: indexed_entry_def index index_key_inj[OF assms(4)])
    qed
  qed
  moreover have "set ms \<subseteq> range (entry_key e st')"
    if "map_of (dc_index ?c) (index_key e st') = Some (ms, until)" for st' ms until
    using that assms(1) indexed_members(1)[OF assms(1,2), of st]
    by (auto simp: index index_key_inj[OF assms(4)] indexed_def split: if_splits)
  ultimately show ?thesis unfolding indexed_def by blast
qed (use assms in \<open>auto simp: cache_write_def\<close>)

lemma indexed_invalidate:
  assumes "indexed e ttl t c" "e_now e = t" "uuid_text_ok (e_uuid_text e)"
  shows "indexed e ttl t (cache_invalidate e ch st c)"
proof (cases "ca_connected ch \<and> ca_members_ok ch \<and> ca_delete_ok ch")
  case True
  let ?c = "cache_invalidate e ch st c" and ?ms = "index_members e st c"
  have entries: "map_of (dc_entries ?c) k = (if k \<in> set ?ms then None else map_of (dc_entries c) k)" for k
    using True by (simp add: cache_invalidate_def read_index_def delete_members_entries)
  have index: "map_of (dc_index ?c) k = (if k = index_key e st then None else map_of (dc_index c) k)" for k
    using True by (simp add: cache_invalidate_def read_index_def delete_members_def
        map_of_dropped[of "\<lambda>k. k \<noteq> index_key e st"])
  have "indexed_entry e ttl t ?c st' scope expires"
    if "map_of (dc_entries ?c) (entry_key e st' scope) = Some (v, expires)" "t < expires" for st' scope v expires
  proof -
    have old: "map_of (dc_entries c) (entry_key e st' scope) = Some (v, expires)"
      and out: "entry_key e st' scope \<notin> set ?ms"
      using that(1) by (auto simp: entries split: if_splits)
    then have "st' \<noteq> st" using indexed_members(2)[OF assms(1,2)] that(2) by blast
    moreover have "indexed_entry e ttl t c st' scope expires" using assms(1) old that(2) by (simp add: indexed_def)
    ultimately show ?thesis by (simp add: indexed_entry_def index index_key_inj[OF assms(3)])
  qed
  moreover have "set ms \<subseteq> range (entry_key e st')"
    if "map_of (dc_index ?c) (index_key e st') = Some (ms, until)" for st' ms until
    using that assms(1) by (auto simp: index indexed_def split: if_splits)
  ultimately show ?thesis unfolding indexed_def by blast
qed (use assms in \<open>auto simp: cache_invalidate_def read_index_def delete_members_def\<close>)

lemma indexed_later:
  assumes "indexed e ttl t c" "t \<le> t'" "e_uuid_text e' = e_uuid_text e"
  shows "indexed e' ttl t' c"
proof -
  have keys: "entry_key e' = entry_key e" "index_key e' = index_key e"
    using assms(3) by (simp_all add: entry_key_def index_key_def fun_eq_iff)
  have "indexed_entry e' ttl t' c st scope expires"
    if "map_of (dc_entries c) (entry_key e st scope) = Some (v, expires)" "t' < expires" for st scope v expires
  proof -
    have "indexed_entry e ttl t c st scope expires"
      using assms(1) that(1) order_le_less_trans[OF assms(2) that(2)] unfolding indexed_def by blast
    then show ?thesis using assms(2) by (auto simp: indexed_entry_def keys)
  qed
  then show ?thesis using assms(1) unfolding indexed_def keys by blast
qed

lemma solo_run_indexed:
  assumes "solo_run clock ttl t c"
    and "\<And>t. e_now (clock t) = t" "\<And>t. e_uuid_text (clock t) = text" "uuid_text_ok text"
  shows "indexed (clock t) ttl t c"
  using assms(1)
proof (induction rule: solo_run.induct)
  case (start t)
  then show ?case by (simp add: indexed_def empty_cache_def)
next
  case (wait t c t')
  show ?case by (rule indexed_later[OF wait.IH wait.hyps(2)]) (simp add: assms(3))
next
  case (store t c ch st scope v)
  show ?case by (rule indexed_write[OF store.IH]) (simp_all add: assms store.hyps)
next
  case (invalidate t c ch st)
  show ?case by (rule indexed_invalidate[OF invalidate.IH]) (simp_all add: assms)
qed

end
