(* ===== verification/Cache_Properties.thy ===== *)
theory Cache_Properties
  imports Dashboard_Cache Dashboard_Properties
begin

text \<open>
  How far the cached dashboard may lag behind the books: never longer than its time to live and the
  time a summary takes to compute; and not at all once the store was invalidated, unless a summary
  was written between the two commands of the invalidation.
\<close>

text \<open>C19: A summary read from the cache is the store's own, for the period and the clock asked for, as its
  queries found the books no longer ago than the time to live and the time they took, whatever was
  written, invalidated or lost in between.\<close>

theorem cached_summaries_are_recent:
  assumes "cache_run clock rv cal ttl lag books_at t c"
    and "\<And>t. e_now (clock t) = t" and "\<And>t. e_uuid_text (clock t) = text" and "uuid_text_ok text"
    and "cache_read (clock t) ch st (summary_cache_key p off) c = Some v"
  shows "\<exists>started at_time. t < started + lag + ttl * usec_per_second
    \<and> (\<forall>n. started \<le> at_time n \<and> at_time n \<le> t)
    \<and> compute_summary (clock started) rv (\<lambda>n. books_at (at_time n)) st p
        (for_period cal p off started) = Inr v"
proof -
  obtain expires where "map_of (dc_entries c) (entry_key (clock t) st (summary_cache_key p off)) = Some (v, expires)"
    "t < expires"
    using assms(5) by (auto simp: cache_read_def live_at_def assms(2) split: if_splits option.splits)
  moreover from this have "entry_real clock rv cal ttl lag books_at t
      (entry_key (clock t) st (summary_cache_key p off)) v expires"
    using cache_run_real[OF assms(1-3)] unfolding entries_real_def by blast
  moreover have "uuid_text_ok (e_uuid_text (clock t))" using assms(3,4) by simp
  ultimately obtain started at_time where "expires \<le> started + lag + ttl * usec_per_second"
    "\<forall>n. started \<le> at_time n \<and> at_time n \<le> t"
    "compute_summary (clock started) rv (\<lambda>n. books_at (at_time n)) st p (for_period cal p off started) = Inr v"
    unfolding entry_real_def entry_key_inj[OF \<open>uuid_text_ok (e_uuid_text (clock t))\<close>] summary_cache_key_inj
    by blast
  then show ?thesis using \<open>t < expires\<close> by (meson order_less_le_trans)
qed

text \<open>A text of thirty-six characters for the samples: the bytes of the id.\<close>

definition sample_text :: "uuid \<Rightarrow> string" where
  "sample_text u = map (\<lambda>n. char_of (drop_bit (8 * n) (unat u))) [0..<36]"

lemma sample_text_ok: "uuid_text_ok sample_text"
  unfolding uuid_text_ok_def
proof (intro conjI allI injI)
  fix u v assume eq: "sample_text u = sample_text v"
  have byte: "take_bit 8 (drop_bit (8 * n) (unat u)) = take_bit 8 (drop_bit (8 * n) (unat v))" if "n < 36" for n
    using arg_cong[OF eq, of "\<lambda>t. of_char (t ! n) :: nat"] that by (simp add: sample_text_def take_bit_eq_mod)
  show "u = v"
  proof (rule bit_word_eqI)
    fix i assume "i < LENGTH(128)"
    then have "i div 8 < 36" by simp
    from arg_cong[OF byte[OF this], of "\<lambda>x. bit x (i mod 8)"]
    have "bit (unat u) (8 * (i div 8) + i mod 8) = bit (unat v) (8 * (i div 8) + i mod 8)"
      by (simp add: bit_take_bit_iff bit_drop_bit_eq)
    then show "bit u i = bit v i" by (simp add: bit_unsigned_iff)
  qed
qed (simp add: sample_text_def)

definition sample_clock :: "instant \<Rightarrow> env" where
  "sample_clock t = (sample_env t)\<lparr>e_uuid_text := sample_text\<rparr>"

lemma sample_clock_simps [simp]: "e_now (sample_clock t) = t" "e_uuid_text (sample_clock t) = sample_text"
  by (simp_all add: sample_clock_def)

definition sample_handle :: cache_handle where
  "sample_handle = \<lparr>ca_connected = True, ca_get_ok = True, ca_write_ok = True, ca_members_ok = True,
     ca_delete_ok = True, ca_ttl_seconds = 30\<rparr>"

definition sample_today :: dashboard_summary where
  "sample_today = projr (compute_summary (sample_clock 90) sample_report (\<lambda>_. sample_books) 10 Today
     (for_period sample_calendar Today 0 90))"

definition sample_cached :: dashboard_cache where
  "sample_cached = cache_write (sample_clock 90) sample_handle 10 (summary_cache_key Today 0) sample_today empty_cache"

lemma sample_today_computed:
  "compute_summary (sample_clock 90) sample_report (\<lambda>_. sample_books) 10 Today
     (for_period sample_calendar Today 0 90) = Inr sample_today"
proof -
  have "\<not> isl (compute_summary (sample_clock 90) sample_report (\<lambda>_. sample_books) 10 Today
     (for_period sample_calendar Today 0 90))" by code_simp
  then show ?thesis unfolding sample_today_def by (metis sum.collapse(2))
qed

lemma sample_cache_run:
  "cache_run sample_clock sample_report sample_calendar 30 0 (\<lambda>_. sample_books) 90 sample_cached"
proof -
  let ?q = "\<lparr>dq_period = Today, dq_utc_offset_minutes = 0\<rparr>"
  have miss: "cache_read (sample_clock 90) sample_handle 10 (summary_cache_key Today 0) empty_cache = None"
    by (simp add: cache_read_def empty_cache_def live_at_def)
  have "cached_summary (sample_clock 90) (sample_clock 90) sample_report sample_calendar sample_handle
      (\<lambda>n. sample_books) 10 ?q empty_cache = (Inr sample_today, sample_cached)"
    by (simp add: cached_summary_def Let_def miss sample_today_computed sample_cached_def)
  then have "cache_run sample_clock sample_report sample_calendar 30 0 (\<lambda>_. sample_books) 90
      (cache_write (sample_clock 90) sample_handle 10
        (summary_cache_key (dq_period ?q) (dq_utc_offset_minutes ?q)) sample_today empty_cache)"
    using miss by (intro cache_run.summary[where started = 90 and at_time = "\<lambda>_. 90"
        and ?c1.0 = empty_cache and ?c2.0 = sample_cached and r = "Inr sample_today"] cache_run.start)
      (simp_all add: sample_handle_def)
  then show ?thesis by (simp add: sample_cached_def)
qed

theorem cached_summaries_are_recent_witness:
  "\<exists>started. 110 < started + 30 * usec_per_second
     \<and> compute_summary (sample_clock started) sample_report (\<lambda>_. sample_books) 10 Today
         (for_period sample_calendar Today 0 started) = Inr sample_today"
proof -
  have run: "cache_run sample_clock sample_report sample_calendar 30 0 (\<lambda>_. sample_books) 110 sample_cached"
    by (rule cache_run.wait[OF sample_cache_run]) simp
  have "cache_read (sample_clock 110) sample_handle 10 (summary_cache_key Today 0) sample_cached = Some sample_today"
    by (simp add: cache_read_def sample_handle_def sample_cached_def live_at_def cache_write_entries entry_key_def)
  from cached_summaries_are_recent[OF run _ _ sample_text_ok this] show ?thesis by auto
qed

text \<open>C35: With requests one at a time, once a store is invalidated none of its summaries is read again,
  whatever the period, and no other store's entry is touched.\<close>

theorem invalidation_clears_the_dashboard:
  assumes "solo_run clock ttl t c"
    and "\<And>t. e_now (clock t) = t" and "\<And>t. e_uuid_text (clock t) = text" and "uuid_text_ok text"
    and "ca_connected ch" "ca_members_ok ch" "ca_delete_ok ch"
  shows "cache_read (clock t) ch' st scope (cache_invalidate (clock t) ch st c) = None
    \<and> (other \<noteq> st \<longrightarrow> cache_read (clock t) ch' other scope (cache_invalidate (clock t) ch st c)
         = cache_read (clock t) ch' other scope c)"
proof -
  let ?e = "clock t" and ?ms = "index_members (clock t) st c"
  note keys = entry_key_inj[of ?e, unfolded assms(3), OF assms(4)]
  have ok: "indexed ?e ttl t c" using solo_run_indexed[OF assms(1-4)] .
  have entries: "map_of (dc_entries (cache_invalidate ?e ch st c)) k
      = (if k \<in> set ?ms then None else map_of (dc_entries c) k)" for k
    using assms(5-7) by (simp add: cache_invalidate_def read_index_def delete_members_entries)
  have "entry_key ?e other scope \<notin> set ?ms" if "other \<noteq> st"
    using indexed_members(1)[OF ok assms(2), of st] that by (auto simp: keys)
  moreover have "live_at t (entry_key ?e st scope) (dc_entries (cache_invalidate ?e ch st c)) = None"
    using indexed_members(2)[OF ok assms(2)]
    by (auto simp: live_at_def entries split: option.splits)
  ultimately show ?thesis by (simp add: cache_read_def assms(2)) (simp add: live_at_def entries)
qed

theorem invalidation_clears_the_dashboard_witness:
  "cache_read (sample_clock 95) sample_handle 10 (summary_cache_key Today 0)
     (cache_invalidate (sample_clock 95) sample_handle 10 sample_cached) = None"
proof -
  have "solo_run sample_clock 30 90 sample_cached"
    unfolding sample_cached_def by (rule solo_run.store[OF solo_run.start]) (simp add: sample_handle_def)
  then have "solo_run sample_clock 30 95 sample_cached" by (rule solo_run.wait) simp
  from invalidation_clears_the_dashboard[OF this _ _ sample_text_ok, of sample_handle]
  show ?thesis by (simp add: sample_handle_def)
qed

text \<open>Between the two commands of an invalidation a summary can be written that neither this
  invalidation nor, until it is written again, a later one removes.\<close>

lemma racing_write_survives:
  assumes "read_index e ch st c = Some ms" and "entry_key e st scope \<notin> set ms"
    and "ca_connected ch" "ca_write_ok ch" "ca_get_ok ch" "ca_delete_ok ch" "ca_members_ok ch" "0 < ca_ttl_seconds ch"
    and "c' = delete_members e ch st ms (cache_write e ch st scope v c)"
  shows "cache_read e ch st scope c' = Some v
    \<and> cache_read e ch st scope (cache_invalidate e ch st c') = Some v"
proof -
  have "map_of (dc_index c') (index_key e st) = None"
    using assms(6,9) by (simp add: delete_members_def map_of_dropped[of "\<lambda>k. k \<noteq> index_key e st"])
  then have "index_members e st c' = []" by (simp add: index_members_def live_at_def)
  then show ?thesis using assms
    by (simp add: cache_read_def live_at_def delete_members_entries cache_write_entries
        cache_invalidate_def read_index_def)
qed

end
