(* ===== verification/Realtime.thy ===== *)
theory Realtime
  imports "HOL-Library.Multiset" Stores
begin

text \<open>
  \<^verbatim>\<open>infrastructure/realtime\<close>: the broadcaster that fans events out to the sockets of a store, the
  bridge that carries them between server instances over Redis, and the loop that feeds one
  websocket. A channel is a number: what it was asked to carry is what a receiver gets to read,
  unless it lags, which the loop is told.
\<close>

section \<open>Events on the wire\<close>

text \<open>
  \<open>re_time_text\<close> and \<open>re_parse_time\<close> are chrono's RFC 3339 text, \<open>re_parse_uuid\<close> is uuid's
  deserialiser, \<open>re_print\<close> and \<open>re_parse\<close> are serde_json's text of a JSON value.
\<close>

record realtime_env =
  re_time_text :: "instant \<Rightarrow> string"
  re_parse_time :: "string \<Rightarrow> instant option"
  re_parse_uuid :: "string \<Rightarrow> uuid option"
  re_print :: "json \<Rightarrow> string"
  re_parse :: "string \<Rightarrow> json option"

fun topic_text :: "realtime_topic \<Rightarrow> string" where
  "topic_text TopicSaleRecorded = ''sale_recorded''"
| "topic_text TopicSaleVoided = ''sale_voided''"
| "topic_text TopicExpenseRecorded = ''expense_recorded''"
| "topic_text TopicExpenseRemoved = ''expense_removed''"
| "topic_text TopicWithdrawalRecorded = ''withdrawal_recorded''"
| "topic_text TopicProductChanged = ''product_changed''"
| "topic_text TopicStockLow = ''stock_low''"
| "topic_text TopicDashboardStale = ''dashboard_stale''"
| "topic_text TopicAccessChanged = ''access_changed''"

definition topics :: "realtime_topic list" where
  "topics = [TopicSaleRecorded, TopicSaleVoided, TopicExpenseRecorded, TopicExpenseRemoved,
     TopicWithdrawalRecorded, TopicProductChanged, TopicStockLow, TopicDashboardStale,
     TopicAccessChanged]"

definition topic_of_text :: "string \<Rightarrow> realtime_topic option" where
  "topic_of_text s = find (\<lambda>t. topic_text t = s) topics"

text \<open>A field that is \<open>None\<close> is left out.\<close>

definition event_json :: "env \<Rightarrow> realtime_env \<Rightarrow> realtime_event \<Rightarrow> json" where
  "event_json e re ev = JObj
     ([(''store_id'', JStr (e_uuid_text e (ev_store_id ev))),
       (''topic'', JStr (topic_text (ev_topic ev)))]
      @ (case ev_entity_id ev of None \<Rightarrow> [] | Some i \<Rightarrow> [(''entity_id'', JStr (e_uuid_text e i))])
      @ (case ev_message ev of None \<Rightarrow> [] | Some m \<Rightarrow> [(''message'', JStr m)])
      @ [(''emitted_at'', JStr (re_time_text re (ev_emitted_at ev)))])"

text \<open>Each of them reads back what it printed.\<close>

definition realtime_env_ok :: "env \<Rightarrow> realtime_env \<Rightarrow> bool" where
  "realtime_env_ok e re \<longleftrightarrow>
     (\<forall>t. re_parse_time re (re_time_text re t) = Some t)
     \<and> (\<forall>i. re_parse_uuid re (e_uuid_text e i) = Some i)
     \<and> (\<forall>ev. re_parse re (re_print re (event_json e re ev)) = Some (event_json e re ev))"

definition json_field :: "json \<Rightarrow> string \<Rightarrow> json option" where
  "json_field j k = (case j of JObj members \<Rightarrow> map_of members k | _ \<Rightarrow> None)"

text \<open>A missing or null \<open>Option\<close> field is \<open>None\<close>; any other mismatch is an error.\<close>

definition text_field :: "(string \<Rightarrow> 'a option) \<Rightarrow> json \<Rightarrow> string \<Rightarrow> 'a option" where
  "text_field parse j k = (case json_field j k of Some (JStr s) \<Rightarrow> parse s | _ \<Rightarrow> None)"

definition option_field :: "(string \<Rightarrow> 'a option) \<Rightarrow> json \<Rightarrow> string \<Rightarrow> 'a option option" where
  "option_field parse j k =
     (case json_field j k of
        None \<Rightarrow> Some None
      | Some JNull \<Rightarrow> Some None
      | Some (JStr s) \<Rightarrow> map_option Some (parse s)
      | Some _ \<Rightarrow> None)"

definition event_of_json :: "realtime_env \<Rightarrow> json \<Rightarrow> realtime_event option" where
  "event_of_json re j =
     Option.bind (text_field (re_parse_uuid re) j ''store_id'') (\<lambda>store_id.
     Option.bind (text_field topic_of_text j ''topic'') (\<lambda>topic.
     Option.bind (option_field (re_parse_uuid re) j ''entity_id'') (\<lambda>entity_id.
     Option.bind (option_field Some j ''message'') (\<lambda>message.
     Option.bind (text_field (re_parse_time re) j ''emitted_at'') (\<lambda>emitted_at.
       Some \<lparr>ev_store_id = store_id, ev_topic = topic, ev_entity_id = entity_id,
             ev_message = message, ev_emitted_at = emitted_at\<rparr>)))))"

definition encode_event :: "env \<Rightarrow> realtime_env \<Rightarrow> realtime_event \<Rightarrow> string" where
  "encode_event e re ev = re_print re (event_json e re ev)"

definition decode_event :: "realtime_env \<Rightarrow> string \<Rightarrow> realtime_event option" where
  "decode_event re payload = Option.bind (re_parse re payload) (event_of_json re)"

lemma topic_of_topic_text [simp]: "topic_of_text (topic_text t) = Some t"
  by (cases t) (simp_all add: topic_of_text_def topics_def)

lemma event_of_event_json:
  assumes "realtime_env_ok e re"
  shows "event_of_json re (event_json e re ev) = Some ev"
  using assms
  by (cases ev)
    (auto simp: realtime_env_ok_def event_of_json_def event_json_def text_field_def option_field_def
      json_field_def split: option.split)

lemma decode_encode [simp]:
  "realtime_env_ok e re \<Longrightarrow> decode_event re (encode_event e re ev) = Some ev"
  by (simp add: decode_event_def encode_event_def event_of_event_json)
    (simp add: realtime_env_ok_def event_of_event_json)

section \<open>One instance\<close>

text \<open>
  \<open>br_channels\<close> is the map from stores to channels, \<open>br_created\<close> how many channels there are and
  \<open>br_sent\<close> every event handed to a channel, oldest first.
\<close>

record broadcaster =
  br_channels :: "(uuid \<times> nat) list"
  br_created :: nat
  br_sent :: "(nat \<times> realtime_event) list"

definition broadcaster_new :: broadcaster where
  "broadcaster_new = \<lparr>br_channels = [], br_created = 0, br_sent = []\<rparr>"

definition channel_for :: "uuid \<Rightarrow> broadcaster \<Rightarrow> nat \<times> broadcaster" where
  "channel_for store_id br =
     (case map_of (br_channels br) store_id of
        Some c \<Rightarrow> (c, br)
      | None \<Rightarrow> (br_created br,
          br\<lparr>br_channels := (store_id, br_created br) # br_channels br,
             br_created := Suc (br_created br)\<rparr>))"

definition subscribe :: "uuid \<Rightarrow> broadcaster \<Rightarrow> nat \<times> broadcaster" where
  "subscribe store_id br = channel_for store_id br"

definition publish_locally :: "realtime_event \<Rightarrow> broadcaster \<Rightarrow> broadcaster" where
  "publish_locally ev br =
     (let (c, br1) = channel_for (ev_store_id ev) br
      in br1\<lparr>br_sent := br_sent br1 @ [(c, ev)]\<rparr>)"

text \<open>The second component is the payload sent to Redis, when there is a connection.\<close>

definition publish_event ::
  "env \<Rightarrow> realtime_env \<Rightarrow> bool \<Rightarrow> realtime_event \<Rightarrow> broadcaster \<Rightarrow> broadcaster \<times> string option" where
  "publish_event e re redis_up ev br =
     (publish_locally ev br, if redis_up then Some (encode_event e re ev) else None)"

text \<open>The bridge starts when the client opens, the connection succeeds and the subscription is
  accepted; from then on what it cannot read it skips.\<close>

definition bridge_starts :: "bool \<Rightarrow> bool \<Rightarrow> bool \<Rightarrow> bool" where
  "bridge_starts client_opens pubsub_opens subscribed \<longleftrightarrow>
     client_opens \<and> pubsub_opens \<and> subscribed"

definition bridge_message :: "realtime_env \<Rightarrow> string option \<Rightarrow> broadcaster \<Rightarrow> broadcaster" where
  "bridge_message re message br =
     (case message of
        None \<Rightarrow> br
      | Some payload \<Rightarrow> (case decode_event re payload of None \<Rightarrow> br | Some ev \<Rightarrow> publish_locally ev br))"

text \<open>What the listeners of a store were given, in order.\<close>

definition heard :: "uuid \<Rightarrow> broadcaster \<Rightarrow> realtime_event list" where
  "heard store_id br =
     map snd (filter (\<lambda>x. map_of (br_channels br) store_id = Some (fst x)) (br_sent br))"

text \<open>Every channel belongs to one store.\<close>

definition channels_ok :: "broadcaster \<Rightarrow> bool" where
  "channels_ok br \<longleftrightarrow>
     (\<forall>st c. map_of (br_channels br) st = Some c \<longrightarrow> c < br_created br)
     \<and> (\<forall>st st' c. map_of (br_channels br) st = Some c \<longrightarrow> map_of (br_channels br) st' = Some c \<longrightarrow> st = st')
     \<and> (\<forall>x \<in> set (br_sent br). fst x < br_created br)"

lemma channels_ok_new [simp]: "channels_ok broadcaster_new"
  by (simp add: channels_ok_def broadcaster_new_def)

lemma channels_ok_channel_for: "channels_ok br \<Longrightarrow> channels_ok (snd (channel_for st br))"
  by (auto simp: channels_ok_def channel_for_def less_Suc_eq split: option.split)

lemma channel_for_finds: "map_of (br_channels (snd (channel_for st br))) st = Some (fst (channel_for st br))"
  by (simp add: channel_for_def split: option.split)

lemma channels_ok_publish: "channels_ok br \<Longrightarrow> channels_ok (publish_locally ev br)"
  using channels_ok_channel_for[of br "ev_store_id ev"] channel_for_finds[of "ev_store_id ev" br]
  by (simp add: publish_locally_def case_prod_unfold Let_def) (simp add: channels_ok_def)

lemma heard_channel_for: "channels_ok br \<Longrightarrow> heard st (snd (channel_for st' br)) = heard st br"
  by (auto simp: heard_def channel_for_def channels_ok_def filter_empty_conv intro!: filter_cong split: option.split)

lemma heard_publish:
  assumes "channels_ok br"
  shows "heard st (publish_locally ev br) = heard st br @ (if ev_store_id ev = st then [ev] else [])"
proof -
  define br1 where "br1 = snd (channel_for (ev_store_id ev) br)"
  have c: "map_of (br_channels br1) (ev_store_id ev) = Some (fst (channel_for (ev_store_id ev) br))"
    by (simp add: br1_def channel_for_finds)
  have ok: "channels_ok br1" and same: "heard st br1 = heard st br"
    using assms by (simp_all add: br1_def channels_ok_channel_for heard_channel_for)
  have "heard st (publish_locally ev br) = heard st br1
      @ (if map_of (br_channels br1) st = Some (fst (channel_for (ev_store_id ev) br)) then [ev] else [])"
    by (simp add: heard_def publish_locally_def case_prod_unfold Let_def br1_def)
  moreover have "map_of (br_channels br1) st = Some (fst (channel_for (ev_store_id ev) br))
      \<longleftrightarrow> ev_store_id ev = st"
    using c ok unfolding channels_ok_def by blast
  ultimately show ?thesis using same by simp
qed

section \<open>Several instances\<close>

text \<open>
  Instances behind one load balancer, each with its broadcaster and what Redis has yet to deliver to
  its bridge. Redis delivers a published message to every subscriber, the publisher's own bridge
  among them, in order. \<open>cu_log\<close> is history: which instance published what, and whether it went
  out.
\<close>

record node =
  in_broadcaster :: broadcaster
  in_bridged :: bool
  in_inbox :: "string list"

record cluster =
  cu_instances :: "node list"
  cu_log :: "(nat \<times> realtime_event \<times> bool) list"

definition cluster_start :: "bool list \<Rightarrow> cluster" where
  "cluster_start bridged =
     \<lparr>cu_instances = map (\<lambda>b. \<lparr>in_broadcaster = broadcaster_new, in_bridged = b, in_inbox = []\<rparr>) bridged,
      cu_log = []\<rparr>"

definition receive :: "string \<Rightarrow> node \<Rightarrow> node" where
  "receive payload inst =
     (if in_bridged inst then inst\<lparr>in_inbox := in_inbox inst @ [payload]\<rparr> else inst)"

text \<open>\<open>accepted\<close>: whether the \<open>PUBLISH\<close> command went through; the error is only logged.\<close>

definition cluster_publish ::
  "env \<Rightarrow> realtime_env \<Rightarrow> nat \<Rightarrow> bool \<Rightarrow> bool \<Rightarrow> realtime_event \<Rightarrow> cluster \<Rightarrow> cluster" where
  "cluster_publish e re i redis_up accepted ev cu =
     (let inst = cu_instances cu ! i;
          (br, payload) = publish_event e re redis_up ev (in_broadcaster inst);
          insts = (cu_instances cu)[i := inst\<lparr>in_broadcaster := br\<rparr>]
      in case payload of
           Some p \<Rightarrow> if accepted
             then \<lparr>cu_instances = map (receive p) insts, cu_log = cu_log cu @ [(i, ev, True)]\<rparr>
             else \<lparr>cu_instances = insts, cu_log = cu_log cu @ [(i, ev, False)]\<rparr>
         | None \<Rightarrow> \<lparr>cu_instances = insts, cu_log = cu_log cu @ [(i, ev, False)]\<rparr>)"

definition cluster_deliver :: "realtime_env \<Rightarrow> nat \<Rightarrow> cluster \<Rightarrow> cluster" where
  "cluster_deliver re i cu =
     (let inst = cu_instances cu ! i
      in case in_inbox inst of
           [] \<Rightarrow> cu
         | p # rest \<Rightarrow> cu\<lparr>cu_instances := (cu_instances cu)[i :=
             inst\<lparr>in_broadcaster := bridge_message re (Some p) (in_broadcaster inst),
                  in_inbox := rest\<rparr>]\<rparr>)"

inductive cluster_run :: "env \<Rightarrow> realtime_env \<Rightarrow> bool list \<Rightarrow> cluster \<Rightarrow> bool" for e re bridged where
  boot: "cluster_run e re bridged (cluster_start bridged)"
| publish: "cluster_run e re bridged cu \<Longrightarrow> i < length bridged
    \<Longrightarrow> cluster_run e re bridged (cluster_publish e re i redis_up accepted ev cu)"
| deliver: "cluster_run e re bridged cu \<Longrightarrow> i < length bridged
    \<Longrightarrow> cluster_run e re bridged (cluster_deliver re i cu)"

text \<open>What an instance's listeners should have been given: what it published itself, and what came
  back over Redis, its own events included.\<close>

definition own_events :: "nat \<Rightarrow> uuid \<Rightarrow> cluster \<Rightarrow> realtime_event list" where
  "own_events j st cu =
     filter (\<lambda>ev. ev_store_id ev = st) (map (fst \<circ> snd) (filter (\<lambda>x. fst x = j) (cu_log cu)))"

definition relayed_events :: "uuid \<Rightarrow> cluster \<Rightarrow> realtime_event list" where
  "relayed_events st cu =
     filter (\<lambda>ev. ev_store_id ev = st) (map (fst \<circ> snd) (filter (snd \<circ> snd) (cu_log cu)))"

definition waiting_events :: "realtime_env \<Rightarrow> uuid \<Rightarrow> node \<Rightarrow> realtime_event list" where
  "waiting_events re st inst =
     filter (\<lambda>ev. ev_store_id ev = st) (List.map_filter (decode_event re) (in_inbox inst))"

text \<open>An instance is in step with the log: what its listeners were given, and what its bridge still
  has to read, is what it published and what Redis relayed.\<close>

definition in_step :: "realtime_env \<Rightarrow> nat \<Rightarrow> cluster \<Rightarrow> node \<Rightarrow> bool" where
  "in_step re j cu inst \<longleftrightarrow>
     channels_ok (in_broadcaster inst)
     \<and> (\<forall>st. mset (heard st (in_broadcaster inst)) + mset (waiting_events re st inst)
           = mset (own_events j st cu)
             + (if in_bridged inst then mset (relayed_events st cu) else {#}))"

definition cluster_inv :: "realtime_env \<Rightarrow> bool list \<Rightarrow> cluster \<Rightarrow> bool" where
  "cluster_inv re bridged cu \<longleftrightarrow> map in_bridged (cu_instances cu) = bridged
     \<and> (\<forall>j < length bridged. in_step re j cu (cu_instances cu ! j))"

lemma map_in_bridged_update:
  "map in_bridged (xs[i := (xs ! i)\<lparr>in_broadcaster := br\<rparr>]) = map in_bridged xs"
  "map in_bridged (xs[i := (xs ! i)\<lparr>in_broadcaster := br, in_inbox := q\<rparr>]) = map in_bridged xs"
  by (cases "i < length xs"; simp add: map_update list_update_same_conv list_update_beyond)+

lemma in_bridged_receive [simp]: "in_bridged (receive p inst) = in_bridged inst"
  "in_broadcaster (receive p inst) = in_broadcaster inst"
  by (simp_all add: receive_def)

lemma waiting_receive:
  assumes "decode_event re p = Some ev"
  shows "waiting_events re st (receive p inst) = waiting_events re st inst
    @ (if in_bridged inst \<and> ev_store_id ev = st then [ev] else [])"
  using assms by (simp add: waiting_events_def receive_def List.map_filter_def)

lemma heard_new [simp]: "heard st broadcaster_new = []"
  by (simp add: heard_def broadcaster_new_def)

lemma cluster_inv_start: "cluster_inv re bridged (cluster_start bridged)"
  by (auto simp: cluster_inv_def in_step_def cluster_start_def waiting_events_def own_events_def
      relayed_events_def List.map_filter_def comp_def)

lemma in_step_publish:
  assumes "in_step re j cu inst" and "decode_event re (encode_event e re ev) = Some ev"
    and "cu_log cu' = cu_log cu @ [(i, ev, relayed)]"
    and "inst1 = (if j = i then inst\<lparr>in_broadcaster := publish_locally ev (in_broadcaster inst)\<rparr> else inst)"
    and "inst2 = (if relayed then receive (encode_event e re ev) inst1 else inst1)"
  shows "in_step re j cu' inst2"
proof -
  have br: "in_broadcaster inst2 = (if j = i then publish_locally ev (in_broadcaster inst) else in_broadcaster inst)"
    "in_bridged inst2 = in_bridged inst"
    using assms(4,5) by (simp_all add: receive_def)
  have wait: "waiting_events re st inst2 = waiting_events re st inst
      @ (if relayed \<and> in_bridged inst \<and> ev_store_id ev = st then [ev] else [])" for st
    using waiting_receive[OF assms(2), of st inst1] assms(4,5) by (auto simp: waiting_events_def)
  have ok: "channels_ok (in_broadcaster inst)"
    and before: "mset (heard st (in_broadcaster inst)) + mset (waiting_events re st inst)
      = mset (own_events j st cu) + (if in_bridged inst then mset (relayed_events st cu) else {#})" for st
    using assms(1) by (auto simp: in_step_def)
  have "mset (heard st (in_broadcaster inst2)) + mset (waiting_events re st inst2)
      = mset (own_events j st cu') + (if in_bridged inst2 then mset (relayed_events st cu') else {#})" for st
    using before[of st]
    by (auto simp: br wait heard_publish[OF ok] own_events_def relayed_events_def assms(3))
  then show ?thesis using ok by (simp add: in_step_def br channels_ok_publish)
qed

lemma cluster_inv_publish:
  assumes "cluster_inv re bridged cu" and "realtime_env_ok e re" and "i < length bridged"
  shows "cluster_inv re bridged (cluster_publish e re i redis_up accepted ev cu)"
proof -
  let ?cu = "cluster_publish e re i redis_up accepted ev cu"
  let ?n = "\<lambda>j. cu_instances cu ! j"
  define relayed where "relayed \<longleftrightarrow> redis_up \<and> accepted"
  define insts where "insts = (cu_instances cu)[i :=
    (?n i)\<lparr>in_broadcaster := publish_locally ev (in_broadcaster (?n i))\<rparr>]"
  have len: "length (cu_instances cu) = length bridged"
    using assms(1) by (auto simp: cluster_inv_def dest: arg_cong[of _ _ length])
  have cu: "cu_instances ?cu = (if relayed then map (receive (encode_event e re ev)) insts else insts)"
    "cu_log ?cu = cu_log cu @ [(i, ev, relayed)]"
    by (auto simp: cluster_publish_def publish_event_def Let_def relayed_def insts_def)
  have "in_step re j ?cu (cu_instances ?cu ! j)" if "j < length bridged" for j
  proof (rule in_step_publish[OF _ decode_encode[OF assms(2)] cu(2) refl])
    show "in_step re j cu (?n j)" using assms(1) that by (simp add: cluster_inv_def)
    show "cu_instances ?cu ! j = (if relayed then receive (encode_event e re ev)
        (if j = i then (?n j)\<lparr>in_broadcaster := publish_locally ev (in_broadcaster (?n j))\<rparr> else ?n j)
        else if j = i then (?n j)\<lparr>in_broadcaster := publish_locally ev (in_broadcaster (?n j))\<rparr> else ?n j)"
      using that len assms(3) by (simp add: cu insts_def nth_list_update)
  qed
  moreover have "map in_bridged (cu_instances ?cu) = bridged"
    using assms(1) by (simp add: cu insts_def cluster_inv_def comp_def map_in_bridged_update)
  ultimately show ?thesis by (simp add: cluster_inv_def)
qed

lemma in_step_deliver:
  assumes "in_step re j cu inst" and "in_inbox inst = p # rest"
  shows "in_step re j cu (inst\<lparr>in_broadcaster := bridge_message re (Some p) (in_broadcaster inst),
    in_inbox := rest\<rparr>)"
proof (cases "decode_event re p")
  case None
  then show ?thesis using assms
    by (simp add: in_step_def bridge_message_def waiting_events_def List.map_filter_def)
next
  case (Some ev)
  have ok: "channels_ok (in_broadcaster inst)" using assms(1) by (simp add: in_step_def)
  have "mset (waiting_events re st inst) = mset (if ev_store_id ev = st then [ev] else [])
      + mset (waiting_events re st (inst\<lparr>in_broadcaster := br, in_inbox := rest\<rparr>))" for st br
    using assms(2) Some by (simp add: waiting_events_def List.map_filter_def)
  then show ?thesis using assms(1) Some
    by (simp add: in_step_def bridge_message_def channels_ok_publish[OF ok] heard_publish[OF ok] add.assoc)
qed

lemma cluster_inv_deliver:
  assumes "cluster_inv re bridged cu"
  shows "cluster_inv re bridged (cluster_deliver re i cu)"
proof (cases "in_inbox (cu_instances cu ! i)")
  case Nil
  then show ?thesis using assms by (simp add: cluster_deliver_def)
next
  case (Cons p rest)
  let ?inst = "cu_instances cu ! i"
  have "in_step re j (cluster_deliver re i cu) (cu_instances (cluster_deliver re i cu) ! j)"
    if "j < length bridged" for j
  proof -
    have same: "in_step re j (cluster_deliver re i cu) = in_step re j cu"
      by (rule ext) (simp add: in_step_def own_events_def relayed_events_def cluster_deliver_def Cons Let_def)
    have "in_step re j cu (cu_instances cu ! j)" using assms that by (simp add: cluster_inv_def)
    moreover have "length (cu_instances cu) = length bridged"
      using assms by (auto simp: cluster_inv_def dest: arg_cong[of _ _ length])
    ultimately show ?thesis unfolding same using that in_step_deliver[of re j cu ?inst p rest] Cons
      by (cases "j = i") (simp_all add: cluster_deliver_def Let_def nth_list_update)
  qed
  moreover have "map in_bridged (cu_instances (cluster_deliver re i cu)) = bridged"
    using assms by (simp add: cluster_deliver_def Cons Let_def cluster_inv_def map_in_bridged_update)
  ultimately show ?thesis by (simp add: cluster_inv_def)
qed

lemma cluster_run_inv:
  "cluster_run e re bridged cu \<Longrightarrow> realtime_env_ok e re \<Longrightarrow> cluster_inv re bridged cu"
  by (induction rule: cluster_run.induct)
    (auto intro: cluster_inv_start cluster_inv_publish cluster_inv_deliver)

end
