(* ===== verification/Sockets.thy ===== *)
theory Sockets
  imports Realtime Sign_Out
begin

text \<open>
  \<^verbatim>\<open>infrastructure/realtime/websocket_route.rs\<close>: opening a socket onto a store's events and the
  loop that feeds it. The loop takes one turn at a time, whichever of its three sources is ready; a
  socket lives beside all the requests the server answers meanwhile.
\<close>

section \<open>Opening\<close>

definition map_err :: "('e \<Rightarrow> 'f) \<Rightarrow> 'e + 'a \<Rightarrow> 'f + 'a" where
  "map_err f r = (case r of Inl err \<Rightarrow> Inl (f err) | Inr x \<Rightarrow> Inr x)"

definition map_errS :: "(api_error \<Rightarrow> api_error) \<Rightarrow> 'a action \<Rightarrow> 'a action" where
  "map_errS f m s = (let (r, s') = m s in (map_err f r, s'))"

text \<open>The result is the session the socket is opened for.\<close>

definition upgrade_connection ::
  "env \<Rightarrow> security \<Rightarrow> billing_settings \<Rightarrow> uuid \<Rightarrow> string \<Rightarrow> uuid action" where
  "upgrade_connection e sc settings store_id token =
     bindS (actor_for_token e sc token) (\<lambda>actor.
     bindS (map_errS (\<lambda>_. Forbidden ''this store does not belong to you'') (authorise actor store_id)) (\<lambda>_.
     bindS (readS (\<lambda>db. check_store_request e settings db actor store_id False)) (\<lambda>_.
     liftS (Inr (ac_session_id actor)))))"

section \<open>The loop\<close>

text \<open>What \<open>socket.recv\<close>, \<open>events.recv\<close> and the keepalive timer come back with; the flag says
  whether sending to the client works.\<close>

datatype client_frame = ClientMessage | ClientClose | ClientError | ClientGone

datatype recv_result = EventReceived realtime_event | Lagged nat | ChannelClosed

datatype socket_turn =
    Incoming client_frame
  | EventTurn recv_result bool
  | KeepaliveTurn bool

datatype server_frame = EventText string | StaleText | PingFrame | CloseFrame

record socket =
  so_open :: bool
  so_frames :: "server_frame list"

definition socket_start :: socket where
  "socket_start = \<lparr>so_open = True, so_frames = []\<rparr>"

definition send_frame :: "server_frame \<Rightarrow> bool \<Rightarrow> socket \<Rightarrow> socket" where
  "send_frame f sent so = (if sent then so\<lparr>so_frames := so_frames so @ [f]\<rparr> else so)"

definition close_socket :: "socket \<Rightarrow> socket" where
  "close_socket so = so\<lparr>so_open := False\<rparr>"

fun pump_turn ::
  "env \<Rightarrow> realtime_env \<Rightarrow> uuid \<Rightarrow> socket_turn \<Rightarrow> socket \<times> server \<Rightarrow> socket \<times> server" where
  "pump_turn e re session_id (Incoming frame) (so, s) =
     (case frame of
        ClientClose \<Rightarrow> (close_socket so, s)
      | ClientGone \<Rightarrow> (close_socket so, s)
      | ClientError \<Rightarrow> (close_socket so, s)
      | ClientMessage \<Rightarrow> (so, s))"
| "pump_turn e re session_id (EventTurn result sent) (so, s) =
     (case result of
        EventReceived ev \<Rightarrow>
          (if sent then (send_frame (EventText (encode_event e re ev)) sent so, s)
           else (close_socket so, s))
      | Lagged _ \<Rightarrow> (send_frame StaleText sent so, s)
      | ChannelClosed \<Rightarrow> (close_socket so, s))"
| "pump_turn e re session_id (KeepaliveTurn sent) (so, s) =
     (let (found, s') = resolve e session_id s
      in case found of
           Inr (Some _) \<Rightarrow>
             if sent then (send_frame PingFrame sent so, s') else (close_socket so, s')
         | _ \<Rightarrow> (close_socket (send_frame CloseFrame sent so), s'))"

text \<open>\<open>pump_events\<close>: the loop ends at the first \<open>break\<close>.\<close>

fun pump_events ::
  "env \<Rightarrow> realtime_env \<Rightarrow> uuid \<Rightarrow> socket_turn list \<Rightarrow> socket \<times> server \<Rightarrow> socket \<times> server" where
  "pump_events e re session_id [] so = so"
| "pump_events e re session_id (t # ts) so =
     (if so_open (fst so) then pump_events e re session_id ts (pump_turn e re session_id t so) else so)"

text \<open>A socket beside the requests of a server at work.\<close>

inductive socket_life ::
  "auth_env \<Rightarrow> calendar \<Rightarrow> (env \<Rightarrow> bool) \<Rightarrow> realtime_env \<Rightarrow> uuid
    \<Rightarrow> socket \<times> server \<Rightarrow> socket \<times> server \<Rightarrow> bool"
  for ae cal good re session_id so where
  now: "socket_life ae cal good re session_id so so"
| turn: "socket_life ae cal good re session_id so so1 \<Longrightarrow> so_open (fst so1) \<Longrightarrow> good e
    \<Longrightarrow> socket_life ae cal good re session_id so (pump_turn e re session_id t so1)"
| request: "socket_life ae cal good re session_id so (so1, s1) \<Longrightarrow> served ae cal e s1 s2 \<Longrightarrow> good e
    \<Longrightarrow> socket_life ae cal good re session_id so (so1, s2)"

section \<open>What a closed socket does\<close>

lemma send_frame_simps [simp]:
  "so_open (send_frame f sent so) = so_open so"
  "so_frames (send_frame f sent so) = so_frames so @ (if sent then [f] else [])"
  "so_open (close_socket so) = False" "so_frames (close_socket so) = so_frames so"
  by (simp_all add: send_frame_def close_socket_def)

lemma closed_stays_closed:
  "socket_life ae cal good re i so so' \<Longrightarrow> \<not> so_open (fst so) \<Longrightarrow> fst so' = fst so"
  by (induction rule: socket_life.induct) auto

lemma frames_grow:
  "\<exists>fs. so_frames (fst (pump_turn e re i t so)) = so_frames (fst so) @ fs"
  by (cases so; cases t) (auto split: client_frame.split recv_result.split prod.split sum.split option.split)

section \<open>A signed-out session's socket\<close>

text \<open>A turn of the loop resolves the session at most: it keeps what every request keeps.\<close>

context account_tables
begin

lemma turn_keeps: "kept s \<Longrightarrow> kept (snd (pump_turn e re i t (so, s)))"
  using keeps_resolve[of e i] unfolding preserves_def
  by (cases t) (auto split: client_frame.split recv_result.split prod.split sum.split option.split
      dest!: spec[of _ s])

lemma life_keeps: "socket_life ae cal good re i so so' \<Longrightarrow> kept (snd so) \<Longrightarrow> kept (snd so')"
proof (induction rule: socket_life.induct)
  case (turn so1 e t)
  then show ?case using turn_keeps[of "snd so1" e re i t "fst so1"] by simp
qed (auto intro: served_keeps)

end

lemma keepalive_ends_signed_out:
  assumes "out_for_good.kept i s"
  shows "fst (pump_turn e re i (KeepaliveTurn sent) (so, s)) = close_socket (send_frame CloseFrame sent so)"
  using kept_out_resolves[OF assms, of e] by (cases "resolve e i s") simp

end
