(* ===== verification/Realtime_Properties.thy ===== *)
theory Realtime_Properties
  imports Sockets Access_Properties
begin

text \<open>Properties of the realtime part: what the listeners of a store are given across instances, and
  what a socket sends once its device has been signed out.\<close>

section \<open>A sample wire format\<close>

text \<open>Texts with their lengths in front, in unary.\<close>

definition sample_framed :: "string \<Rightarrow> string" where
  "sample_framed s = replicate (length s) (CHR ''i'') @ CHR ''a'' # s"

fun sample_unframe :: "nat \<Rightarrow> string \<Rightarrow> string list" where
  "sample_unframe 0 s = []"
| "sample_unframe (Suc f) s =
     (if s = [] then []
      else let n = length (takeWhile (\<lambda>c. c = CHR ''i'') s); r = drop (Suc n) s
           in take n r # sample_unframe f (drop n r))"

fun sample_pairs :: "string list \<Rightarrow> (string \<times> json) list" where
  "sample_pairs (k # v # r) = (k, JStr v) # sample_pairs r"
| "sample_pairs r = []"

fun sample_texts :: "json \<Rightarrow> string list" where
  "sample_texts (JObj ms) =
     concat (map (\<lambda>(k, v). [k, case v of JStr s \<Rightarrow> s | _ \<Rightarrow> []]) ms)"
| "sample_texts j = []"

definition sample_time_text :: "instant \<Rightarrow> string" where
  "sample_time_text t = (if t < 0 then CHR ''-'' # replicate (nat (- t)) CHR ''x''
     else replicate (nat t) CHR ''x'')"

definition sample_parse_time :: "string \<Rightarrow> instant option" where
  "sample_parse_time s = Some (case s of c # r \<Rightarrow> (if c = CHR ''-'' then - int (length r) else int (length s))
     | [] \<Rightarrow> 0)"

definition sample_wire :: realtime_env where
  "sample_wire = \<lparr>re_time_text = sample_time_text, re_parse_time = sample_parse_time,
     re_parse_uuid = (\<lambda>s. Some (of_nat (length s))),
     re_print = (\<lambda>j. concat (map sample_framed (sample_texts j))),
     re_parse = (\<lambda>s. Some (JObj (sample_pairs (sample_unframe (length s) s))))\<rparr>"

lemma sample_unframe_framed:
  "length ss \<le> f \<Longrightarrow> sample_unframe f (concat (map sample_framed ss)) = ss"
proof (induction ss arbitrary: f)
  case Nil
  then show ?case by (cases f) simp_all
next
  case (Cons s ss)
  have "takeWhile (\<lambda>c. c = CHR ''i'') (replicate n (CHR ''i'') @ CHR ''a'' # r) = replicate n (CHR ''i'')"
    for n r by (induction n) simp_all
  then show ?case using Cons by (cases f) (auto simp: sample_framed_def Let_def)
qed

lemma sample_framed_long: "length ss \<le> length (concat (map sample_framed ss))"
  by (induction ss) (auto simp: sample_framed_def)

lemma sample_pairs_texts: "JObj (sample_pairs (sample_texts (event_json e re ev))) = event_json e re ev"
  by (simp add: event_json_def split: option.split)

lemma sample_wire_ok: "realtime_env_ok (sample_env t) sample_wire"
  unfolding realtime_env_ok_def
proof (intro conjI allI)
  show "re_parse_time sample_wire (re_time_text sample_wire t) = Some t" for t
    by (cases "nat t") (auto simp: sample_wire_def sample_parse_time_def sample_time_text_def)
  show "re_parse_uuid sample_wire (e_uuid_text (sample_env t) i) = Some i" for i
    by (simp add: sample_wire_def sample_env_def)
  show "re_parse sample_wire (re_print sample_wire (event_json (sample_env t) sample_wire ev))
      = Some (event_json (sample_env t) sample_wire ev)" for ev
    unfolding sample_wire_def realtime_env.simps
    by (simp only: sample_unframe_framed[OF sample_framed_long] sample_pairs_texts)
qed

section \<open>Across instances\<close>

text \<open>C15: Whatever instances publish, and however Redis interleaves its deliveries: once an instance has
  read what was waiting for it, the listeners of a store there have been given exactly the events
  of that store that the instance published itself and, with a bridge, all that went through
  Redis, the instance's own once more.\<close>

theorem listeners_hear_their_store:
  assumes "cluster_run e re bridged cu" and "realtime_env_ok e re" and "j < length bridged"
    and "in_inbox (cu_instances cu ! j) = []"
  shows "mset (heard st (in_broadcaster (cu_instances cu ! j)))
    = mset (own_events j st cu) + (if bridged ! j then mset (relayed_events st cu) else {#})"
proof -
  have inv: "map in_bridged (cu_instances cu) = bridged" "in_step re j cu (cu_instances cu ! j)"
    using cluster_run_inv[OF assms(1,2)] assms(3) by (simp_all add: cluster_inv_def)
  have "in_bridged (cu_instances cu ! j) = bridged ! j"
    using inv(1) assms(3) by auto
  then show ?thesis using inv(2) assms(4)
    by (simp add: in_step_def waiting_events_def List.map_filter_def)
qed

text \<open>Two instances with a bridge: a sale recorded on the first is told to its own sockets twice.\<close>

definition sample_event :: realtime_event where
  "sample_event = \<lparr>ev_store_id = 1, ev_topic = TopicSaleRecorded, ev_entity_id = Some 2,
     ev_message = None, ev_emitted_at = 3\<rparr>"

definition sample_cluster :: cluster where
  "sample_cluster = cluster_deliver sample_wire 1 (cluster_deliver sample_wire 0
     (cluster_publish (sample_env 0) sample_wire 0 True True sample_event (cluster_start [True, True])))"

theorem listeners_hear_their_store_witness:
  "mset (heard 1 (in_broadcaster (cu_instances sample_cluster ! 0))) = {#sample_event, sample_event#}
   \<and> mset (heard 1 (in_broadcaster (cu_instances sample_cluster ! 1))) = {#sample_event#}"
proof -
  have run: "cluster_run (sample_env 0) sample_wire [True, True] sample_cluster"
    unfolding sample_cluster_def by (intro cluster_run.intros) simp_all
  have read: "in_inbox (cu_instances sample_cluster ! 0) = []" "in_inbox (cu_instances sample_cluster ! 1) = []"
    and log: "cu_log sample_cluster = [(0, sample_event, True)]"
    by (simp_all add: sample_cluster_def cluster_deliver_def cluster_publish_def cluster_start_def
        publish_event_def receive_def)
  show ?thesis
    using listeners_hear_their_store[OF run sample_wire_ok _ read(1), of 1]
      listeners_hear_their_store[OF run sample_wire_ok _ read(2), of 1]
    by (simp add: own_events_def relayed_events_def log sample_event_def)
qed

section \<open>Signed out\<close>

text \<open>C16: Once its device is signed out, a socket lives until its next keepalive at most: that turn
  closes it, whatever requests the server has answered and whatever the socket has heard since, and
  from then on nothing is ever sent on it.\<close>

theorem signed_out_socket_goes_quiet:
  assumes "serving ae cal s" and "revoke_device e a i s = (Inr (), s')"
    and "socket_life ae cal (never_draws i) re i (so, s') (so1, s1)"
    and "pump_turn e1 re i (KeepaliveTurn sent) (so1, s1) = (so2, s2)"
    and "socket_life ae cal (never_draws i) re i (so2, s2) (so3, s3)"
  shows "\<not> so_open so2 \<and> so_frames so3 = so_frames so1 @ (if sent then [CloseFrame] else [])"
proof -
  have "revoked_only i (sv_db s') \<and> sv_remembered s' = []"
    by (rule ended_sessions[OF assms(1) disjI1[OF assms(2)]])
  then have "out_for_good.kept i s'" using signed_out_kept by blast
  then have "out_for_good.kept i s1" using out_for_good.life_keeps[OF assms(3)] by simp
  from keepalive_ends_signed_out[OF this, of e1 re sent so1]
  have "so2 = close_socket (send_frame CloseFrame sent so1)" using assms(4) by simp
  then show ?thesis using closed_stays_closed[OF assms(5)] by simp
qed

theorem signed_out_socket_goes_quiet_witness:
  "so_frames (fst (pump_turn (sample_at 6000) sample_wire 109 (KeepaliveTurn True)
     (pump_turn (sample_at 5000) sample_wire 109 (EventTurn (Lagged 3) True)
       (socket_start, snd (revoke_device (sample_at 4000) sample_ana 109 sample_joined)))))
   = [StaleText, CloseFrame]"
proof -
  let ?out = "revoke_device (sample_at 4000) sample_ana 109 sample_joined"
  have "fst ?out = Inr ()" by code_simp
  then have out: "?out = (Inr (), snd ?out)" by (simp add: prod_eq_iff)
  let ?e = "(sample_at 5000)\<lparr>e_uuid := \<lambda>_. 301\<rparr>"
  have "never_draws 109 ?e" by (simp add: never_draws_def)
  then have heard: "socket_life sample_auth sample_calendar (never_draws 109) sample_wire 109
      (socket_start, snd ?out) (send_frame StaleText True socket_start, snd ?out)"
    using socket_life.turn[OF socket_life.now, of "(socket_start, snd ?out)" "never_draws 109" ?e
        sample_auth sample_calendar sample_wire 109 "EventTurn (Lagged 3) True"]
    by (simp add: socket_start_def)
  obtain so2 s2 where tick: "pump_turn (sample_at 6000) sample_wire 109 (KeepaliveTurn True)
      (send_frame StaleText True socket_start, snd ?out) = (so2, s2)" by fastforce
  from signed_out_socket_goes_quiet[OF sample_serving out heard this socket_life.now]
  show ?thesis using tick by (simp add: socket_start_def)
qed

end
