(* ===== verification/Routes.thy ===== *)
theory Routes
  imports Stores
begin

text \<open>
  \<^verbatim>\<open>application/router.rs\<close> and the \<^verbatim>\<open>*_routes.rs\<close> files: every route the server answers, with the
  check its handler's first extractor makes, and how a path finds its route.
\<close>

section \<open>Routes\<close>

datatype http_method = GET | POST | PATCH | DELETE

fun method_text :: "http_method \<Rightarrow> string" where
  "method_text GET = ''GET''"
| "method_text POST = ''POST''"
| "method_text PATCH = ''PATCH''"
| "method_text DELETE = ''DELETE''"

datatype segment = Lit string | Param string

text \<open>What a handler asks of the request before anything else: nothing, a signature, a token in the
  query, a live session, the owner's session, or the scope of a store.\<close>

datatype guard = Open | Signed | QueryToken | AnyActor | OwnerOnly | InStore

record route =
  rt_method :: http_method
  rt_path :: "segment list"
  rt_guard :: guard

definition api :: "segment list" where
  "api = [Lit ''api'', Lit ''v1'']"

definition in_store :: "segment list" where
  "in_store = api @ [Lit ''stores'', Param ''store_id'']"

definition one_route :: "http_method \<Rightarrow> segment list \<Rightarrow> guard \<Rightarrow> route list" where
  "one_route method path g = [\<lparr>rt_method = method, rt_path = path, rt_guard = g\<rparr>]"

definition auth_routes :: "route list" where
  "auth_routes =
     one_route POST (api @ [Lit ''auth'', Lit ''register'']) Open
     @ one_route POST (api @ [Lit ''auth'', Lit ''login'']) Open
     @ one_route POST (api @ [Lit ''auth'', Lit ''join'']) Open
     @ one_route POST (api @ [Lit ''auth'', Lit ''refresh'']) Open
     @ one_route POST (api @ [Lit ''auth'', Lit ''logout'']) Open
     @ one_route GET (api @ [Lit ''auth'', Lit ''me'']) AnyActor"

definition billing_routes :: "route list" where
  "billing_routes =
     one_route GET (api @ [Lit ''billing'']) OwnerOnly
     @ one_route POST (api @ [Lit ''billing'', Lit ''checkout'']) OwnerOnly
     @ one_route POST (api @ [Lit ''billing'', Lit ''webhooks'', Lit ''paymongo'']) Signed"

definition billing_pages :: "route list" where
  "billing_pages =
     one_route GET [Lit ''billing'', Lit ''return''] Open
     @ one_route GET [Lit ''billing'', Lit ''test-checkout'', Param ''payment_id''] Open
     @ one_route POST [Lit ''billing'', Lit ''test-checkout'', Param ''payment_id''] Open"

definition benchmark_routes :: "route list" where
  "benchmark_routes = one_route GET (in_store @ [Lit ''benchmarks'']) InStore"

definition privacy_routes :: "route list" where
  "privacy_routes =
     one_route GET (api @ [Lit ''account'', Lit ''privacy'']) OwnerOnly
     @ one_route POST (api @ [Lit ''account'', Lit ''consent'']) OwnerOnly
     @ one_route GET (api @ [Lit ''account'', Lit ''export'']) OwnerOnly
     @ one_route POST (api @ [Lit ''account'', Lit ''deletion'']) OwnerOnly
     @ one_route DELETE (api @ [Lit ''account'', Lit ''deletion'']) OwnerOnly"

definition store_routes :: "route list" where
  "store_routes =
     one_route POST (api @ [Lit ''stores'']) OwnerOnly
     @ one_route PATCH in_store InStore"

definition staff_routes :: "route list" where
  "staff_routes =
     one_route GET (in_store @ [Lit ''staff'']) InStore
     @ one_route POST (in_store @ [Lit ''staff'']) InStore
     @ one_route PATCH (in_store @ [Lit ''staff'', Param ''staff_id'']) InStore
     @ one_route DELETE (in_store @ [Lit ''staff'', Param ''staff_id'']) InStore
     @ one_route POST (in_store @ [Lit ''staff'', Param ''staff_id'', Lit ''invite'']) InStore"

definition device_routes :: "route list" where
  "device_routes =
     one_route GET (api @ [Lit ''devices'']) OwnerOnly
     @ one_route DELETE (api @ [Lit ''devices'', Param ''session_id'']) OwnerOnly"

definition audit_routes :: "route list" where
  "audit_routes = one_route GET (in_store @ [Lit ''activity'']) InStore"

definition product_routes :: "route list" where
  "product_routes =
     one_route GET (in_store @ [Lit ''products'']) InStore
     @ one_route POST (in_store @ [Lit ''products'']) InStore
     @ one_route GET (in_store @ [Lit ''products'', Lit ''low-stock'']) InStore
     @ one_route GET (in_store @ [Lit ''products'', Param ''product_id'']) InStore
     @ one_route DELETE (in_store @ [Lit ''products'', Param ''product_id'']) InStore"

definition inventory_routes :: "route list" where
  "inventory_routes =
     one_route GET (in_store @ [Lit ''stock-movements'']) InStore
     @ one_route POST (in_store @ [Lit ''stock-movements'']) InStore
     @ one_route GET (in_store @ [Lit ''inventory'', Lit ''valuation'']) InStore"

definition sale_routes :: "route list" where
  "sale_routes =
     one_route GET (in_store @ [Lit ''sales'']) InStore
     @ one_route POST (in_store @ [Lit ''sales'']) InStore
     @ one_route GET (in_store @ [Lit ''sales'', Param ''sale_id'']) InStore
     @ one_route DELETE (in_store @ [Lit ''sales'', Param ''sale_id'']) InStore"

text \<open>Listing the categories is the one route under the API that asks for nobody.\<close>

definition expense_routes :: "route list" where
  "expense_routes =
     one_route GET (api @ [Lit ''expense-categories'']) Open
     @ one_route GET (in_store @ [Lit ''expenses'']) InStore
     @ one_route POST (in_store @ [Lit ''expenses'']) InStore
     @ one_route DELETE (in_store @ [Lit ''expenses'', Param ''expense_id'']) InStore"

definition withdrawal_routes :: "route list" where
  "withdrawal_routes =
     one_route GET (in_store @ [Lit ''withdrawals'']) InStore
     @ one_route POST (in_store @ [Lit ''withdrawals'']) InStore
     @ one_route DELETE (in_store @ [Lit ''withdrawals'', Param ''withdrawal_id'']) InStore"

definition dashboard_routes :: "route list" where
  "dashboard_routes = one_route GET (in_store @ [Lit ''dashboard'']) InStore"

definition report_routes :: "route list" where
  "report_routes =
     one_route GET (in_store @ [Lit ''reports'', Lit ''summary'']) InStore
     @ one_route GET (in_store @ [Lit ''reports'', Lit ''profit-trend'']) InStore
     @ one_route GET (in_store @ [Lit ''reports'', Lit ''top-products'']) InStore
     @ one_route GET (in_store @ [Lit ''reports'', Lit ''expense-breakdown'']) InStore
     @ one_route GET (in_store @ [Lit ''reports'', Lit ''unusual-expenses'']) InStore"

definition sync_routes :: "route list" where
  "sync_routes =
     one_route POST (in_store @ [Lit ''sync'', Lit ''push'']) InStore
     @ one_route GET (in_store @ [Lit ''sync'', Lit ''pull'']) InStore"

definition diagnostics_routes :: "route list" where
  "diagnostics_routes = one_route POST (api @ [Lit ''diagnostics'', Lit ''errors'']) AnyActor"

definition health_routes :: "route list" where
  "health_routes =
     one_route GET [Lit ''health''] Open
     @ one_route GET [Lit ''health'', Lit ''ready''] Open"

definition realtime_routes :: "route list" where
  "realtime_routes = one_route GET [Lit ''ws'', Lit ''store'', Param ''store_id''] QueryToken"

definition build_router :: "route list" where
  "build_router =
     health_routes @ billing_pages @ realtime_routes
     @ auth_routes @ billing_routes @ benchmark_routes @ privacy_routes @ store_routes
     @ staff_routes @ device_routes @ audit_routes @ product_routes @ inventory_routes
     @ sale_routes @ expense_routes @ withdrawal_routes @ dashboard_routes @ report_routes
     @ sync_routes @ diagnostics_routes"

lemmas route_tables = build_router_def health_routes_def billing_pages_def realtime_routes_def
  auth_routes_def billing_routes_def benchmark_routes_def privacy_routes_def store_routes_def
  staff_routes_def device_routes_def audit_routes_def product_routes_def inventory_routes_def
  sale_routes_def expense_routes_def withdrawal_routes_def dashboard_routes_def report_routes_def
  sync_routes_def diagnostics_routes_def one_route_def api_def in_store_def

section \<open>Finding a route\<close>

text \<open>A literal matches itself, a parameter any one segment. Where two templates match, the one with
  the literal at the first difference wins; the text \<open>store_scope\<close> looks at is the template's.\<close>

fun seg_matches :: "segment \<Rightarrow> string \<Rightarrow> bool" where
  "seg_matches (Lit l) s = (l = s)"
| "seg_matches (Param _) s = (s \<noteq> [])"

definition route_matches :: "route \<Rightarrow> string list \<Rightarrow> bool" where
  "route_matches r path = list_all2 seg_matches (rt_path r) path"

fun more_specific :: "segment list \<Rightarrow> segment list \<Rightarrow> bool" where
  "more_specific (Lit a # p) (Lit b # q) = more_specific p q"
| "more_specific (Lit a # p) (Param y # q) = True"
| "more_specific (Param x # p) (Lit b # q) = False"
| "more_specific (Param x # p) (Param y # q) = more_specific p q"
| "more_specific _ _ = False"

definition dispatch :: "route list \<Rightarrow> http_method \<Rightarrow> string list \<Rightarrow> route option" where
  "dispatch routes method path =
     (let candidates = filter (\<lambda>r. rt_method r = method \<and> route_matches r path) routes
      in find (\<lambda>r. list_all (\<lambda>x. x = r \<or> more_specific (rt_path r) (rt_path x)) candidates) candidates)"

fun seg_text :: "segment \<Rightarrow> string" where
  "seg_text (Lit l) = CHR ''/'' # l"
| "seg_text (Param n) = CHR ''/'' # CHR ''{'' # n @ ''}''"

definition route_text :: "route \<Rightarrow> string" where
  "route_text r = concat (map seg_text (rt_path r))"

text \<open>The parameters a matched path binds.\<close>

fun bindings :: "segment list \<Rightarrow> string list \<Rightarrow> (string \<times> string) list" where
  "bindings (Param n # p) (s # path) = (n, s) # bindings p path"
| "bindings (Lit l # p) (s # path) = bindings p path"
| "bindings _ _ = []"

text \<open>What \<open>store_scope\<close> sees of a request that found its route.\<close>

definition parts_of :: "string option \<Rightarrow> route \<Rightarrow> string list \<Rightarrow> request_parts" where
  "parts_of header r path =
     \<lparr>rq_authorization = header, rq_method = method_text (rt_method r), rq_route = route_text r,
      rq_store_id = map_of (bindings (rt_path r) path) ''store_id''\<rparr>"

section \<open>The router is well formed\<close>

text \<open>Two templates clash when they have the same shape: they match the same paths.\<close>

fun same_shape :: "segment list \<Rightarrow> segment list \<Rightarrow> bool" where
  "same_shape [] [] = True"
| "same_shape (Lit a # p) (Lit b # q) = (a = b \<and> same_shape p q)"
| "same_shape (Param x # p) (Param y # q) = same_shape p q"
| "same_shape _ _ = False"

text \<open>Both match one path and neither is the more specific one: then they have the same shape.\<close>

lemma matches_Cons:
  "list_all2 seg_matches q (s # path) \<longleftrightarrow> (\<exists>b q'. q = b # q' \<and> seg_matches b s \<and> list_all2 seg_matches q' path)"
  by (auto simp: list_all2_Cons2)

lemma equally_specific:
  "list_all2 seg_matches p path \<Longrightarrow> list_all2 seg_matches q path
    \<Longrightarrow> \<not> more_specific p q \<Longrightarrow> \<not> more_specific q p \<Longrightarrow> same_shape p q"
proof (induction path arbitrary: p q)
  case (Cons s path)
  then obtain a p' b q' where "p = a # p'" "seg_matches a s" "list_all2 seg_matches p' path"
    "q = b # q'" "seg_matches b s" "list_all2 seg_matches q' path"
    by (auto simp: matches_Cons)
  then show ?case using Cons.IH[of p' q'] Cons.prems(3,4) by (cases a; cases b) auto
qed simp

lemma more_specific_trans:
  "list_all2 seg_matches p path \<Longrightarrow> list_all2 seg_matches q path \<Longrightarrow> list_all2 seg_matches r path
    \<Longrightarrow> more_specific p q \<Longrightarrow> more_specific q r \<Longrightarrow> more_specific p r"
proof (induction path arbitrary: p q r)
  case (Cons s path)
  then obtain a p' b q' c r' where "p = a # p'" "list_all2 seg_matches p' path"
    "q = b # q'" "list_all2 seg_matches q' path" "r = c # r'" "list_all2 seg_matches r' path"
    by (auto simp: matches_Cons)
  then show ?case using Cons.IH[of p' q' r'] Cons.prems(4,5) by (cases a; cases b; cases c) auto
qed simp

lemma more_specific_asym:
  "list_all2 seg_matches p path \<Longrightarrow> list_all2 seg_matches q path \<Longrightarrow> more_specific p q \<Longrightarrow> \<not> more_specific q p"
proof (induction path arbitrary: p q)
  case (Cons s path)
  then obtain a p' b q' where "p = a # p'" "list_all2 seg_matches p' path"
    "q = b # q'" "list_all2 seg_matches q' path"
    by (auto simp: matches_Cons)
  then show ?case using Cons.IH[of p' q'] Cons.prems(3) by (cases a; cases b) auto
qed simp

end
