(* ===== verification/Store_Api.thy ===== *)
theory Store_Api
  imports Routes Sync Reports
begin

text \<open>
  The handlers behind \<^verbatim>\<open>/api/v1/stores/{store_id}\<close> that work on the books (\<^verbatim>\<open>*_handlers.rs\<close>), and a
  request's way to them: its route, the scope of its store, the parsed body, the service. Queries
  and path ids arrive parsed; bodies arrive as \<open>ValidatedJson\<close> gets them.
\<close>

section \<open>Writing\<close>

definition handle_save_product ::
  "env \<Rightarrow> uuid \<Rightarrow> actor \<Rightarrow> string + save_product_request \<Rightarrow> books \<Rightarrow> api_error + (product_view \<times> books)" where
  "handle_save_product e store_id actor body b =
     bindR (validated_json body save_product_issues) (\<lambda>request.
     bindR (product_save e store_id actor request b) (\<lambda>(product, b').
       Inr (hd (shown_to actor [product]), b')))"

definition handle_delete_product ::
  "env \<Rightarrow> uuid \<Rightarrow> actor \<Rightarrow> uuid \<Rightarrow> books \<Rightarrow> api_error + (unit \<times> books)" where
  "handle_delete_product e store_id actor product_id b = product_remove e store_id actor product_id b"

definition handle_record_movement ::
  "env \<Rightarrow> uuid \<Rightarrow> actor \<Rightarrow> string + record_movement_request \<Rightarrow> books \<Rightarrow> api_error + (unit \<times> books)" where
  "handle_record_movement e store_id actor body b =
     bindR (validated_json body record_movement_issues) (\<lambda>request.
       inventory_record e store_id actor request b)"

definition handle_void_sale ::
  "env \<Rightarrow> uuid \<Rightarrow> actor \<Rightarrow> uuid \<Rightarrow> books \<Rightarrow> api_error + (unit \<times> books)" where
  "handle_void_sale e store_id actor sale_id b = sale_void e store_id actor sale_id b"

definition handle_record_expense ::
  "env \<Rightarrow> uuid \<Rightarrow> actor \<Rightarrow> string + record_expense_request \<Rightarrow> books \<Rightarrow> api_error + (expense_view \<times> books)" where
  "handle_record_expense e store_id actor body b =
     bindR (validated_json body record_expense_issues) (\<lambda>request.
       expense_record e store_id actor request b)"

definition handle_delete_expense ::
  "env \<Rightarrow> uuid \<Rightarrow> actor \<Rightarrow> uuid \<Rightarrow> books \<Rightarrow> api_error + (unit \<times> books)" where
  "handle_delete_expense e store_id actor expense_id b = expense_remove e store_id actor expense_id b"

definition handle_record_withdrawal ::
  "env \<Rightarrow> uuid \<Rightarrow> actor \<Rightarrow> string + record_withdrawal_request \<Rightarrow> books
    \<Rightarrow> api_error + (withdrawal_view \<times> books)" where
  "handle_record_withdrawal e store_id actor body b =
     bindR (validated_json body record_withdrawal_issues) (\<lambda>request.
       withdrawal_record e store_id actor request b)"

definition handle_delete_withdrawal ::
  "env \<Rightarrow> uuid \<Rightarrow> actor \<Rightarrow> uuid \<Rightarrow> books \<Rightarrow> api_error + (unit \<times> books)" where
  "handle_delete_withdrawal e store_id actor withdrawal_id b =
     withdrawal_remove e store_id actor withdrawal_id b"

datatype store_write =
    SaveProduct "string + save_product_request"
  | DeleteProduct uuid
  | RecordMovement "string + record_movement_request"
  | RecordSale "string + record_sale_request"
  | VoidSale uuid
  | RecordExpense "string + record_expense_request"
  | DeleteExpense uuid
  | RecordWithdrawal "string + record_withdrawal_request"
  | DeleteWithdrawal uuid
  | PushChanges "string + push_request"

datatype write_reply =
    ProductReply product_view
  | SaleReply sale_detail
  | ExpenseReply expense_view
  | WithdrawalReply withdrawal_view
  | PushReply push_outcome
  | NoContent

definition replied :: "('a \<Rightarrow> 'b) \<Rightarrow> api_error + ('a \<times> books) \<Rightarrow> api_error + ('b \<times> books)" where
  "replied f r = bindR r (\<lambda>(x, b). Inr (f x, b))"

fun answer_write ::
  "env \<Rightarrow> uuid \<Rightarrow> actor \<Rightarrow> store_write \<Rightarrow> books \<Rightarrow> api_error + (write_reply \<times> books)" where
  "answer_write e st a (SaveProduct body) b = replied ProductReply (handle_save_product e st a body b)"
| "answer_write e st a (DeleteProduct i) b = replied (\<lambda>_. NoContent) (handle_delete_product e st a i b)"
| "answer_write e st a (RecordMovement body) b =
     replied (\<lambda>_. NoContent) (handle_record_movement e st a body b)"
| "answer_write e st a (RecordSale body) b = replied SaleReply (handle_record_sale e st a body b)"
| "answer_write e st a (VoidSale i) b = replied (\<lambda>_. NoContent) (handle_void_sale e st a i b)"
| "answer_write e st a (RecordExpense body) b = replied ExpenseReply (handle_record_expense e st a body b)"
| "answer_write e st a (DeleteExpense i) b = replied (\<lambda>_. NoContent) (handle_delete_expense e st a i b)"
| "answer_write e st a (RecordWithdrawal body) b =
     replied WithdrawalReply (handle_record_withdrawal e st a body b)"
| "answer_write e st a (DeleteWithdrawal i) b =
     replied (\<lambda>_. NoContent) (handle_delete_withdrawal e st a i b)"
| "answer_write e st a (PushChanges body) b = replied PushReply (handle_push e st a body b)"

text \<open>The path of a call under its store.\<close>

fun write_place :: "(uuid \<Rightarrow> string) \<Rightarrow> store_write \<Rightarrow> http_method \<times> string list" where
  "write_place txt (SaveProduct _) = (POST, [''products''])"
| "write_place txt (DeleteProduct i) = (DELETE, [''products'', txt i])"
| "write_place txt (RecordMovement _) = (POST, [''stock-movements''])"
| "write_place txt (RecordSale _) = (POST, [''sales''])"
| "write_place txt (VoidSale i) = (DELETE, [''sales'', txt i])"
| "write_place txt (RecordExpense _) = (POST, [''expenses''])"
| "write_place txt (DeleteExpense i) = (DELETE, [''expenses'', txt i])"
| "write_place txt (RecordWithdrawal _) = (POST, [''withdrawals''])"
| "write_place txt (DeleteWithdrawal i) = (DELETE, [''withdrawals'', txt i])"
| "write_place txt (PushChanges _) = (POST, [''sync'', ''push''])"

section \<open>Reading\<close>

definition handle_list_products ::
  "env \<Rightarrow> books \<Rightarrow> uuid \<Rightarrow> actor \<Rightarrow> product_filter \<Rightarrow> page_request \<Rightarrow> product_view list" where
  "handle_list_products e b store_id actor flt page = shown_to actor (product_list e b store_id flt page)"

definition handle_low_stock_products :: "env \<Rightarrow> books \<Rightarrow> uuid \<Rightarrow> actor \<Rightarrow> product_view list" where
  "handle_low_stock_products e b store_id actor = shown_to actor (list_low_stock e b store_id)"

definition handle_get_product :: "books \<Rightarrow> uuid \<Rightarrow> actor \<Rightarrow> uuid \<Rightarrow> api_error + product_view" where
  "handle_get_product b store_id actor product_id =
     bindR (product_get b store_id product_id) (\<lambda>product. Inr (hd (shown_to actor [product])))"

definition handle_list_movements ::
  "books \<Rightarrow> uuid \<Rightarrow> actor \<Rightarrow> uuid option \<Rightarrow> page_request \<Rightarrow> api_error + movement_view list" where
  "handle_list_movements b store_id actor product_id page =
     bindR (require actor ViewProfit) (\<lambda>_. Inr (list_movements b store_id product_id page))"

definition handle_inventory_valuation ::
  "env \<Rightarrow> books \<Rightarrow> uuid \<Rightarrow> actor \<Rightarrow> api_error + inventory_valuation" where
  "handle_inventory_valuation e b store_id actor =
     bindR (require actor ViewProfit) (\<lambda>_. valuation e b store_id)"

text \<open>The settings a pull reads with, and its codec.\<close>

record pull_env =
  pn_codec :: cursor_codec
  pn_settle_window :: duration
  pn_page_size :: nat

definition handle_pull :: "env \<Rightarrow> pull_env \<Rightarrow> books \<Rightarrow> uuid \<Rightarrow> actor \<Rightarrow> string option \<Rightarrow> pull_response" where
  "handle_pull e pn b store_id actor cursor =
     pull e (pn_codec pn) (pn_settle_window pn) (pn_page_size pn) store_id actor cursor b"

datatype store_read =
    ListProducts product_filter page_request
  | LowStockProducts
  | GetProduct uuid
  | ListMovements "uuid option" page_request
  | InventoryValuation
  | ListSales sale_filter page_request
  | GetSale uuid
  | ListExpenses expense_filter page_request
  | ListWithdrawals page_request
  | ProfitTrend trend_query
  | TopProducts report_query
  | ExpenseBreakdown report_query
  | UnusualExpenses
  | PeriodicSummary report_query
  | ListActivity "int option" "int option" audit_filter
  | PullChanges "string option"

datatype read_reply =
    ProductsReply "product_view list"
  | OneProductReply product_view
  | MovementsReply "movement_view list"
  | ValuationReply inventory_valuation
  | SalesReply "sale_view list"
  | OneSaleReply sale_detail
  | ExpensesReply "expense_view list"
  | WithdrawalsReply "withdrawal_view list"
  | TrendReply "trend_point list"
  | TopProductsReply "product_performance list"
  | BreakdownReply "expense_slice list"
  | UnusualReply "unusual_expense list"
  | SummaryReply weekly_summary
  | ActivityReply activity_page
  | PullReply pull_response

definition mapR :: "('a \<Rightarrow> 'b) \<Rightarrow> api_error + 'a \<Rightarrow> api_error + 'b" where
  "mapR f r = bindR r (\<lambda>x. Inr (f x))"

text \<open>The handlers run against the books as they are when they read them.\<close>

fun answer_read ::
  "env \<Rightarrow> report_env \<Rightarrow> calendar \<Rightarrow> pull_env \<Rightarrow> books \<Rightarrow> uuid \<Rightarrow> actor \<Rightarrow> store_read \<Rightarrow> api_error + read_reply" where
  "answer_read e rv cal pn b st a (ListProducts flt page) =
     Inr (ProductsReply (handle_list_products e b st a flt page))"
| "answer_read e rv cal pn b st a LowStockProducts = Inr (ProductsReply (handle_low_stock_products e b st a))"
| "answer_read e rv cal pn b st a (GetProduct i) = mapR OneProductReply (handle_get_product b st a i)"
| "answer_read e rv cal pn b st a (ListMovements p page) =
     mapR MovementsReply (handle_list_movements b st a p page)"
| "answer_read e rv cal pn b st a InventoryValuation = mapR ValuationReply (handle_inventory_valuation e b st a)"
| "answer_read e rv cal pn b st a (ListSales flt page) = mapR SalesReply (handle_list_sales b st a flt page)"
| "answer_read e rv cal pn b st a (GetSale i) = mapR OneSaleReply (handle_get_sale e b st a i)"
| "answer_read e rv cal pn b st a (ListExpenses flt page) =
     mapR ExpensesReply (handle_list_expenses b st a flt page)"
| "answer_read e rv cal pn b st a (ListWithdrawals page) =
     mapR WithdrawalsReply (handle_list_withdrawals b st a page)"
| "answer_read e rv cal pn b st a (ProfitTrend q) = mapR TrendReply (handle_profit_trend e rv b st a q)"
| "answer_read e rv cal pn b st a (TopProducts q) = mapR TopProductsReply (handle_top_products e rv cal b st a q)"
| "answer_read e rv cal pn b st a (ExpenseBreakdown q) =
     mapR BreakdownReply (handle_expense_breakdown e rv cal b st a q)"
| "answer_read e rv cal pn b st a UnusualExpenses = mapR UnusualReply (handle_unusual_expenses e rv b st a)"
| "answer_read e rv cal pn b st a (PeriodicSummary q) =
     mapR SummaryReply (handle_periodic_summary e rv cal (\<lambda>_. b) st a q)"
| "answer_read e rv cal pn b st a (ListActivity before limit flt) =
     mapR ActivityReply (list_activity b a st before limit flt)"
| "answer_read e rv cal pn b st a (PullChanges cursor) = Inr (PullReply (handle_pull e pn b st a cursor))"

section \<open>A request's way\<close>

definition store_path :: "string \<Rightarrow> string list \<Rightarrow> string list" where
  "store_path store rest = [''api'', ''v1'', ''stores'', store] @ rest"

definition no_such_route :: api_error where
  "no_such_route = NotFound ''route''"

definition write_request ::
  "env \<Rightarrow> security \<Rightarrow> billing_settings \<Rightarrow> string option \<Rightarrow> string \<Rightarrow> store_write \<Rightarrow> write_reply action" where
  "write_request e sc settings header store call =
     (let (method, rest) = write_place (e_uuid_text e) call; path = store_path store rest
      in bindS (liftS (ok_or (dispatch build_router method path) no_such_route)) (\<lambda>r.
         bindS (store_scope e sc settings (parts_of header r path)) (\<lambda>(store_id, actor).
         transact (\<lambda>db. bindR (answer_write e store_id actor call (cl_books db)) (\<lambda>(reply, b).
           Inr (reply, with_books (\<lambda>_. b) db))))))"

end
