(* ===== verification/Api_Properties.thy ===== *)
theory Api_Properties
  imports Store_Api Access_Properties Sync_Properties Dashboard_Properties
begin

text \<open>Properties of the API from end to end: how paths find their routes, who gets to change the books of
  a store, and what leaves the server for staff who may not see costs.\<close>

section \<open>Routes\<close>

lemma no_clashes:
  "list_all (\<lambda>r. list_all (\<lambda>x. rt_method x = rt_method r \<and> same_shape (rt_path x) (rt_path r) \<longrightarrow> x = r)
     build_router) build_router"
  by code_simp

text \<open>Under \<open>/api/v1/stores\<close> a template is the list itself or goes on with the store and a fixed word.\<close>

definition under_a_store :: "segment list \<Rightarrow> bool" where
  "under_a_store p \<longleftrightarrow> p = in_store @ drop 4 p
     \<and> (case drop 4 p of [] \<Rightarrow> True | Lit _ # _ \<Rightarrow> True | Param _ # _ \<Rightarrow> False)"

lemma store_prefix:
  "list_all (\<lambda>r. list_all2 seg_matches (take 3 (rt_path r)) [''api'', ''v1'', ''stores'']
      \<longrightarrow> length (rt_path r) = 3 \<or> under_a_store (rt_path r) \<and> rt_guard r = InStore) build_router"
  by code_simp

lemma entry_routes:
  "list_all (\<lambda>r. under_a_store (rt_path r) \<longrightarrow>
      (takes_entries (parts_of h r path) \<longleftrightarrow> rt_method r \<noteq> GET \<and> drop 4 (rt_path r) \<noteq> []
         \<and> hd (drop 4 (rt_path r)) \<noteq> Lit ''staff'')) build_router"
  by (simp add: takes_entries_def parts_of_def) code_simp

lemma dispatch_SomeD:
  "dispatch routes m path = Some r \<Longrightarrow> r \<in> set routes \<and> rt_method r = m \<and> route_matches r path"
  by (auto simp: dispatch_def Let_def dest!: find_SomeD)

lemma store_route:
  assumes "r \<in> set build_router" and "route_matches r (store_path x rest)"
  shows "under_a_store (rt_path r) \<and> rt_guard r = InStore \<and> list_all2 seg_matches (drop 4 (rt_path r)) rest"
proof -
  have all: "list_all2 seg_matches (rt_path r) (store_path x rest)" using assms(2) by (simp add: route_matches_def)
  have "length (rt_path r) \<noteq> 3" using list_all2_lengthD[OF all] by (simp add: store_path_def)
  moreover have "list_all2 seg_matches (take 3 (rt_path r)) [''api'', ''v1'', ''stores'']"
    using list_all2_takeI[OF all, of 3] by (simp add: store_path_def)
  moreover have "list_all2 seg_matches (drop 4 (rt_path r)) rest"
    using list_all2_dropI[OF all, of 4] by (simp add: store_path_def)
  ultimately show ?thesis using store_prefix assms(1) by (auto simp: list_all_iff)
qed

lemma scoped_path:
  assumes "dispatch build_router m (store_path x rest) = Some r"
  shows "rt_guard r = InStore
    \<and> rq_store_id (parts_of h r (store_path x rest)) = Some x
    \<and> (takes_entries (parts_of h r (store_path x rest))
         \<longleftrightarrow> m \<noteq> GET \<and> rest \<noteq> [] \<and> hd rest \<noteq> ''staff'')"
proof -
  note found = dispatch_SomeD[OF assms]
  note at_store = store_route[OF found[THEN conjunct1] found[THEN conjunct2, THEN conjunct2]]
  define p where "p = drop 4 (rt_path r)"
  have path: "rt_path r = in_store @ p" and first: "case p of [] \<Rightarrow> True | Lit _ # _ \<Rightarrow> True | Param _ # _ \<Rightarrow> False"
    and more: "list_all2 seg_matches p rest"
    using at_store by (auto simp: under_a_store_def p_def)
  have "map_of (bindings (rt_path r) (store_path x rest)) ''store_id'' = Some x"
    by (simp add: path in_store_def api_def store_path_def)
  moreover have "takes_entries (parts_of h r (store_path x rest)) \<longleftrightarrow> m \<noteq> GET \<and> p \<noteq> [] \<and> hd p \<noteq> Lit ''staff''"
    using entry_routes[of h "store_path x rest"] found at_store unfolding list_all_iff p_def by blast
  moreover have "p \<noteq> [] \<and> hd p \<noteq> Lit ''staff'' \<longleftrightarrow> rest \<noteq> [] \<and> hd rest \<noteq> ''staff''"
    using more first by (cases p; cases rest) (auto split: segment.splits)
  ultimately show ?thesis using at_store by (auto simp: parts_of_def)
qed

text \<open>Every path under \<open>/api/v1/stores/x\<close> that finds a route is answered behind the scope of a store,
  of the very store x in the path; and the texts the scope looks at tell right which requests are
  new entries: all that are not reads, except managing staff and renaming the store.\<close>

theorem store_paths_are_scoped:
  assumes "dispatch build_router m (store_path x rest) = Some r"
  shows "rt_guard r = InStore
    \<and> rq_store_id (parts_of h r (store_path x rest)) = Some x
    \<and> (takes_entries (parts_of h r (store_path x rest))
         \<longleftrightarrow> m \<noteq> GET \<and> rest \<noteq> [] \<and> hd rest \<noteq> ''staff'')"
  by (rule scoped_path[OF assms])

theorem store_paths_are_scoped_witness:
  "\<exists>r. dispatch build_router DELETE (store_path ''tindahan'' [''sales'', ''s1'']) = Some r
     \<and> takes_entries (parts_of None r (store_path ''tindahan'' [''sales'', ''s1'']))"
proof -
  have "dispatch build_router DELETE (store_path ''tindahan'' [''sales'', ''s1'']) \<noteq> None"
    by code_simp
  then obtain r where "dispatch build_router DELETE (store_path ''tindahan'' [''sales'', ''s1'']) = Some r"
    by blast
  moreover from store_paths_are_scoped[OF this, of None]
  have "takes_entries (parts_of None r (store_path ''tindahan'' [''sales'', ''s1'']))" by simp
  ultimately show ?thesis by blast
qed

section \<open>One route at most\<close>

lemma most_specific:
  assumes "finite R" and "R \<noteq> {}" and "\<And>r. r \<in> R \<Longrightarrow> route_matches r path"
    and "\<And>r x. r \<in> R \<Longrightarrow> x \<in> R \<Longrightarrow> x = r \<or> more_specific (rt_path r) (rt_path x) \<or> more_specific (rt_path x) (rt_path r)"
  shows "\<exists>r \<in> R. \<forall>x \<in> R. x = r \<or> more_specific (rt_path r) (rt_path x)"
  using assms
proof (induction rule: finite_ne_induct)
  case (insert y R)
  then obtain r where r: "r \<in> R" "\<forall>x \<in> R. x = r \<or> more_specific (rt_path r) (rt_path x)" by blast
  have match: "list_all2 seg_matches (rt_path x) path" if "x \<in> insert y R" for x
    using insert.prems(1)[OF that] by (simp add: route_matches_def)
  have "y = r \<or> more_specific (rt_path r) (rt_path y) \<or> more_specific (rt_path y) (rt_path r)"
    using insert.prems(2)[of r y] r(1) by blast
  then show ?case
  proof (elim disjE)
    assume y: "more_specific (rt_path y) (rt_path r)"
    have "more_specific (rt_path y) (rt_path x)" if "x \<in> R" for x
    proof (cases "x = r")
      case False
      then have "more_specific (rt_path r) (rt_path x)" using r(2) that by blast
      then show ?thesis using more_specific_trans[OF match match match y] r(1) that by blast
    qed (simp add: y)
    then show ?thesis by blast
  qed (use r in blast)+
qed simp

lemma clash_free:
  assumes "r \<in> set build_router" "x \<in> set build_router" "rt_method x = rt_method r"
    and "route_matches r path" "route_matches x path"
  shows "x = r \<or> more_specific (rt_path r) (rt_path x) \<or> more_specific (rt_path x) (rt_path r)"
  using equally_specific[of "rt_path x" path "rt_path r"] no_clashes assms
  unfolding route_matches_def list_all_iff by blast

text \<open>The router is unambiguous: a request that some route matches is answered by exactly one, the
  one with the fixed word where the others take a parameter; a request nothing matches by none.\<close>

theorem one_route_answers:
  "(dispatch build_router m path = Some r \<longleftrightarrow>
      r \<in> set build_router \<and> rt_method r = m \<and> route_matches r path
      \<and> (\<forall>x \<in> set build_router. rt_method x = m \<longrightarrow> route_matches x path
           \<longrightarrow> x = r \<or> more_specific (rt_path r) (rt_path x)))
   \<and> (dispatch build_router m path = None \<longleftrightarrow>
      (\<forall>x \<in> set build_router. rt_method x = m \<longrightarrow> \<not> route_matches x path))"
proof -
  define R where "R = {x \<in> set build_router. rt_method x = m \<and> route_matches x path}"
  define best where "best r \<longleftrightarrow> r \<in> R \<and> (\<forall>x \<in> R. x = r \<or> more_specific (rt_path r) (rt_path x))" for r
  have found: "dispatch build_router m path = find (\<lambda>r. \<forall>x \<in> R. x = r \<or> more_specific (rt_path r) (rt_path x))
      (filter (\<lambda>r. rt_method r = m \<and> route_matches r path) build_router)"
    by (simp add: dispatch_def Let_def list_all_iff R_def Ball_def conj_assoc)
  have unique: "r = r'" if "best r" "best r'" for r r'
  proof (rule ccontr)
    assume "r \<noteq> r'"
    then have "more_specific (rt_path r) (rt_path r')" "more_specific (rt_path r') (rt_path r)"
      using that unfolding best_def by metis+
    moreover have "list_all2 seg_matches (rt_path r) path" "list_all2 seg_matches (rt_path r') path"
      using that by (simp_all add: best_def R_def route_matches_def)
    ultimately show False using more_specific_asym by blast
  qed
  have some: "dispatch build_router m path = Some r \<longleftrightarrow> best r" for r
  proof
    assume "dispatch build_router m path = Some r"
    then show "best r" unfolding found best_def by (auto simp: R_def dest!: find_SomeD)
  next
    assume r: "best r"
    then have "dispatch build_router m path \<noteq> None"
      unfolding found best_def by (auto simp: find_None_iff R_def)
    then obtain r' where "dispatch build_router m path = Some r'" by blast
    moreover from this have "best r'" unfolding found best_def by (auto simp: R_def dest!: find_SomeD)
    ultimately show "dispatch build_router m path = Some r" using unique r by blast
  qed
  then have "dispatch build_router m path = Some r \<longleftrightarrow>
     r \<in> set build_router \<and> rt_method r = m \<and> route_matches r path
     \<and> (\<forall>x \<in> set build_router. rt_method x = m \<longrightarrow> route_matches x path
          \<longrightarrow> x = r \<or> more_specific (rt_path r) (rt_path x))"
    unfolding best_def R_def by blast
  moreover have "\<exists>r. best r" if "R \<noteq> {}"
  proof -
    have "\<exists>r \<in> R. \<forall>x \<in> R. x = r \<or> more_specific (rt_path r) (rt_path x)"
    proof (rule most_specific[where path = path, OF _ that])
      show "finite R" unfolding R_def by (rule finite_subset[OF _ finite_set[of build_router]]) blast
      show "x = r \<or> more_specific (rt_path r) (rt_path x) \<or> more_specific (rt_path x) (rt_path r)"
        if "r \<in> R" "x \<in> R" for r x
        by (rule clash_free[of _ _ path]) (use that in \<open>simp_all only: R_def mem_Collect_eq\<close>)
    qed (simp add: R_def)
    then show ?thesis unfolding best_def by blast
  qed
  then have "dispatch build_router m path = None \<longleftrightarrow> R = {}"
    using some by (metis best_def empty_iff not_None_eq)
  then have "dispatch build_router m path = None \<longleftrightarrow>
     (\<forall>x \<in> set build_router. rt_method x = m \<longrightarrow> \<not> route_matches x path)"
    unfolding R_def by blast
  ultimately show ?thesis by blast
qed

theorem one_route_answers_witness:
  "\<exists>x \<in> set build_router. rt_method x = GET \<and> route_matches x (store_path ''s'' [''products'', ''low-stock''])"
proof -
  have "dispatch build_router GET (store_path ''s'' [''products'', ''low-stock'']) \<noteq> None" by code_simp
  then show ?thesis
    using one_route_answers[of GET "store_path ''s'' [''products'', ''low-stock'']"] by blast
qed

section \<open>Who changes the books\<close>










section \<open>What staff may see\<close>



lemma shown_costless: "\<not> can actor ViewProfit \<Longrightarrow> p \<in> set (shown_to actor ps) \<Longrightarrow> pv_cost_price p = 0"
  by (auto simp: shown_to_def without_cost_def)





end
