(* ===== verification/Settings.thy ===== *)
theory Settings
  imports Gateway Privacy
begin

text \<open>
  \<^verbatim>\<open>backend/src/config\<close>: the settings a server reads from its environment. A variable is \<open>None\<close> when
  it is unset or not Unicode. Reading fails at the first setting that is missing or does not
  parse, in the order the code reads them; a value chrono cannot hold as a duration panics.
\<close>

type_synonym environment = "string \<Rightarrow> string option"

datatype boot_error =
    MissingVariable string
  | InvalidValue string
  | ShortSecret
  | UnknownBilling string
  | BadAddress
  | OutOfBounds

section \<open>Variables\<close>

definition required_var :: "environment \<Rightarrow> string \<Rightarrow> boot_error + string" where
  "required_var vars key = ok_or (vars key) (MissingVariable key)"

definition optional_var :: "environment \<Rightarrow> string \<Rightarrow> string \<Rightarrow> string" where
  "optional_var vars key fallback =
     (case vars key of None \<Rightarrow> fallback | Some v \<Rightarrow> if trim v = [] then fallback else v)"

definition parsed_var ::
  "(string \<Rightarrow> 'a option) \<Rightarrow> environment \<Rightarrow> string \<Rightarrow> 'a \<Rightarrow> boot_error + 'a" where
  "parsed_var parse vars key fallback =
     (case vars key of
        None \<Rightarrow> Inr fallback
      | Some raw \<Rightarrow> if trim raw = [] then Inr fallback else ok_or (parse (trim raw)) (InvalidValue key))"

text \<open>The standard library's \<open>FromStr\<close>: an optional sign (a minus for signed types only), then
  decimal digits, in the range of the type; and the two words for a bool.\<close>

definition digit_of :: "char \<Rightarrow> int option" where
  "digit_of c = (let n = (of_char c :: int) in if 48 \<le> n \<and> n \<le> 57 then Some (n - 48) else None)"

fun digits_value :: "int \<Rightarrow> string \<Rightarrow> int option" where
  "digits_value acc [] = Some acc"
| "digits_value acc (c # s) =
     (case digit_of c of None \<Rightarrow> None | Some d \<Rightarrow> digits_value (acc * 10 + d) s)"

definition parse_digits :: "string \<Rightarrow> int option" where
  "parse_digits s = (if s = [] then None else digits_value 0 s)"

definition parse_between :: "int \<Rightarrow> int \<Rightarrow> string \<Rightarrow> int option" where
  "parse_between lo hi s =
     Option.bind
       (case s of
          [] \<Rightarrow> None
        | c # r \<Rightarrow>
            if c = CHR ''+'' then parse_digits r
            else if c = CHR ''-'' \<and> lo < 0 then map_option uminus (parse_digits r)
            else parse_digits s)
       (\<lambda>n. if lo \<le> n \<and> n \<le> hi then Some n else None)"

definition parse_u16 :: "string \<Rightarrow> int option" where "parse_u16 = parse_between 0 65535"
definition parse_u32 :: "string \<Rightarrow> int option" where "parse_u32 = parse_between 0 (2 ^ 32 - 1)"
definition parse_u64 :: "string \<Rightarrow> int option" where "parse_u64 = parse_between 0 (2 ^ 64 - 1)"
definition parse_i64 :: "string \<Rightarrow> int option" where
  "parse_i64 = parse_between (- (2 ^ 63)) (2 ^ 63 - 1)"

definition parse_bool :: "string \<Rightarrow> bool option" where
  "parse_bool s = (if s = ''true'' then Some True else if s = ''false'' then Some False else None)"

text \<open>chrono's \<open>Duration::days\<close> and \<open>Duration::minutes\<close> panic when the milliseconds do not fit an i64.\<close>

definition chrono_seconds :: "int \<Rightarrow> boot_error + duration" where
  "chrono_seconds n =
     bindR (ensure (- 9223372036854775 \<le> n \<and> n \<le> 9223372036854775) OutOfBounds)
       (\<lambda>_. Inr (n * usec_per_second))"

definition days_var :: "environment \<Rightarrow> string \<Rightarrow> int \<Rightarrow> boot_error + duration" where
  "days_var vars key fallback =
     bindR (parsed_var parse_i64 vars key fallback) (\<lambda>n. chrono_seconds (n * 86400))"

definition minutes_var :: "environment \<Rightarrow> string \<Rightarrow> int \<Rightarrow> boot_error + duration" where
  "minutes_var vars key fallback =
     bindR (parsed_var parse_i64 vars key fallback) (\<lambda>n. chrono_seconds (n * 60))"

text \<open>\<open>str::len\<close> counts the bytes of the UTF-8 text.\<close>

definition utf8_length :: "string \<Rightarrow> nat" where
  "utf8_length s = (\<Sum>c\<leftarrow>s. if (of_char c :: nat) < 128 then 1 else 2)"

section \<open>The settings\<close>

record server_settings =
  vs_bind_address :: string
  vs_allowed_origins :: "string list"
  vs_request_timeout_seconds :: int
  vs_max_body_bytes :: int
  vs_realtime_keepalive :: duration

definition split_origins :: "string \<Rightarrow> string list" where
  "split_origins raw = filter (\<lambda>s. s \<noteq> []) (map trim (split_on CHR '','' raw))"

definition allows_any_origin :: "server_settings \<Rightarrow> bool" where
  "allows_any_origin settings = list_ex (\<lambda>s. s = ''*'') (vs_allowed_origins settings)"

text \<open>\<open>address_ok\<close> says which texts are socket addresses.\<close>

definition server_from_environment ::
  "(string \<Rightarrow> bool) \<Rightarrow> environment \<Rightarrow> boot_error + server_settings" where
  "server_from_environment address_ok vars =
     (let host = optional_var vars ''KITAZA_HOST'' ''0.0.0.0''
      in bindR (parsed_var parse_u16 vars ''KITAZA_PORT'' 8080) (\<lambda>port.
         let address = host @ '':'' @ show_int port
         in bindR (ensure (address_ok address) BadAddress) (\<lambda>_.
         bindR (parsed_var parse_u64 vars ''KITAZA_REQUEST_TIMEOUT_SECONDS'' 20) (\<lambda>timeout.
         bindR (parsed_var parse_u64 vars ''KITAZA_MAX_BODY_BYTES'' (2 * 1024 * 1024)) (\<lambda>max_body.
         bindR (parsed_var parse_u64 vars ''KITAZA_REALTIME_KEEPALIVE_SECONDS'' 25) (\<lambda>keepalive.
         Inr \<lparr>vs_bind_address = address,
              vs_allowed_origins = split_origins (optional_var vars ''KITAZA_ALLOWED_ORIGINS'' ''*''),
              vs_request_timeout_seconds = timeout, vs_max_body_bytes = max_body,
              vs_realtime_keepalive = keepalive * usec_per_second\<rparr>))))))"

record database_settings =
  db_url :: string
  db_max_connections :: int
  db_min_connections :: int
  db_acquire_timeout :: duration
  db_run_migrations_on_boot :: bool

definition database_from_environment :: "environment \<Rightarrow> boot_error + database_settings" where
  "database_from_environment vars =
     bindR (required_var vars ''DATABASE_URL'') (\<lambda>url.
     bindR (parsed_var parse_u32 vars ''DATABASE_MAX_CONNECTIONS'' 20) (\<lambda>most.
     bindR (parsed_var parse_u32 vars ''DATABASE_MIN_CONNECTIONS'' 2) (\<lambda>least.
     bindR (parsed_var parse_u64 vars ''DATABASE_ACQUIRE_TIMEOUT_SECONDS'' 8) (\<lambda>timeout.
     bindR (parsed_var parse_bool vars ''DATABASE_AUTO_MIGRATE'' True) (\<lambda>migrate.
     Inr \<lparr>db_url = url, db_max_connections = most, db_min_connections = least,
          db_acquire_timeout = timeout * usec_per_second, db_run_migrations_on_boot = migrate\<rparr>)))))"

record redis_settings =
  rd_url :: string
  rd_dashboard_cache_ttl_seconds :: int
  rd_login_attempt_limit :: int
  rd_login_attempt_window_seconds :: int

definition redis_from_environment :: "environment \<Rightarrow> boot_error + redis_settings" where
  "redis_from_environment vars =
     bindR (parsed_var parse_u64 vars ''REDIS_DASHBOARD_TTL_SECONDS'' 30) (\<lambda>ttl.
     bindR (parsed_var parse_u32 vars ''REDIS_LOGIN_ATTEMPT_LIMIT'' 10) (\<lambda>limit.
     bindR (parsed_var parse_u64 vars ''REDIS_LOGIN_ATTEMPT_WINDOW_SECONDS'' 300) (\<lambda>window.
     Inr \<lparr>rd_url = optional_var vars ''REDIS_URL'' ''redis://127.0.0.1:6379'',
          rd_dashboard_cache_ttl_seconds = ttl, rd_login_attempt_limit = limit,
          rd_login_attempt_window_seconds = window\<rparr>)))"

record security_settings =
  ss_jwt_secret :: string
  ss_access_token_lifetime :: duration
  ss_refresh_token_lifetime :: duration

definition security_from_environment :: "environment \<Rightarrow> boot_error + security_settings" where
  "security_from_environment vars =
     bindR (required_var vars ''KITAZA_JWT_SECRET'') (\<lambda>secret.
     bindR (ensure (32 \<le> utf8_length secret) ShortSecret) (\<lambda>_.
     bindR (minutes_var vars ''KITAZA_ACCESS_TOKEN_MINUTES'' 60) (\<lambda>access.
     bindR (days_var vars ''KITAZA_REFRESH_TOKEN_DAYS'' 180) (\<lambda>refresh.
     Inr \<lparr>ss_jwt_secret = secret, ss_access_token_lifetime = access,
          ss_refresh_token_lifetime = refresh\<rparr>))))"

record sync_settings =
  sy_settle_window :: duration
  sy_page_size :: int

definition sync_from_environment :: "environment \<Rightarrow> boot_error + sync_settings" where
  "sync_from_environment vars =
     bindR (parsed_var parse_u64 vars ''KITAZA_SYNC_SETTLE_MS'' 2000) (\<lambda>settle.
     bindR (parsed_var parse_i64 vars ''KITAZA_SYNC_PAGE_SIZE'' 500) (\<lambda>page.
     Inr \<lparr>sy_settle_window = settle * 1000, sy_page_size = page\<rparr>))"

definition billing_mode_from_environment :: "environment \<Rightarrow> boot_error + billing_mode" where
  "billing_mode_from_environment vars =
     (let mode = to_lowercase (optional_var vars ''KITAZA_BILLING'' ''off'')
      in if mode = ''off'' then Inr BillingOff
         else if mode = ''test'' then Inr BillingTest
         else if mode = ''paymongo'' then
           bindR (required_var vars ''KITAZA_PAYMONGO_SECRET_KEY'') (\<lambda>secret.
           bindR (required_var vars ''KITAZA_PAYMONGO_WEBHOOK_SECRET'') (\<lambda>webhook.
           Inr (BillingPayMongo secret webhook)))
         else Inl (UnknownBilling mode))"

definition trim_slashes :: "string \<Rightarrow> string" where
  "trim_slashes s = rev (dropWhile (\<lambda>c. c = CHR ''/'') (rev s))"

definition billing_from_environment :: "environment \<Rightarrow> boot_error + billing_settings" where
  "billing_from_environment vars =
     bindR (billing_mode_from_environment vars) (\<lambda>mode.
     bindR (days_var vars ''KITAZA_TRIAL_DAYS'' 30) (\<lambda>trial.
     bindR (days_var vars ''KITAZA_GRACE_DAYS'' 7) (\<lambda>grace.
     Inr \<lparr>bs_mode = mode,
          bs_public_url = trim_slashes (optional_var vars ''KITAZA_PUBLIC_URL'' ''http://localhost:8080''),
          bs_trial = trial, bs_grace = grace\<rparr>)))"

record privacy_settings =
  vy_deletion_grace :: duration
  vy_retention :: retention_policy

definition privacy_from_environment :: "environment \<Rightarrow> boot_error + privacy_settings" where
  "privacy_from_environment vars =
     bindR (days_var vars ''KITAZA_DELETION_GRACE_DAYS'' 30) (\<lambda>grace.
     bindR (days_var vars ''KITAZA_KEEP_ERROR_REPORTS_DAYS'' 90) (\<lambda>reports.
     bindR (days_var vars ''KITAZA_KEEP_ACTIVITY_DAYS'' 730) (\<lambda>activity.
     bindR (days_var vars ''KITAZA_KEEP_DEVICES_DAYS'' 365) (\<lambda>devices.
     Inr \<lparr>vy_deletion_grace = grace,
          vy_retention = default_retention\<lparr>rp_error_reports := reports, rp_activity := activity,
            rp_dormant_sessions := devices\<rparr>\<rparr>))))"

record app_settings =
  ps_server :: server_settings
  ps_database :: database_settings
  ps_redis :: redis_settings
  ps_security :: security_settings
  ps_sync :: sync_settings
  ps_billing :: billing_settings
  ps_privacy :: privacy_settings

definition settings_from_environment ::
  "(string \<Rightarrow> bool) \<Rightarrow> environment \<Rightarrow> boot_error + app_settings" where
  "settings_from_environment address_ok vars =
     bindR (server_from_environment address_ok vars) (\<lambda>server.
     bindR (database_from_environment vars) (\<lambda>database.
     bindR (redis_from_environment vars) (\<lambda>redis.
     bindR (security_from_environment vars) (\<lambda>security.
     bindR (sync_from_environment vars) (\<lambda>sync.
     bindR (billing_from_environment vars) (\<lambda>billing.
     bindR (privacy_from_environment vars) (\<lambda>privacy.
     Inr \<lparr>ps_server = server, ps_database = database, ps_redis = redis, ps_security = security,
          ps_sync = sync, ps_billing = billing, ps_privacy = privacy\<rparr>)))))))"

end
