(* ===== verification/Application.thy ===== *)
theory Application
  imports Settings Store_Api Identity Dashboard_Cache Benchmarks Realtime
begin

text \<open>
  \<^verbatim>\<open>application\<close> and \<^verbatim>\<open>main.rs\<close>: how the settings become the services, the layers around the
  router, the health checks and the order in which the server starts.
\<close>

section \<open>Services\<close>

text \<open>What the code calls in other crates, and what each Redis command of one call would do.\<close>

record libraries =
  li_email_ok :: "string \<Rightarrow> bool"
  li_crypto :: crypto
  li_encode :: "string \<Rightarrow> access_claims \<Rightarrow> string option"
  li_decode :: "string \<Rightarrow> instant \<Rightarrow> string \<Rightarrow> access_claims option"
  li_parse_uuid :: "string \<Rightarrow> uuid option"
  li_codec :: cursor_codec

record redis_answers =
  ra_incr_ok :: bool
  ra_expire_ok :: bool
  ra_get_ok :: bool
  ra_write_ok :: bool
  ra_members_ok :: bool
  ra_delete_ok :: bool

definition token_issuer_new :: "libraries \<Rightarrow> security_settings \<Rightarrow> security" where
  "token_issuer_new lib settings =
     \<lparr>sc_lifetime = ss_access_token_lifetime settings,
      sc_encode = li_encode lib (ss_jwt_secret settings),
      sc_decode = li_decode lib (ss_jwt_secret settings),
      sc_parse_uuid = li_parse_uuid lib\<rparr>"

definition rate_limiter_new :: "bool \<Rightarrow> int \<Rightarrow> int \<Rightarrow> redis_answers \<Rightarrow> limiter" where
  "rate_limiter_new cache limit window_seconds ra =
     \<lparr>lm_connected = cache, lm_incr_ok = ra_incr_ok ra, lm_expire_ok = ra_expire_ok ra,
      lm_limit = limit, lm_window_seconds = window_seconds\<rparr>"

definition dashboard_cache_new :: "bool \<Rightarrow> int \<Rightarrow> redis_answers \<Rightarrow> cache_handle" where
  "dashboard_cache_new cache ttl_seconds ra =
     \<lparr>ca_connected = cache, ca_get_ok = ra_get_ok ra, ca_write_ok = ra_write_ok ra,
      ca_members_ok = ra_members_ok ra, ca_delete_ok = ra_delete_ok ra, ca_ttl_seconds = ttl_seconds\<rparr>"

text \<open>The services that hold nothing but the pool are the functions of their theories.\<close>

record app_state =
  as_cache_enabled :: bool
  as_token_issuer :: security
  as_broadcaster :: broadcaster
  as_session_directory :: "(uuid \<times> instant \<times> actor option) list"
  as_store_directory :: "(uuid \<times> uuid) set"
  as_auth_service :: "redis_answers \<Rightarrow> auth_env"
  as_billing_service :: billing_settings
  as_privacy_service :: duration
  as_benchmark_service :: median_cache
  as_dashboard_cache :: "redis_answers \<Rightarrow> cache_handle"
  as_sync_service :: pull_env
  as_diagnostics_service :: "redis_answers \<Rightarrow> limiter"

definition assemble :: "libraries \<Rightarrow> app_settings \<Rightarrow> bool \<Rightarrow> app_state" where
  "assemble lib settings cache =
     (let redis = ps_redis settings;
          rate_limiter = rate_limiter_new cache (rd_login_attempt_limit redis)
            (rd_login_attempt_window_seconds redis);
          token_issuer = token_issuer_new lib (ps_security settings)
      in \<lparr>as_cache_enabled = cache,
          as_token_issuer = token_issuer,
          as_broadcaster = broadcaster_new,
          as_session_directory = [],
          as_store_directory = {},
          as_auth_service = (\<lambda>ra.
            \<lparr>ae_email_ok = li_email_ok lib, ae_crypto = li_crypto lib, ae_security = token_issuer,
             ae_limiter = rate_limiter ra, ae_billing = ps_billing settings,
             ae_refresh_lifetime = ss_refresh_token_lifetime (ps_security settings)\<rparr>),
          as_billing_service = ps_billing settings,
          as_privacy_service = vy_deletion_grace (ps_privacy settings),
          as_benchmark_service = [],
          as_dashboard_cache = dashboard_cache_new cache (rd_dashboard_cache_ttl_seconds redis),
          as_sync_service =
            \<lparr>pn_codec = li_codec lib, pn_settle_window = sy_settle_window (ps_sync settings),
             pn_page_size = nat (sy_page_size (ps_sync settings))\<rparr>,
          as_diagnostics_service = rate_limiter_new cache 30 3600\<rparr>)"

text \<open>The server the requests meet: the database and the counters in Redis outlive the process, the
  directories start empty.\<close>

definition server_of ::
  "app_state \<Rightarrow> cloud \<Rightarrow> (string \<times> int \<times> instant option) list \<Rightarrow> server" where
  "server_of app db attempts =
     \<lparr>sv_db = db, sv_remembered = as_session_directory app, sv_confirmed = as_store_directory app,
      sv_attempts = attempts\<rparr>"

section \<open>Layers\<close>

text \<open>\<open>header_ok\<close> says which texts are header values.\<close>

datatype allowed_origin = AnyOrigin | OriginList "string list"

record cors_policy =
  co_methods :: "string list"
  co_headers :: "string list"
  co_max_age_seconds :: int
  co_origin :: allowed_origin
  co_credentials :: bool

definition cors_layer :: "(string \<Rightarrow> bool) \<Rightarrow> server_settings \<Rightarrow> cors_policy" where
  "cors_layer header_ok settings =
     (let base = \<lparr>co_methods = [''GET'', ''POST'', ''PATCH'', ''DELETE'', ''OPTIONS''],
                  co_headers = [''authorization'', ''content-type''], co_max_age_seconds = 3600,
                  co_origin = OriginList [], co_credentials = False\<rparr>
      in if allows_any_origin settings then base\<lparr>co_origin := AnyOrigin\<rparr>
         else base\<lparr>co_origin := OriginList (filter header_ok (vs_allowed_origins settings)),
                   co_credentials := True\<rparr>)"

record layered_router =
  lr_routes :: "route list"
  lr_realtime_keepalive :: duration
  lr_timeout_seconds :: int
  lr_max_body_bytes :: int
  lr_cors :: cors_policy

definition layered :: "(string \<Rightarrow> bool) \<Rightarrow> server_settings \<Rightarrow> layered_router" where
  "layered header_ok settings =
     \<lparr>lr_routes = build_router, lr_realtime_keepalive = vs_realtime_keepalive settings,
      lr_timeout_seconds = vs_request_timeout_seconds settings,
      lr_max_body_bytes = vs_max_body_bytes settings, lr_cors = cors_layer header_ok settings\<rparr>"

section \<open>Health\<close>

record health_report =
  hr_status :: string
  hr_version :: string
  hr_database :: string
  hr_cache :: string

definition liveness :: string where
  "liveness = ''ok''"

definition readiness :: "string \<Rightarrow> bool \<Rightarrow> app_state \<Rightarrow> nat \<times> health_report" where
  "readiness version database_up app =
     (let status_code = (if database_up then 200 else 503)
      in (status_code,
          \<lparr>hr_status = (if database_up then ''ready'' else ''degraded''), hr_version = version,
           hr_database = (if database_up then ''up'' else ''down''),
           hr_cache = (if as_cache_enabled app then ''up'' else ''disabled'')\<rparr>))"

section \<open>Starting\<close>

text \<open>What the services around the process answer while it starts.\<close>

record surroundings =
  su_pool_opens :: bool
  su_migrations_run :: bool
  su_cache :: connect_outcome
  su_bind_ok :: bool

datatype start_error = BadSettings boot_error | NoDatabase | FailedMigration | NoListener

record running =
  rn_state :: app_state
  rn_router :: layered_router
  rn_retention :: retention_policy
  rn_bridge :: "string option"

definition run_server ::
  "libraries \<Rightarrow> (string \<Rightarrow> bool) \<Rightarrow> surroundings \<Rightarrow> app_settings \<Rightarrow> start_error + running" where
  "run_server lib header_ok su settings =
     bindR (ensure (su_pool_opens su) NoDatabase) (\<lambda>_.
     bindR (if db_run_migrations_on_boot (ps_database settings)
            then ensure (su_migrations_run su) FailedMigration else Inr ()) (\<lambda>_.
     let cache = connect_cache (su_cache su);
         state = assemble lib settings cache
     in bindR (ensure (su_bind_ok su) NoListener) (\<lambda>_.
        Inr \<lparr>rn_state = state, rn_router = layered header_ok (ps_server settings),
             rn_retention = vy_retention (ps_privacy settings),
             rn_bridge = (if as_cache_enabled state then Some (rd_url (ps_redis settings)) else None)\<rparr>)))"

definition boot_main ::
  "libraries \<Rightarrow> (string \<Rightarrow> bool) \<Rightarrow> (string \<Rightarrow> bool) \<Rightarrow> surroundings \<Rightarrow> environment
    \<Rightarrow> start_error + running" where
  "boot_main lib address_ok header_ok su vars =
     (case settings_from_environment address_ok vars of
        Inl err \<Rightarrow> Inl (BadSettings err)
      | Inr settings \<Rightarrow> run_server lib header_ok su settings)"

end
