(* ===== verification/Account_Api.thy ===== *)
theory Account_Api
  imports Application
begin

text \<open>
  The handlers of an account outside the books (\<^verbatim>\<open>billing_handlers.rs\<close>, \<^verbatim>\<open>privacy_handlers.rs\<close>,
  \<^verbatim>\<open>store_handlers.rs\<close>, \<^verbatim>\<open>device_handlers.rs\<close>, \<^verbatim>\<open>diagnostics_handlers.rs\<close>, \<^verbatim>\<open>me\<close>), on the services of
  an assembled server, and a request's way to them: its route, the extractor of its handler, the
  parsed body.
\<close>

section \<open>Handlers\<close>

definition mapS :: "('a \<Rightarrow> 'b) \<Rightarrow> 'a action \<Rightarrow> 'b action" where
  "mapS f m = bindS m (\<lambda>x. liftS (Inr (f x)))"

record record_consent_request =
  rq_document :: legal_document
  rq_version :: string

definition record_consent_issues :: "record_consent_request \<Rightarrow> (string \<times> string option) list" where
  "record_consent_issues r = length_issue ''version'' 1 40 ''is required'' (rq_version r)"

definition handle_overview :: "env \<Rightarrow> app_state \<Rightarrow> actor \<Rightarrow> billing_overview action" where
  "handle_overview e app owner =
     readS (\<lambda>db. Inr (overview e (as_billing_service app) db (ac_owner_id owner)))"

definition handle_privacy_state :: "env \<Rightarrow> actor \<Rightarrow> privacy_state action" where
  "handle_privacy_state e owner = readS (\<lambda>db. Inr (privacy_state_of e db (ac_owner_id owner)))"

definition handle_record_consent :: "env \<Rightarrow> actor \<Rightarrow> string + record_consent_request \<Rightarrow> unit action" where
  "handle_record_consent e owner body =
     bindS (liftS (validated_json body record_consent_issues)) (\<lambda>request.
       privacy_record e (ac_owner_id owner) (rq_document request) (rq_version request))"

definition handle_export_account :: "env \<Rightarrow> actor \<Rightarrow> account_export action" where
  "handle_export_account e owner = readS (\<lambda>db. Inr (export_account e db (ac_owner_id owner)))"

definition handle_request_deletion :: "env \<Rightarrow> app_state \<Rightarrow> actor \<Rightarrow> deletion_state action" where
  "handle_request_deletion e app owner =
     transact (request_deletion e (ac_owner_id owner) (as_privacy_service app))"

definition handle_cancel_deletion :: "actor \<Rightarrow> unit action" where
  "handle_cancel_deletion owner = modifyS (with_db (cancel_deletion (ac_owner_id owner)))"

definition handle_list_devices :: "env \<Rightarrow> actor \<Rightarrow> device_view list action" where
  "handle_list_devices e owner = readS (\<lambda>db. Inr (list_devices e db owner))"

definition handle_report_errors ::
  "env \<Rightarrow> app_state \<Rightarrow> redis_answers \<Rightarrow> actor \<Rightarrow> string + error_report_payload list \<Rightarrow> nat action" where
  "handle_report_errors e app ra actor body =
     report_errors e (as_diagnostics_service app ra) (ac_owner_id actor) body"

definition handle_me :: "env \<Rightarrow> app_state \<Rightarrow> redis_answers \<Rightarrow> actor \<Rightarrow> account_view action" where
  "handle_me e app ra actor = readS (account_of e (as_auth_service app ra) actor)"

section \<open>Calls\<close>

datatype account_call =
    BillingOverview
  | StartCheckout "string + checkout_request_body"
  | PrivacyOverview
  | GiveConsent "string + record_consent_request"
  | ExportEverything
  | AskDeletion
  | CancelDeletion
  | AddStore "string + create_store_request"
  | ListDevices
  | SignOutDevice uuid
  | ReportErrors "string + error_report_payload list"
  | WhoAmI

datatype account_reply =
    OverviewReply billing_overview
  | CheckoutReply checkout_view
  | PrivacyReply privacy_state
  | ExportReply account_export
  | DeletionReply deletion_state
  | StoreReply store_summary
  | DevicesReply "device_view list"
  | AcceptedReply nat
  | AccountReply account_view
  | DoneReply

fun answer_account ::
  "env \<Rightarrow> gateway_env \<Rightarrow> app_state \<Rightarrow> redis_answers \<Rightarrow> actor \<Rightarrow> account_call \<Rightarrow> account_reply action" where
  "answer_account e ge app ra a BillingOverview = mapS OverviewReply (handle_overview e app a)"
| "answer_account e ge app ra a (StartCheckout body) =
     mapS CheckoutReply (handle_checkout e ge (as_billing_service app) a body)"
| "answer_account e ge app ra a PrivacyOverview = mapS PrivacyReply (handle_privacy_state e a)"
| "answer_account e ge app ra a (GiveConsent body) = mapS (\<lambda>_. DoneReply) (handle_record_consent e a body)"
| "answer_account e ge app ra a ExportEverything = mapS ExportReply (handle_export_account e a)"
| "answer_account e ge app ra a AskDeletion = mapS DeletionReply (handle_request_deletion e app a)"
| "answer_account e ge app ra a CancelDeletion = mapS (\<lambda>_. DoneReply) (handle_cancel_deletion a)"
| "answer_account e ge app ra a (AddStore body) =
     mapS StoreReply (create_store e (as_billing_service app) a body)"
| "answer_account e ge app ra a ListDevices = mapS DevicesReply (handle_list_devices e a)"
| "answer_account e ge app ra a (SignOutDevice i) = mapS (\<lambda>_. DoneReply) (revoke_device e a i)"
| "answer_account e ge app ra a (ReportErrors body) =
     mapS AcceptedReply (handle_report_errors e app ra a body)"
| "answer_account e ge app ra a WhoAmI = mapS AccountReply (handle_me e app ra a)"

fun account_place :: "(uuid \<Rightarrow> string) \<Rightarrow> account_call \<Rightarrow> http_method \<times> string list" where
  "account_place txt BillingOverview = (GET, [''billing''])"
| "account_place txt (StartCheckout _) = (POST, [''billing'', ''checkout''])"
| "account_place txt PrivacyOverview = (GET, [''account'', ''privacy''])"
| "account_place txt (GiveConsent _) = (POST, [''account'', ''consent''])"
| "account_place txt ExportEverything = (GET, [''account'', ''export''])"
| "account_place txt AskDeletion = (POST, [''account'', ''deletion''])"
| "account_place txt CancelDeletion = (DELETE, [''account'', ''deletion''])"
| "account_place txt (AddStore _) = (POST, [''stores''])"
| "account_place txt ListDevices = (GET, [''devices''])"
| "account_place txt (SignOutDevice i) = (DELETE, [''devices'', txt i])"
| "account_place txt (ReportErrors _) = (POST, [''diagnostics'', ''errors''])"
| "account_place txt WhoAmI = (GET, [''auth'', ''me''])"

definition extract_actor :: "env \<Rightarrow> security \<Rightarrow> guard \<Rightarrow> string option \<Rightarrow> actor action" where
  "extract_actor e sc g header =
     (if g = OwnerOnly then current_owner e sc header else current_actor e sc header)"

definition account_path :: "string list \<Rightarrow> string list" where
  "account_path rest = [''api'', ''v1''] @ rest"

definition account_request ::
  "env \<Rightarrow> gateway_env \<Rightarrow> app_state \<Rightarrow> redis_answers \<Rightarrow> string option \<Rightarrow> account_call
    \<Rightarrow> account_reply action" where
  "account_request e ge app ra header call =
     (let (method, rest) = account_place (e_uuid_text e) call; path = account_path rest
      in bindS (liftS (ok_or (dispatch build_router method path) no_such_route)) (\<lambda>r.
         bindS (extract_actor e (as_token_issuer app) (rt_guard r) header) (\<lambda>actor.
           answer_account e ge app ra actor call)))"

end
