(* ===== verification/Account_Api_Properties.thy ===== *)
theory Account_Api_Properties
  imports Account_Api Access_Properties
begin

text \<open>
  Whose rows the requests of an account touch: the caller's own, and for staff only what their phone
  reports of its crashes.
\<close>

section \<open>The rows of one owner\<close>

definition session_ids :: "uuid \<Rightarrow> cloud \<Rightarrow> uuid set" where
  "session_ids o' db = ds_id ` {d \<in> set (cl_sessions db). ds_owner d = o'}"

text \<open>Every table of the account, without the reports that are past the time they are kept for.\<close>

definition rows_of ::
  "instant \<Rightarrow> uuid \<Rightarrow> cloud \<Rightarrow> owner_row list \<times> store_row list \<times> subscription_row list \<times> payment_row list
    \<times> device_row list \<times> token_row list \<times> consent_row list \<times> report_row list \<times> audit_row list" where
  "rows_of kept_since o' db =
     (filter (\<lambda>r. ow_id r = o') (cl_owners db), filter (\<lambda>r. st_owner r = o') (cl_stores db),
      filter (\<lambda>r. sb_owner r = o') (cl_subscriptions db), filter (\<lambda>r. py_owner r = o') (cl_payments db),
      filter (\<lambda>r. ds_owner r = o') (cl_sessions db),
      filter (\<lambda>r. rt_session r \<in> session_ids o' db) (cl_tokens db),
      filter (\<lambda>r. cn_owner r = o') (cl_consents db),
      filter (\<lambda>r. er_owner r = o' \<and> kept_since \<le> er_last_seen r) (cl_reports db),
      filter (\<lambda>r. ar_owner_id r = o') (bk_audit (cl_books db)))"

text \<open>What no request of an account touches: the people of the stores, and the books.\<close>

definition stores_rows ::
  "cloud \<Rightarrow> staff_row list \<times> invite_row list \<times> product_row list \<times> movement_row list \<times> sale_row list
    \<times> item_row list \<times> expense_row list \<times> withdrawal_row list \<times> realtime_event list" where
  "stores_rows db =
     (cl_staff db, cl_invites db, bk_products (cl_books db), bk_movements (cl_books db),
      bk_sales (cl_books db), bk_items (cl_books db), bk_expenses (cl_books db),
      bk_withdrawals (cl_books db), bk_events (cl_books db))"

definition untouched :: "instant \<Rightarrow> uuid \<Rightarrow> cloud \<Rightarrow> cloud \<Rightarrow> bool" where
  "untouched t o' db db' \<longleftrightarrow> rows_of t o' db' = rows_of t o' db \<and> stores_rows db' = stores_rows db"

lemmas row_defs = untouched_def rows_of_def stores_rows_def session_ids_def

lemma untouched_refl [simp]: "untouched t o' db db"
  by (simp add: untouched_def)


section \<open>One statement\<close>

lemma untouched_drawn [simp]: "untouched t o' db0 (drawn db) = untouched t o' db0 db"
  by (simp add: row_defs drawn_def with_books_def)

















section \<open>One request\<close>
























end
