(* ===== verification/Boot_Properties.thy ===== *)
theory Boot_Properties
  imports Application Access_Properties
begin

text \<open>
  Properties of the start: how numbers are read from the environment, which environments the server
  starts with, what holds of a server that has started, and that crash reports lock nobody out.
\<close>

section \<open>Numbers\<close>

lemma digit_of_char [simp]: "d < 10 \<Longrightarrow> digit_of (char_of (48 + d :: nat)) = Some (int d)"
proof -
  have "list_all (\<lambda>d. digit_of (char_of (48 + d)) = Some (int d)) [0..<10]" by code_simp
  then show "d < 10 \<Longrightarrow> ?thesis" by (simp add: list_all_iff)
qed

lemma digit_plain:
  assumes "digit_of c \<noteq> None"
  shows "\<not> is_whitespace c" "c \<noteq> CHR ''+''" "c \<noteq> CHR ''-''"
proof -
  have "int (of_char c) = of_char c" by (rule of_nat_of_char)
  then have "48 \<le> (of_char c :: nat)" "(of_char c :: nat) \<le> 57"
    using assms by (simp_all add: digit_of_def Let_def split: if_splits)
  then show "\<not> is_whitespace c" "c \<noteq> CHR ''+''" "c \<noteq> CHR ''-''" by (auto simp: is_whitespace_def)
qed

lemma digits_value_append:
  "digits_value acc (s @ t) = Option.bind (digits_value acc s) (\<lambda>a. digits_value a t)"
  by (induction s arbitrary: acc) (auto split: option.split)

lemma digits_value_show: "digits_value 0 (show_nat n) = Some (int n)"
proof (induction n rule: show_nat.induct)
  case (1 n)
  show ?case
  proof (cases "n < 10")
    case False
    then have "digits_value 0 (show_nat (n div 10)) = Some (int (n div 10))" by (rule 1)
    then show ?thesis using False
      by (subst show_nat.simps) (simp add: digits_value_append zdiv_int zmod_int)
  qed (subst show_nat.simps, simp)
qed

lemma show_nat_shape: "list_all (\<lambda>c. digit_of c \<noteq> None) (show_nat n) \<and> show_nat n \<noteq> []"
proof (induction n rule: show_nat.induct)
  case (1 n)
  have "n mod 10 < 10" by simp
  note digit_of_char[OF this]
  then show ?case using 1 by (cases "n < 10") (simp_all add: show_nat.simps[of n])
qed

lemma show_nat_digits:
  assumes "show_nat n = c # s"
  shows "\<not> is_whitespace c \<and> c \<noteq> CHR ''+'' \<and> c \<noteq> CHR ''-''"
  using show_nat_shape[of n] assms digit_plain[of c] by simp

lemma parse_digits_show [simp]: "parse_digits (show_nat n) = Some (int n)"
  using show_nat_shape[of n] by (simp add: parse_digits_def digits_value_show)

lemma no_sign_digits [simp]: "parse_digits (CHR ''-'' # s) = None"
  by (simp add: parse_digits_def digit_of_def)

lemma parse_between_show:
  assumes "lo \<le> 0" and "0 \<le> hi"
  shows "parse_between lo hi (show_int n) = (if lo \<le> n \<and> n \<le> hi then Some n else None)"
proof (cases "n < 0")
  case False
  obtain c s where s: "show_nat (nat n) = c # s" using show_nat_shape[of "nat n"] by (cases "show_nat (nat n)") auto
  then have "parse_digits (c # s) = Some n" using parse_digits_show[of "nat n"] False by simp
  then show ?thesis using False s show_nat_digits[OF s] by (simp add: parse_between_def show_int_def)
qed (use assms in \<open>auto simp: parse_between_def show_int_def\<close>)

lemma trim_padded:
  assumes "list_all is_whitespace u" "list_all is_whitespace v" "x \<noteq> []"
    and "\<not> is_whitespace (hd x)" "\<not> is_whitespace (last x)"
  shows "trim (u @ x @ v) = x"
proof -
  have "dropWhile is_whitespace (u @ x @ v) = x @ v"
    using assms by (cases x) (auto simp: dropWhile_append list_all_iff)
  moreover have "dropWhile is_whitespace (rev v @ rev x) = rev x"
    using assms by (cases x rule: rev_cases) (auto simp: dropWhile_append list_all_iff)
  ultimately show ?thesis by (simp add: trim_def)
qed

lemma trim_number:
  assumes "list_all is_whitespace u" "list_all is_whitespace v"
  shows "trim (u @ show_int n @ v) = show_int n"
proof (rule trim_padded[OF assms])
  have "\<not> is_whitespace c" if "c \<in> set (show_int n)" for c
  proof (cases "digit_of c = None")
    case True
    then have "c = CHR ''-''" using that show_nat_shape[of "nat n"] show_nat_shape[of "nat (- n)"]
      by (auto simp: show_int_def list_all_iff split: if_splits)
    then show ?thesis by (simp add: is_whitespace_def)
  qed (rule digit_plain)
  moreover show "show_int n \<noteq> []" using show_nat_shape[of "nat n"] by (simp add: show_int_def)
  ultimately show "\<not> is_whitespace (hd (show_int n))" "\<not> is_whitespace (last (show_int n))" by simp_all
qed

text \<open>A whole number set as a variable, with whatever white space around it, is the number the
  server reads, for every range of integers that holds zero; a number outside the range stops the
  start with the name of the variable.\<close>

theorem numbers_are_read_back:
  assumes "vars key = Some (u @ show_int n @ v)"
    and "list_all is_whitespace u" "list_all is_whitespace v" and "lo \<le> 0" "0 \<le> hi"
  shows "parsed_var (parse_between lo hi) vars key fallback =
    (if lo \<le> n \<and> n \<le> hi then Inr n else Inl (InvalidValue key))"
proof -
  have "show_int n \<noteq> []" using show_nat_shape[of "nat n"] by (simp add: show_int_def)
  then show ?thesis
    using assms trim_number[of u v n] parse_between_show[of lo hi n] by (simp add: parsed_var_def)
qed

theorem numbers_are_read_back_witness:
  "parsed_var parse_u16 (\<lambda>_. Some '' 8081 '') ''KITAZA_PORT'' 8080 = Inr 8081
   \<and> parsed_var parse_u16 (\<lambda>_. Some '' 80810 '') ''KITAZA_PORT'' 8080 = Inl (InvalidValue ''KITAZA_PORT'')"
proof -
  have digits: "char_of (56 :: nat) = CHR ''8''" "char_of (48 :: nat) = CHR ''0''" "char_of (49 :: nat) = CHR ''1''"
    by code_simp+
  have shown: "show_int 8081 = ''8081''" "show_int 80810 = ''80810''"
    by (simp_all add: show_int_def show_nat.simps digits)
  show ?thesis
    unfolding parse_u16_def
    using numbers_are_read_back[of "\<lambda>_. Some '' 8081 ''" "''KITAZA_PORT''" "'' ''" 8081 "'' ''" 0 65535 8080]
      numbers_are_read_back[of "\<lambda>_. Some '' 80810 ''" "''KITAZA_PORT''" "'' ''" 80810 "'' ''" 0 65535 8080]
    by (simp add: shown is_whitespace_def)
qed

section \<open>Starting\<close>

text \<open>A variable that is unset, blank or parses.\<close>

definition readable :: "(string \<Rightarrow> 'a option) \<Rightarrow> environment \<Rightarrow> string \<Rightarrow> bool" where
  "readable parse vars key =
     (case vars key of None \<Rightarrow> True | Some raw \<Rightarrow> trim raw = [] \<or> parse (trim raw) \<noteq> None)"

definition parse_days :: "string \<Rightarrow> int option" where
  "parse_days s = Option.bind (parse_i64 s) (\<lambda>n. if \<bar>n\<bar> \<le> 106751991167 then Some n else None)"

definition parse_minutes :: "string \<Rightarrow> int option" where
  "parse_minutes s = Option.bind (parse_i64 s) (\<lambda>n. if \<bar>n\<bar> \<le> 153722867280912 then Some n else None)"

text \<open>A read that gives a value; the values read before decide nothing about the later ones.\<close>

abbreviation loads :: "'e + 'a \<Rightarrow> bool" where
  "loads r \<equiv> \<exists>x. r = Inr x"

lemma loads_bindR: "loads (bindR r f) \<longleftrightarrow> (\<exists>x. r = Inr x \<and> loads (f x))"
  by auto

lemma parsed_loads: "loads (parsed_var p vars key d) \<longleftrightarrow> readable p vars key"
  by (auto simp: parsed_var_def readable_def ok_or_def split: option.split)

lemma days_loads: "0 \<le> d \<Longrightarrow> d \<le> 106751991167 \<Longrightarrow>
    (\<exists>x. days_var vars key d = Inr x) \<longleftrightarrow> readable parse_days vars key"
  by (auto simp: days_var_def parsed_var_def readable_def parse_days_def ok_or_def chrono_seconds_def
      bind_eq_None_conv split: option.split)

lemma minutes_loads: "0 \<le> d \<Longrightarrow> d \<le> 153722867280912 \<Longrightarrow>
    (\<exists>x. minutes_var vars key d = Inr x) \<longleftrightarrow> readable parse_minutes vars key"
  by (auto simp: minutes_var_def parsed_var_def readable_def parse_minutes_def ok_or_def chrono_seconds_def
      bind_eq_None_conv split: option.split)

lemmas loads_rules = loads_bindR parsed_loads days_loads minutes_loads required_var_def Let_def

lemma server_loads:
  "(\<exists>x. server_from_environment address_ok vars = Inr x) \<longleftrightarrow>
     (\<exists>port. parsed_var parse_u16 vars ''KITAZA_PORT'' 8080 = Inr port
        \<and> address_ok (optional_var vars ''KITAZA_HOST'' ''0.0.0.0'' @ '':'' @ show_int port))
     \<and> list_all (readable parse_u64 vars)
         [''KITAZA_REQUEST_TIMEOUT_SECONDS'', ''KITAZA_MAX_BODY_BYTES'', ''KITAZA_REALTIME_KEEPALIVE_SECONDS'']"
  by (simp add: server_from_environment_def loads_rules del: bindR_eq_Inr) blast

lemma database_loads:
  "(\<exists>x. database_from_environment vars = Inr x) \<longleftrightarrow> (\<exists>url. vars ''DATABASE_URL'' = Some url)
     \<and> list_all (readable parse_u32 vars) [''DATABASE_MAX_CONNECTIONS'', ''DATABASE_MIN_CONNECTIONS'']
     \<and> readable parse_u64 vars ''DATABASE_ACQUIRE_TIMEOUT_SECONDS''
     \<and> readable parse_bool vars ''DATABASE_AUTO_MIGRATE''"
  by (simp add: database_from_environment_def loads_rules del: bindR_eq_Inr)

lemma redis_loads:
  "(\<exists>x. redis_from_environment vars = Inr x) \<longleftrightarrow>
     list_all (readable parse_u64 vars) [''REDIS_DASHBOARD_TTL_SECONDS'', ''REDIS_LOGIN_ATTEMPT_WINDOW_SECONDS'']
     \<and> readable parse_u32 vars ''REDIS_LOGIN_ATTEMPT_LIMIT''"
  by (simp add: redis_from_environment_def loads_rules del: bindR_eq_Inr) blast

lemma security_loads:
  "(\<exists>x. security_from_environment vars = Inr x) \<longleftrightarrow>
     (\<exists>secret. vars ''KITAZA_JWT_SECRET'' = Some secret \<and> 32 \<le> utf8_length secret)
     \<and> readable parse_minutes vars ''KITAZA_ACCESS_TOKEN_MINUTES''
     \<and> readable parse_days vars ''KITAZA_REFRESH_TOKEN_DAYS''"
  by (simp add: security_from_environment_def loads_rules del: bindR_eq_Inr) blast

lemma sync_loads:
  "(\<exists>x. sync_from_environment vars = Inr x) \<longleftrightarrow>
     readable parse_u64 vars ''KITAZA_SYNC_SETTLE_MS'' \<and> readable parse_i64 vars ''KITAZA_SYNC_PAGE_SIZE''"
  by (simp add: sync_from_environment_def loads_rules del: bindR_eq_Inr)

lemma mode_loads:
  "(\<exists>x. billing_mode_from_environment vars = Inr x) \<longleftrightarrow>
     (let mode = to_lowercase (optional_var vars ''KITAZA_BILLING'' ''off'')
      in mode \<in> {''off'', ''test''} \<or> mode = ''paymongo'' \<and> (\<exists>key. vars ''KITAZA_PAYMONGO_SECRET_KEY'' = Some key)
           \<and> (\<exists>hook. vars ''KITAZA_PAYMONGO_WEBHOOK_SECRET'' = Some hook))"
  by (auto simp: billing_mode_from_environment_def Let_def required_var_def)

lemma billing_loads:
  "(\<exists>x. billing_from_environment vars = Inr x) \<longleftrightarrow> (\<exists>x. billing_mode_from_environment vars = Inr x)
     \<and> list_all (readable parse_days vars) [''KITAZA_TRIAL_DAYS'', ''KITAZA_GRACE_DAYS'']"
  by (simp add: billing_from_environment_def loads_rules del: bindR_eq_Inr)

lemma privacy_loads:
  "(\<exists>x. privacy_from_environment vars = Inr x) \<longleftrightarrow>
     list_all (readable parse_days vars) [''KITAZA_DELETION_GRACE_DAYS'', ''KITAZA_KEEP_ERROR_REPORTS_DAYS'',
       ''KITAZA_KEEP_ACTIVITY_DAYS'', ''KITAZA_KEEP_DEVICES_DAYS'']"
  by (simp add: privacy_from_environment_def loads_rules del: bindR_eq_Inr)

text \<open>C39: The settings load exactly when the database and the signing secret are given, the secret has at
  least 32 bytes, the port and the host make an address, the billing mode is one of the three and
  PayMongo has both its secrets, and every other variable is unset, blank or a value its type holds.
  Each check counts: none is lost and there are no others.\<close>

theorem settings_load_exactly_when_valid:
  "(\<exists>settings. settings_from_environment address_ok vars = Inr settings) \<longleftrightarrow>
     (\<exists>url. vars ''DATABASE_URL'' = Some url)
     \<and> (\<exists>secret. vars ''KITAZA_JWT_SECRET'' = Some secret \<and> 32 \<le> utf8_length secret)
     \<and> (\<exists>port. parsed_var parse_u16 vars ''KITAZA_PORT'' 8080 = Inr port
        \<and> address_ok (optional_var vars ''KITAZA_HOST'' ''0.0.0.0'' @ '':'' @ show_int port))
     \<and> (let mode = to_lowercase (optional_var vars ''KITAZA_BILLING'' ''off'')
        in mode \<in> {''off'', ''test''} \<or> mode = ''paymongo''
           \<and> (\<exists>key. vars ''KITAZA_PAYMONGO_SECRET_KEY'' = Some key)
           \<and> (\<exists>hook. vars ''KITAZA_PAYMONGO_WEBHOOK_SECRET'' = Some hook))
     \<and> readable parse_bool vars ''DATABASE_AUTO_MIGRATE''
     \<and> list_all (readable parse_u32 vars)
         [''DATABASE_MAX_CONNECTIONS'', ''DATABASE_MIN_CONNECTIONS'', ''REDIS_LOGIN_ATTEMPT_LIMIT'']
     \<and> list_all (readable parse_u64 vars)
         [''KITAZA_REQUEST_TIMEOUT_SECONDS'', ''KITAZA_MAX_BODY_BYTES'', ''KITAZA_REALTIME_KEEPALIVE_SECONDS'',
          ''DATABASE_ACQUIRE_TIMEOUT_SECONDS'', ''REDIS_DASHBOARD_TTL_SECONDS'',
          ''REDIS_LOGIN_ATTEMPT_WINDOW_SECONDS'', ''KITAZA_SYNC_SETTLE_MS'']
     \<and> readable parse_i64 vars ''KITAZA_SYNC_PAGE_SIZE''
     \<and> readable parse_minutes vars ''KITAZA_ACCESS_TOKEN_MINUTES''
     \<and> list_all (readable parse_days vars)
         [''KITAZA_REFRESH_TOKEN_DAYS'', ''KITAZA_TRIAL_DAYS'', ''KITAZA_GRACE_DAYS'',
          ''KITAZA_DELETION_GRACE_DAYS'', ''KITAZA_KEEP_ERROR_REPORTS_DAYS'', ''KITAZA_KEEP_ACTIVITY_DAYS'',
          ''KITAZA_KEEP_DEVICES_DAYS'']"
proof -
  have "loads (settings_from_environment address_ok vars) \<longleftrightarrow>
      loads (server_from_environment address_ok vars) \<and> loads (database_from_environment vars)
      \<and> loads (redis_from_environment vars) \<and> loads (security_from_environment vars)
      \<and> loads (sync_from_environment vars) \<and> loads (billing_from_environment vars)
      \<and> loads (privacy_from_environment vars)"
    by (simp add: settings_from_environment_def loads_bindR del: bindR_eq_Inr)
  then show ?thesis
    unfolding server_loads database_loads redis_loads security_loads sync_loads billing_loads mode_loads
      privacy_loads list.pred_inject Let_def
    by blast
qed

section \<open>A server that started\<close>

lemma parse_between_range: "parse_between lo hi s = Some n \<Longrightarrow> lo \<le> n \<and> n \<le> hi"
  by (auto simp: parse_between_def bind_eq_Some_conv split: list.splits if_splits)

lemma parsed_range:
  "parsed_var (parse_between lo hi) vars key d = Inr n \<Longrightarrow> lo \<le> d \<Longrightarrow> d \<le> hi \<Longrightarrow> lo \<le> n \<and> n \<le> hi"
  by (auto simp: parsed_var_def dest: parse_between_range split: option.splits if_splits)

lemma trim_slashes_end: "trim_slashes s = [] \<or> last (trim_slashes s) \<noteq> CHR ''/''"
  using hd_dropWhile[of "\<lambda>c. c = CHR ''/''" "rev s"]
  by (auto simp: trim_slashes_def last_rev)

lemma started:
  assumes "boot_main lib address_ok header_ok su vars = Inr srv"
  obtains settings where "settings_from_environment address_ok vars = Inr settings"
    "run_server lib header_ok su settings = Inr srv"
  using assms by (auto simp: boot_main_def split: sum.splits)

lemma running_server:
  assumes "run_server lib header_ok su settings = Inr srv"
  shows "rn_state srv = assemble lib settings (connect_cache (su_cache su))"
    and "rn_router srv = layered header_ok (ps_server settings)"
    and "rn_bridge srv = (if connect_cache (su_cache su) then Some (rd_url (ps_redis settings)) else None)"
    and "su_pool_opens su"
    and "db_run_migrations_on_boot (ps_database settings) \<Longrightarrow> su_migrations_run su"
  using assms by (auto simp: run_server_def Let_def assemble_def split: if_splits)

lemma routes_allowed:
  "list_all (\<lambda>r. method_text (rt_method r) \<in> set (co_methods (cors_layer header_ok settings))) build_router"
proof -
  have "method_text m \<in> {''GET'', ''POST'', ''PATCH'', ''DELETE''}" for m by (cases m) simp_all
  then show ?thesis by (auto simp: list_all_iff cors_layer_def Let_def)
qed

lemma cors_origins:
  "co_credentials (cors_layer header_ok settings) \<longleftrightarrow>
     co_origin (cors_layer header_ok settings) = OriginList (filter header_ok (vs_allowed_origins settings))
     \<and> ''*'' \<notin> set (vs_allowed_origins settings)"
  by (auto simp: cors_layer_def Let_def allows_any_origin_def list_ex_iff)

lemma secured:
  assumes "security_from_environment vars = Inr settings"
  shows "vars ''KITAZA_JWT_SECRET'' = Some (ss_jwt_secret settings)" "32 \<le> utf8_length (ss_jwt_secret settings)"
  using assms by (auto simp: security_from_environment_def required_var_def)

lemma billed:
  assumes "billing_from_environment vars = Inr settings"
  shows "bs_public_url settings = [] \<or> last (bs_public_url settings) \<noteq> CHR ''/''"
    and "bs_mode settings = BillingPayMongo key hook \<Longrightarrow>
      vars ''KITAZA_PAYMONGO_SECRET_KEY'' = Some key \<and> vars ''KITAZA_PAYMONGO_WEBHOOK_SECRET'' = Some hook"
proof -
  obtain raw where "bs_public_url settings = trim_slashes raw"
    using assms by (auto simp: billing_from_environment_def)
  then show "bs_public_url settings = [] \<or> last (bs_public_url settings) \<noteq> CHR ''/''"
    using trim_slashes_end[of raw] by simp
  show "bs_mode settings = BillingPayMongo key hook \<Longrightarrow>
      vars ''KITAZA_PAYMONGO_SECRET_KEY'' = Some key \<and> vars ''KITAZA_PAYMONGO_WEBHOOK_SECRET'' = Some hook"
    using assms by (auto simp: billing_from_environment_def billing_mode_from_environment_def Let_def
        required_var_def split: if_splits)
qed

text \<open>C31: A server that starts signs its tokens under the secret it was given, which has at least 32 bytes,
  and every service checks tokens with that one issuer; PayMongo, when it takes the money, has both
  secrets of the environment; the address customers return to has no slash at its end; events go to
  other instances exactly when Redis connected; browsers may use every route there is, and are given
  credentials only for origins named one by one; crash reports have a limit of their own; the
  database answered and any migrations asked for have run; and no session, owner or median is
  remembered yet.\<close>

theorem a_started_server_is_sound:
  assumes "boot_main lib address_ok header_ok su vars = Inr srv"
  shows "\<exists>secret settings. vars ''KITAZA_JWT_SECRET'' = Some secret \<and> 32 \<le> utf8_length secret
    \<and> settings_from_environment address_ok vars = Inr settings
    \<and> as_token_issuer (rn_state srv) =
        \<lparr>sc_lifetime = ss_access_token_lifetime (ps_security settings), sc_encode = li_encode lib secret,
         sc_decode = li_decode lib secret, sc_parse_uuid = li_parse_uuid lib\<rparr>
    \<and> (\<forall>ra. ae_security (as_auth_service (rn_state srv) ra) = as_token_issuer (rn_state srv)
         \<and> ae_billing (as_auth_service (rn_state srv) ra) = as_billing_service (rn_state srv)
         \<and> lm_limit (as_diagnostics_service (rn_state srv) ra) = 30
         \<and> lm_window_seconds (as_diagnostics_service (rn_state srv) ra) = 3600)
    \<and> (\<forall>key hook. bs_mode (as_billing_service (rn_state srv)) = BillingPayMongo key hook \<longrightarrow>
         vars ''KITAZA_PAYMONGO_SECRET_KEY'' = Some key \<and> vars ''KITAZA_PAYMONGO_WEBHOOK_SECRET'' = Some hook)
    \<and> (bs_public_url (as_billing_service (rn_state srv)) = []
         \<or> last (bs_public_url (as_billing_service (rn_state srv))) \<noteq> CHR ''/'')
    \<and> (rn_bridge srv \<noteq> None \<longleftrightarrow> su_cache su = Connected)
    \<and> (\<forall>r \<in> set (lr_routes (rn_router srv)).
         method_text (rt_method r) \<in> set (co_methods (lr_cors (rn_router srv))))
    \<and> (co_credentials (lr_cors (rn_router srv)) \<longrightarrow>
         (\<exists>origins. co_origin (lr_cors (rn_router srv)) = OriginList origins \<and> ''*'' \<notin> set origins))
    \<and> su_pool_opens su \<and> (db_run_migrations_on_boot (ps_database settings) \<longrightarrow> su_migrations_run su)
    \<and> (\<forall>db attempts. sv_remembered (server_of (rn_state srv) db attempts) = []
         \<and> sv_confirmed (server_of (rn_state srv) db attempts) = {})"
proof -
  obtain settings where read: "settings_from_environment address_ok vars = Inr settings"
    and run: "run_server lib header_ok su settings = Inr srv"
    using started[OF assms] by blast
  from read have security: "security_from_environment vars = Inr (ps_security settings)"
    and billing: "billing_from_environment vars = Inr (ps_billing settings)"
    by (auto simp: settings_from_environment_def)
  note parts = running_server[OF run]
  have "co_origin (cors_layer header_ok (ps_server settings)) = OriginList origins \<Longrightarrow>
      co_credentials (cors_layer header_ok (ps_server settings)) \<Longrightarrow> ''*'' \<notin> set origins" for origins
    using cors_origins[of header_ok "ps_server settings"] by auto
  moreover have "connect_cache (su_cache su) \<longleftrightarrow> su_cache su = Connected"
    by (cases "su_cache su") (simp_all add: connect_cache_def)
  ultimately show ?thesis
    using secured[OF security] billed[OF billing] read parts(4,5) routes_allowed[of header_ok "ps_server settings"]
      cors_origins[of header_ok "ps_server settings"]
    by (simp add: parts(1-3) assemble_def layered_def Let_def token_issuer_new_def rate_limiter_new_def
        server_of_def list_all_iff)
qed

definition sample_vars :: environment where
  "sample_vars = map_of [(''DATABASE_URL'', ''postgres://db/kitaza''),
     (''KITAZA_JWT_SECRET'', ''0123456789abcdef0123456789abcdef''),
     (''KITAZA_ALLOWED_ORIGINS'', ''https://kitaza.ph''), (''KITAZA_BILLING'', '' ''),
     (''KITAZA_PUBLIC_URL'', ''https://api.kitaza.ph/'')]"

definition sample_surroundings :: surroundings where
  "sample_surroundings = \<lparr>su_pool_opens = True, su_migrations_run = True, su_cache = ConnectTimedOut,
     su_bind_ok = True\<rparr>"

lemma sample_settings_load: "\<exists>settings. settings_from_environment (\<lambda>_. True) sample_vars = Inr settings"
proof -
  have "utf8_length ''0123456789abcdef0123456789abcdef'' = 32" by code_simp
  moreover have "trim '' '' = []" by code_simp
  moreover have "to_lowercase ''off'' = ''off''" by code_simp
  ultimately show ?thesis
    by (simp add: settings_from_environment_def server_from_environment_def database_from_environment_def
        redis_from_environment_def security_from_environment_def sync_from_environment_def
        billing_from_environment_def billing_mode_from_environment_def privacy_from_environment_def
        days_var_def minutes_var_def chrono_seconds_def parsed_var_def optional_var_def required_var_def
        sample_vars_def Let_def)
qed

theorem a_started_server_is_sound_witness:
  "\<forall>lib. \<exists>srv secret. boot_main lib (\<lambda>_. True) (\<lambda>_. True) sample_surroundings sample_vars = Inr srv
     \<and> sc_encode (as_token_issuer (rn_state srv)) = li_encode lib secret
     \<and> secret = ''0123456789abcdef0123456789abcdef'' \<and> rn_bridge srv = None"
proof
  fix lib :: libraries
  obtain settings where "settings_from_environment (\<lambda>_. True) sample_vars = Inr settings"
    using sample_settings_load by blast
  then obtain srv where srv: "boot_main lib (\<lambda>_. True) (\<lambda>_. True) sample_surroundings sample_vars = Inr srv"
    by (auto simp: boot_main_def run_server_def Let_def sample_surroundings_def)
  have "sample_vars ''KITAZA_JWT_SECRET'' = Some ''0123456789abcdef0123456789abcdef''"
    by (simp add: sample_vars_def)
  then show "\<exists>srv secret. boot_main lib (\<lambda>_. True) (\<lambda>_. True) sample_surroundings sample_vars = Inr srv
     \<and> sc_encode (as_token_issuer (rn_state srv)) = li_encode lib secret
     \<and> secret = ''0123456789abcdef0123456789abcdef'' \<and> rn_bridge srv = None"
    using a_started_server_is_sound[OF srv] srv by (auto simp: sample_surroundings_def)
qed

section \<open>Crash loops\<close>

text \<open>Any number of crash reports, each from whom it may be and with whatever Redis does.\<close>

definition crash_loop ::
  "app_state \<Rightarrow> (env \<times> redis_answers \<times> uuid \<times> (string + error_report_payload list)) list
    \<Rightarrow> server \<Rightarrow> server" where
  "crash_loop app reports s =
     fold (\<lambda>(e, ra, owner_id, body) s. snd (report_errors e (as_diagnostics_service app ra) owner_id body s))
       reports s"

text \<open>The verdict of a check depends on the live count of its own bucket and on nothing else.\<close>

lemma verdict_of_count:
  assumes "live_count (e_now e) (limit_key b) (sv_attempts s) = live_count (e_now e) (limit_key b) (sv_attempts s')"
  shows "fst (limit_check e lm b s) = fst (limit_check e lm b s')"
  using assms by (simp add: limit_check_def Let_def split: option.split)

lemma report_leaves_count:
  assumes "\<forall>n. b \<noteq> ''diagnostics:'' @ n"
  shows "live_count now (limit_key b) (sv_attempts (snd (report_errors e lm owner_id body s)))
    = live_count now (limit_key b) (sv_attempts s)"
proof -
  let ?c = "''diagnostics:'' @ e_uuid_text e owner_id"
  have other: "live_count now (limit_key b) (sv_attempts (snd (limit_check e lm ?c s)))
      = live_count now (limit_key b) (sv_attempts s)"
    by (rule live_count_other) (use assms in metis)
  obtain v s1 where check: "limit_check e lm ?c s = (v, s1)" by fastforce
  then have checked: "checkS e lm ?c s = (Inr v, s1)" by (simp add: checkS_def)
  have "execS m s1 = (r, s2) \<Longrightarrow> sv_attempts s2 = sv_attempts s1" for m r s2
    by (auto simp: execS_def transact_def split: sum.splits)
  then show ?thesis
    using other check checked
    by (auto simp: report_errors_def bindS_def liftS_def split: sum.split prod.split)
qed

text \<open>C40: A phone in a crash loop cannot lock its owner out: after any number of crash reports from
  anyone, an attempt to sign in with any address is allowed or refused just as it would have been
  without them.\<close>

theorem a_crash_loop_locks_nobody_out:
  "fst (limit_check e (ae_limiter (as_auth_service app ra)) (''login:'' @ email) (crash_loop app reports s))
   = fst (limit_check e (ae_limiter (as_auth_service app ra)) (''login:'' @ email) s)"
proof (rule verdict_of_count)
  show "live_count (e_now e) (limit_key (''login:'' @ email)) (sv_attempts (crash_loop app reports s))
      = live_count (e_now e) (limit_key (''login:'' @ email)) (sv_attempts s)"
    unfolding crash_loop_def
    by (induction reports arbitrary: s) (auto simp: report_leaves_count split: prod.split)
qed

end
